(* ===== verification/Prelude.thy ===== *)
theory Prelude
  imports Complex_Main "HOL-Library.AList"
begin

text \<open>
  Shared vocabulary of the development.

  \<^item> Numbers.  Python's unbounded integers are \<open>int\<close> (or \<open>nat\<close> for counts and lengths).
    Python floats (scores, latencies, epoch seconds) are exact rationals, \<open>pyfloat\<close>: the
    model computes without the rounding of IEEE doubles.  \<open>py_round n x\<close> is Python's
    \<open>round(x, n)\<close> with its half-to-even rule.
  \<^item> Dictionaries whose size or order is observable are association lists in insertion
    order: \<open>dput\<close> overwrites in place or appends, as a Python dict does, \<open>ddel\<close> is
    \<open>pop(k, None)\<close> and \<open>dget\<close> is \<open>get(k)\<close>.
  \<^item> Strings are lists of 8-bit characters; the case mappings are the ASCII ones.
  \<^item> \<open>json\<close> is the type of decoded JSON values (request bodies, JWT claims, events).
\<close>

section \<open>Hint collections\<close>

named_theorems model_defs \<open>unfolding equations of the model's small operations\<close>
named_theorems frame \<open>fields an operation leaves unchanged\<close>
named_theorems inv_intros \<open>invariant preservation, one rule per operation\<close>

section \<open>Numbers\<close>

type_synonym pyfloat = rat
type_synonym time = rat

definition clamp :: "'a::linorder \<Rightarrow> 'a \<Rightarrow> 'a \<Rightarrow> 'a" where
  "clamp lo hi x = max lo (min hi x)"

lemma clamp_bounds: "lo \<le> hi \<Longrightarrow> lo \<le> clamp lo hi x \<and> clamp lo hi x \<le> hi"
  by (simp add: clamp_def)

lemma clamp_id: "lo \<le> x \<Longrightarrow> x \<le> hi \<Longrightarrow> clamp lo hi x = x"
  by (simp add: clamp_def min_def max_def)

lemma clamp_mono: "x \<le> y \<Longrightarrow> clamp lo hi x \<le> clamp lo hi y"
  by (auto simp: clamp_def min_def max_def)

definition round_half_even :: "rat \<Rightarrow> int" where
  "round_half_even y =
     (let f = \<lfloor>y\<rfloor>; d = y - of_int f
      in if d < 1/2 then f
         else if 1/2 < d then f + 1
         else if even f then f else f + 1)"

definition py_round :: "nat \<Rightarrow> rat \<Rightarrow> rat" where
  "py_round n x = of_int (round_half_even (x * 10 ^ n)) / 10 ^ n"

lemma round_half_even_of_int [simp]: "round_half_even (of_int k) = k"
  by (simp add: round_half_even_def)

lemma round_half_even_close:
  "\<bar>of_int (round_half_even y) - y\<bar> \<le> 1/2"
proof -
  have lo: "of_int \<lfloor>y\<rfloor> \<le> y" by simp
  have hi: "y < of_int \<lfloor>y\<rfloor> + 1"
    using floor_correct [of y] by simp
  show ?thesis
    unfolding round_half_even_def Let_def abs_if
    using lo hi by (simp split: if_split) linarith
qed

lemma round_half_even_mono:
  assumes "x \<le> y" shows "round_half_even x \<le> round_half_even y"
proof (cases "\<lfloor>x\<rfloor> = \<lfloor>y\<rfloor>")
  case True
  with assms show ?thesis by (auto simp: round_half_even_def Let_def)
next
  case False
  with floor_mono [OF assms] have "\<lfloor>x\<rfloor> + 1 \<le> \<lfloor>y\<rfloor>" by linarith
  moreover have "round_half_even x \<le> \<lfloor>x\<rfloor> + 1" and "\<lfloor>y\<rfloor> \<le> round_half_even y"
    by (auto simp: round_half_even_def Let_def)
  ultimately show ?thesis by linarith
qed

lemma py_round_mono: "x \<le> y \<Longrightarrow> py_round n x \<le> py_round n y"
  by (simp add: py_round_def divide_right_mono round_half_even_mono)

lemma py_round_of_int [simp]: "py_round n (of_int k) = of_int k"
proof -
  have "(of_int k * 10 ^ n :: rat) = of_int (k * 10 ^ n)" by simp
  then show ?thesis
    unfolding py_round_def by (metis (no_types, lifting) nonzero_mult_div_cancel_right
      power_not_zero round_half_even_of_int zero_neq_numeral)
qed

lemma py_round_0 [simp]: "py_round n 0 = 0"
  using py_round_of_int [of n 0] by simp

lemma py_round_numeral [simp]: "py_round n (numeral k) = numeral k"
  using py_round_of_int [of n "numeral k"] by simp

lemma py_round_between_ints:
  "of_int a \<le> x \<Longrightarrow> x \<le> of_int b \<Longrightarrow> of_int a \<le> py_round n x \<and> py_round n x \<le> of_int b"
  using py_round_mono [of "of_int a" x n] py_round_mono [of x "of_int b" n] by simp

lemma py_round_le_iff_grid:
  assumes "py_round n g = g" and "x \<le> g" shows "py_round n x \<le> g"
  using py_round_mono [OF assms(2), of n] assms(1) by simp

lemma py_round_close: "\<bar>py_round n x - x\<bar> \<le> 1 / (2 * 10 ^ n)"
proof -
  let ?p = "10 ^ n :: rat"
  have p: "0 < ?p" by simp
  have "py_round n x - x = (of_int (round_half_even (x * ?p)) - x * ?p) / ?p"
    by (simp add: py_round_def diff_divide_distrib)
  then have "\<bar>py_round n x - x\<bar> = \<bar>of_int (round_half_even (x * ?p)) - x * ?p\<bar> / ?p"
    using p by (simp add: abs_divide)
  also have "\<dots> \<le> (1/2) / ?p"
    using round_half_even_close p by (intro divide_right_mono) simp_all
  finally show ?thesis by simp
qed

section \<open>Dictionaries\<close>

type_synonym ('k, 'v) dict = "('k \<times> 'v) list"

abbreviation dget :: "('k, 'v) dict \<Rightarrow> 'k \<Rightarrow> 'v option" where
  "dget d k \<equiv> map_of d k"

abbreviation dput :: "'k \<Rightarrow> 'v \<Rightarrow> ('k, 'v) dict \<Rightarrow> ('k, 'v) dict" where
  "dput k v d \<equiv> AList.update k v d"

lemma list_all_dput: "list_all P d \<Longrightarrow> P (k, v) \<Longrightarrow> list_all P (dput k v d)"
  by (induction d) auto

abbreviation ddel :: "'k \<Rightarrow> ('k, 'v) dict \<Rightarrow> ('k, 'v) dict" where
  "ddel k d \<equiv> AList.delete k d"

definition dget_or :: "'v \<Rightarrow> ('k, 'v) dict \<Rightarrow> 'k \<Rightarrow> 'v" where
  "dget_or z d k = (case dget d k of None \<Rightarrow> z | Some v \<Rightarrow> v)"

lemma dget_dput [simp]: "dget (dput k v d) k' = (if k' = k then Some v else dget d k')"
  by (simp add: update_conv')

lemma dget_ddel [simp]: "dget (ddel k d) k' = (if k' = k then None else dget d k')"
  by (simp add: delete_conv')

lemma dget_or_dput [simp]:
  "dget_or z (dput k v d) k' = (if k' = k then v else dget_or z d k')"
  by (simp add: dget_or_def)

lemma dget_or_Nil [simp]: "dget_or z [] k = z"
  by (simp add: dget_or_def)

definition dkeys :: "('k, 'v) dict \<Rightarrow> 'k list" where
  "dkeys d = map fst d"

definition wf_dict :: "('k, 'v) dict \<Rightarrow> bool" where
  "wf_dict d = distinct (map fst d)"

lemma wf_dict_Nil [simp]: "wf_dict []"
  by (simp add: wf_dict_def)

lemma wf_dict_dput [inv_intros]: "wf_dict d \<Longrightarrow> wf_dict (dput k v d)"
  by (simp add: wf_dict_def distinct_update)

lemma wf_dict_ddel [inv_intros]: "wf_dict d \<Longrightarrow> wf_dict (ddel k d)"
  by (simp add: wf_dict_def distinct_delete)

section \<open>Strings\<close>

definition startswith :: "string \<Rightarrow> string \<Rightarrow> bool" where
  "startswith s p = (take (length p) s = p)"

definition endswith :: "string \<Rightarrow> string \<Rightarrow> bool" where
  "endswith s p = (length p \<le> length s \<and> drop (length s - length p) s = p)"

lemma startswith_iff: "startswith s p \<longleftrightarrow> (\<exists>t. s = p @ t)"
  by (auto simp: startswith_def) (metis append_take_drop_id)

lemma startswith_append [simp]: "startswith (p @ t) p"
  by (simp add: startswith_def)

lemma endswith_iff: "endswith s p \<longleftrightarrow> (\<exists>t. s = t @ p)"
  by (auto simp: endswith_def) (metis append_take_drop_id)

fun contains_sub :: "string \<Rightarrow> string \<Rightarrow> bool" where
  "contains_sub [] p = (p = [])"
| "contains_sub (c # s) p = (startswith (c # s) p \<or> contains_sub s p)"

lemma contains_sub_iff: "contains_sub s p \<longleftrightarrow> (\<exists>a b. s = a @ p @ b)"
proof (induction s)
  case (Cons c s)
  show ?case
  proof
    assume "contains_sub (c # s) p"
    then consider "startswith (c # s) p" | "contains_sub s p" by auto
    then show "\<exists>a b. c # s = a @ p @ b"
    proof cases
      case 1
      then obtain t where "c # s = p @ t" by (auto simp: startswith_iff)
      then have "c # s = [] @ p @ t" by simp
      then show ?thesis by blast
    next
      case 2
      with Cons.IH obtain a b where "s = a @ p @ b" by auto
      then have "c # s = (c # a) @ p @ b" by simp
      then show ?thesis by blast
    qed
  next
    assume "\<exists>a b. c # s = a @ p @ b"
    then obtain a b where ab: "c # s = a @ p @ b" by auto
    show "contains_sub (c # s) p"
    proof (cases a)
      case Nil
      with ab have "startswith (c # s) p" by simp
      then show ?thesis by simp
    next
      case (Cons x xs)
      with ab have "s = xs @ p @ b" by simp
      with Cons.IH show ?thesis by auto
    qed
  qed
qed simp

definition py_space :: "char \<Rightarrow> bool" where
  "py_space c = (let n = (of_char c :: nat) in
     (9 \<le> n \<and> n \<le> 13) \<or> (28 \<le> n \<and> n \<le> 32) \<or> n = 133 \<or> n = 160)"

definition strip :: "string \<Rightarrow> string" where
  "strip s = rev (dropWhile py_space (rev (dropWhile py_space s)))"

text \<open>\<open>s.split(c)\<close>: never empty, as in Python.\<close>

fun split_on :: "char \<Rightarrow> string \<Rightarrow> string list" where
  "split_on c [] = [[]]"
| "split_on c (x # xs) =
     (if x = c then [] # split_on c xs
      else (case split_on c xs of [] \<Rightarrow> [[x]] | w # ws \<Rightarrow> (x # w) # ws))"

lemma split_on_not_Nil [simp]: "split_on c s \<noteq> []"
  by (cases s) (auto split: list.split)

text \<open>\<open>s.replace(p, '''')\<close> for a non-empty \<open>p\<close>: non-overlapping occurrences, left to right.\<close>

function remove_all :: "string \<Rightarrow> string \<Rightarrow> string" where
  "remove_all p s =
     (if s = [] then []
      else if p \<noteq> [] \<and> startswith s p then remove_all p (drop (length p) s)
      else hd s # remove_all p (tl s))"
  by pat_completeness auto
termination
  by (relation "measure (\<lambda>(p, s). length s)") (auto simp: Suc_le_eq)

declare remove_all.simps [simp del]

lemma remove_all_Nil [simp]: "remove_all p [] = []"
  by (simp add: remove_all.simps [of p "[]"])

definition ascii_upper :: "char \<Rightarrow> char" where
  "ascii_upper c = (let n = (of_char c :: nat) in
     if 97 \<le> n \<and> n \<le> 122 then char_of (n - 32) else c)"

definition ascii_lower :: "char \<Rightarrow> char" where
  "ascii_lower c = (let n = (of_char c :: nat) in
     if 65 \<le> n \<and> n \<le> 90 then char_of (n + 32) else c)"

definition upper :: "string \<Rightarrow> string" where
  "upper = map ascii_upper"

definition lower :: "string \<Rightarrow> string" where
  "lower = map ascii_lower"

text \<open>Decimal numerals, as \<open>str(n)\<close> prints them.\<close>

fun str_nat :: "nat \<Rightarrow> string" where
  "str_nat n = (if n < 10 then [char_of (48 + n)]
                else str_nat (n div 10) @ [char_of (48 + n mod 10)])"

declare str_nat.simps [simp del]

definition str_int :: "int \<Rightarrow> string" where
  "str_int i = (if i < 0 then CHR ''-'' # str_nat (nat (- i)) else str_nat (nat i))"

text \<open>\<open>x or y\<close> on optional strings: \<open>None\<close> and the empty string are falsy.\<close>

definition str_or :: "string option \<Rightarrow> string option \<Rightarrow> string option" where
  "str_or x y = (case x of Some (c # s) \<Rightarrow> x | _ \<Rightarrow> y)"

definition truthy_str :: "string option \<Rightarrow> bool" where
  "truthy_str x = (case x of Some (c # s) \<Rightarrow> True | _ \<Rightarrow> False)"

lemma truthy_str_simps [simp]:
  "truthy_str None = False" "truthy_str (Some s) = (s \<noteq> [])"
  by (auto simp: truthy_str_def split: list.split)

section \<open>Number parsing: Python's \<open>float(s)\<close> and \<open>int(s)\<close>\<close>

text \<open>
  The grammar of the two constructors on ASCII text: surrounding white space, a sign,
  digits with single underscores between them, a fraction and an exponent for
  \<open>float\<close>, and the spellings of infinity and not-a-number.  \<open>None\<close> is
  \<open>ValueError\<close>.
\<close>

datatype pynum = FNum rat | FNaN | FInf | FNegInf

definition is_digit :: "char \<Rightarrow> bool" where
  "is_digit c = (let n = (of_char c :: nat) in 48 \<le> n \<and> n \<le> 57)"

definition digit_val :: "char \<Rightarrow> int" where
  "digit_val c = of_char c - 48"

fun scan_digits :: "int \<Rightarrow> nat \<Rightarrow> string \<Rightarrow> int \<times> nat \<times> string" where
  "scan_digits v n [] = (v, n, [])"
| "scan_digits v n (c # s) =
     (if is_digit c then scan_digits (10 * v + digit_val c) (Suc n) s
      else if c = CHR ''_'' \<and> 0 < n \<and> (case s of [] \<Rightarrow> False | d # _ \<Rightarrow> is_digit d)
      then scan_digits v n s
      else (v, n, c # s))"

definition split_sign :: "string \<Rightarrow> bool \<times> string" where
  "split_sign s = (case s of
       c # r \<Rightarrow> if c = CHR ''-'' then (True, r) else if c = CHR ''+'' then (False, r) else (False, s)
     | [] \<Rightarrow> (False, s))"

definition parse_exponent :: "rat \<Rightarrow> string \<Rightarrow> rat option" where
  "parse_exponent m s = (case s of
       [] \<Rightarrow> Some m
     | c # r \<Rightarrow>
        if c = CHR ''e'' \<or> c = CHR ''E'' then
          (case split_sign r of (neg, r1) \<Rightarrow>
           case scan_digits 0 0 r1 of (ev, ne, r2) \<Rightarrow>
             if ne = 0 \<or> r2 \<noteq> [] then None
             else Some (if neg then m / 10 ^ nat ev else m * 10 ^ nat ev))
        else None)"

definition parse_udecimal :: "string \<Rightarrow> rat option" where
  "parse_udecimal s =
     (case scan_digits 0 0 s of (iv, ni, r1) \<Rightarrow>
      case (case r1 of c # r \<Rightarrow> if c = CHR ''.'' then scan_digits 0 0 r else (0, 0, r1)
                     | [] \<Rightarrow> (0, 0, r1)) of (fv, nf, r2) \<Rightarrow>
        if ni = 0 \<and> nf = 0 then None
        else parse_exponent (of_int iv + of_int fv / 10 ^ nf) r2)"

definition parse_float :: "string \<Rightarrow> pynum option" where
  "parse_float str =
     (case split_sign (strip str) of (neg, s) \<Rightarrow>
        if lower s = ''inf'' \<or> lower s = ''infinity'' then Some (if neg then FNegInf else FInf)
        else if lower s = ''nan'' then Some FNaN
        else map_option (\<lambda>q. FNum (if neg then - q else q)) (parse_udecimal s))"

definition parse_int :: "string \<Rightarrow> int option" where
  "parse_int str =
     (case split_sign (strip str) of (neg, s) \<Rightarrow>
      case scan_digits 0 0 s of (v, n, r) \<Rightarrow>
        if n = 0 \<or> r \<noteq> [] then None else Some (if neg then - v else v))"

lemma parse_float_examples:
  "parse_float ''12.5'' = Some (FNum (25/2))"
  "parse_float '' -1e2 '' = Some (FNum (-100))"
  "parse_float ''nan'' = Some FNaN"
  "parse_float ''-Infinity'' = Some FNegInf"
  "parse_float ''Mon, 01 Sep'' = None"
  "parse_float ''1_0'' = Some (FNum 10)"
  "parse_float ''1__0'' = None"
  by code_simp+

lemma parse_int_examples:
  "parse_int ''42'' = Some 42" "parse_int ''-7 '' = Some (-7)" "parse_int ''4x'' = None"
  by code_simp+

text \<open>Hexadecimal digits.\<close>

definition hex_val :: "char \<Rightarrow> int option" where
  "hex_val c = (let n = (of_char c :: int) in
     if 48 \<le> n \<and> n \<le> 57 then Some (n - 48)
     else if 97 \<le> n \<and> n \<le> 102 then Some (n - 87)
     else if 65 \<le> n \<and> n \<le> 70 then Some (n - 55) else None)"

fun hex_digits :: "int \<Rightarrow> string \<Rightarrow> int option" where
  "hex_digits v [] = Some v"
| "hex_digits v (c # s) = (case hex_val c of None \<Rightarrow> None | Some d \<Rightarrow> hex_digits (16 * v + d) s)"

section \<open>JSON values\<close>

datatype json =
    JNull
  | JBool bool
  | JInt int
  | JFloat rat
  | JStr string
  | JList "json list"
  | JObj "(string \<times> json) list"

fun truthy :: "json \<Rightarrow> bool" where
  "truthy JNull = False"
| "truthy (JBool b) = b"
| "truthy (JInt i) = (i \<noteq> 0)"
| "truthy (JFloat r) = (r \<noteq> 0)"
| "truthy (JStr s) = (s \<noteq> [])"
| "truthy (JList xs) = (xs \<noteq> [])"
| "truthy (JObj kvs) = (kvs \<noteq> [])"

text \<open>\<open>d.get(k)\<close> on a value known to be a dict.\<close>

fun jget :: "json \<Rightarrow> string \<Rightarrow> json option" where
  "jget (JObj kvs) k = map_of kvs k"
| "jget _ k = None"

definition jget_or :: "json \<Rightarrow> json \<Rightarrow> string \<Rightarrow> json" where
  "jget_or z j k = (case jget j k of None \<Rightarrow> z | Some v \<Rightarrow> v)"

end
