(* ===== verification/Sliding_Window.thy ===== *)
theory Sliding_Window
  imports Prelude
begin

text \<open>
  Sliding-window logs.  The rate limiter, the rules engine and the alert deduplicator each
  keep, per key, a list of instants: a hit purges the instants that have left the window
  and appends the current one.  \<open>sliding_log\<close> states this as an interface (\<open>log\<close> reads
  the list of a key); the lemmas say that the length of the list is exactly the number of
  hits of the key inside the window, whatever was interleaved for other keys.
\<close>

definition run_hits :: "('s \<Rightarrow> 'k \<Rightarrow> time \<Rightarrow> 's) \<Rightarrow> 's \<Rightarrow> ('k \<times> time) list \<Rightarrow> 's" where
  "run_hits hit s hs = fold (\<lambda>(k, t) s. hit s k t) hs s"

definition hit_times :: "'k \<Rightarrow> ('k \<times> time) list \<Rightarrow> time list" where
  "hit_times k hs = map snd (filter (\<lambda>h. fst h = k) hs)"

lemma run_hits_Nil [simp]: "run_hits hit s [] = s"
  by (simp add: run_hits_def)

lemma run_hits_snoc [simp]: "run_hits hit s (hs @ [(k, t)]) = hit (run_hits hit s hs) k t"
  by (simp add: run_hits_def)

lemma hit_times_Nil [simp]: "hit_times k [] = []"
  by (simp add: hit_times_def)

lemma hit_times_snoc [simp]:
  "hit_times k (hs @ [(k', t)]) = hit_times k hs @ (if k' = k then [t] else [])"
  by (simp add: hit_times_def)

locale sliding_log =
  fixes hit :: "'s \<Rightarrow> 'k \<Rightarrow> time \<Rightarrow> 's"
    and log :: "'s \<Rightarrow> 'k \<Rightarrow> time list"
    and window :: time
  assumes log_hit_same:
      "log (hit s k now) k = filter (\<lambda>t. now - window < t) (log s k) @ [now]"
    and log_hit_other: "k' \<noteq> k \<Longrightarrow> log (hit s k now) k' = log s k'"
begin

lemma log_run_filter:
  assumes "\<forall>h \<in> set hs. snd h \<le> c"
  shows "filter (\<lambda>t. c - window < t) (log (run_hits hit s hs) k)
       = filter (\<lambda>t. c - window < t) (log s k @ hit_times k hs)"
  using assms
proof (induction hs rule: rev_induct)
  case Nil
  then show ?case by simp
next
  case (snoc h hs)
  obtain k0 t0 where h: "h = (k0, t0)" by fastforce
  from snoc.prems h have t0: "t0 \<le> c" by simp
  have IH: "filter (\<lambda>t. c - window < t) (log (run_hits hit s hs) k)
       = filter (\<lambda>t. c - window < t) (log s k @ hit_times k hs)"
    using snoc by simp
  show ?case
  proof (cases "k0 = k")
    case True
    let ?l = "log (run_hits hit s hs) k"
    have imp: "(t0 - window < t \<and> c - window < t) = (c - window < t)" for t
      using t0 by auto
    have "filter (\<lambda>t. c - window < t) (log (run_hits hit s (hs @ [h])) k)
        = filter (\<lambda>t. c - window < t) (filter (\<lambda>t. t0 - window < t) ?l @ [t0])"
      using True h by (simp add: log_hit_same)
    also have "\<dots> = filter (\<lambda>t. c - window < t) (?l @ [t0])"
      by (simp add: imp)
    finally show ?thesis using True h IH by simp
  next
    case False
    then show ?thesis using h IH by (simp add: log_hit_other)
  qed
qed

text \<open>After a hit at \<open>now\<close>, the log of the key is exactly its hits inside the window.\<close>

lemma log_after_hit:
  assumes "\<forall>h \<in> set hs. snd h \<le> now"
  shows "log (hit (run_hits hit s hs) k now) k
       = filter (\<lambda>t. now - window < t) (log s k @ hit_times k hs) @ [now]"
  using log_run_filter [OF assms] by (simp add: log_hit_same)

lemma count_after_hit:
  assumes "\<forall>h \<in> set hs. snd h \<le> now" and "log s k = []"
  shows "length (log (hit (run_hits hit s hs) k now) k)
       = Suc (length (filter (\<lambda>t. now - window < t) (hit_times k hs)))"
  using log_after_hit [OF assms(1)] assms(2) by simp

text \<open>Hits of other keys never change what a key's next hit sees.\<close>

lemma log_independent:
  assumes "\<forall>h \<in> set hs. fst h \<noteq> k"
  shows "log (run_hits hit s hs) k = log s k"
  using assms by (induction hs rule: rev_induct) (auto simp: log_hit_other)

end

end
