(* ===== verification/State_Store.thy ===== *)
theory State_Store
  imports Prelude
begin

text \<open>
  \<open>gateway/state_store.py\<close>: the in-memory fallback store and the distributed store in
  front of Redis.

  \<open>'v\<close> is the type of hash values.  Redis is third-party code: its connection attempt and
  its commands are the record \<open>redis_api\<close>, an argument of every operation, over an
  abstract server state \<open>'r\<close>; a command answers \<open>None\<close> where the client library raises.
  JSON encoding of hash values is part of the same record.
\<close>

section \<open>InMemoryStateStore\<close>

record 'v mem_store =
  nonces :: "(string, time) dict"
  sets :: "(string, string set) dict"
  hashes :: "(string, (string, 'v) dict) dict"

definition mem_init :: "'v mem_store" where
  "mem_init = \<lparr>nonces = [], sets = [], hashes = []\<rparr>"

definition mem_set_nonce_nx :: "time \<Rightarrow> string \<Rightarrow> int \<Rightarrow> 'v mem_store \<Rightarrow> bool \<times> 'v mem_store" where
  "mem_set_nonce_nx now key ttl st =
     (let ns = (case dget (nonces st) key of
                  Some e \<Rightarrow> if e < now then ddel key (nonces st) else nonces st
                | None \<Rightarrow> nonces st)
      in if dget ns key \<noteq> None then (False, st\<lparr>nonces := ns\<rparr>)
         else (True, st\<lparr>nonces := dput key (now + of_int ttl) ns\<rparr>))"

definition mem_add_to_set :: "string \<Rightarrow> string \<Rightarrow> 'v mem_store \<Rightarrow> 'v mem_store" where
  "mem_add_to_set sn m st =
     (let ss = (if dget (sets st) sn = None then dput sn {} (sets st) else sets st)
      in st\<lparr>sets := dput sn (insert m (dget_or {} ss sn)) ss\<rparr>)"

definition mem_remove_from_set :: "string \<Rightarrow> string \<Rightarrow> 'v mem_store \<Rightarrow> bool \<times> 'v mem_store" where
  "mem_remove_from_set sn m st =
     (case dget (sets st) sn of
        Some S \<Rightarrow> if m \<in> S then (True, st\<lparr>sets := dput sn (S - {m}) (sets st)\<rparr>) else (False, st)
      | None \<Rightarrow> (False, st))"

definition mem_is_member :: "string \<Rightarrow> string \<Rightarrow> 'v mem_store \<Rightarrow> bool" where
  "mem_is_member sn m st = (m \<in> dget_or {} (sets st) sn)"

definition mem_get_set_members :: "string \<Rightarrow> 'v mem_store \<Rightarrow> string set" where
  "mem_get_set_members sn st = dget_or {} (sets st) sn"

definition mem_set_hash_entry :: "string \<Rightarrow> string \<Rightarrow> 'v \<Rightarrow> 'v mem_store \<Rightarrow> 'v mem_store" where
  "mem_set_hash_entry hn k v st =
     (let hs = (if dget (hashes st) hn = None then dput hn [] (hashes st) else hashes st)
      in st\<lparr>hashes := dput hn (dput k v (dget_or [] hs hn)) hs\<rparr>)"

definition mem_get_hash_entry :: "string \<Rightarrow> string \<Rightarrow> 'v mem_store \<Rightarrow> 'v option" where
  "mem_get_hash_entry hn k st = dget (dget_or [] (hashes st) hn) k"

definition mem_get_all_hash_entries :: "string \<Rightarrow> 'v mem_store \<Rightarrow> (string, 'v) dict" where
  "mem_get_all_hash_entries hn st = dget_or [] (hashes st) hn"

definition mem_delete_hash_entry :: "string \<Rightarrow> string \<Rightarrow> 'v mem_store \<Rightarrow> bool \<times> 'v mem_store" where
  "mem_delete_hash_entry hn k st =
     (case dget (hashes st) hn of
        Some h \<Rightarrow> if dget h k \<noteq> None then (True, st\<lparr>hashes := dput hn (ddel k h) (hashes st)\<rparr>)
                  else (False, st)
      | None \<Rightarrow> (False, st))"

definition mem_clear :: "'v mem_store \<Rightarrow> 'v mem_store" where
  "mem_clear st = st\<lparr>nonces := [], sets := [], hashes := []\<rparr>"

subsection \<open>Laws of the in-memory store\<close>

lemma mem_hash_get_set [simp]:
  "mem_get_hash_entry hn' k' (mem_set_hash_entry hn k v st)
     = (if hn' = hn \<and> k' = k then Some v else mem_get_hash_entry hn' k' st)"
  by (auto simp: mem_get_hash_entry_def mem_set_hash_entry_def Let_def dget_or_def
      split: option.splits)

lemma mem_hash_get_delete [simp]:
  "mem_get_hash_entry hn' k' (snd (mem_delete_hash_entry hn k st))
     = (if hn' = hn \<and> k' = k then None else mem_get_hash_entry hn' k' st)"
  by (auto simp: mem_get_hash_entry_def mem_delete_hash_entry_def dget_or_def
      split: option.splits)

lemma mem_member_add [simp]:
  "mem_is_member sn' m' (mem_add_to_set sn m st)
     \<longleftrightarrow> sn' = sn \<and> m' = m \<or> mem_is_member sn' m' st"
  by (auto simp: mem_is_member_def mem_add_to_set_def Let_def dget_or_def split: option.splits)

lemma mem_member_remove [simp]:
  "mem_is_member sn' m' (snd (mem_remove_from_set sn m st))
     \<longleftrightarrow> \<not> (sn' = sn \<and> m' = m) \<and> mem_is_member sn' m' st"
  by (auto simp: mem_is_member_def mem_remove_from_set_def dget_or_def split: option.splits)

lemma mem_delete_reports:
  "fst (mem_delete_hash_entry hn k st) \<longleftrightarrow> mem_get_hash_entry hn k st \<noteq> None"
  by (auto simp: mem_get_hash_entry_def mem_delete_hash_entry_def dget_or_def
      split: option.splits)

lemma mem_frame [frame]:
  "mem_get_hash_entry hn k (mem_add_to_set sn m st) = mem_get_hash_entry hn k st"
  "mem_get_hash_entry hn k (snd (mem_remove_from_set sn m st)) = mem_get_hash_entry hn k st"
  "mem_is_member sn m (mem_set_hash_entry hn k v st) = mem_is_member sn m st"
  "mem_is_member sn m (snd (mem_delete_hash_entry hn k st)) = mem_is_member sn m st"
  by (auto simp: mem_get_hash_entry_def mem_add_to_set_def mem_remove_from_set_def
      mem_is_member_def mem_set_hash_entry_def mem_delete_hash_entry_def Let_def
      split: option.splits)

text \<open>A nonce is held at \<open>t\<close> when it is recorded with an expiry not before \<open>t\<close>.\<close>

definition mem_nonce_live :: "'v mem_store \<Rightarrow> string \<Rightarrow> time \<Rightarrow> bool" where
  "mem_nonce_live st k t = (case dget (nonces st) k of Some e \<Rightarrow> t \<le> e | None \<Rightarrow> False)"

lemma mem_set_nonce_nx_result:
  "fst (mem_set_nonce_nx now k ttl st) \<longleftrightarrow> \<not> mem_nonce_live st k now"
  by (auto simp: mem_set_nonce_nx_def mem_nonce_live_def Let_def split: option.splits)

lemma mem_set_nonce_nx_live:
  "mem_nonce_live (snd (mem_set_nonce_nx now k ttl st)) k' t \<longleftrightarrow>
     (if k' = k \<and> \<not> mem_nonce_live st k now then t \<le> now + of_int ttl
      else mem_nonce_live st k' t)"
  by (auto simp: mem_set_nonce_nx_def mem_nonce_live_def Let_def split: option.splits)

section \<open>DistributedStateStore\<close>

record ('r, 'v) redis_api =
  r_connect :: "time \<Rightarrow> 'r option"
  r_set_nx :: "'r \<Rightarrow> time \<Rightarrow> string \<Rightarrow> int \<Rightarrow> (bool \<times> 'r) option"
  r_sadd :: "'r \<Rightarrow> string \<Rightarrow> string \<Rightarrow> 'r option"
  r_srem :: "'r \<Rightarrow> string \<Rightarrow> string \<Rightarrow> 'r option"
  r_sismember :: "'r \<Rightarrow> string \<Rightarrow> string \<Rightarrow> bool option"
  r_smembers :: "'r \<Rightarrow> string \<Rightarrow> string set option"
  r_hset :: "'r \<Rightarrow> string \<Rightarrow> string \<Rightarrow> string \<Rightarrow> 'r option"
  r_expire :: "'r \<Rightarrow> time \<Rightarrow> string \<Rightarrow> int \<Rightarrow> 'r option"
  r_hget :: "'r \<Rightarrow> time \<Rightarrow> string \<Rightarrow> string \<Rightarrow> string option option"
  r_hgetall :: "'r \<Rightarrow> time \<Rightarrow> string \<Rightarrow> (string, string) dict option"
  r_hdel :: "'r \<Rightarrow> string \<Rightarrow> string \<Rightarrow> 'r option"
  r_delete_all :: "'r \<Rightarrow> 'r option"
  json_dumps :: "'v \<Rightarrow> string"
  json_loads :: "string \<Rightarrow> 'v option"

record ('r, 'v) dist_store =
  fallback :: "'v mem_store"
  redis_client :: "'r option"
  redis_available :: bool
  last_check :: time

definition dist_init :: "'r option \<Rightarrow> ('r, 'v) dist_store" where
  "dist_init client = \<lparr>fallback = mem_init, redis_client = client,
     redis_available = (client \<noteq> None), last_check = 0\<rparr>"

definition get_redis ::
  "('r, 'v) redis_api \<Rightarrow> time \<Rightarrow> ('r, 'v) dist_store \<Rightarrow> 'r option \<times> ('r, 'v) dist_store" where
  "get_redis api now d =
     (if redis_client d \<noteq> None \<and> redis_available d then (redis_client d, d)
      else if \<not> redis_available d \<and> now - last_check d < 300 then (None, d)
      else let d1 = d\<lparr>last_check := now\<rparr> in
        case r_connect api now of
          Some r \<Rightarrow> (Some r, d1\<lparr>redis_client := Some r, redis_available := True\<rparr>)
        | None \<Rightarrow> (None, d1\<lparr>redis_client := None, redis_available := False\<rparr>))"

text \<open>The fallback part of an operation, and the write of a command's new server state.\<close>

definition on_fallback ::
  "('v mem_store \<Rightarrow> 'a \<times> 'v mem_store) \<Rightarrow> ('r, 'v) dist_store \<Rightarrow> 'a \<times> ('r, 'v) dist_store" where
  "on_fallback f d = (case f (fallback d) of (x, m) \<Rightarrow> (x, d\<lparr>fallback := m\<rparr>))"

definition set_nonce_nx ::
  "('r, 'v) redis_api \<Rightarrow> time \<Rightarrow> string \<Rightarrow> int \<Rightarrow> ('r, 'v) dist_store
     \<Rightarrow> bool \<times> ('r, 'v) dist_store" where
  "set_nonce_nx api now key ttl d =
     (case get_redis api now d of
        (Some r, d1) \<Rightarrow>
          (case r_set_nx api r now (''nonce:'' @ key) ttl of
             Some (b, r') \<Rightarrow> (b, d1\<lparr>redis_client := Some r'\<rparr>)
           | None \<Rightarrow> on_fallback (mem_set_nonce_nx now key ttl) d1)
      | (None, d1) \<Rightarrow> on_fallback (mem_set_nonce_nx now key ttl) d1)"

definition add_to_set ::
  "('r, 'v) redis_api \<Rightarrow> time \<Rightarrow> string \<Rightarrow> string \<Rightarrow> ('r, 'v) dist_store \<Rightarrow> ('r, 'v) dist_store" where
  "add_to_set api now sn m d =
     (let d2 = (case get_redis api now d of
          (Some r, d1) \<Rightarrow> (case r_sadd api r (''set:'' @ sn) m of
              Some r' \<Rightarrow> d1\<lparr>redis_client := Some r'\<rparr> | None \<Rightarrow> d1)
        | (None, d1) \<Rightarrow> d1)
      in d2\<lparr>fallback := mem_add_to_set sn m (fallback d2)\<rparr>)"

definition remove_from_set ::
  "('r, 'v) redis_api \<Rightarrow> time \<Rightarrow> string \<Rightarrow> string \<Rightarrow> ('r, 'v) dist_store
     \<Rightarrow> bool \<times> ('r, 'v) dist_store" where
  "remove_from_set api now sn m d =
     (let d2 = (case get_redis api now d of
          (Some r, d1) \<Rightarrow> (case r_srem api r (''set:'' @ sn) m of
              Some r' \<Rightarrow> d1\<lparr>redis_client := Some r'\<rparr> | None \<Rightarrow> d1)
        | (None, d1) \<Rightarrow> d1)
      in on_fallback (mem_remove_from_set sn m) d2)"

definition is_member ::
  "('r, 'v) redis_api \<Rightarrow> time \<Rightarrow> string \<Rightarrow> string \<Rightarrow> ('r, 'v) dist_store
     \<Rightarrow> bool \<times> ('r, 'v) dist_store" where
  "is_member api now sn m d =
     (case get_redis api now d of
        (Some r, d1) \<Rightarrow>
          (case r_sismember api r (''set:'' @ sn) m of
             Some b \<Rightarrow> (b, d1)
           | None \<Rightarrow> (mem_is_member sn m (fallback d1), d1))
      | (None, d1) \<Rightarrow> (mem_is_member sn m (fallback d1), d1))"

definition get_set_members ::
  "('r, 'v) redis_api \<Rightarrow> time \<Rightarrow> string \<Rightarrow> ('r, 'v) dist_store
     \<Rightarrow> string set \<times> ('r, 'v) dist_store" where
  "get_set_members api now sn d =
     (case get_redis api now d of
        (Some r, d1) \<Rightarrow>
          (case r_smembers api r (''set:'' @ sn) of
             Some S \<Rightarrow> (S, d1)
           | None \<Rightarrow> (mem_get_set_members sn (fallback d1), d1))
      | (None, d1) \<Rightarrow> (mem_get_set_members sn (fallback d1), d1))"

definition set_hash_entry ::
  "('r, 'v) redis_api \<Rightarrow> time \<Rightarrow> string \<Rightarrow> string \<Rightarrow> 'v \<Rightarrow> int option \<Rightarrow> ('r, 'v) dist_store
     \<Rightarrow> ('r, 'v) dist_store" where
  "set_hash_entry api now hn k v ttl d =
     (let ser = json_dumps api v;
          d2 = (case get_redis api now d of
            (Some r, d1) \<Rightarrow>
              (case r_hset api r (''hash:'' @ hn) k ser of
                 None \<Rightarrow> d1
               | Some r1 \<Rightarrow>
                  (case ttl of
                     Some n \<Rightarrow> if n = 0 then d1\<lparr>redis_client := Some r1\<rparr>
                       else (case r_expire api r1 now (''hash:'' @ hn) n of
                          Some r2 \<Rightarrow> d1\<lparr>redis_client := Some r2\<rparr>
                        | None \<Rightarrow> d1\<lparr>redis_client := Some r1\<rparr>)
                   | None \<Rightarrow> d1\<lparr>redis_client := Some r1\<rparr>))
          | (None, d1) \<Rightarrow> d1)
      in d2\<lparr>fallback := mem_set_hash_entry hn k v (fallback d2)\<rparr>)"

definition get_hash_entry ::
  "('r, 'v) redis_api \<Rightarrow> time \<Rightarrow> string \<Rightarrow> string \<Rightarrow> ('r, 'v) dist_store
     \<Rightarrow> 'v option \<times> ('r, 'v) dist_store" where
  "get_hash_entry api now hn k d =
     (case get_redis api now d of
        (Some r, d1) \<Rightarrow>
          (case r_hget api r now (''hash:'' @ hn) k of
             Some None \<Rightarrow> (None, d1)
           | Some (Some raw) \<Rightarrow>
               if raw = [] then (None, d1)
               else (case json_loads api raw of
                   Some v \<Rightarrow> (Some v, d1)
                 | None \<Rightarrow> (mem_get_hash_entry hn k (fallback d1), d1))
           | None \<Rightarrow> (mem_get_hash_entry hn k (fallback d1), d1))
      | (None, d1) \<Rightarrow> (mem_get_hash_entry hn k (fallback d1), d1))"

fun loads_all :: "(string \<Rightarrow> 'v option) \<Rightarrow> (string, string) dict \<Rightarrow> (string, 'v) dict option" where
  "loads_all f [] = Some []"
| "loads_all f ((k, raw) # kvs) =
     (case f raw of None \<Rightarrow> None | Some v \<Rightarrow> map_option (\<lambda>d. (k, v) # d) (loads_all f kvs))"

definition get_all_hash_entries ::
  "('r, 'v) redis_api \<Rightarrow> time \<Rightarrow> string \<Rightarrow> ('r, 'v) dist_store
     \<Rightarrow> (string, 'v) dict \<times> ('r, 'v) dist_store" where
  "get_all_hash_entries api now hn d =
     (case get_redis api now d of
        (Some r, d1) \<Rightarrow>
          (case Option.bind (r_hgetall api r now (''hash:'' @ hn)) (loads_all (json_loads api)) of
             Some h \<Rightarrow> (h, d1)
           | None \<Rightarrow> (mem_get_all_hash_entries hn (fallback d1), d1))
      | (None, d1) \<Rightarrow> (mem_get_all_hash_entries hn (fallback d1), d1))"

definition delete_hash_entry ::
  "('r, 'v) redis_api \<Rightarrow> time \<Rightarrow> string \<Rightarrow> string \<Rightarrow> ('r, 'v) dist_store
     \<Rightarrow> bool \<times> ('r, 'v) dist_store" where
  "delete_hash_entry api now hn k d =
     (let d2 = (case get_redis api now d of
          (Some r, d1) \<Rightarrow> (case r_hdel api r (''hash:'' @ hn) k of
              Some r' \<Rightarrow> d1\<lparr>redis_client := Some r'\<rparr> | None \<Rightarrow> d1)
        | (None, d1) \<Rightarrow> d1)
      in on_fallback (mem_delete_hash_entry hn k) d2)"

definition reset_state ::
  "('r, 'v) redis_api \<Rightarrow> time \<Rightarrow> ('r, 'v) dist_store \<Rightarrow> ('r, 'v) dist_store" where
  "reset_state api now d =
     (let d0 = d\<lparr>fallback := mem_clear (fallback d)\<rparr> in
      case get_redis api now d0 of
        (Some r, d1) \<Rightarrow> (case r_delete_all api r of
            Some r' \<Rightarrow> d1\<lparr>redis_client := Some r'\<rparr> | None \<Rightarrow> d1)
      | (None, d1) \<Rightarrow> d1)"


section \<open>The store as an interface\<close>

text \<open>
  The clients of the store (\<open>ReplayGuard\<close>, \<open>MitigationEngine\<close>) are handed a store object;
  their models take its operations as a record.  The two locales below are what they rely
  on: views of what is stored, and what each operation does to the views.
\<close>

record ('s, 'v) store_ops =
  op_set_nonce_nx :: "time \<Rightarrow> string \<Rightarrow> int \<Rightarrow> 's \<Rightarrow> bool \<times> 's"
  op_add_to_set :: "time \<Rightarrow> string \<Rightarrow> string \<Rightarrow> 's \<Rightarrow> 's"
  op_remove_from_set :: "time \<Rightarrow> string \<Rightarrow> string \<Rightarrow> 's \<Rightarrow> bool \<times> 's"
  op_is_member :: "time \<Rightarrow> string \<Rightarrow> string \<Rightarrow> 's \<Rightarrow> bool \<times> 's"
  op_set_hash_entry :: "time \<Rightarrow> string \<Rightarrow> string \<Rightarrow> 'v \<Rightarrow> int option \<Rightarrow> 's \<Rightarrow> 's"
  op_get_hash_entry :: "time \<Rightarrow> string \<Rightarrow> string \<Rightarrow> 's \<Rightarrow> 'v option \<times> 's"
  op_delete_hash_entry :: "time \<Rightarrow> string \<Rightarrow> string \<Rightarrow> 's \<Rightarrow> bool \<times> 's"

definition dist_ops :: "('r, 'v) redis_api \<Rightarrow> (('r, 'v) dist_store, 'v) store_ops" where
  "dist_ops api = \<lparr>
     op_set_nonce_nx = set_nonce_nx api,
     op_add_to_set = add_to_set api,
     op_remove_from_set = remove_from_set api,
     op_is_member = is_member api,
     op_set_hash_entry = set_hash_entry api,
     op_get_hash_entry = get_hash_entry api,
     op_delete_hash_entry = delete_hash_entry api\<rparr>"

locale nonce_store =
  fixes set_nx :: "time \<Rightarrow> string \<Rightarrow> int \<Rightarrow> 's \<Rightarrow> bool \<times> 's"
    and live :: "'s \<Rightarrow> string \<Rightarrow> time \<Rightarrow> bool"
    and inv :: "'s \<Rightarrow> bool"
  assumes set_nx_result: "inv s \<Longrightarrow> fst (set_nx now k ttl s) \<longleftrightarrow> \<not> live s k now"
    and set_nx_live: "inv s \<Longrightarrow>
      live (snd (set_nx now k ttl s)) k' t \<longleftrightarrow>
        (if k' = k \<and> \<not> live s k now then t \<le> now + of_int ttl else live s k' t)"
    and set_nx_inv: "inv s \<Longrightarrow> inv (snd (set_nx now k ttl s))"
    and live_antimono: "live s k t \<Longrightarrow> t' \<le> t \<Longrightarrow> live s k t'"
begin

text \<open>A held nonce stays held until its expiry, whatever is recorded meanwhile.\<close>

lemma live_preserved:
  assumes "inv s" and "live s k t" and "now \<le> t"
  shows "live (snd (set_nx now k' ttl s)) k t"
proof -
  have "live s k now" using live_antimono [OF assms(2,3)] .
  then show ?thesis using assms set_nx_live [OF assms(1)] by auto
qed

end

locale entry_store =
  fixes ops :: "('s, 'v) store_ops"
    and hview :: "'s \<Rightarrow> string \<Rightarrow> string \<Rightarrow> 'v option"
    and sview :: "'s \<Rightarrow> string \<Rightarrow> string \<Rightarrow> bool"
    and inv :: "'s \<Rightarrow> bool"
  assumes get_hash: "inv s \<Longrightarrow> fst (op_get_hash_entry ops now hn k s) = hview s hn k"
    and get_hash_hview: "inv s \<Longrightarrow> hview (snd (op_get_hash_entry ops now hn k s)) = hview s"
    and get_hash_sview: "inv s \<Longrightarrow> sview (snd (op_get_hash_entry ops now hn k s)) = sview s"
    and get_hash_inv: "inv s \<Longrightarrow> inv (snd (op_get_hash_entry ops now hn k s))"
    and set_hash_hview: "inv s \<Longrightarrow>
      hview (op_set_hash_entry ops now hn k v ttl s) hn' k'
        = (if hn' = hn \<and> k' = k then Some v else hview s hn' k')"
    and set_hash_sview: "inv s \<Longrightarrow> sview (op_set_hash_entry ops now hn k v ttl s) = sview s"
    and set_hash_inv: "inv s \<Longrightarrow> inv (op_set_hash_entry ops now hn k v ttl s)"
    and del_hash_hview: "inv s \<Longrightarrow>
      hview (snd (op_delete_hash_entry ops now hn k s)) hn' k'
        = (if hn' = hn \<and> k' = k then None else hview s hn' k')"
    and del_hash_sview: "inv s \<Longrightarrow> sview (snd (op_delete_hash_entry ops now hn k s)) = sview s"
    and del_hash_inv: "inv s \<Longrightarrow> inv (snd (op_delete_hash_entry ops now hn k s))"
    and is_member_result: "inv s \<Longrightarrow> fst (op_is_member ops now sn m s) = sview s sn m"
    and is_member_hview: "inv s \<Longrightarrow> hview (snd (op_is_member ops now sn m s)) = hview s"
    and is_member_sview: "inv s \<Longrightarrow> sview (snd (op_is_member ops now sn m s)) = sview s"
    and is_member_inv: "inv s \<Longrightarrow> inv (snd (op_is_member ops now sn m s))"
    and add_set_sview: "inv s \<Longrightarrow>
      sview (op_add_to_set ops now sn m s) sn' m' \<longleftrightarrow> sn' = sn \<and> m' = m \<or> sview s sn' m'"
    and add_set_hview: "inv s \<Longrightarrow> hview (op_add_to_set ops now sn m s) = hview s"
    and add_set_inv: "inv s \<Longrightarrow> inv (op_add_to_set ops now sn m s)"
    and rem_set_sview: "inv s \<Longrightarrow>
      sview (snd (op_remove_from_set ops now sn m s)) sn' m'
        \<longleftrightarrow> \<not> (sn' = sn \<and> m' = m) \<and> sview s sn' m'"
    and rem_set_hview: "inv s \<Longrightarrow> hview (snd (op_remove_from_set ops now sn m s)) = hview s"
    and rem_set_inv: "inv s \<Longrightarrow> inv (snd (op_remove_from_set ops now sn m s))"
begin

lemmas store_laws =
  get_hash get_hash_hview get_hash_sview get_hash_inv
  set_hash_hview set_hash_sview set_hash_inv
  del_hash_hview del_hash_sview del_hash_inv
  is_member_result is_member_hview is_member_sview is_member_inv
  add_set_sview add_set_hview add_set_inv
  rem_set_sview rem_set_hview rem_set_inv

end

section \<open>Standalone deployment\<close>

text \<open>
  With no reachable Redis every connection attempt fails, and the distributed store
  refines the in-memory one: each operation returns what the fallback's operation returns
  and changes the fallback as that operation does.
\<close>

definition no_redis :: "(unit, 'v) redis_api" where
  "no_redis = \<lparr>r_connect = (\<lambda>_. None), r_set_nx = (\<lambda>_ _ _ _. None), r_sadd = (\<lambda>_ _ _. None),
     r_srem = (\<lambda>_ _ _. None), r_sismember = (\<lambda>_ _ _. None), r_smembers = (\<lambda>_ _. None),
     r_hset = (\<lambda>_ _ _ _. None), r_expire = (\<lambda>_ _ _ _. None), r_hget = (\<lambda>_ _ _ _. None),
     r_hgetall = (\<lambda>_ _ _. None), r_hdel = (\<lambda>_ _ _. None), r_delete_all = (\<lambda>_. None),
     json_dumps = (\<lambda>_. []), json_loads = (\<lambda>_. None)\<rparr>"

definition standalone :: "('r, 'v) dist_store \<Rightarrow> bool" where
  "standalone d \<longleftrightarrow> redis_client d = None \<and> \<not> redis_available d"

lemma standalone_init: "standalone (dist_init None)"
  by (simp add: standalone_def dist_init_def)

lemma get_redis_standalone:
  assumes "standalone d" and "\<And>t. r_connect api t = None"
  shows "fst (get_redis api now d) = None"
    and "fallback (snd (get_redis api now d)) = fallback d"
    and "standalone (snd (get_redis api now d))"
  using assms by (auto simp: get_redis_def standalone_def Let_def)

lemma no_redis_connect [simp]: "r_connect no_redis t = None"
  by (simp add: no_redis_def)

text \<open>What \<open>_get_redis\<close> does to the store when nothing answers: it notes the attempt.\<close>

definition offline_touch :: "time \<Rightarrow> ('r, 'v) dist_store \<Rightarrow> ('r, 'v) dist_store" where
  "offline_touch now d =
     (if now - last_check d < 300 then d
      else d\<lparr>last_check := now, redis_client := None, redis_available := False\<rparr>)"

lemma get_redis_no_redis:
  "standalone d \<Longrightarrow> get_redis no_redis now d = (None, offline_touch now d)"
  by (simp add: get_redis_def standalone_def offline_touch_def)

lemma offline_touch_simps [simp]:
  "fallback (offline_touch now d) = fallback d"
  "standalone d \<Longrightarrow> standalone (offline_touch now d)"
  by (simp_all add: offline_touch_def standalone_def)

lemma standalone_fallback [simp]: "standalone (d\<lparr>fallback := m\<rparr>) = standalone d"
  by (simp add: standalone_def)

lemma set_nonce_nx_standalone:
  assumes "standalone d"
  shows "fst (set_nonce_nx no_redis now k ttl d) = fst (mem_set_nonce_nx now k ttl (fallback d))"
    and "fallback (snd (set_nonce_nx no_redis now k ttl d))
           = snd (mem_set_nonce_nx now k ttl (fallback d))"
    and "standalone (snd (set_nonce_nx no_redis now k ttl d))"
  using assms by (simp_all add: get_redis_no_redis set_nonce_nx_def on_fallback_def split: prod.splits)

lemma set_hash_entry_standalone:
  assumes "standalone d"
  shows "fallback (set_hash_entry no_redis now hn k v ttl d)
           = mem_set_hash_entry hn k v (fallback d)"
    and "standalone (set_hash_entry no_redis now hn k v ttl d)"
  using assms by (simp_all add: get_redis_no_redis set_hash_entry_def Let_def split: prod.splits)

lemma get_hash_entry_standalone:
  assumes "standalone d"
  shows "fst (get_hash_entry no_redis now hn k d) = mem_get_hash_entry hn k (fallback d)"
    and "fallback (snd (get_hash_entry no_redis now hn k d)) = fallback d"
    and "standalone (snd (get_hash_entry no_redis now hn k d))"
  using assms by (simp_all add: get_redis_no_redis get_hash_entry_def split: prod.splits)

lemma delete_hash_entry_standalone:
  assumes "standalone d"
  shows "fst (delete_hash_entry no_redis now hn k d)
           = fst (mem_delete_hash_entry hn k (fallback d))"
    and "fallback (snd (delete_hash_entry no_redis now hn k d))
           = snd (mem_delete_hash_entry hn k (fallback d))"
    and "standalone (snd (delete_hash_entry no_redis now hn k d))"
  using assms by (simp_all add: get_redis_no_redis delete_hash_entry_def on_fallback_def Let_def split: prod.splits)

lemma add_to_set_standalone:
  assumes "standalone d"
  shows "fallback (add_to_set no_redis now sn m d) = mem_add_to_set sn m (fallback d)"
    and "standalone (add_to_set no_redis now sn m d)"
  using assms by (simp_all add: get_redis_no_redis add_to_set_def Let_def split: prod.splits)

lemma remove_from_set_standalone:
  assumes "standalone d"
  shows "fallback (snd (remove_from_set no_redis now sn m d))
           = snd (mem_remove_from_set sn m (fallback d))"
    and "standalone (snd (remove_from_set no_redis now sn m d))"
    and "fst (remove_from_set no_redis now sn m d) = fst (mem_remove_from_set sn m (fallback d))"
  using assms by (simp_all add: get_redis_no_redis remove_from_set_def on_fallback_def Let_def split: prod.splits)

lemma is_member_standalone:
  assumes "standalone d"
  shows "fst (is_member no_redis now sn m d) = mem_is_member sn m (fallback d)"
    and "fallback (snd (is_member no_redis now sn m d)) = fallback d"
    and "standalone (snd (is_member no_redis now sn m d))"
  using assms by (simp_all add: get_redis_no_redis is_member_def split: prod.splits)

lemmas standalone_laws =
  set_nonce_nx_standalone set_hash_entry_standalone get_hash_entry_standalone
  delete_hash_entry_standalone add_to_set_standalone remove_from_set_standalone
  is_member_standalone

lemma mem_nonce_live_antimono: "mem_nonce_live st k t \<Longrightarrow> t' \<le> t \<Longrightarrow> mem_nonce_live st k t'"
  by (auto simp: mem_nonce_live_def split: option.splits)

interpretation mem_nonces: nonce_store mem_set_nonce_nx mem_nonce_live "\<lambda>_. True"
  by unfold_locales
     (simp_all add: mem_set_nonce_nx_result mem_set_nonce_nx_live mem_nonce_live_antimono)

interpretation standalone_nonces: nonce_store "set_nonce_nx no_redis"
    "\<lambda>d. mem_nonce_live (fallback d)" standalone
  by unfold_locales
     (simp_all add: standalone_laws mem_set_nonce_nx_result mem_set_nonce_nx_live
        mem_nonce_live_antimono)

definition dist_hview :: "('r, 'v) dist_store \<Rightarrow> string \<Rightarrow> string \<Rightarrow> 'v option" where
  "dist_hview d hn k = mem_get_hash_entry hn k (fallback d)"

definition dist_sview :: "('r, 'v) dist_store \<Rightarrow> string \<Rightarrow> string \<Rightarrow> bool" where
  "dist_sview d sn m = mem_is_member sn m (fallback d)"

interpretation standalone_entries: entry_store "dist_ops no_redis" dist_hview dist_sview standalone
  by unfold_locales
     (simp_all add: dist_ops_def fun_eq_iff dist_hview_def dist_sview_def standalone_laws frame)


section \<open>An abstract store\<close>

text \<open>What callers think of: maps from keys to expiry instants, from set names to sets, from hash names to maps.
  An operation arrives at an instant and answers a flag, an entry or nothing.\<close>

record 'v store_view =
  v_nonce :: "string \<Rightarrow> time option"
  v_set :: "string \<Rightarrow> string set"
  v_hash :: "string \<Rightarrow> string \<Rightarrow> 'v option"

datatype 'v store_op =
    ClaimNonce string int
  | AddMember string string
  | RemoveMember string string
  | AskMember string string
  | PutEntry string string 'v "int option"
  | GetEntry string string
  | DeleteEntry string string

datatype 'v store_answer = Flag bool | Found "'v option" | Done

fun spec_step :: "time \<Rightarrow> 'v store_op \<Rightarrow> 'v store_view \<Rightarrow> 'v store_answer \<times> 'v store_view" where
  "spec_step now (ClaimNonce k ttl) v =
     (case v_nonce v k of
        Some e \<Rightarrow> if now \<le> e then (Flag False, v) else (Flag True, v\<lparr>v_nonce := (v_nonce v)(k \<mapsto> now + of_int ttl)\<rparr>)
      | None \<Rightarrow> (Flag True, v\<lparr>v_nonce := (v_nonce v)(k \<mapsto> now + of_int ttl)\<rparr>))"
| "spec_step now (AddMember sn m) v = (Done, v\<lparr>v_set := (v_set v)(sn := insert m (v_set v sn))\<rparr>)"
| "spec_step now (RemoveMember sn m) v = (Flag (m \<in> v_set v sn), v\<lparr>v_set := (v_set v)(sn := v_set v sn - {m})\<rparr>)"
| "spec_step now (AskMember sn m) v = (Flag (m \<in> v_set v sn), v)"
| "spec_step now (PutEntry hn k x ttl) v = (Done, v\<lparr>v_hash := (v_hash v)(hn := (v_hash v hn)(k \<mapsto> x))\<rparr>)"
| "spec_step now (GetEntry hn k) v = (Found (v_hash v hn k), v)"
| "spec_step now (DeleteEntry hn k) v =
     (Flag (v_hash v hn k \<noteq> None), v\<lparr>v_hash := (v_hash v)(hn := (v_hash v hn)(k := None))\<rparr>)"

fun store_step :: "('s, 'v) store_ops \<Rightarrow> time \<Rightarrow> 'v store_op \<Rightarrow> 's \<Rightarrow> 'v store_answer \<times> 's" where
  "store_step ops now (ClaimNonce k ttl) s = map_prod Flag id (op_set_nonce_nx ops now k ttl s)"
| "store_step ops now (AddMember sn m) s = (Done, op_add_to_set ops now sn m s)"
| "store_step ops now (RemoveMember sn m) s = map_prod Flag id (op_remove_from_set ops now sn m s)"
| "store_step ops now (AskMember sn m) s = map_prod Flag id (op_is_member ops now sn m s)"
| "store_step ops now (PutEntry hn k x ttl) s = (Done, op_set_hash_entry ops now hn k x ttl s)"
| "store_step ops now (GetEntry hn k) s = map_prod Found id (op_get_hash_entry ops now hn k s)"
| "store_step ops now (DeleteEntry hn k) s = map_prod Flag id (op_delete_hash_entry ops now hn k s)"

fun run_answers :: "(time \<Rightarrow> 'v store_op \<Rightarrow> 's \<Rightarrow> 'v store_answer \<times> 's) \<Rightarrow> (time \<times> 'v store_op) list \<Rightarrow> 's
    \<Rightarrow> 'v store_answer list" where
  "run_answers step [] s = []"
| "run_answers step ((t, x) # xs) s = (case step t x s of (a, s') \<Rightarrow> a # run_answers step xs s')"

definition view_of :: "('r, 'v) dist_store \<Rightarrow> 'v store_view" where
  "view_of d = \<lparr>v_nonce = dget (nonces (fallback d)), v_set = (\<lambda>sn. mem_get_set_members sn (fallback d)),
     v_hash = (\<lambda>hn k. mem_get_hash_entry hn k (fallback d))\<rparr>"

lemma mem_views:
  "dget (nonces (snd (mem_set_nonce_nx now k ttl m)))
     = (if (\<exists>e. dget (nonces m) k = Some e \<and> now \<le> e) then dget (nonces m)
        else (dget (nonces m))(k \<mapsto> now + of_int ttl))"
  "fst (mem_set_nonce_nx now k ttl m) \<longleftrightarrow> \<not> (\<exists>e. dget (nonces m) k = Some e \<and> now \<le> e)"
  "mem_get_set_members sn' (mem_add_to_set sn x m)
     = (if sn' = sn then insert x (mem_get_set_members sn m) else mem_get_set_members sn' m)"
  "mem_get_set_members sn' (snd (mem_remove_from_set sn x m))
     = (if sn' = sn then mem_get_set_members sn m - {x} else mem_get_set_members sn' m)"
  "fst (mem_remove_from_set sn x m) \<longleftrightarrow> x \<in> mem_get_set_members sn m"
  "mem_is_member sn x m \<longleftrightarrow> x \<in> mem_get_set_members sn m"
  by (auto simp: mem_set_nonce_nx_def mem_get_set_members_def mem_add_to_set_def mem_remove_from_set_def
      mem_is_member_def dget_or_def fun_eq_iff update_conv' delete_conv' Let_def split: option.splits if_splits)

lemma mem_other_parts [simp]:
  "mem_get_set_members sn (snd (mem_set_nonce_nx now k ttl m)) = mem_get_set_members sn m"
  "mem_get_hash_entry hn y (snd (mem_set_nonce_nx now k ttl m)) = mem_get_hash_entry hn y m"
  "nonces (mem_add_to_set sn x m) = nonces m" "nonces (snd (mem_remove_from_set sn x m)) = nonces m"
  "nonces (mem_set_hash_entry hn y v m) = nonces m" "nonces (snd (mem_delete_hash_entry hn y m)) = nonces m"
  "mem_get_set_members sn (mem_set_hash_entry hn y v m) = mem_get_set_members sn m"
  "mem_get_set_members sn (snd (mem_delete_hash_entry hn y m)) = mem_get_set_members sn m"
  by (auto simp: mem_set_nonce_nx_def mem_get_set_members_def mem_get_hash_entry_def mem_add_to_set_def
      mem_remove_from_set_def mem_set_hash_entry_def mem_delete_hash_entry_def Let_def split: option.splits)

text \<open>Without Redis every operation does on the view what the specification does.\<close>

lemma standalone_step_refines:
  assumes "standalone d"
  shows "spec_step now x (view_of d) = map_prod id view_of (store_step (dist_ops no_redis) now x d)
    \<and> standalone (snd (store_step (dist_ops no_redis) now x d))"
  using assms
  by (cases x)
    (auto simp: dist_ops_def view_of_def standalone_laws mem_views mem_delete_reports fun_eq_iff frame prod_eq_iff
      split: option.splits)


end
