(* ===== verification/Replay_Guard.thy ===== *)
theory Replay_Guard
  imports State_Store
begin

text \<open>
  \<open>gateway/replay_guard.py\<close>: freshness and single use of nonces and idempotency keys.

  \<open>validate_request\<close> is the method \<open>ReplayGuard.validate_request\<close>; the store's
  \<open>set_nonce_nx\<close> is an argument, the time header is the raw string, read by Python's
  \<open>float\<close>.  A verdict is the Python triple: is it a replay, the threat score, the reasons.
\<close>

datatype replay_reason =
    TimestampExpired pynum int   \<comment> \<open>skew, limit; an infinite header gives an infinite skew\<close>
  | MalformedTimestamp
  | NonceReplayed string

type_synonym replay_verdict = "bool \<times> int \<times> replay_reason list"

text \<open>\<open>abs(now - ts)\<close> and its comparison with the limit, over all floats: a comparison
  with not-a-number is false.\<close>

definition skew :: "time \<Rightarrow> pynum \<Rightarrow> pynum" where
  "skew now ts = (case ts of FNum q \<Rightarrow> FNum \<bar>now - q\<bar> | FNaN \<Rightarrow> FNaN | FInf \<Rightarrow> FInf | FNegInf \<Rightarrow> FInf)"

definition exceeds :: "pynum \<Rightarrow> int \<Rightarrow> bool" where
  "exceeds x bound = (case x of FNum q \<Rightarrow> of_int bound < q | FInf \<Rightarrow> True | FNaN \<Rightarrow> False | FNegInf \<Rightarrow> False)"

definition check_timestamp :: "int \<Rightarrow> time \<Rightarrow> string option \<Rightarrow> replay_verdict option" where
  "check_timestamp max_skew now ts_str =
     (case ts_str of
        None \<Rightarrow> None
      | Some s \<Rightarrow>
          if s = [] then None
          else (case parse_float s of
              None \<Rightarrow> Some (True, 80, [MalformedTimestamp])
            | Some ts \<Rightarrow>
                if exceeds (skew now ts) max_skew
                then Some (True, 85, [TimestampExpired (skew now ts) max_skew])
                else None))"

definition validate_request ::
  "(time \<Rightarrow> string \<Rightarrow> int \<Rightarrow> 's \<Rightarrow> bool \<times> 's) \<Rightarrow> int \<Rightarrow> time
     \<Rightarrow> string option \<Rightarrow> string option \<Rightarrow> string option \<Rightarrow> 's \<Rightarrow> replay_verdict \<times> 's" where
  "validate_request set_nx max_skew now nonce idempotency_key ts_str st =
     (case check_timestamp max_skew now ts_str of
        Some v \<Rightarrow> (v, st)
      | None \<Rightarrow>
          (let unique_key = str_or nonce idempotency_key in
           case unique_key of
             None \<Rightarrow> ((False, 0, []), st)
           | Some k \<Rightarrow>
               if k = [] then ((False, 0, []), st)
               else (case set_nx now k max_skew st of
                   (True, st') \<Rightarrow> ((False, 0, []), st')
                 | (False, st') \<Rightarrow> ((True, 95, [NonceReplayed k]), st'))))"

definition is_replay :: "replay_verdict \<times> 's \<Rightarrow> bool" where
  "is_replay r = fst (fst r)"

text \<open>The key a request is recorded under, if any.\<close>

definition request_key :: "string option \<Rightarrow> string option \<Rightarrow> string option" where
  "request_key nonce idem = (case str_or nonce idem of Some (c # s) \<Rightarrow> Some (c # s) | _ \<Rightarrow> None)"

text \<open>A stream of requests as the guard sees it: arrival time and the three headers.\<close>

record replay_req =
  rq_time :: time
  rq_nonce :: "string option"
  rq_idem :: "string option"
  rq_ts :: "string option"

definition guard_step ::
  "(time \<Rightarrow> string \<Rightarrow> int \<Rightarrow> 's \<Rightarrow> bool \<times> 's) \<Rightarrow> int \<Rightarrow> replay_req \<Rightarrow> 's \<Rightarrow> replay_verdict \<times> 's" where
  "guard_step set_nx max_skew q st =
     validate_request set_nx max_skew (rq_time q) (rq_nonce q) (rq_idem q) (rq_ts q) st"

fun guard_run ::
  "(time \<Rightarrow> string \<Rightarrow> int \<Rightarrow> 's \<Rightarrow> bool \<times> 's) \<Rightarrow> int \<Rightarrow> replay_req list \<Rightarrow> 's \<Rightarrow> 's" where
  "guard_run set_nx max_skew [] st = st"
| "guard_run set_nx max_skew (q # qs) st =
     guard_run set_nx max_skew qs (snd (guard_step set_nx max_skew q st))"

section \<open>One request\<close>

lemma check_timestamp_None_iff:
  "check_timestamp max_skew now ts_str = None \<longleftrightarrow>
     (case ts_str of None \<Rightarrow> True | Some s \<Rightarrow>
        s = [] \<or> (\<exists>ts. parse_float s = Some ts \<and> \<not> exceeds (skew now ts) max_skew))"
  by (auto simp: check_timestamp_def split: option.splits)

lemma check_timestamp_Some_replay:
  "check_timestamp max_skew now ts_str = Some v \<Longrightarrow> fst v"
  by (auto simp: check_timestamp_def split: option.splits if_splits)

text \<open>A fresh finite timestamp lies within the skew limit on both sides of the clock.\<close>

lemma fresh_finite_timestamp:
  assumes "parse_float s = Some (FNum ts)" and "s \<noteq> []"
  shows "check_timestamp max_skew now (Some s) = None \<longleftrightarrow> \<bar>now - ts\<bar> \<le> of_int max_skew"
  using assms by (auto simp: check_timestamp_def exceeds_def skew_def)

lemma str_or_request_key:
  "str_or n i = Some k \<Longrightarrow> k \<noteq> [] \<Longrightarrow> request_key n i = Some k"
  by (cases k) (simp_all add: request_key_def)

lemma request_key_Some:
  "request_key n i = Some k \<longleftrightarrow> str_or n i = Some k \<and> k \<noteq> []"
  by (auto simp: request_key_def split: option.splits list.splits)

lemma validate_request_keyed:
  assumes "check_timestamp ms now ts = None" and "request_key n i = Some k"
  shows "validate_request set_nx ms now n i ts st =
    ((if fst (set_nx now k ms st) then (False, 0, []) else (True, 95, [NonceReplayed k])),
     snd (set_nx now k ms st))"
  using assms
  by (auto simp: validate_request_def request_key_Some split: prod.splits bool.splits)

lemma validate_request_stale:
  assumes "check_timestamp ms now ts \<noteq> None"
  shows "is_replay (validate_request set_nx ms now n i ts st)"
    and "snd (validate_request set_nx ms now n i ts st) = st"
proof -
  obtain v where "check_timestamp ms now ts = Some v" using assms by blast
  then show "is_replay (validate_request set_nx ms now n i ts st)"
    and "snd (validate_request set_nx ms now n i ts st) = st"
    using check_timestamp_Some_replay [of ms now ts v]
    by (simp_all add: validate_request_def is_replay_def)
qed

lemma validate_request_unkeyed:
  assumes "request_key n i = None"
  shows "snd (validate_request set_nx ms now n i ts st) = st"
  using assms
  by (auto simp: validate_request_def request_key_def Let_def split: option.splits list.splits)

section \<open>Streams of requests\<close>

context nonce_store
begin

lemma validate_inv:
  "inv st \<Longrightarrow> inv (snd (validate_request set_nx ms now n i ts st))"
  by (cases "check_timestamp ms now ts"; cases "request_key n i")
     (simp_all add: validate_request_keyed set_nx_inv validate_request_unkeyed
        validate_request_stale)

lemma validate_keeps_live:
  assumes "inv st" and "live st k t" and "now \<le> t"
  shows "live (snd (validate_request set_nx ms now n i ts st)) k t"
  using assms
  by (cases "check_timestamp ms now ts"; cases "request_key n i")
     (simp_all add: validate_request_keyed live_preserved validate_request_unkeyed
        validate_request_stale)

lemma guard_run_keeps_live:
  assumes "inv st" and "live st k t" and "\<forall>q \<in> set qs. rq_time q \<le> t"
  shows "inv (guard_run set_nx ms qs st) \<and> live (guard_run set_nx ms qs st) k t"
  using assms
  by (induction qs arbitrary: st)
     (simp_all add: guard_step_def validate_inv validate_keeps_live)

text \<open>Recording a request's key holds it for the whole skew window.\<close>

lemma accepted_is_live:
  assumes "inv st" and "request_key n i = Some k"
    and "\<not> is_replay (validate_request set_nx ms now n i ts st)"
    and "t \<le> now + of_int ms"
  shows "live (snd (validate_request set_nx ms now n i ts st)) k t"
proof -
  have fresh: "check_timestamp ms now ts = None"
    using assms(3) validate_request_stale(1) by fastforce
  with assms(2,3) have "fst (set_nx now k ms st)"
    by (simp add: validate_request_keyed is_replay_def split: if_splits)
  then have "\<not> live st k now" using assms(1) by (simp add: set_nx_result)
  then show ?thesis
    using fresh assms by (simp add: validate_request_keyed set_nx_live)
qed

text \<open>
  No second acceptance inside the window: once a key is accepted at \<open>t1\<close>, a request with
  the same key at any \<open>t2 \<le> t1 + max_skew\<close> is a replay, whatever came in between.
\<close>

lemma no_second_acceptance:
  assumes inv: "inv st"
    and key: "request_key n i = Some k"
    and acc: "\<not> is_replay (validate_request set_nx ms t1 n i ts st)"
    and st1: "st1 = snd (validate_request set_nx ms t1 n i ts st)"
    and between: "\<forall>q \<in> set qs. rq_time q \<le> t2"
    and t2: "t2 \<le> t1 + of_int ms"
    and key': "request_key n' i' = Some k"
  shows "is_replay (validate_request set_nx ms t2 n' i' ts' (guard_run set_nx ms qs st1))"
proof (cases "check_timestamp ms t2 ts'")
  case None
  let ?st2 = "guard_run set_nx ms qs st1"
  have "live st1 k t2" using accepted_is_live [OF inv key acc t2] st1 by simp
  moreover have "inv st1" using inv st1 by (simp add: validate_inv)
  ultimately have "inv ?st2 \<and> live ?st2 k t2" using between by (intro guard_run_keeps_live)
  then show ?thesis
    using None key' by (simp add: validate_request_keyed is_replay_def set_nx_result)
next
  case (Some v)
  then show ?thesis by (simp add: validate_request_stale)
qed

text \<open>
  With a signed timestamp that is not ahead of the clock, the nonce outlives the
  timestamp: the same message is never accepted again, at any later time.
\<close>

lemma never_accepted_again:
  assumes inv: "inv st"
    and key: "request_key n i = Some k"
    and acc: "\<not> is_replay (validate_request set_nx ms t1 n i (Some s) st)"
    and ts: "parse_float s = Some (FNum ts)" "s \<noteq> []" and past: "ts \<le> t1"
    and st1: "st1 = snd (validate_request set_nx ms t1 n i (Some s) st)"
    and order: "\<forall>q \<in> set qs. rq_time q \<le> t2" "t1 \<le> t2"
  shows "is_replay (validate_request set_nx ms t2 n i (Some s) (guard_run set_nx ms qs st1))"
proof (cases "t2 \<le> t1 + of_int ms")
  case True
  show ?thesis
    by (rule no_second_acceptance [OF inv key acc st1 order(1) True key])
next
  case False
  with past order have "of_int ms < \<bar>t2 - ts\<bar>" by linarith
  then have "check_timestamp ms t2 (Some s) \<noteq> None"
    using fresh_finite_timestamp [OF ts, of ms t2] by linarith
  then show ?thesis by (rule validate_request_stale)
qed

end


section \<open>The guard over the standalone store\<close>

abbreviation standalone_validate ::
  "time \<Rightarrow> string option \<Rightarrow> string option \<Rightarrow> string option \<Rightarrow> (unit, 'v) dist_store
     \<Rightarrow> replay_verdict \<times> (unit, 'v) dist_store" where
  "standalone_validate \<equiv> validate_request (set_nonce_nx no_redis) 300"

abbreviation standalone_run ::
  "replay_req list \<Rightarrow> (unit, 'v) dist_store \<Rightarrow> (unit, 'v) dist_store" where
  "standalone_run \<equiv> guard_run (set_nonce_nx no_redis) 300"

text \<open>
  A message that carries a nonce (or an idempotency key) and a time stamp that is
  not ahead of the gateway's clock is accepted at most once: after its acceptance, the same
  message is rejected at every later time, whatever requests come in between.\<close>

theorem replay_never_accepted_twice:
  assumes "standalone st"
    and "request_key n i = Some k"
    and "\<not> is_replay (standalone_validate t1 n i (Some s) st)"
    and "parse_float s = Some (FNum ts)" and "ts \<le> t1"
    and "\<forall>q \<in> set qs. rq_time q \<le> t2" and "t1 \<le> t2"
  shows "is_replay (standalone_validate t2 n i (Some s)
           (standalone_run qs (snd (standalone_validate t1 n i (Some s) st))))"
proof -
  have "s \<noteq> []" using assms(4) by (auto simp: parse_float_def split_sign_def strip_def
        parse_udecimal_def lower_def)
  then show ?thesis
    using assms by (intro standalone_nonces.never_accepted_again [where ts = ts and ?t1.0 = t1]) auto
qed

text \<open>
  Within the skew window of an accepted request no other request with the same key
  is accepted, with or without a time stamp.\<close>

theorem nonce_single_use_in_window:
  assumes "standalone st"
    and "request_key n i = Some k" and "request_key n' i' = Some k"
    and "\<not> is_replay (standalone_validate t1 n i ts st)"
    and "\<forall>q \<in> set qs. rq_time q \<le> t2" and "t2 \<le> t1 + 300"
  shows "is_replay (standalone_validate t2 n' i' ts'
           (standalone_run qs (snd (standalone_validate t1 n i ts st))))"
  using assms by (intro standalone_nonces.no_second_acceptance [where ?t1.0 = t1 and n = n and i = i
        and ts = ts and st = st]) auto

text \<open>
  The bound of the first property is sharp.  A message stamped ahead of the clock,
  which the freshness check allows up to 300 seconds, is accepted a second time once its
  nonce has expired: the nonce is kept for 300 seconds, the stamp is fresh for 300 seconds
  on either side.\<close>

theorem future_stamp_replayed:
  assumes "standalone st"
    and "request_key n i = Some k" and "\<not> mem_nonce_live (fallback st) k t1"
    and "parse_float s = Some (FNum ts)" and "s \<noteq> []"
    and "t1 < ts" and "ts \<le> t1 + 300" and "t1 + 300 < t2" and "t2 \<le> ts + 300"
  shows "\<not> is_replay (standalone_validate t1 n i (Some s) st)
       \<and> \<not> is_replay (standalone_validate t2 n i (Some s)
             (snd (standalone_validate t1 n i (Some s) st)))"
proof -
  have "\<bar>t1 - ts\<bar> \<le> 300" and "\<bar>t2 - ts\<bar> \<le> 300" using assms(6-9) by linarith+
  then have fresh: "check_timestamp 300 t1 (Some s) = None" "check_timestamp 300 t2 (Some s) = None"
    using fresh_finite_timestamp [OF assms(4,5), of 300] by simp_all
  show ?thesis
    using assms(1-3,8) fresh
    by (simp add: validate_request_keyed is_replay_def set_nonce_nx_standalone
        mem_set_nonce_nx_result mem_set_nonce_nx_live)
qed

text \<open>A header that reads as not-a-number passes the freshness check at every time.\<close>

lemma nan_timestamp_is_fresh:
  "parse_float s = Some FNaN \<Longrightarrow> check_timestamp ms now (Some s) = None"
  by (simp add: check_timestamp_def skew_def exceeds_def)

definition demo_store :: "(unit, unit) dist_store" where
  "demo_store = dist_init None"

lemma demo_store_facts [simp]:
  "standalone demo_store" "mem_nonce_live (fallback demo_store) k t = False"
  by (simp_all add: demo_store_def standalone_def dist_init_def mem_init_def mem_nonce_live_def)

lemma parse_1000: "parse_float ''1000'' = Some (FNum 1000)"
  by code_simp

lemma demo_accepts:
  "\<not> is_replay (standalone_validate 1000 (Some ''n1'') None (Some ''1000'') demo_store)"
  using parse_1000
  by (simp add: validate_request_keyed [where k = "''n1''"] request_key_def str_or_def
      check_timestamp_def skew_def exceeds_def is_replay_def set_nonce_nx_standalone
      mem_set_nonce_nx_result)

theorem replay_never_accepted_twice_witness:
  "is_replay (standalone_validate 5000 (Some ''n1'') None (Some ''1000'')
     (standalone_run [] (snd (standalone_validate 1000 (Some ''n1'') None (Some ''1000'') demo_store))))"
  by (rule replay_never_accepted_twice [where k = "''n1''" and ts = 1000])
     (simp_all add: demo_accepts parse_1000, simp_all add: request_key_def str_or_def)

theorem nonce_single_use_in_window_witness:
  "is_replay (standalone_validate 1300 None (Some ''n1'') None
     (standalone_run [] (snd (standalone_validate 1000 (Some ''n1'') None (Some ''1000'') demo_store))))"
  by (rule nonce_single_use_in_window [where k = "''n1''"])
     (simp_all add: demo_accepts, simp_all add: request_key_def str_or_def)

theorem future_stamp_replayed_witness:
  "\<not> is_replay (standalone_validate 700 (Some ''n1'') None (Some ''1000'') demo_store)
   \<and> \<not> is_replay (standalone_validate 1001 (Some ''n1'') None (Some ''1000'')
         (snd (standalone_validate 700 (Some ''n1'') None (Some ''1000'') demo_store)))"
  by (rule future_stamp_replayed [where k = "''n1''" and ts = 1000])
     (simp_all add: parse_1000, simp_all add: request_key_def str_or_def)

end
