(* ===== verification/Rate_Limiter.thy ===== *)
theory Rate_Limiter
  imports Sliding_Window
begin

text \<open>
  \<open>gateway/rate_limiter.py\<close>: the in-memory sliding-window limiter, the Redis counter in
  front of it and the score of a count.

  The Redis pipeline (INCR, EXPIRE, EXEC) is third-party: \<open>rl_incr\<close> of the record
  \<open>rate_api\<close>, which answers \<open>None\<close> where the client library raises.
\<close>

section \<open>InMemoryRateLimiter\<close>

record mem_limiter =
  window_seconds :: time
  records :: "(string, time list) dict"

definition mem_limiter_init :: "time \<Rightarrow> mem_limiter" where
  "mem_limiter_init w = \<lparr>window_seconds = w, records = []\<rparr>"

definition check_and_increment :: "time \<Rightarrow> string \<Rightarrow> mem_limiter \<Rightarrow> nat \<times> mem_limiter" where
  "check_and_increment now key m =
     (let cutoff = now - window_seconds m;
          timestamps = dget_or [] (records m) key;
          kept = filter (\<lambda>t. cutoff < t) timestamps @ [now]
      in (length kept, m\<lparr>records := dput key kept (records m)\<rparr>))"

definition limiter_log :: "mem_limiter \<Rightarrow> string \<Rightarrow> time list" where
  "limiter_log m key = dget_or [] (records m) key"

section \<open>RateLimiter\<close>

record 'r rate_api =
  rl_connect :: "time \<Rightarrow> 'r option"
  rl_incr :: "'r \<Rightarrow> time \<Rightarrow> string \<Rightarrow> (int \<times> 'r) option"

record 'r rate_limiter =
  rl_fallback :: mem_limiter
  rl_client :: "'r option"
  rl_available :: bool
  rl_last_check :: time

definition rate_limiter_init :: "'r rate_limiter" where
  "rate_limiter_init = \<lparr>rl_fallback = mem_limiter_init 60, rl_client = None,
     rl_available = False, rl_last_check = 0\<rparr>"

definition rl_get_redis :: "'r rate_api \<Rightarrow> time \<Rightarrow> 'r rate_limiter \<Rightarrow> 'r option \<times> 'r rate_limiter" where
  "rl_get_redis api now l =
     (if rl_available l \<and> rl_client l \<noteq> None then (rl_client l, l)
      else if \<not> rl_available l \<and> now - rl_last_check l < 300 then (None, l)
      else let l1 = l\<lparr>rl_last_check := now\<rparr> in
        case rl_connect api now of
          Some r \<Rightarrow> (Some r, l1\<lparr>rl_client := Some r, rl_available := True\<rparr>)
        | None \<Rightarrow> (None, l1\<lparr>rl_client := None, rl_available := False\<rparr>))"

definition rate_score :: "int \<Rightarrow> int" where
  "rate_score count =
     (if count \<le> 100 then 0
      else if count \<le> 300 then 25
      else if count \<le> 600 then 50
      else if count \<le> 1000 then 75
      else 100)"

definition rate_key :: "string \<Rightarrow> string" where
  "rate_key key = ''rate:'' @ key"

definition rl_fallback_hit :: "time \<Rightarrow> string \<Rightarrow> 'r rate_limiter \<Rightarrow> int \<times> 'r rate_limiter" where
  "rl_fallback_hit now key l =
     (case check_and_increment now (rate_key key) (rl_fallback l) of
        (n, m) \<Rightarrow> (int n, l\<lparr>rl_fallback := m\<rparr>))"

definition check_rate :: "'r rate_api \<Rightarrow> time \<Rightarrow> string \<Rightarrow> 'r rate_limiter \<Rightarrow> (int \<times> int) \<times> 'r rate_limiter" where
  "check_rate api now key l =
     (case (case rl_get_redis api now l of
              (Some r, l1) \<Rightarrow>
                (case rl_incr api r now (rate_key key) of
                   Some (c, r') \<Rightarrow> (c, l1\<lparr>rl_client := Some r'\<rparr>)
                 | None \<Rightarrow> rl_fallback_hit now key (l1\<lparr>rl_available := False\<rparr>))
            | (None, l1) \<Rightarrow> rl_fallback_hit now key l1) of
        (count, l2) \<Rightarrow> ((count, rate_score count), l2))"

section \<open>The score\<close>

text \<open>
  The rate score is monotone in the request count and takes its value in 0..100;
  it is 0 up to 100 requests and 100 exactly above 1000.\<close>

theorem rate_score_monotone_bounded:
  "(c \<le> c' \<longrightarrow> rate_score c \<le> rate_score c') \<and> 0 \<le> rate_score c \<and> rate_score c \<le> 100
   \<and> (rate_score c = 0 \<longleftrightarrow> c \<le> 100) \<and> (rate_score c = 100 \<longleftrightarrow> 1000 < c)"
  by (auto simp: rate_score_def)

theorem rate_score_monotone_bounded_witness:
  "rate_score 250 \<le> rate_score 601 \<and> rate_score 601 = 75"
  using rate_score_monotone_bounded [of 250 601] by (simp add: rate_score_def)

lemma rate_score_over_50: "50 < rate_score c \<longleftrightarrow> 600 < c"
  by (auto simp: rate_score_def)

section \<open>The fallback limiter counts exactly the window\<close>

definition limiter_hit :: "mem_limiter \<Rightarrow> string \<Rightarrow> time \<Rightarrow> mem_limiter" where
  "limiter_hit m key now = snd (check_and_increment now key m)"

lemma window_limiter_hit [simp]: "window_seconds (limiter_hit m key now) = window_seconds m"
  by (simp add: limiter_hit_def check_and_increment_def Let_def)

lemma limiter_count_eq: "fst (check_and_increment now key m) = length (limiter_log (limiter_hit m key now) key)"
  by (simp add: limiter_hit_def check_and_increment_def limiter_log_def Let_def)

text \<open>The limiter's interface, with the window of one minute the gateway configures.\<close>

definition minute_hit :: "(string, time list) dict \<Rightarrow> string \<Rightarrow> time \<Rightarrow> (string, time list) dict" where
  "minute_hit rs key now = records (limiter_hit \<lparr>window_seconds = 60, records = rs\<rparr> key now)"

interpretation limiter: sliding_log minute_hit "dget_or []" 60
  by unfold_locales
     (simp_all add: minute_hit_def limiter_hit_def check_and_increment_def Let_def)

text \<open>A limiter without Redis: every connection attempt fails.\<close>

definition no_rate_redis :: "unit rate_api" where
  "no_rate_redis = \<lparr>rl_connect = (\<lambda>_. None), rl_incr = (\<lambda>_ _ _. None)\<rparr>"

definition rl_standalone :: "'r rate_limiter \<Rightarrow> bool" where
  "rl_standalone l \<longleftrightarrow> rl_client l = None \<and> \<not> rl_available l \<and> window_seconds (rl_fallback l) = 60"

definition rate_hit :: "unit rate_limiter \<Rightarrow> string \<Rightarrow> time \<Rightarrow> unit rate_limiter" where
  "rate_hit l key now = snd (check_rate no_rate_redis now key l)"

lemma rl_get_redis_standalone:
  assumes "rl_standalone l"
  shows "\<exists>l1. rl_get_redis no_rate_redis now l = (None, l1) \<and> rl_standalone l1
            \<and> rl_fallback l1 = rl_fallback l"
  using assms by (auto simp: rl_get_redis_def rl_standalone_def no_rate_redis_def)

lemma check_rate_standalone:
  assumes "rl_standalone l"
  shows "records (rl_fallback (rate_hit l key now)) = minute_hit (records (rl_fallback l)) (rate_key key) now"
    and "rl_standalone (rate_hit l key now)"
    and "fst (fst (check_rate no_rate_redis now key l))
           = int (length (dget_or [] (minute_hit (records (rl_fallback l)) (rate_key key) now) (rate_key key)))"
    and "snd (fst (check_rate no_rate_redis now key l))
           = rate_score (fst (fst (check_rate no_rate_redis now key l)))"
proof -
  obtain l1 where l1: "rl_get_redis no_rate_redis now l = (None, l1)" "rl_standalone l1"
    "rl_fallback l1 = rl_fallback l"
    using rl_get_redis_standalone [OF assms] by blast
  have w: "window_seconds (rl_fallback l) = 60" using assms by (simp add: rl_standalone_def)
  show "records (rl_fallback (rate_hit l key now)) = minute_hit (records (rl_fallback l)) (rate_key key) now"
    and "rl_standalone (rate_hit l key now)"
    and "fst (fst (check_rate no_rate_redis now key l))
           = int (length (dget_or [] (minute_hit (records (rl_fallback l)) (rate_key key) now) (rate_key key)))"
    and "snd (fst (check_rate no_rate_redis now key l))
           = rate_score (fst (fst (check_rate no_rate_redis now key l)))"
    using l1 w
    by (simp_all add: rate_hit_def check_rate_def rl_fallback_hit_def check_and_increment_def
        minute_hit_def limiter_hit_def rl_standalone_def Let_def)
qed

lemma rate_run_standalone:
  assumes "rl_standalone l"
  shows "rl_standalone (run_hits rate_hit l hs)
       \<and> records (rl_fallback (run_hits rate_hit l hs))
           = run_hits minute_hit (records (rl_fallback l)) (map (\<lambda>(k, t). (rate_key k, t)) hs)"
  using assms
  by (induction hs rule: rev_induct) (auto simp: check_rate_standalone)

lemma hit_times_rate_key [simp]:
  "hit_times (rate_key k) (map (\<lambda>(k, t). (rate_key k, t)) hs) = hit_times k hs"
  by (induction hs) (auto simp: hit_times_def rate_key_def)



section \<open>The Redis counter is not a sliding window\<close>

text \<open>
  Documented behaviour of the two commands of the pipeline: INCR adds one to the counter of
  a key that has not expired and starts an expired or missing one at 1; EXPIRE sets its
  expiry to 60 seconds from now.
\<close>

definition redis_counter_spec :: "('r \<Rightarrow> string \<Rightarrow> (int \<times> time) option) \<Rightarrow> 'r rate_api \<Rightarrow> bool" where
  "redis_counter_spec view api \<longleftrightarrow>
     (\<forall>r now k. \<exists>c r'. rl_incr api r now k = Some (c, r')
        \<and> c = (case view r k of Some (c0, e) \<Rightarrow> if now < e then c0 + 1 else 1 | None \<Rightarrow> 1)
        \<and> view r' k = Some (c, now + 60))"

definition rl_connected :: "'r rate_limiter \<Rightarrow> bool" where
  "rl_connected l \<longleftrightarrow> rl_available l \<and> rl_client l \<noteq> None"

fun steady_counts :: "'r rate_api \<Rightarrow> string \<Rightarrow> time \<Rightarrow> time \<Rightarrow> nat \<Rightarrow> 'r rate_limiter \<Rightarrow> 'r rate_limiter" where
  "steady_counts api key t gap 0 l = l"
| "steady_counts api key t gap (Suc n) l =
     steady_counts api key (t + gap) gap n (snd (check_rate api t key l))"

lemma steady_count_step:
  assumes "redis_counter_spec view api" and "rl_connected l"
  shows "\<exists>c r'. fst (fst (check_rate api now key l)) = c \<and> rl_connected (snd (check_rate api now key l))
      \<and> rl_client (snd (check_rate api now key l)) = Some r'
      \<and> c = (case view (the (rl_client l)) (rate_key key) of
               Some (c0, e) \<Rightarrow> if now < e then c0 + 1 else 1 | None \<Rightarrow> 1)
      \<and> view r' (rate_key key) = Some (c, now + 60)"
proof -
  from assms(2) obtain r where r: "rl_client l = Some r" "rl_available l"
    by (auto simp: rl_connected_def)
  from assms(1) obtain c r' where "rl_incr api r now (rate_key key) = Some (c, r')"
    "c = (case view r (rate_key key) of Some (c0, e) \<Rightarrow> if now < e then c0 + 1 else 1 | None \<Rightarrow> 1)"
    "view r' (rate_key key) = Some (c, now + 60)"
    unfolding redis_counter_spec_def by metis
  with r show ?thesis
    by (auto simp: check_rate_def rl_get_redis_def rl_connected_def)
qed

text \<open>
  On the Redis path the counter never falls while requests keep coming: a client
  that sends one request every \<open>gap < 60\<close> seconds is counted once for every request it
  has ever sent, so its \<open>n\<close>-th request reports the count \<open>n\<close>, although fewer than
  \<open>60/gap + 1\<close> of them lie in any minute.\<close>

theorem redis_count_never_resets:
  assumes "redis_counter_spec view api" and "rl_connected l"
    and "view (the (rl_client l)) (rate_key key) = None" and "0 < gap" and "gap < 60"
  shows "fst (fst (check_rate api (t + of_nat n * gap) key (steady_counts api key t gap n l))) = int n + 1"
proof -
  have gen: "rl_connected l \<Longrightarrow> view (the (rl_client l)) (rate_key key) = Some (c, e) \<Longrightarrow> t < e \<Longrightarrow> t + gap < t + 60 \<Longrightarrow>
     fst (fst (check_rate api (t + of_nat n * gap) key (steady_counts api key t gap n l))) = c + int n + 1"
    for l c e t n
  proof (induction n arbitrary: l c e t)
    case 0
    then show ?case using steady_count_step [OF assms(1) 0(1), of t key] by auto
  next
    case (Suc n)
    obtain r' where r': "rl_connected (snd (check_rate api t key l))"
      "rl_client (snd (check_rate api t key l)) = Some r'"
      "view r' (rate_key key) = Some (c + 1, t + 60)"
      using steady_count_step [OF assms(1) Suc.prems(1), of t key] Suc.prems by auto
    have "fst (fst (check_rate api (t + gap + of_nat n * gap) key
        (steady_counts api key (t + gap) gap n (snd (check_rate api t key l))))) = (c + 1) + int n + 1"
      using Suc.IH [of "snd (check_rate api t key l)" "c + 1" "t + 60" "t + gap"] r' assms(5) by simp
    moreover have "t + gap + of_nat n * gap = t + of_nat (Suc n) * gap" by (simp add: algebra_simps)
    ultimately show ?case by simp
  qed
  show ?thesis
  proof (cases n)
    case 0
    then show ?thesis using steady_count_step [OF assms(1,2), of t key] assms(3) by auto
  next
    case (Suc m)
    obtain r' where r': "rl_connected (snd (check_rate api t key l))"
      "rl_client (snd (check_rate api t key l)) = Some r'"
      "view r' (rate_key key) = Some (1, t + 60)"
      using steady_count_step [OF assms(1,2), of t key] assms(3) by auto
    have "fst (fst (check_rate api (t + gap + of_nat m * gap) key
        (steady_counts api key (t + gap) gap m (snd (check_rate api t key l))))) = 1 + int m + 1"
      using gen [of "snd (check_rate api t key l)" 1 "t + 60" "t + gap" m] r' assms(5) by simp
    moreover have "t + gap + of_nat m * gap = t + of_nat n * gap" using Suc by (simp add: algebra_simps)
    ultimately show ?thesis using Suc by simp
  qed
qed

text \<open>A concrete counter server that meets the documented behaviour.\<close>

type_synonym counter_server = "(string, int \<times> time) dict"

definition counter_api :: "counter_server rate_api" where
  "counter_api = \<lparr>rl_connect = (\<lambda>_. Some []),
     rl_incr = (\<lambda>r now k.
       let c = (case dget r k of Some (c0, e) \<Rightarrow> if now < e then c0 + 1 else 1 | None \<Rightarrow> 1)
       in Some (c, dput k (c, now + 60) r))\<rparr>"

lemma counter_api_spec: "redis_counter_spec dget counter_api"
  by (auto simp: redis_counter_spec_def counter_api_def Let_def split: option.splits)

theorem redis_count_never_resets_witness:
  "fst (fst (check_rate counter_api (0 + of_nat 2000 * 30) ''10.0.0.1''
     (steady_counts counter_api ''10.0.0.1'' 0 30 2000
        (rate_limiter_init\<lparr>rl_client := Some [], rl_available := True\<rparr>)))) = int 2000 + 1"
  by (rule redis_count_never_resets [OF counter_api_spec]) (simp_all add: rl_connected_def)

end
