(* ===== verification/Credential_Defense.thy ===== *)
theory Credential_Defense
  imports Prelude
begin

text \<open>
  \<open>gateway/credential_defense.py\<close>: failed logins per client address and per user name, in
  a window, and the lockout verdict computed from them.
\<close>

record credential_defense =
  failure_threshold :: nat
  cd_window :: time
  ip_failures :: "(string, time list) dict"
  user_failures :: "(string, time list) dict"

definition credential_defense_init :: credential_defense where
  "credential_defense_init =
     \<lparr>failure_threshold = 5, cd_window = 300, ip_failures = [], user_failures = []\<rparr>"

datatype cred_reason = BruteForceIp nat string | AccountTargeted nat string

definition record_failure :: "time \<Rightarrow> string \<Rightarrow> string \<Rightarrow> credential_defense \<Rightarrow> credential_defense" where
  "record_failure now ip user c =
     (let c1 = c\<lparr>ip_failures := dput ip (dget_or [] (ip_failures c) ip @ [now]) (ip_failures c)\<rparr>
      in if user \<noteq> []
         then c1\<lparr>user_failures := dput user (dget_or [] (user_failures c1) user @ [now]) (user_failures c1)\<rparr>
         else c1)"

definition recent :: "time \<Rightarrow> time list \<Rightarrow> time list" where
  "recent cutoff ts = filter (\<lambda>t. cutoff < t) ts"

definition check_status ::
  "time \<Rightarrow> string \<Rightarrow> string \<Rightarrow> credential_defense \<Rightarrow> (bool \<times> int \<times> cred_reason list) \<times> credential_defense" where
  "check_status now ip user c =
     (let cutoff = now - cd_window c;
          ip_times = recent cutoff (dget_or [] (ip_failures c) ip);
          c1 = c\<lparr>ip_failures := dput ip ip_times (ip_failures c)\<rparr>;
          user_times = (if user \<noteq> [] then recent cutoff (dget_or [] (user_failures c) user) else []);
          c2 = (if user \<noteq> [] then c1\<lparr>user_failures := dput user user_times (user_failures c1)\<rparr> else c1);
          ip_count = length ip_times;
          user_count = length user_times;
          by_ip = failure_threshold c \<le> ip_count;
          by_user = failure_threshold c \<le> user_count;
          threat = (if by_user then max (if by_ip then max 0 95 else 0) 95
                    else if by_ip then max 0 95 else 0);
          reasons = (if by_ip then [BruteForceIp ip_count ip] else [])
                    @ (if by_user then [AccountTargeted user_count user] else [])
      in ((90 \<le> threat, threat, reasons), c2))"

definition cd_reset :: "string \<Rightarrow> string \<Rightarrow> credential_defense \<Rightarrow> credential_defense" where
  "cd_reset ip user c =
     (let c1 = (if ip \<noteq> [] then c\<lparr>ip_failures := ddel ip (ip_failures c)\<rparr> else c);
          c2 = (if user \<noteq> [] then c1\<lparr>user_failures := ddel user (user_failures c1)\<rparr> else c1)
      in if ip = [] \<and> user = [] then c2\<lparr>ip_failures := [], user_failures := []\<rparr> else c2)"

section \<open>Runs: failures and checks of a client\<close>

datatype cd_event = Failure time string string | Check time string string | Reset string string

fun cd_step :: "cd_event \<Rightarrow> credential_defense \<Rightarrow> credential_defense" where
  "cd_step (Failure t ip u) c = record_failure t ip u c"
| "cd_step (Check t ip u) c = snd (check_status t ip u c)"
| "cd_step (Reset ip u) c = cd_reset ip u c"

definition cd_run :: "cd_event list \<Rightarrow> credential_defense \<Rightarrow> credential_defense" where
  "cd_run es c = fold cd_step es c"

fun ev_time :: "cd_event \<Rightarrow> time \<Rightarrow> bool" where
  "ev_time (Failure t _ _) b = (t \<le> b)"
| "ev_time (Check t _ _) b = (t \<le> b)"
| "ev_time (Reset _ _) b = True"

definition no_resets :: "cd_event list \<Rightarrow> bool" where
  "no_resets es = (\<forall>e \<in> set es. case e of Reset _ _ \<Rightarrow> False | _ \<Rightarrow> True)"

definition failures_of :: "string \<Rightarrow> cd_event list \<Rightarrow> time list" where
  "failures_of ip es = concat (map (\<lambda>e. case e of Failure t i _ \<Rightarrow> if i = ip then [t] else [] | _ \<Rightarrow> []) es)"

lemma cd_frame [frame]:
  "failure_threshold (cd_step e c) = failure_threshold c"
  "cd_window (cd_step e c) = cd_window c"
  by (cases e; simp add: record_failure_def check_status_def cd_reset_def Let_def)+

lemma cd_run_frame [frame]:
  "failure_threshold (cd_run es c) = failure_threshold c"
  "cd_window (cd_run es c) = cd_window c"
  by (induction es arbitrary: c) (simp_all add: cd_run_def frame)

text \<open>Purging at an earlier instant removes nothing a later check would count.\<close>

lemma recent_recent: "a \<le> b \<Longrightarrow> recent b (recent a ts) = recent b ts"
  by (induction ts) (auto simp: recent_def)

lemma recent_Nil [simp]: "recent a [] = []"
  by (simp add: recent_def)

lemma recent_append [simp]: "recent a (xs @ ys) = recent a xs @ recent a ys"
  by (simp add: recent_def)

lemma cd_step_ip_failures:
  assumes "ev_time e b" and "no_resets [e]"
  shows "recent (b - cd_window c) (dget_or [] (ip_failures (cd_step e c)) ip)
       = recent (b - cd_window c) (dget_or [] (ip_failures c) ip @ failures_of ip [e])"
  using assms
  by (cases e)
     (auto simp: no_resets_def failures_of_def record_failure_def check_status_def Let_def recent_recent)

lemma cd_run_ip_failures:
  assumes "\<forall>e \<in> set es. ev_time e b" and "no_resets es"
  shows "recent (b - cd_window c) (dget_or [] (ip_failures (cd_run es c)) ip)
       = recent (b - cd_window c) (dget_or [] (ip_failures c) ip @ failures_of ip es)"
  using assms
proof (induction es arbitrary: c)
  case Nil
  then show ?case by (simp add: cd_run_def failures_of_def)
next
  case (Cons e es)
  have step: "recent (b - cd_window c) (dget_or [] (ip_failures (cd_step e c)) ip)
       = recent (b - cd_window c) (dget_or [] (ip_failures c) ip @ failures_of ip [e])"
    using Cons.prems by (intro cd_step_ip_failures) (auto simp: no_resets_def)
  have "recent (b - cd_window (cd_step e c)) (dget_or [] (ip_failures (cd_run es (cd_step e c))) ip)
      = recent (b - cd_window (cd_step e c)) (dget_or [] (ip_failures (cd_step e c)) ip @ failures_of ip es)"
    using Cons.prems by (intro Cons.IH) (auto simp: no_resets_def)
  then show ?case
    using step by (simp add: cd_run_def frame failures_of_def)
qed

lemma check_status_ip_only:
  "check_status now ip [] c =
    (let n = length (recent (now - cd_window c) (dget_or [] (ip_failures c) ip));
         hit = failure_threshold c \<le> n; hit0 = failure_threshold c = 0
     in ((hit \<or> hit0, if hit \<or> hit0 then 95 else 0,
          (if hit then [BruteForceIp n ip] else []) @ (if hit0 then [AccountTargeted 0 []] else [])),
         c\<lparr>ip_failures := dput ip (recent (now - cd_window c) (dget_or [] (ip_failures c) ip)) (ip_failures c)\<rparr>))"
  by (simp add: check_status_def Let_def)

text \<open>
  The lockout is exact.  With the gateway's limits, after any interleaving of failed
  logins and status checks of any clients, an address is locked out at \<open>now\<close> exactly if it
  failed at least five times in the last 300 seconds; the threat score is then 95, and 0
  otherwise.\<close>

theorem lockout_iff_five_recent_failures:
  assumes "\<forall>e \<in> set es. ev_time e now" and "no_resets es"
  shows "(let v = fst (check_status now ip [] (cd_run es credential_defense_init));
              locked = (5 \<le> length (filter (\<lambda>t. now - 300 < t) (failures_of ip es)))
          in fst v = locked \<and> fst (snd v) = (if locked then 95 else 0))"
proof -
  have "recent (now - 300) (dget_or [] (ip_failures (cd_run es credential_defense_init)) ip)
      = filter (\<lambda>t. now - 300 < t) (failures_of ip es)"
    using cd_run_ip_failures [OF assms, of credential_defense_init ip]
    by (simp add: credential_defense_init_def recent_def)
  moreover have "cd_window (cd_run es credential_defense_init) = 300"
    "failure_threshold (cd_run es credential_defense_init) = 5"
    by (simp_all add: frame credential_defense_init_def)
  ultimately show ?thesis by (simp add: check_status_ip_only Let_def)
qed

theorem lockout_iff_five_recent_failures_witness:
  "fst (fst (check_status 100 ''1.2.3.4'' [] (cd_run
     [Failure 10 ''1.2.3.4'' ''u'', Failure 20 ''1.2.3.4'' ''v'', Check 25 ''1.2.3.4'' [],
      Failure 30 ''1.2.3.4'' [], Failure 40 ''1.2.3.4'' [], Failure 50 ''1.2.3.4'' ''u'']
     credential_defense_init)))"
  using lockout_iff_five_recent_failures [of
     "[Failure 10 ''1.2.3.4'' ''u'', Failure 20 ''1.2.3.4'' ''v'', Check 25 ''1.2.3.4'' [],
      Failure 30 ''1.2.3.4'' [], Failure 40 ''1.2.3.4'' [], Failure 50 ''1.2.3.4'' ''u'']" 100 "''1.2.3.4''"]
  by (simp add: no_resets_def failures_of_def Let_def)

text \<open>
  The user-name dimension is recorded but takes no part in the check the gateway
  makes: \<open>check_status\<close> without a user name never reads it, so failures spread over many
  addresses against one account never lock anything.\<close>

theorem user_dimension_not_consulted:
  "fst (check_status now ip [] (c\<lparr>user_failures := uf\<rparr>)) = fst (check_status now ip [] c)"
  by (simp add: check_status_def Let_def)

end
