(* ===== verification/Risk_Engine.thy ===== *)
theory Risk_Engine
  imports Prelude
begin

text \<open>
  \<open>gateway/risk_engine.py\<close>: the bounded risk score and the decision it maps to.  Scores are
  exact rationals; the reasons a caller passes are carried through unchanged (type \<open>'r\<close>).
\<close>

datatype decision = ALLOW | LIMIT | CHALLENGE | BLOCK

text \<open>Decisions are ordered by strictness.\<close>

fun strictness :: "decision \<Rightarrow> nat" where
  "strictness ALLOW = 0"
| "strictness LIMIT = 1"
| "strictness CHALLENGE = 2"
| "strictness BLOCK = 3"

lemma strictness_inj: "strictness a = strictness b \<Longrightarrow> a = b"
  by (cases a; cases b) simp_all

instantiation decision :: linorder
begin

definition less_eq_decision :: "decision \<Rightarrow> decision \<Rightarrow> bool" where
  "a \<le> b \<longleftrightarrow> strictness a \<le> strictness b"

definition less_decision :: "decision \<Rightarrow> decision \<Rightarrow> bool" where
  "a < b \<longleftrightarrow> strictness a < strictness b"

instance
  by standard (auto simp: less_eq_decision_def less_decision_def intro: strictness_inj)

end

definition endpoint_sensitivity_table :: "(string, pyfloat) dict" where
  "endpoint_sensitivity_table =
     [(''/health'', 0), (''/api/auth/login'', 9/10), (''/api/orders'', 8/10),
      (''/api/users'', 85/100), (''/api/inventory'', 5/10)]"

fun sensitivity_lookup :: "(string, pyfloat) dict \<Rightarrow> string \<Rightarrow> pyfloat" where
  "sensitivity_lookup [] path = 5/10"
| "sensitivity_lookup ((p, s) # rest) path =
     (if path = p \<or> startswith path (p @ ''/'') then s else sensitivity_lookup rest path)"

definition get_endpoint_sensitivity :: "string \<Rightarrow> pyfloat" where
  "get_endpoint_sensitivity path = sensitivity_lookup endpoint_sensitivity_table path"

record risk_in =
  waf_severity :: pyfloat
  auth_anomaly :: pyfloat
  rate_severity :: pyfloat
  risk_path :: string
  user_trust :: pyfloat
  contextual_risk :: pyfloat
  rule_severity :: pyfloat
  anomaly_score :: pyfloat

record risk_components =
  c_threat :: pyfloat
  c_sensitivity :: pyfloat
  c_user_trust :: pyfloat
  c_context :: pyfloat
  c_waf_severity :: pyfloat
  c_rule_severity :: pyfloat
  c_anomaly_score :: pyfloat
  c_auth_anomaly :: pyfloat
  c_rate_severity :: pyfloat

record 'r risk_score =
  overall :: pyfloat
  components :: risk_components
  rs_reasons :: "'r list"
  rs_decision :: decision

definition threat_score :: "risk_in \<Rightarrow> pyfloat" where
  "threat_score i =
     (let raw = (waf_severity i + auth_anomaly i + rate_severity i + rule_severity i) / 4;
          t = (if 90 \<le> waf_severity i then max (waf_severity i) raw
               else if 80 \<le> rule_severity i then max (rule_severity i) raw
               else if 90 \<le> auth_anomaly i then max (auth_anomaly i) raw
               else min 100 (max raw (rule_severity i * (1/2))))
      in max 0 (min 100 t))"

definition sensitivity_score :: "risk_in \<Rightarrow> pyfloat" where
  "sensitivity_score i = max 0 (min 100 (get_endpoint_sensitivity (risk_path i) * 100))"

definition user_trust_score :: "risk_in \<Rightarrow> pyfloat" where
  "user_trust_score i = max 0 (min 100 (user_trust i * 100))"

definition context_score :: "risk_in \<Rightarrow> pyfloat" where
  "context_score i = max 0 (min 100 (max (contextual_risk i * 100) (anomaly_score i)))"

definition weighted :: "risk_in \<Rightarrow> pyfloat" where
  "weighted i = threat_score i * (40/100) + sensitivity_score i * (25/100)
     + (100 - user_trust_score i) * (20/100) + context_score i * (15/100)"

definition hard_bounds :: "risk_in \<Rightarrow> pyfloat \<Rightarrow> pyfloat" where
  "hard_bounds i x =
     (if 80 \<le> waf_severity i \<or> 80 \<le> rule_severity i then max x 85
      else if 60 \<le> rule_severity i then max x 65
      else if 80 \<le> auth_anomaly i \<and> startswith (risk_path i) ''/api/''
              \<and> risk_path i \<noteq> ''/api/auth/login'' then
        (if waf_severity i < 75 \<and> rule_severity i < 75 then min 74 (max x 60) else max x 85)
      else x)"

definition decide :: "pyfloat \<Rightarrow> decision" where
  "decide x = (if x \<le> 20 then ALLOW else if x \<le> 50 then LIMIT else if x \<le> 75 then CHALLENGE else BLOCK)"

definition overall_score :: "risk_in \<Rightarrow> pyfloat" where
  "overall_score i = max 0 (min 100 (py_round 2 (hard_bounds i (weighted i))))"

definition calculate_risk :: "risk_in \<Rightarrow> 'r list \<Rightarrow> 'r risk_score" where
  "calculate_risk i extra_reasons =
     \<lparr>overall = overall_score i,
      components = \<lparr>c_threat = py_round 2 (threat_score i),
        c_sensitivity = py_round 2 (sensitivity_score i),
        c_user_trust = py_round 2 (user_trust_score i),
        c_context = py_round 2 (context_score i),
        c_waf_severity = waf_severity i, c_rule_severity = rule_severity i,
        c_anomaly_score = py_round 2 (anomaly_score i),
        c_auth_anomaly = auth_anomaly i, c_rate_severity = rate_severity i\<rparr>,
      rs_reasons = extra_reasons,
      rs_decision = decide (overall_score i)\<rparr>"

text \<open>The call's default arguments.\<close>

definition risk_defaults :: risk_in where
  "risk_defaults = \<lparr>waf_severity = 0, auth_anomaly = 0, rate_severity = 0, risk_path = [],
     user_trust = 1, contextual_risk = 0, rule_severity = 0, anomaly_score = 0\<rparr>"

section \<open>Lemmas\<close>

lemma calculate_risk_sel [simp]:
  "overall (calculate_risk i rs) = overall_score i"
  "rs_decision (calculate_risk i rs) = decide (overall_score i)"
  "rs_reasons (calculate_risk i rs) = rs"
  by (simp_all add: calculate_risk_def)

lemma decide_BLOCK_iff: "decide x = BLOCK \<longleftrightarrow> 75 < x"
  and decide_CHALLENGE_iff: "decide x = CHALLENGE \<longleftrightarrow> 50 < x \<and> x \<le> 75"
  and decide_LIMIT_iff: "decide x = LIMIT \<longleftrightarrow> 20 < x \<and> x \<le> 50"
  and decide_ALLOW_iff: "decide x = ALLOW \<longleftrightarrow> x \<le> 20"
  by (auto simp: decide_def)

lemmas decide_iffs = decide_BLOCK_iff decide_CHALLENGE_iff decide_LIMIT_iff decide_ALLOW_iff

lemma component_bounds:
  "0 \<le> threat_score i" "threat_score i \<le> 100"
  "0 \<le> sensitivity_score i" "sensitivity_score i \<le> 100"
  "0 \<le> user_trust_score i" "user_trust_score i \<le> 100"
  "0 \<le> context_score i" "context_score i \<le> 100"
  by (simp_all add: threat_score_def sensitivity_score_def user_trust_score_def
      context_score_def Let_def)

lemma weighted_linear:
  "weighted i = threat_score i * (2/5) + sensitivity_score i * (1/4) + 20
     - user_trust_score i * (1/5) + context_score i * (3/20)"
  by (simp add: weighted_def algebra_simps)

lemma weighted_nonneg: "0 \<le> weighted i"
  using component_bounds [of i] unfolding weighted_linear by linarith

lemma weighted_le_100: "weighted i \<le> 100"
  using component_bounds [of i] unfolding weighted_linear by linarith

lemmas weighted_bounds = weighted_nonneg weighted_le_100

lemma hard_bounds_bounds:
  "0 \<le> x \<Longrightarrow> x \<le> 100 \<Longrightarrow> 0 \<le> hard_bounds i x \<and> hard_bounds i x \<le> 100"
  by (auto simp: hard_bounds_def)

text \<open>Inside the bounds the final clamp is the identity.\<close>

lemma overall_score_eq: "overall_score i = py_round 2 (hard_bounds i (weighted i))"
proof -
  have "of_int 0 \<le> hard_bounds i (weighted i)" "hard_bounds i (weighted i) \<le> of_int 100"
    using hard_bounds_bounds [OF weighted_bounds [of i]] by simp_all
  then have "of_int 0 \<le> py_round 2 (hard_bounds i (weighted i))
      \<and> py_round 2 (hard_bounds i (weighted i)) \<le> of_int 100"
    by (rule py_round_between_ints)
  then show ?thesis by (simp add: overall_score_def)
qed

lemma overall_ge_int: "of_int k \<le> hard_bounds i (weighted i) \<Longrightarrow> of_int k \<le> overall_score i"
  unfolding overall_score_eq using py_round_mono [of "of_int k" _ 2] by simp

lemma overall_le_int: "hard_bounds i (weighted i) \<le> of_int k \<Longrightarrow> overall_score i \<le> of_int k"
  unfolding overall_score_eq using py_round_mono [of _ "of_int k" 2] by simp

section \<open>Properties\<close>

text \<open>
  The overall score always lies in 0..100, whatever the inputs, and so do the four
  reported component scores.\<close>

theorem risk_bounded:
  "0 \<le> overall (calculate_risk i rs) \<and> overall (calculate_risk i rs) \<le> 100
   \<and> 0 \<le> c_threat (components (calculate_risk i rs)) \<and> c_threat (components (calculate_risk i rs)) \<le> 100
   \<and> 0 \<le> c_context (components (calculate_risk i rs)) \<and> c_context (components (calculate_risk i rs)) \<le> 100
   \<and> rs_reasons (calculate_risk i rs) = rs"
proof -
  have "of_int 0 \<le> py_round 2 (threat_score i) \<and> py_round 2 (threat_score i) \<le> of_int 100"
    and "of_int 0 \<le> py_round 2 (context_score i) \<and> py_round 2 (context_score i) \<le> of_int 100"
    using component_bounds [of i] by (intro py_round_between_ints; simp)+
  then show ?thesis
    by (simp add: calculate_risk_def) (simp add: overall_score_def)
qed

text \<open>
  An attack the WAF or the rules engine rates 80 or more is always blocked, whatever
  the other signals say.\<close>

theorem critical_signal_blocks:
  assumes "80 \<le> waf_severity i \<or> 80 \<le> rule_severity i"
  shows "rs_decision (calculate_risk i rs) = BLOCK \<and> 85 \<le> overall (calculate_risk i rs)"
proof -
  have "of_int 85 \<le> hard_bounds i (weighted i)" using assms by (auto simp: hard_bounds_def)
  then have "85 \<le> overall_score i" using overall_ge_int [of 85] by simp
  then show ?thesis by (simp add: decide_iffs)
qed

theorem critical_signal_blocks_witness:
  "rs_decision (calculate_risk (risk_defaults\<lparr>waf_severity := 95, risk_path := ''/health''\<rparr>) ([] :: unit list)) = BLOCK"
  using critical_signal_blocks [of "risk_defaults\<lparr>waf_severity := 95, risk_path := ''/health''\<rparr>"] by simp

text \<open>
  A rule of severity 60 to 79 is never let through: the request is challenged or
  blocked.\<close>

theorem serious_rule_never_allowed:
  assumes "60 \<le> rule_severity i"
  shows "rs_decision (calculate_risk i rs) \<in> {CHALLENGE, BLOCK}"
proof -
  have "of_int 65 \<le> hard_bounds i (weighted i)" using assms by (auto simp: hard_bounds_def)
  then have "65 \<le> overall_score i" using overall_ge_int [of 65] by simp
  then show ?thesis by (cases "overall_score i \<le> 75") (auto simp: decide_iffs)
qed

theorem serious_rule_never_allowed_witness:
  "rs_decision (calculate_risk (risk_defaults\<lparr>rule_severity := 65\<rparr>) ([] :: unit list)) \<in> {CHALLENGE, BLOCK}"
  using serious_rule_never_allowed [of "risk_defaults\<lparr>rule_severity := 65\<rparr>"]
  by (simp add: risk_defaults_def)

text \<open>
  A pure authentication failure on an API path is a challenge, never a block and
  never allowed.\<close>

theorem auth_failure_challenges:
  assumes "80 \<le> auth_anomaly i" and "waf_severity i < 75" and "rule_severity i < 60"
    and "startswith (risk_path i) ''/api/''" and "risk_path i \<noteq> ''/api/auth/login''"
  shows "rs_decision (calculate_risk i rs) = CHALLENGE"
proof -
  have "of_int 60 \<le> hard_bounds i (weighted i)" "hard_bounds i (weighted i) \<le> of_int 74"
    using assms by (auto simp: hard_bounds_def)
  then have "60 \<le> overall_score i" "overall_score i \<le> 74"
    using overall_ge_int [of 60] overall_le_int [of _ 74] by simp_all
  then show ?thesis by (simp add: decide_iffs)
qed

theorem auth_failure_challenges_witness:
  "rs_decision (calculate_risk (risk_defaults\<lparr>auth_anomaly := 85, risk_path := ''/api/orders'', user_trust := 0\<rparr>)
     ([] :: unit list)) = CHALLENGE"
  using auth_failure_challenges [of "risk_defaults\<lparr>auth_anomaly := 85, risk_path := ''/api/orders'', user_trust := 0\<rparr>"]
  by (simp add: risk_defaults_def startswith_def)


text \<open>
  Monotonicity of the parts of the score in the WAF severity.\<close>

lemma decide_mono: "x \<le> y \<Longrightarrow> decide x \<le> decide y"
  by (auto simp: decide_def less_eq_decision_def)

lemma overall_mono:
  "hard_bounds i (weighted i) \<le> hard_bounds j (weighted j) \<Longrightarrow> overall_score i \<le> overall_score j"
  unfolding overall_score_eq by (rule py_round_mono)

lemma decide_BLOCK_greatest: "d \<le> BLOCK"
  by (cases d) (simp_all add: less_eq_decision_def)

lemma threat_mono_waf:
  assumes "waf_severity i \<le> w" and "w < 80"
  shows "threat_score i \<le> threat_score (i\<lparr>waf_severity := w\<rparr>)"
proof -
  let ?r = "(waf_severity i + auth_anomaly i + rate_severity i + rule_severity i) / 4"
  let ?r' = "(w + auth_anomaly i + rate_severity i + rule_severity i) / 4"
  have r: "?r \<le> ?r'" using assms by simp
  have nw: "\<not> 90 \<le> waf_severity i" "\<not> 90 \<le> w" using assms by auto
  have m1: "max c ?r \<le> max c ?r'" for c by (rule max.mono [OF order_refl r])
  have m2: "min 100 (max ?r c) \<le> min 100 (max ?r' c)" for c
    by (rule min.mono [OF order_refl max.mono [OF r order_refl]])
  have "(if 80 \<le> rule_severity i then max (rule_severity i) ?r
         else if 90 \<le> auth_anomaly i then max (auth_anomaly i) ?r
         else min 100 (max ?r (rule_severity i * (1/2))))
      \<le> (if 80 \<le> rule_severity i then max (rule_severity i) ?r'
         else if 90 \<le> auth_anomaly i then max (auth_anomaly i) ?r'
         else min 100 (max ?r' (rule_severity i * (1/2))))" (is "?t \<le> ?t'")
    by (cases "80 \<le> rule_severity i"; cases "90 \<le> auth_anomaly i")
       (simp_all only: if_True if_False m1 m2 not_True_eq_False not_False_eq_True simp_thms)
  then have "max 0 (min 100 ?t) \<le> max 0 (min 100 ?t')"
    by (rule max.mono [OF order_refl min.mono [OF order_refl]])
  moreover have "threat_score i = max 0 (min 100 ?t)"
    by (simp only: threat_score_def Let_def nw if_False)
  moreover have "threat_score (i\<lparr>waf_severity := w\<rparr>) = max 0 (min 100 ?t')"
    using nw by (simp add: threat_score_def Let_def)
  ultimately show ?thesis by (simp only:)
qed

lemma hard_bounds_mono_waf:
  assumes "waf_severity i \<le> w" and "w < 80" and "x \<le> y"
  shows "hard_bounds i x \<le> hard_bounds (i\<lparr>waf_severity := w\<rparr>) y"
proof -
  have nw: "\<not> 80 \<le> waf_severity i" "\<not> 80 \<le> w" using assms by auto
  have mono: "max x c \<le> max y c" "min 74 (max x c) \<le> min 74 (max y c)" for c
    using assms(3) by (auto intro: max.coboundedI1 min.coboundedI2)
  have low: "min 74 (max x 60) \<le> max y 85" by (auto intro: max.coboundedI2)
  have up: "waf_severity i < 75" if "w < 75" using that assms(1) by simp
  show ?thesis
    using assms(3) nw mono low up by (simp add: hard_bounds_def)
qed

text \<open>Raising the WAF severity never softens the decision.\<close>

theorem decision_monotone_in_waf:
  assumes "waf_severity i \<le> w"
  shows "rs_decision (calculate_risk i rs)
       \<le> rs_decision (calculate_risk (i\<lparr>waf_severity := w\<rparr>) rs)"
proof (cases "80 \<le> w")
  case True
  then have "of_int 85 \<le> hard_bounds (i\<lparr>waf_severity := w\<rparr>) (weighted (i\<lparr>waf_severity := w\<rparr>))"
    by (simp add: hard_bounds_def)
  then have "85 \<le> overall_score (i\<lparr>waf_severity := w\<rparr>)" using overall_ge_int [of 85] by simp
  then have "rs_decision (calculate_risk (i\<lparr>waf_severity := w\<rparr>) rs) = BLOCK"
    by (simp add: decide_iffs)
  then show ?thesis by (simp add: decide_BLOCK_greatest)
next
  case False
  then have w: "w < 80" by simp
  have "weighted i \<le> weighted (i\<lparr>waf_severity := w\<rparr>)"
    using threat_mono_waf [OF assms w]
    by (simp add: weighted_def sensitivity_score_def user_trust_score_def context_score_def)
  then have "overall_score i \<le> overall_score (i\<lparr>waf_severity := w\<rparr>)"
    by (intro overall_mono hard_bounds_mono_waf assms w)
  then show ?thesis by (simp add: decide_mono)
qed

theorem decision_monotone_in_waf_witness:
  "rs_decision (calculate_risk (risk_defaults\<lparr>risk_path := ''/api/users''\<rparr>) ([] :: unit list))
   \<le> rs_decision (calculate_risk (risk_defaults\<lparr>risk_path := ''/api/users'', waf_severity := 79\<rparr>) [])"
  using decision_monotone_in_waf [of "risk_defaults\<lparr>risk_path := ''/api/users''\<rparr>" 79 "[]"]
  by (simp add: risk_defaults_def)

text \<open>
  The same does not hold of the rule severity: on an API path with a WAF severity of
  75 and an authentication anomaly of 80 the request is blocked, and the firing of a rule
  of severity 60 turns the block into a challenge.\<close>

definition combined_attack :: "pyfloat \<Rightarrow> risk_in" where
  "combined_attack r = risk_defaults\<lparr>waf_severity := 75, auth_anomaly := 80,
     risk_path := ''/api/orders'', rule_severity := r\<rparr>"

theorem rule_firing_can_soften:
  "rs_decision (calculate_risk (combined_attack 0) rs) = BLOCK
   \<and> rs_decision (calculate_risk (combined_attack 60) rs) = CHALLENGE"
proof -
  have "of_int 85 \<le> hard_bounds (combined_attack 0) (weighted (combined_attack 0))"
    by (simp add: hard_bounds_def combined_attack_def risk_defaults_def startswith_def)
  then have "85 \<le> overall_score (combined_attack 0)" using overall_ge_int [of 85] by simp
  moreover have "weighted (combined_attack 60) \<le> 65"
    using component_bounds [of "combined_attack 60"]
    by (simp add: weighted_def threat_score_def sensitivity_score_def user_trust_score_def
        context_score_def combined_attack_def risk_defaults_def get_endpoint_sensitivity_def
        endpoint_sensitivity_table_def startswith_def Let_def)
  then have "hard_bounds (combined_attack 60) (weighted (combined_attack 60)) = 65"
    by (simp add: hard_bounds_def combined_attack_def risk_defaults_def)
  then have "overall_score (combined_attack 60) = 65" by (simp add: overall_score_eq)
  ultimately show ?thesis by (simp add: decide_iffs)
qed

end
