(* ===== verification/Circuit_Breaker.thy ===== *)
theory Circuit_Breaker
  imports Prelude
begin

text \<open>
  \<open>gateway/ha_dr.py\<close>: the circuit breaker in front of the upstream ERP, as a state machine
  (one function per method, a step relation over them and its reachable states), and the
  readiness probe.
\<close>

section \<open>CircuitBreaker\<close>

datatype cb_state = CLOSED | OPEN | HALF_OPEN

record breaker =
  cb_failure_threshold :: int
  recovery_timeout :: time
  half_open_success_threshold :: int
  state :: cb_state
  failure_count :: int
  success_count :: int
  last_state_change :: time
  last_failure_time :: time

definition breaker_init :: "int \<Rightarrow> time \<Rightarrow> int \<Rightarrow> time \<Rightarrow> breaker" where
  "breaker_init ft rt hs now = \<lparr>cb_failure_threshold = ft, recovery_timeout = rt,
     half_open_success_threshold = hs, state = CLOSED, failure_count = 0, success_count = 0,
     last_state_change = now, last_failure_time = 0\<rparr>"

definition allow_request :: "time \<Rightarrow> breaker \<Rightarrow> bool \<times> breaker" where
  "allow_request now b =
     (if state b = OPEN then
        (if recovery_timeout b \<le> now - last_state_change b
         then (True, b\<lparr>state := HALF_OPEN, last_state_change := now, success_count := 0\<rparr>)
         else (False, b))
      else (True, b))"

definition record_success :: "time \<Rightarrow> breaker \<Rightarrow> breaker" where
  "record_success now b =
     (if state b = HALF_OPEN then
        (let b1 = b\<lparr>success_count := success_count b + 1\<rparr>
         in if half_open_success_threshold b1 \<le> success_count b1
            then b1\<lparr>state := CLOSED, failure_count := 0, last_state_change := now\<rparr>
            else b1)
      else if state b = CLOSED then b\<lparr>failure_count := 0\<rparr>
      else b)"

definition cb_record_failure :: "time \<Rightarrow> breaker \<Rightarrow> breaker" where
  "cb_record_failure now b =
     (let b1 = b\<lparr>failure_count := failure_count b + 1, last_failure_time := now\<rparr>
      in if state b1 = HALF_OPEN then b1\<lparr>state := OPEN, last_state_change := now\<rparr>
         else if state b1 = CLOSED then
           (if cb_failure_threshold b1 \<le> failure_count b1
            then b1\<lparr>state := OPEN, last_state_change := now\<rparr> else b1)
         else b1)"

record cb_status =
  st_state :: cb_state
  consecutive_failures :: int
  half_open_successes :: int
  last_state_change_epoch :: time
  seconds_in_current_state :: pyfloat

definition cb_get_status :: "time \<Rightarrow> breaker \<Rightarrow> cb_status" where
  "cb_get_status now b = \<lparr>st_state = state b, consecutive_failures = failure_count b,
     half_open_successes = success_count b, last_state_change_epoch = last_state_change b,
     seconds_in_current_state = py_round 2 (now - last_state_change b)\<rparr>"

section \<open>The state machine\<close>

datatype cb_event = Ask time bool | Succeed time | Fail time

inductive cb_step :: "breaker \<Rightarrow> cb_event \<Rightarrow> breaker \<Rightarrow> bool" where
  ask: "allow_request now b = (r, b') \<Longrightarrow> cb_step b (Ask now r) b'"
| succeed: "cb_step b (Succeed now) (record_success now b)"
| fail: "cb_step b (Fail now) (cb_record_failure now b)"

inductive_cases AskE [elim!]: "cb_step b (Ask now r) b'"
inductive_cases SucceedE [elim!]: "cb_step b (Succeed now) b'"
inductive_cases FailE [elim!]: "cb_step b (Fail now) b'"

inductive_simps cb_step_simps: "cb_step b e b'"

code_pred (modes: i \<Rightarrow> i \<Rightarrow> i \<Rightarrow> bool) cb_step .

inductive cb_reachable :: "breaker \<Rightarrow> breaker \<Rightarrow> bool" for b0 where
  start: "cb_reachable b0 b0"
| step: "cb_reachable b0 b \<Longrightarrow> cb_step b e b' \<Longrightarrow> cb_reachable b0 b'"

definition cb_limits :: "breaker \<Rightarrow> int \<times> time \<times> int" where
  "cb_limits b = (cb_failure_threshold b, recovery_timeout b, half_open_success_threshold b)"

definition cb_inv :: "breaker \<Rightarrow> bool" where
  "cb_inv b \<longleftrightarrow> 0 \<le> failure_count b \<and> 0 \<le> success_count b
     \<and> (state b = CLOSED \<longrightarrow> failure_count b < cb_failure_threshold b)
     \<and> (state b = HALF_OPEN \<longrightarrow> success_count b < half_open_success_threshold b)"

lemma cb_step_limits: "cb_step b e b' \<Longrightarrow> cb_limits b' = cb_limits b"
  by (induction rule: cb_step.induct)
     (auto simp: cb_limits_def allow_request_def record_success_def cb_record_failure_def
        Let_def split: if_splits)

lemma cb_step_inv:
  "cb_step b e b' \<Longrightarrow> 0 < cb_failure_threshold b \<Longrightarrow> 0 < half_open_success_threshold b
     \<Longrightarrow> cb_inv b \<Longrightarrow> cb_inv b'"
  by (induction rule: cb_step.induct)
     (auto simp: cb_inv_def allow_request_def record_success_def cb_record_failure_def
        Let_def split: if_splits)

lemma cb_reachable_limits: "cb_reachable b0 b \<Longrightarrow> cb_limits b = cb_limits b0"
  by (induction rule: cb_reachable.induct) (auto dest: cb_step_limits)

text \<open>
  C24: In every reachable state of a breaker with positive limits, a closed breaker has
  counted fewer failures than its threshold and a half-open one fewer successes than its
  threshold; the counters never go negative.\<close>

theorem breaker_invariant:
  assumes "cb_reachable (breaker_init ft rt hs t0) b" and "0 < ft" and "0 < hs"
  shows "cb_inv b"
  using assms
proof (induction rule: cb_reachable.induct)
  case start
  then show ?case by (simp add: cb_inv_def breaker_init_def)
next
  case (step b e b')
  have "cb_limits b = (ft, rt, hs)"
    using cb_reachable_limits [OF step.hyps(1)] by (simp add: cb_limits_def breaker_init_def)
  with step show ?case by (intro cb_step_inv [OF step.hyps(2)]) (auto simp: cb_limits_def)
qed

text \<open>
  The only state changes are: closed to open on a failure that reaches the
  threshold; open to half-open on a request that arrives at least the recovery timeout
  after the breaker opened; half-open to open on any failure; half-open to closed on the
  success that reaches the success threshold.\<close>

theorem breaker_transitions:
  assumes "cb_step b e b'" and "state b' \<noteq> state b"
  shows "(state b = CLOSED \<and> state b' = OPEN \<and> (\<exists>t. e = Fail t)
            \<and> cb_failure_threshold b \<le> failure_count b + 1)
       \<or> (state b = OPEN \<and> state b' = HALF_OPEN
            \<and> (\<exists>t. e = Ask t True \<and> recovery_timeout b \<le> t - last_state_change b))
       \<or> (state b = HALF_OPEN \<and> state b' = OPEN \<and> (\<exists>t. e = Fail t))
       \<or> (state b = HALF_OPEN \<and> state b' = CLOSED \<and> (\<exists>t. e = Succeed t)
            \<and> half_open_success_threshold b \<le> success_count b + 1)"
  using assms(1)
proof cases
  case (ask now r)
  then show ?thesis using assms(2) by (auto simp: allow_request_def split: if_splits)
next
  case (succeed now)
  then show ?thesis
    using assms(2) by (cases "state b") (auto simp: record_success_def Let_def split: if_splits)
next
  case (fail now)
  then show ?thesis
    using assms(2) by (cases "state b") (auto simp: cb_record_failure_def Let_def split: if_splits)
qed

text \<open>
  While the breaker is open and its recovery timeout has not elapsed, every request is
  refused and nothing changes; from the timeout on, the next request is let through as a
  trial.\<close>

theorem open_isolates_upstream:
  assumes "state b = OPEN"
  shows "(t < last_state_change b + recovery_timeout b \<longrightarrow> allow_request t b = (False, b))
       \<and> (last_state_change b + recovery_timeout b \<le> t \<longrightarrow>
            fst (allow_request t b) \<and> state (snd (allow_request t b)) = HALF_OPEN)"
  using assms by (auto simp: allow_request_def)

section \<open>Runs\<close>

fun cb_apply :: "cb_event \<Rightarrow> breaker \<Rightarrow> breaker" where
  "cb_apply (Ask t r) b = snd (allow_request t b)"
| "cb_apply (Succeed t) b = record_success t b"
| "cb_apply (Fail t) b = cb_record_failure t b"

definition cb_run :: "cb_event list \<Rightarrow> breaker \<Rightarrow> breaker" where
  "cb_run es b = fold cb_apply es b"

lemma cb_run_simps [simp]:
  "cb_run [] b = b" "cb_run (e # es) b = cb_run es (cb_apply e b)"
  by (simp_all add: cb_run_def)

definition failures_in_a_row :: "time list \<Rightarrow> cb_event list" where
  "failures_in_a_row ts = map Fail ts"

lemma closed_failures:
  assumes "state b = CLOSED" and "failure_count b + int (length ts) < cb_failure_threshold b"
  shows "state (cb_run (map Fail ts) b) = CLOSED
       \<and> failure_count (cb_run (map Fail ts) b) = failure_count b + int (length ts)
       \<and> cb_limits (cb_run (map Fail ts) b) = cb_limits b"
  using assms
proof (induction ts arbitrary: b)
  case Nil
  then show ?case by simp
next
  case (Cons t ts)
  have "state (cb_record_failure t b) = CLOSED"
    "failure_count (cb_record_failure t b) = failure_count b + 1"
    "cb_limits (cb_record_failure t b) = cb_limits b"
    using Cons.prems by (auto simp: cb_record_failure_def Let_def cb_limits_def)
  then show ?case
    using Cons.IH [of "cb_record_failure t b"] Cons.prems by (auto simp: cb_limits_def)
qed

text \<open>
  The breaker trips exactly at its threshold: after \<open>n\<close> consecutive failures a fresh
  breaker is still closed if \<open>n\<close> is below the threshold, and open once the threshold is
  reached.\<close>

theorem trips_at_threshold:
  assumes "0 < ft"
  shows "(int (length ts) < ft \<longrightarrow> state (cb_run (failures_in_a_row ts) (breaker_init ft rt hs t0)) = CLOSED)
       \<and> (int (length ts) + 1 = ft \<longrightarrow>
            state (cb_run (failures_in_a_row (ts @ [t])) (breaker_init ft rt hs t0)) = OPEN)"
proof -
  let ?b = "breaker_init ft rt hs t0"
  have b: "state ?b = CLOSED" "failure_count ?b = 0" "cb_failure_threshold ?b = ft"
    by (simp_all add: breaker_init_def)
  have app: "cb_run (map Fail (ts @ [t])) ?b = cb_record_failure t (cb_run (map Fail ts) ?b)"
    by (simp add: cb_run_def)
  show ?thesis
    using closed_failures [of ?b ts] b app
    by (auto simp: failures_in_a_row_def cb_record_failure_def Let_def cb_limits_def)
qed

text \<open>
  Towards recovery: in the half-open state the required
  number of successes closes the breaker and clears its failure count.\<close>

lemma half_open_successes_close:
  assumes "state b = HALF_OPEN" and "0 < half_open_success_threshold b - success_count b"
    and "int (length ts) = half_open_success_threshold b - success_count b"
  shows "state (cb_run (map Succeed ts) b) = CLOSED \<and> failure_count (cb_run (map Succeed ts) b) = 0"
  using assms
proof (induction ts arbitrary: b)
  case Nil
  then show ?case by simp
next
  case (Cons t ts)
  show ?case
  proof (cases "half_open_success_threshold b \<le> success_count b + 1")
    case True
    with Cons.prems(3) have "int (length (t # ts)) \<le> 1" by linarith
    then have "ts = []" by simp
    with True Cons.prems show ?thesis by (simp add: record_success_def)
  next
    case False
    then show ?thesis
      using Cons.IH [of "record_success t b"] Cons.prems by (simp add: record_success_def Let_def)
  qed
qed

text \<open>Recovery: once open, a trial request after the timeout followed by the required
  number of successes closes the breaker and clears its failure count.\<close>

theorem breaker_recovers:
  assumes "state b = OPEN" and "recovery_timeout b \<le> t - last_state_change b"
    and "0 < half_open_success_threshold b"
    and "int (length ts) = half_open_success_threshold b"
  shows "state (cb_run (Ask t True # map Succeed ts) b) = CLOSED
       \<and> failure_count (cb_run (Ask t True # map Succeed ts) b) = 0"
  using assms half_open_successes_close [of "snd (allow_request t b)" ts]
  by (simp add: allow_request_def)

text \<open>
  A half-open breaker does not limit the number of trial calls: it lets every request
  through until a verdict arrives.\<close>

theorem half_open_admits_all:
  assumes "state b = HALF_OPEN"
  shows "cb_run (map (\<lambda>t. Ask t True) ts) b = b \<and> fst (allow_request t b)"
  using assms by (induction ts) (simp_all add: allow_request_def)

definition demo_open :: breaker where
  "demo_open = cb_run (map Fail [1, 2, 3, 4, 5]) (breaker_init 5 10 2 0)"

lemma demo_open_eq:
  "demo_open = \<lparr>cb_failure_threshold = 5, recovery_timeout = 10, half_open_success_threshold = 2,
     state = OPEN, failure_count = 5, success_count = 0, last_state_change = 5, last_failure_time = 5\<rparr>"
  by (simp add: demo_open_def breaker_init_def cb_record_failure_def)

lemma cb_reachable_demo: "cb_reachable (breaker_init 5 10 2 0) (cb_record_failure 1 (breaker_init 5 10 2 0))"
  by (rule cb_reachable.step [OF cb_reachable.start cb_step.fail])

theorem breaker_invariant_witness: "cb_inv (cb_record_failure 1 (breaker_init 5 10 2 0))"
  by (rule breaker_invariant [OF cb_reachable_demo]) simp_all

theorem breaker_transitions_witness:
  "state (snd (allow_request 15 demo_open)) = HALF_OPEN"
proof -
  have "cb_step demo_open (Ask 15 True) (snd (allow_request 15 demo_open))"
    by (rule cb_step.ask) (simp add: demo_open_eq allow_request_def)
  moreover have "state (snd (allow_request 15 demo_open)) \<noteq> state demo_open"
    by (simp add: demo_open_eq allow_request_def)
  ultimately show ?thesis
    using breaker_transitions [of demo_open "Ask 15 True" "snd (allow_request 15 demo_open)"]
    by (simp add: demo_open_eq)
qed

theorem open_isolates_upstream_witness:
  "allow_request 14 demo_open = (False, demo_open) \<and> fst (allow_request 15 demo_open)"
  using open_isolates_upstream [of demo_open 14] open_isolates_upstream [of demo_open 15]
  by (simp add: demo_open_eq)

theorem trips_at_threshold_witness:
  "state (cb_run (failures_in_a_row [1, 2, 3, 4]) (breaker_init 5 10 2 0)) = CLOSED
   \<and> state (cb_run (failures_in_a_row [1, 2, 3, 4, 5]) (breaker_init 5 10 2 0)) = OPEN"
  using trips_at_threshold [of 5 "[1, 2, 3, 4]" 10 2 0 5] by simp

theorem breaker_recovers_witness:
  "state (cb_run (Ask 15 True # map Succeed [16, 17]) demo_open) = CLOSED"
  using breaker_recovers [of demo_open 15 "[16, 17]"] by (simp add: demo_open_eq)

theorem half_open_admits_all_witness:
  "fst (allow_request 16 (snd (allow_request 15 demo_open)))"
  using half_open_admits_all [of "snd (allow_request 15 demo_open)" "[]" 16]
  by (simp add: demo_open_eq allow_request_def)

section \<open>HighAvailabilityManager.evaluate_readiness\<close>

text \<open>
  The probe sees its collaborators through \<open>hasattr\<close>: each argument is what the attribute
  or method yields, or \<open>None\<close> where it does not exist.
\<close>

record readiness =
  rd_rules_healthy :: bool
  rd_rules_loaded :: nat
  rd_ml_status :: string
  rd_active_mitigations :: nat
  rd_rate_healthy :: bool
  rd_breaker :: cb_status
  rd_upstream_isolated :: bool
  rd_status_ready :: bool

definition evaluate_readiness ::
  "time \<Rightarrow> breaker \<Rightarrow> nat option \<Rightarrow> string option \<Rightarrow> nat option \<Rightarrow> bool \<Rightarrow> bool \<times> readiness" where
  "evaluate_readiness now b rules ml_health mit_total has_limiter =
     (let rules_ok = (case rules of Some n \<Rightarrow> 0 < n | None \<Rightarrow> False);
          ml_status = (case ml_health of Some s \<Rightarrow> s | None \<Rightarrow> ''ready'');
          ml_ok = (ml_status = ''ready'' \<or> ml_status = ''healthy'');
          is_ready = (rules_ok \<and> ml_ok);
          cs = cb_get_status now b
      in (is_ready, \<lparr>rd_rules_healthy = rules_ok,
            rd_rules_loaded = (case rules of Some n \<Rightarrow> n | None \<Rightarrow> 0),
            rd_ml_status = ml_status,
            rd_active_mitigations = (case mit_total of Some n \<Rightarrow> n | None \<Rightarrow> 0),
            rd_rate_healthy = has_limiter,
            rd_breaker = cs,
            rd_upstream_isolated = (st_state cs = OPEN),
            rd_status_ready = is_ready\<rparr>))"

text \<open>
  The probe's verdict ignores the breaker: an open circuit (upstream isolated) is
  reported in the details and never makes the gateway unready; only an empty rule set or
  an ML service that is not ready or healthy does.\<close>

theorem readiness_verdict:
  "fst (evaluate_readiness now b rules ml_health mit limiter) \<longleftrightarrow>
     (\<exists>n>0. rules = Some n) \<and> (ml_health = None \<or> ml_health = Some ''ready'' \<or> ml_health = Some ''healthy'')"
  by (auto simp: evaluate_readiness_def Let_def split: option.splits)

end
