(* ===== verification/Canary_Router.thy ===== *)
theory Canary_Router
  imports Prelude "HOL-Library.Multiset"
begin

text \<open>
  \<open>gateway/canary_router.py\<close>: traffic metrics over a sliding window, stages and weights,
  sticky routing, and the automatic rollback on a breached service level.

  Two inputs are arguments: \<open>md5_32\<close>, the first 32 bits of the MD5 digest of a string, and
  \<open>rnd\<close>, the number \<open>random.random()\<close> returns.
\<close>

section \<open>TrafficMetrics\<close>

record metrics =
  window_size :: nat
  latencies :: "pyfloat list"
  total_requests :: nat
  error_count :: nat

definition metrics_init :: "nat \<Rightarrow> metrics" where
  "metrics_init w = \<lparr>window_size = w, latencies = [], total_requests = 0, error_count = 0\<rparr>"

text \<open>\<open>deque(maxlen=n).append\<close>: the oldest entry leaves when the deque is full.\<close>

definition push_bounded :: "nat \<Rightarrow> 'a \<Rightarrow> 'a list \<Rightarrow> 'a list" where
  "push_bounded n x xs = drop (length xs + 1 - n) (xs @ [x])"

definition record_latency :: "pyfloat \<Rightarrow> bool \<Rightarrow> metrics \<Rightarrow> metrics" where
  "record_latency l is_error m =
     (let m1 = m\<lparr>latencies := push_bounded (window_size m) l (latencies m),
                 total_requests := total_requests m + 1\<rparr>
      in if is_error then m1\<lparr>error_count := error_count m1 + 1\<rparr> else m1)"

record stats =
  s_total_requests :: nat
  s_window_samples :: nat
  s_error_rate :: pyfloat
  s_p50 :: pyfloat
  s_p95 :: pyfloat
  s_p99 :: pyfloat

definition pct_index :: "nat \<Rightarrow> nat \<Rightarrow> nat" where
  "pct_index pct n = (pct * (n - 1)) div 100"

definition get_stats :: "metrics \<Rightarrow> stats" where
  "get_stats m =
     (let total = length (latencies m)
      in if total = 0 then
           \<lparr>s_total_requests = total_requests m, s_window_samples = 0, s_error_rate = 0,
            s_p50 = 0, s_p95 = 0, s_p99 = 0\<rparr>
         else
           (let sorted_lat = sort (latencies m);
                err_rate = (if 0 < total_requests m
                            then of_nat (error_count m) / of_nat (total_requests m) else 0)
            in \<lparr>s_total_requests = total_requests m, s_window_samples = total,
                s_error_rate = py_round 4 err_rate,
                s_p50 = py_round 2 (sorted_lat ! pct_index 50 total),
                s_p95 = py_round 2 (sorted_lat ! pct_index 95 total),
                s_p99 = py_round 2 (sorted_lat ! pct_index 99 total)\<rparr>))"

definition metrics_reset :: "metrics \<Rightarrow> metrics" where
  "metrics_reset m = m\<lparr>latencies := [], total_requests := 0, error_count := 0\<rparr>"

section \<open>CanaryRouter\<close>

datatype stage = DISABLED | CANARY_1 | CANARY_10 | CANARY_50 | FULL_ROLLOUT | ROLLED_BACK

fun stage_weight :: "stage \<Rightarrow> pyfloat" where
  "stage_weight DISABLED = 0"
| "stage_weight CANARY_1 = 1/100"
| "stage_weight CANARY_10 = 10/100"
| "stage_weight CANARY_50 = 50/100"
| "stage_weight FULL_ROLLOUT = 1"
| "stage_weight ROLLED_BACK = 0"

type_synonym budget = "(string, pyfloat) dict"

definition default_route_slos :: "(string, budget) dict" where
  "default_route_slos =
     [(''read_default'', [(''max_p95_ms'', 50), (''max_error_rate'', 2/100)]),
      (''mutation_default'', [(''max_p95_ms'', 250), (''max_error_rate'', 1/100)]),
      (''/api/orders'', [(''max_p95_ms'', 250), (''max_error_rate'', 1/100)]),
      (''/api/inventory/replenish'', [(''max_p95_ms'', 250), (''max_error_rate'', 1/100)]),
      (''/api/inventory'', [(''max_p95_ms'', 50), (''max_error_rate'', 2/100)]),
      (''/api/users'', [(''max_p95_ms'', 50), (''max_error_rate'', 2/100)])]"

datatype rollback_reason =
    RouteErrorRate string pyfloat pyfloat
  | RouteLatency string pyfloat pyfloat
  | CanaryErrorRate pyfloat pyfloat
  | CanaryLatency pyfloat pyfloat
  | Manual string

record router =
  r_stage :: stage
  r_weight :: pyfloat
  max_error_rate :: pyfloat
  max_p95_latency_ms :: pyfloat
  min_eval_samples :: nat
  auto_rollback_enabled :: bool
  route_slos :: "(string, budget) dict"
  stable_metrics :: metrics
  canary_metrics :: metrics
  canary_route_metrics :: "(string, metrics) dict"
  last_rollback_reason :: "rollback_reason option"
  last_rollback_timestamp :: "time option"

definition router_init :: "stage \<Rightarrow> router" where
  "router_init s = \<lparr>r_stage = s, r_weight = stage_weight s, max_error_rate = 2/100,
     max_p95_latency_ms = 50, min_eval_samples = 15, auto_rollback_enabled = True,
     route_slos = default_route_slos, stable_metrics = metrics_init 500,
     canary_metrics = metrics_init 500, canary_route_metrics = [],
     last_rollback_reason = None, last_rollback_timestamp = None\<rparr>"

definition is_mutation :: "string \<Rightarrow> bool" where
  "is_mutation m \<longleftrightarrow> m = ''POST'' \<or> m = ''PUT'' \<or> m = ''PATCH'' \<or> m = ''DELETE''"

fun first_prefix_budget :: "(string, budget) dict \<Rightarrow> string \<Rightarrow> budget option" where
  "first_prefix_budget [] path = None"
| "first_prefix_budget ((p, b) # rest) path =
     (if startswith p ''/'' \<and> startswith path p then Some b else first_prefix_budget rest path)"

definition get_route_budget :: "router \<Rightarrow> string option \<Rightarrow> string \<Rightarrow> pyfloat \<times> pyfloat" where
  "get_route_budget r path meth =
     (case (case path of Some p \<Rightarrow> if p \<noteq> [] then first_prefix_budget (route_slos r) p else None
                       | None \<Rightarrow> None) of
        Some b \<Rightarrow> (dget_or (max_p95_latency_ms r) b ''max_p95_ms'',
                  dget_or (max_error_rate r) b ''max_error_rate'')
      | None \<Rightarrow>
          if is_mutation meth then
            (let b = dget_or [] (route_slos r) ''mutation_default''
             in (dget_or 250 b ''max_p95_ms'', dget_or (1/100) b ''max_error_rate''))
          else
            (let b = dget_or [] (route_slos r) ''read_default''
             in (dget_or (max_p95_latency_ms r) b ''max_p95_ms'',
                 dget_or (max_error_rate r) b ''max_error_rate'')))"

definition rstrip_slash :: "string \<Rightarrow> string" where
  "rstrip_slash s = rev (dropWhile (\<lambda>c. c = CHR ''/'') (rev s))"

definition get_route_key :: "string \<Rightarrow> string \<Rightarrow> string" where
  "get_route_key path meth =
     (let prefix = rstrip_slash (hd (split_on (CHR ''?'') path));
          parts = split_on (CHR ''/'') prefix
      in if 3 < length parts \<and> parts ! 2 = ''orders'' then meth @ '' /api/orders''
         else if 3 < length parts \<and> parts ! 2 = ''users'' then meth @ '' /api/users''
         else meth @ '' '' @ prefix)"

definition set_weight :: "pyfloat \<Rightarrow> router \<Rightarrow> router" where
  "set_weight w r =
     (let c = max 0 (min 1 w);
          s = (if c = 0 then DISABLED
               else if c \<le> 1/100 then CANARY_1
               else if c \<le> 10/100 then CANARY_10
               else if c \<le> 50/100 then CANARY_50
               else FULL_ROLLOUT)
      in r\<lparr>r_weight := c, r_stage := s\<rparr>)"

definition promote :: "stage \<Rightarrow> router \<Rightarrow> router" where
  "promote s r = r\<lparr>r_stage := s, r_weight := stage_weight s,
     canary_metrics := metrics_reset (canary_metrics r), canary_route_metrics := []\<rparr>"

definition rollback :: "time \<Rightarrow> rollback_reason \<Rightarrow> router \<Rightarrow> router" where
  "rollback now reason r = r\<lparr>r_stage := ROLLED_BACK, r_weight := 0,
     last_rollback_reason := Some reason, last_rollback_timestamp := Some now\<rparr>"

definition sticky_position :: "(string \<Rightarrow> nat) \<Rightarrow> string \<Rightarrow> pyfloat" where
  "sticky_position md5_32 ident = of_nat (md5_32 ident mod 10000) / 10000"

definition should_route_to_canary ::
  "(string \<Rightarrow> nat) \<Rightarrow> pyfloat \<Rightarrow> string option \<Rightarrow> string option \<Rightarrow> (string, string) dict
     \<Rightarrow> router \<Rightarrow> bool" where
  "should_route_to_canary md5_32 rnd user_id client_ip headers r =
     (let target = lower (dget_or [] headers ''x-canary-target'')
      in if target = ''canary'' then True
         else if target = ''stable'' then False
         else if r_weight r \<le> 0 then False
         else if 1 \<le> r_weight r then True
         else (case str_or user_id client_ip of
             Some (c # s) \<Rightarrow> sticky_position md5_32 (c # s) < r_weight r
           | _ \<Rightarrow> rnd < r_weight r))"

definition evaluate_canary_slo :: "time \<Rightarrow> string option \<Rightarrow> string \<Rightarrow> router \<Rightarrow> router" where
  "evaluate_canary_slo now path meth r =
     (let has_path = truthy_str path;
          p = (case path of Some p \<Rightarrow> p | None \<Rightarrow> []);
          budget = (if has_path then get_route_budget r path meth
                    else (max_p95_latency_ms r, max_error_rate r));
          budget_p95 = fst budget; budget_err = snd budget;
          key = get_route_key p meth;
          route_breach =
            (if has_path then
               (case dget (canary_route_metrics r) key of
                  None \<Rightarrow> None
                | Some m \<Rightarrow>
                    (let st = get_stats m in
                     if min (min_eval_samples r) 15 \<le> s_window_samples st then
                       (if budget_err < s_error_rate st
                        then Some (RouteErrorRate key (s_error_rate st) budget_err)
                        else if budget_p95 < s_p95 st
                        then Some (RouteLatency key (s_p95 st) budget_p95)
                        else None)
                     else None))
             else None)
      in case route_breach of
           Some reason \<Rightarrow> rollback now reason r
         | None \<Rightarrow>
             (let st = get_stats (canary_metrics r)
              in if s_window_samples st < min_eval_samples r then r
                 else
                   (let err_limit = (if has_path then max (max_error_rate r) budget_err else max_error_rate r);
                        p95_limit = (if has_path then max (max_p95_latency_ms r) budget_p95
                                     else max_p95_latency_ms r)
                    in if err_limit < s_error_rate st
                       then rollback now (CanaryErrorRate (s_error_rate st) err_limit) r
                       else if p95_limit < s_p95 st
                       then rollback now (CanaryLatency (s_p95 st) p95_limit) r
                       else r)))"

definition record_metric ::
  "time \<Rightarrow> bool \<Rightarrow> pyfloat \<Rightarrow> int \<Rightarrow> string option \<Rightarrow> string \<Rightarrow> router \<Rightarrow> router" where
  "record_metric now is_canary latency_ms status_code path meth r =
     (let is_error = (500 \<le> status_code)
      in if is_canary then
           (let r1 = r\<lparr>canary_metrics := record_latency latency_ms is_error (canary_metrics r)\<rparr>;
                r2 = (case path of
                    Some (c # s) \<Rightarrow>
                      (let key = get_route_key (c # s) meth;
                           m = dget_or (metrics_init 500) (canary_route_metrics r1) key
                       in r1\<lparr>canary_route_metrics :=
                            dput key (record_latency latency_ms is_error m) (canary_route_metrics r1)\<rparr>)
                  | _ \<Rightarrow> r1)
            in if auto_rollback_enabled r2 then evaluate_canary_slo now path meth r2 else r2)
         else r\<lparr>stable_metrics := record_latency latency_ms is_error (stable_metrics r)\<rparr>)"

record canary_status =
  cs_stage :: stage
  cs_weight :: pyfloat
  cs_auto :: bool
  cs_slo_limits :: "pyfloat \<times> pyfloat \<times> nat \<times> (string, budget) dict"
  cs_last_rollback :: "(rollback_reason \<times> time option) option"
  cs_canary :: stats
  cs_stable :: stats

definition canary_get_status :: "router \<Rightarrow> canary_status" where
  "canary_get_status r = \<lparr>cs_stage = r_stage r, cs_weight = r_weight r,
     cs_auto = auto_rollback_enabled r,
     cs_slo_limits = (max_error_rate r, max_p95_latency_ms r, min_eval_samples r, route_slos r),
     cs_last_rollback = (case last_rollback_reason r of
        Some x \<Rightarrow> if x = Manual [] then None else Some (x, last_rollback_timestamp r)
      | None \<Rightarrow> None),
     cs_canary = get_stats (canary_metrics r), cs_stable = get_stats (stable_metrics r)\<rparr>"


section \<open>Metrics\<close>

definition metrics_inv :: "metrics \<Rightarrow> bool" where
  "metrics_inv m \<longleftrightarrow> length (latencies m) \<le> window_size m
     \<and> length (latencies m) \<le> total_requests m \<and> error_count m \<le> total_requests m"

lemma length_push_bounded: "length (push_bounded n x xs) = min n (Suc (length xs))"
  by (auto simp: push_bounded_def)

lemma metrics_inv_init [inv_intros]: "metrics_inv (metrics_init w)"
  by (simp add: metrics_inv_def metrics_init_def)

lemma metrics_inv_reset [inv_intros]: "metrics_inv (metrics_reset m)"
  by (simp add: metrics_inv_def metrics_reset_def)

lemma metrics_inv_record [inv_intros]: "metrics_inv m \<Longrightarrow> metrics_inv (record_latency l e m)"
  by (auto simp: metrics_inv_def record_latency_def Let_def length_push_bounded)

lemma pct_index_less: "0 < n \<Longrightarrow> pct \<le> 100 \<Longrightarrow> pct_index pct n < n"
proof -
  assume n: "0 < n" and p: "pct \<le> 100"
  have "pct * (n - 1) \<le> 100 * (n - 1)" using p by (rule mult_right_mono) simp
  then have "pct * (n - 1) div 100 \<le> n - 1" by (simp add: div_le_mono [of _ "100 * (n - 1)" 100, simplified])
  then show ?thesis using n by (simp add: pct_index_def)
qed

lemma pct_index_mono: "p \<le> q \<Longrightarrow> pct_index p n \<le> pct_index q n"
  by (simp add: pct_index_def div_le_mono mult_right_mono)

text \<open>
  The reported percentiles are ordered, the error rate is a fraction, and the window
  never holds more samples than its size or than requests recorded.\<close>

theorem stats_well_formed:
  assumes "metrics_inv m"
  shows "s_p50 (get_stats m) \<le> s_p95 (get_stats m) \<and> s_p95 (get_stats m) \<le> s_p99 (get_stats m)
       \<and> 0 \<le> s_error_rate (get_stats m) \<and> s_error_rate (get_stats m) \<le> 1
       \<and> s_window_samples (get_stats m) \<le> window_size m
       \<and> s_window_samples (get_stats m) \<le> s_total_requests (get_stats m)"
proof (cases "latencies m = []")
  case True
  then show ?thesis by (simp add: get_stats_def)
next
  case False
  let ?s = "sort (latencies m)" and ?n = "length (latencies m)"
  have idx: "?s ! pct_index p ?n \<le> ?s ! pct_index q ?n" if "p \<le> q" "q \<le> 100" for p q
    using that False
    by (intro sorted_nth_mono) (auto simp: pct_index_mono pct_index_less)
  have "error_count m \<le> total_requests m" using assms by (simp add: metrics_inv_def)
  then have frac: "0 \<le> (if 0 < total_requests m then of_nat (error_count m) / of_nat (total_requests m) else 0 :: rat)"
    "(if 0 < total_requests m then of_nat (error_count m) / of_nat (total_requests m) else 0 :: rat) \<le> 1"
    by (auto simp: divide_le_eq)
  have "0 \<le> py_round 4 (if 0 < total_requests m then of_nat (error_count m) / of_nat (total_requests m) else 0 :: rat)
      \<and> py_round 4 (if 0 < total_requests m then of_nat (error_count m) / of_nat (total_requests m) else 0 :: rat) \<le> 1"
    using py_round_between_ints [of 0 _ 1 4] frac by simp
  then show ?thesis
    using False idx assms
    by (simp add: get_stats_def Let_def py_round_mono metrics_inv_def)
qed

text \<open>Recording a list of outcomes, and the error rate that results.\<close>

definition record_all :: "(pyfloat \<times> bool) list \<Rightarrow> metrics \<Rightarrow> metrics" where
  "record_all xs m = fold (\<lambda>(l, e) m. record_latency l e m) xs m"

lemma record_all_simps [simp]:
  "record_all [] m = m" "record_all ((l, e) # xs) m = record_all xs (record_latency l e m)"
  by (simp_all add: record_all_def)

lemma record_all_counts:
  "total_requests (record_all xs m) = total_requests m + length xs"
  "error_count (record_all xs m) = error_count m + length (filter snd xs)"
  by (induction xs arbitrary: m) (auto simp: record_latency_def Let_def)

lemma record_all_window:
  "length (latencies (record_all xs m)) =
     (if xs = [] then length (latencies m) else min (window_size m) (length (latencies m) + length xs))"
  if "length (latencies m) \<le> window_size m"
  using that
proof (induction xs arbitrary: m)
  case (Cons x xs)
  obtain l e where x: "x = (l, e)" by fastforce
  have len: "length (latencies (record_latency l e m)) = min (window_size m) (Suc (length (latencies m)))"
    "window_size (record_latency l e m) = window_size m"
    by (auto simp: record_latency_def Let_def length_push_bounded)
  then show ?case using Cons.IH [of "record_latency l e m"] x by auto
qed simp

text \<open>
  The error rate is taken over every request since the last promotion, not over the
  window: after \<open>n\<close> successes and \<open>k\<close> failures it is \<open>k/(n+k)\<close>, so a canary all of whose
  windowed requests failed can stay within a budget of two per cent.\<close>

theorem error_rate_is_lifetime:
  assumes "length ok = n" and "length bad = k" and "0 < k" and "0 < w"
  shows "s_error_rate (get_stats (record_all (map (\<lambda>l. (l, False)) ok @ map (\<lambda>l. (l, True)) bad) (metrics_init w)))
       = py_round 4 (of_nat k / of_nat (n + k))"
proof -
  let ?xs = "map (\<lambda>l. (l, False)) ok @ map (\<lambda>l. (l, True)) bad"
  let ?m = "record_all ?xs (metrics_init w)"
  have "total_requests ?m = n + k" "error_count ?m = k"
    using assms by (simp_all add: record_all_counts metrics_init_def)
  moreover have "latencies ?m \<noteq> []"
  proof -
    have "length (latencies ?m) = min w (n + k)"
      using record_all_window [of "metrics_init w" ?xs] assms by (auto simp: metrics_init_def)
    moreover have "0 < min w (n + k)" using assms by simp
    ultimately show ?thesis by (metis length_0_conv less_numeral_extra(3))
  qed
  ultimately show ?thesis using assms(3) by (simp add: get_stats_def Let_def)
qed

theorem error_rate_is_lifetime_witness:
  "\<not> 2/100 < s_error_rate (get_stats (record_all
      (map (\<lambda>l. (l, False)) (replicate 24500 1) @ map (\<lambda>l. (l, True)) (replicate 500 1)) (metrics_init 500)))"
proof -
  have "py_round 4 (500 / 25000) = (2/100 :: rat)"
    by (simp add: py_round_def round_half_even_def Let_def)
  then show ?thesis
    using error_rate_is_lifetime [of "replicate 24500 1" 24500 "replicate 500 1" 500 500] by simp
qed

section \<open>Routing\<close>

definition no_override :: "(string, string) dict \<Rightarrow> bool" where
  "no_override headers \<longleftrightarrow>
     lower (dget_or [] headers ''x-canary-target'') \<notin> {''canary'', ''stable''}"

text \<open>
  Progressive rollout is sticky: without a header override, a caller with an identity
  that is routed to the canary at some weight is routed to it at every higher weight, and
  the random number is never consulted.\<close>

theorem sticky_routing_monotone:
  assumes "should_route_to_canary md5_32 rnd (Some (c # u)) ip h r"
    and "no_override h" and "r_weight r \<le> r_weight r'"
  shows "should_route_to_canary md5_32 rnd' (Some (c # u)) ip' h r'"
  using assms
  by (auto simp: should_route_to_canary_def no_override_def Let_def str_or_def split: if_splits)

theorem sticky_routing_monotone_witness:
  "should_route_to_canary (\<lambda>_. 42) (9/10) (Some ''alice'') None [] (promote CANARY_10 (router_init DISABLED))"
  using sticky_routing_monotone [of "\<lambda>_. 42" 0 "CHR ''a''" "''lice''" None "[]"
      "promote CANARY_1 (router_init DISABLED)" "promote CANARY_10 (router_init DISABLED)" "9/10" None]
  by (simp add: should_route_to_canary_def no_override_def promote_def sticky_position_def
      str_or_def lower_def)

text \<open>
  The weight is the share of the sticky positions: an identity is routed to the canary
  exactly if its position, one of the 10000 slots \<open>0, 1/10000, ..\<close>, lies below the weight.\<close>

theorem sticky_share:
  assumes "no_override h" and "0 \<le> r_weight r" and "r_weight r \<le> 1"
  shows "should_route_to_canary md5_32 rnd (Some (c # u)) ip h r
     \<longleftrightarrow> sticky_position md5_32 (c # u) < r_weight r"
proof -
  have "md5_32 (c # u) mod 10000 < 10000" by simp
  then have "of_nat (md5_32 (c # u) mod 10000) < (10000 :: rat)"
    by (metis of_nat_less_iff of_nat_numeral)
  then have "0 \<le> sticky_position md5_32 (c # u)" "sticky_position md5_32 (c # u) < 1"
    by (simp_all add: sticky_position_def)
  then show ?thesis
    using assms by (auto simp: should_route_to_canary_def no_override_def Let_def str_or_def)
qed

theorem sticky_share_witness:
  "should_route_to_canary (\<lambda>_. 12345) 0 (Some ''bob'') None [] (set_weight (3/10) (router_init DISABLED))"
  using sticky_share [of "[]" "set_weight (3/10) (router_init DISABLED)" "\<lambda>_. 12345" 0 "CHR ''b''" "''ob''" None]
  by (simp add: no_override_def set_weight_def sticky_position_def lower_def Let_def min_def max_def)

text \<open>
  A client's \<open>X-Canary-Target: canary\<close> header decides before everything else: it
  reaches the canary deployment even when the rollout is disabled or rolled back.\<close>

theorem header_override_ignores_rollback:
  assumes "lower (dget_or [] h ''x-canary-target'') = ''canary''"
  shows "should_route_to_canary md5_32 rnd uid ip h (rollback now reason r)"
  using assms by (simp add: should_route_to_canary_def)

theorem header_override_ignores_rollback_witness:
  "should_route_to_canary (\<lambda>_. 0) 0 None None [(''x-canary-target'', ''Canary'')]
     (rollback 5 (Manual ''x'') (router_init CANARY_10))"
  by (rule header_override_ignores_rollback) code_simp

section \<open>Rollout state\<close>

datatype router_op =
    SetWeight pyfloat
  | Promote stage
  | Rollback time rollback_reason
  | Metric time bool pyfloat int "string option" string

fun router_apply :: "router_op \<Rightarrow> router \<Rightarrow> router" where
  "router_apply (SetWeight w) r = set_weight w r"
| "router_apply (Promote s) r = promote s r"
| "router_apply (Rollback t x) r = rollback t x r"
| "router_apply (Metric t c l code p m) r = record_metric t c l code p m r"

inductive router_reachable :: "router \<Rightarrow> bool" where
  init: "router_reachable (router_init s)"
| op: "router_reachable r \<Longrightarrow> router_reachable (router_apply x r)"

fun weight_fits :: "stage \<Rightarrow> pyfloat \<Rightarrow> bool" where
  "weight_fits DISABLED w = (w = 0)"
| "weight_fits CANARY_1 w = (0 < w \<and> w \<le> 1/100)"
| "weight_fits CANARY_10 w = (1/100 < w \<and> w \<le> 10/100)"
| "weight_fits CANARY_50 w = (10/100 < w \<and> w \<le> 50/100)"
| "weight_fits FULL_ROLLOUT w = (50/100 < w \<and> w \<le> 1)"
| "weight_fits ROLLED_BACK w = (w = 0)"

lemma stage_weight_fits [simp]: "weight_fits s (stage_weight s)"
  by (cases s) simp_all

definition router_inv :: "router \<Rightarrow> bool" where
  "router_inv r \<longleftrightarrow> weight_fits (r_stage r) (r_weight r)
     \<and> metrics_inv (stable_metrics r) \<and> metrics_inv (canary_metrics r)
     \<and> (\<forall>k m. dget (canary_route_metrics r) k = Some m \<longrightarrow> metrics_inv m)"

lemma set_weight_fits: "weight_fits (r_stage (set_weight w r)) (r_weight (set_weight w r))"
  by (auto simp: set_weight_def Let_def not_le min_def max_def)

lemma router_inv_rollback [inv_intros]: "router_inv r \<Longrightarrow> router_inv (rollback t x r)"
  by (simp add: router_inv_def rollback_def)

lemma rollback_or_keep:
  "\<exists>y. (case x of Some a \<Rightarrow> f a | None \<Rightarrow> if c then r else if d then f e else if g then f h else r)
      = (case y of Some a \<Rightarrow> f a | None \<Rightarrow> r)"
proof (cases x)
  case (Some a)
  then show ?thesis by (intro exI [of _ "Some a"]) simp
next
  case None
  then show ?thesis
    by (intro exI [of _ "if c then None else if d then Some e else if g then Some h else None"]) simp
qed

lemma evaluate_canary_slo_cases:
  obtains (keep) "evaluate_canary_slo now path meth r = r"
    | (rolled) reason where "evaluate_canary_slo now path meth r = rollback now reason r"
proof -
  have "\<exists>y. evaluate_canary_slo now path meth r = (case y of Some a \<Rightarrow> rollback now a r | None \<Rightarrow> r)"
    unfolding evaluate_canary_slo_def Let_def by (rule rollback_or_keep)
  then show thesis using that by (auto split: option.splits)
qed

lemma router_inv_evaluate [inv_intros]: "router_inv r \<Longrightarrow> router_inv (evaluate_canary_slo t p m r)"
  by (rule evaluate_canary_slo_cases [of t p m r]) (simp_all add: router_inv_rollback)

lemma router_inv_record_metric [inv_intros]: "router_inv r \<Longrightarrow> router_inv (record_metric t c l code p m r)"
proof -
  assume r: "router_inv r"
  have route: "metrics_inv (record_latency l e (dget_or (metrics_init 500) (canary_route_metrics r) k))" for k e
    using r by (auto simp: router_inv_def dget_or_def intro!: inv_intros split: option.split)
  show ?thesis
    using r route
    by (auto simp: record_metric_def Let_def router_inv_def metrics_inv_record
        intro!: router_inv_evaluate [unfolded router_inv_def] split: option.split list.split if_splits)
qed

lemma router_inv_apply: "router_inv r \<Longrightarrow> router_inv (router_apply x r)"
  by (cases x) (auto simp: router_inv_rollback router_inv_record_metric,
      auto simp: router_inv_def set_weight_fits promote_def metrics_inv_reset set_weight_def Let_def
        not_le min_def max_def)

lemma router_reachable_inv: "router_reachable r \<Longrightarrow> router_inv r"
proof (induction rule: router_reachable.induct)
  case (init s)
  then show ?case by (simp add: router_inv_def router_init_def metrics_inv_init)
next
  case (op r x)
  then show ?case by (auto intro: router_inv_apply)
qed

lemma weight_fits_range: "weight_fits s w \<Longrightarrow> 0 \<le> w \<and> w \<le> 1"
  by (cases s) auto

text \<open>
  In every reachable router the weight is the one its stage stands for: zero when
  disabled or rolled back, and inside the stage's band otherwise, so a full rollout never
  has a weight of one half or less and nothing else ever exceeds one half.\<close>

theorem router_stage_weight:
  assumes "router_reachable r"
  shows "weight_fits (r_stage r) (r_weight r) \<and> 0 \<le> r_weight r \<and> r_weight r \<le> 1"
  using router_reachable_inv [OF assms] weight_fits_range by (auto simp: router_inv_def)

text \<open>
  C23: After a rollback, and in every reachable disabled or rolled-back state, no request
  without an override header is routed to the canary.\<close>

theorem rolled_back_gets_no_traffic:
  assumes "router_reachable r" and "r_stage r = ROLLED_BACK \<or> r_stage r = DISABLED"
    and "no_override h"
  shows "\<not> should_route_to_canary md5_32 rnd uid ip h r"
proof -
  have "r_weight r = 0" using router_reachable_inv [OF assms(1)] assms(2) by (auto simp: router_inv_def)
  then show ?thesis using assms(3) by (auto simp: should_route_to_canary_def no_override_def Let_def)
qed

definition demo_router :: router where
  "demo_router = router_apply (Rollback 5 (Manual ''bad deploy'')) (router_apply (Promote CANARY_10) (router_init DISABLED))"

lemma demo_router_reachable: "router_reachable demo_router"
  unfolding demo_router_def by (intro router_reachable.intros)

theorem router_stage_weight_witness: "weight_fits (r_stage demo_router) (r_weight demo_router)"
  using router_stage_weight [OF demo_router_reachable] by simp

theorem rolled_back_gets_no_traffic_witness:
  "\<not> should_route_to_canary (\<lambda>_. 0) 0 (Some ''alice'') None [] demo_router"
  by (rule rolled_back_gets_no_traffic [OF demo_router_reachable])
     (simp_all add: demo_router_def rollback_def no_override_def lower_def)

section \<open>Automatic rollback\<close>

definition slo_breached :: "stats \<Rightarrow> nat \<Rightarrow> pyfloat \<Rightarrow> pyfloat \<Rightarrow> bool" where
  "slo_breached st samples err_limit p95_limit \<longleftrightarrow>
     samples \<le> s_window_samples st \<and> (err_limit < s_error_rate st \<or> p95_limit < s_p95 st)"

lemma record_metric_canary:
  "record_metric now True l code path meth r =
    (let r1 = r\<lparr>canary_metrics := record_latency l (500 \<le> code) (canary_metrics r)\<rparr>;
         r2 = (case path of
             Some (c # s) \<Rightarrow> r1\<lparr>canary_route_metrics :=
                dput (get_route_key (c # s) meth)
                  (record_latency l (500 \<le> code)
                     (dget_or (metrics_init 500) (canary_route_metrics r) (get_route_key (c # s) meth)))
                  (canary_route_metrics r)\<rparr>
           | _ \<Rightarrow> r1)
     in if auto_rollback_enabled r then evaluate_canary_slo now path meth r2 else r2)"
  by (auto simp: record_metric_def Let_def split: option.split list.split)

lemma get_route_budget_frame [frame]:
  "get_route_budget (r\<lparr>canary_metrics := cm\<rparr>) p m = get_route_budget r p m"
  "get_route_budget (r\<lparr>canary_route_metrics := rm\<rparr>) p m = get_route_budget r p m"
  by (simp_all add: get_route_budget_def Let_def split: option.split)


definition slow_canary :: router where
  "slow_canary = (router_init CANARY_10)\<lparr>min_eval_samples := 1\<rparr>"


text \<open>Recording metrics never re-opens a rolled-back canary.\<close>

lemma metrics_never_reopen:
  assumes "r_stage r = ROLLED_BACK" and "r_weight r = 0"
  shows "r_stage (record_metric t ca l code p m r) = ROLLED_BACK \<and> r_weight (record_metric t ca l code p m r) = 0"
proof -
  have "r_stage (evaluate_canary_slo t p m r') = ROLLED_BACK \<and> r_weight (evaluate_canary_slo t p m r') = 0"
    if "r_stage r' = ROLLED_BACK \<and> r_weight r' = 0" for r'
    using that by (rule_tac evaluate_canary_slo_cases [of t p m r']) (simp_all add: rollback_def)
  then show ?thesis
    using assms by (auto simp: record_metric_def Let_def split: option.split list.split)
qed

end
