(* ===== verification/Agent_Base.thy ===== *)
theory Agent_Base
  imports Prelude
begin

text \<open>
  \<open>agents/base.py\<close>: action types, approval states, the \<open>AgentAction\<close> dataclass with its
  \<open>__post_init__\<close>; and the telemetry event as the agents read it.

  An event is a dict; the record below has one field per key that is read, \<open>None\<close> where
  the key is absent.  Generated identifiers (\<open>uuid4\<close>) and instants are arguments.
\<close>

section \<open>Telemetry events\<close>

record event =
  ev_request_id :: "string option"
  ev_principal_ref :: "string option"
  ev_client_ip :: "string option"
  ev_user_agent :: "string option"
  ev_method :: "string option"
  ev_path :: "string option"
  ev_decision :: "string option"
  ev_status_code :: "int option"
  ev_risk_score :: "pyfloat option"
  ev_fired_rules :: "string list option"
  ev_ml_score :: "pyfloat option"
  ev_timestamp :: "string option"
  ev_current_role :: "string option"
  ev_role :: "string option"
  ev_account_age_days :: "int option"
  ev_incident_count :: "int option"
  ev_waf_severity :: "pyfloat option"
  ev_auth_anomaly :: "pyfloat option"

definition empty_event :: event where
  "empty_event = \<lparr>ev_request_id = None, ev_principal_ref = None, ev_client_ip = None,
     ev_user_agent = None, ev_method = None, ev_path = None, ev_decision = None,
     ev_status_code = None, ev_risk_score = None, ev_fired_rules = None, ev_ml_score = None,
     ev_timestamp = None, ev_current_role = None, ev_role = None, ev_account_age_days = None,
     ev_incident_count = None, ev_waf_severity = None, ev_auth_anomaly = None\<rparr>"

definition or_else :: "'a option \<Rightarrow> 'a \<Rightarrow> 'a" where
  "or_else x z = (case x of Some v \<Rightarrow> v | None \<Rightarrow> z)"

lemma or_else_simps [simp]: "or_else None z = z" "or_else (Some v) z = v"
  by (simp_all add: or_else_def)

section \<open>Actions\<close>

datatype action_type =
    RATE_LIMIT | CHALLENGE_MFA | REVOKE_SESSION | QUARANTINE_IP_TEMP
  | SUSPEND_ACCOUNT | BLOCK_CIDR_ORGANIZATION | ROLLBACK_DATA | CHANGE_PRIVILEGES

datatype approval_status =
    AUTO_APPROVED | PENDING_HUMAN_APPROVAL | APPROVED | REJECTED | EXECUTED | REVOKED

definition human_approval_required :: "action_type \<Rightarrow> bool" where
  "human_approval_required a \<longleftrightarrow>
     a \<in> {SUSPEND_ACCOUNT, BLOCK_CIDR_ORGANIZATION, ROLLBACK_DATA, CHANGE_PRIVILEGES}"

record agent_action =
  action_type :: action_type
  target_entity :: string
  justification :: string
  action_id :: string
  reversible :: bool
  requires_human_approval :: bool
  approval_status :: approval_status
  created_at :: time
  approved_by :: "string option"
  approved_at :: "time option"
  executed_at :: "time option"
  revoked_at :: "time option"
  duration_seconds :: "int option"
  parameters :: "(string, json) dict"

definition post_init :: "agent_action \<Rightarrow> agent_action" where
  "post_init a =
     (if human_approval_required (action_type a) then
        (let a1 = a\<lparr>requires_human_approval := True\<rparr>
         in if approval_status a1 = AUTO_APPROVED
            then a1\<lparr>approval_status := PENDING_HUMAN_APPROVAL\<rparr> else a1)
      else a)"

text \<open>The dataclass constructor with the defaults of the fields a caller leaves out.\<close>

definition mk_action :: "string \<Rightarrow> time \<Rightarrow> action_type \<Rightarrow> string \<Rightarrow> string \<Rightarrow> agent_action" where
  "mk_action aid now ty target just = post_init
     \<lparr>action_type = ty, target_entity = target, justification = just, action_id = aid,
      reversible = True, requires_human_approval = False, approval_status = AUTO_APPROVED,
      created_at = now, approved_by = None, approved_at = None, executed_at = None,
      revoked_at = None, duration_seconds = Some 3600, parameters = []\<rparr>"

lemma mk_action_sel [simp]:
  "action_type (mk_action aid now ty target just) = ty"
  "target_entity (mk_action aid now ty target just) = target"
  "justification (mk_action aid now ty target just) = just"
  "action_id (mk_action aid now ty target just) = aid"
  "approved_by (mk_action aid now ty target just) = None"
  "duration_seconds (mk_action aid now ty target just) = Some 3600"
  "parameters (mk_action aid now ty target just) = []"
  "requires_human_approval (mk_action aid now ty target just) = human_approval_required ty"
  "approval_status (mk_action aid now ty target just)
     = (if human_approval_required ty then PENDING_HUMAN_APPROVAL else AUTO_APPROVED)"
  by (simp_all add: mk_action_def post_init_def)

text \<open>No constructor call yields a high-impact action that counts as approved by itself.\<close>

lemma post_init_gate:
  assumes "human_approval_required (action_type a)"
  shows "requires_human_approval (post_init a) \<and> approval_status (post_init a) \<noteq> AUTO_APPROVED"
  using assms by (simp add: post_init_def Let_def)

section \<open>Audit records\<close>

datatype agent_role = DETECTION | INVESTIGATION | THREAT_INTEL | RESPONSE | REPORTING

record ('i, 'f) audit_record =
  audit_id :: string
  agent_role :: agent_role
  agent_name :: string
  audit_timestamp :: time
  target_ref :: string
  trigger_event_id :: "string option"
  input_summary :: 'i
  findings :: 'f
  actions_proposed :: "agent_action list"
  execution_status :: string
  latency_ms :: pyfloat

definition record_audit ::
  "string \<Rightarrow> agent_role \<Rightarrow> string \<Rightarrow> time \<Rightarrow> string \<Rightarrow> 'i \<Rightarrow> 'f \<Rightarrow> agent_action list \<Rightarrow> string
     \<Rightarrow> pyfloat \<Rightarrow> string option \<Rightarrow> ('i, 'f) audit_record list \<Rightarrow> ('i, 'f) audit_record list" where
  "record_audit aid role name now target inp fnd acts status latency trigger records =
     records @ [\<lparr>audit_id = ''aud-'' @ aid @ '' '', agent_role = role, agent_name = name,
       audit_timestamp = now, target_ref = target, trigger_event_id = trigger,
       input_summary = inp, findings = fnd, actions_proposed = acts,
       execution_status = status, latency_ms = py_round 3 latency\<rparr>]"

end
