(* ===== verification/Detection_Agent.thy ===== *)
theory Detection_Agent
  imports Agent_Base
begin

text \<open>
  \<open>agents/detection_agent.py\<close>: the per-entity event buffer, the four detection patterns
  and the alert they raise.  \<open>analyze_event\<close> runs the patterns in the order of the code;
  a pattern sees the verdict of the ones before it.
\<close>

section \<open>Alerts\<close>

datatype severity = LOW | MEDIUM | HIGH | CRITICAL

datatype threat_category =
  CREDENTIAL_STUFFING | MASS_SCRAPING | PRIVILEGE_ESCALATION | COMPOUND_ANOMALY

fun category_name :: "threat_category \<Rightarrow> string" where
  "category_name CREDENTIAL_STUFFING = ''CREDENTIAL_STUFFING''"
| "category_name MASS_SCRAPING = ''MASS_SCRAPING''"
| "category_name PRIVILEGE_ESCALATION = ''PRIVILEGE_ESCALATION''"
| "category_name COMPOUND_ANOMALY = ''COMPOUND_ANOMALY''"

datatype evidence =
    LoginVelocity nat nat
  | RecordAccess nat
  | PrivilegeAttempt
  | MlOutlier pyfloat
  | RulesTriggered "string list"
  | ElevatedRisk pyfloat

record security_alert =
  alert_id :: string
  alert_severity :: severity
  threat_category :: threat_category
  alert_target :: string
  alert_score :: pyfloat
  alert_evidence :: "evidence list"
  event_ids :: "string list"
  alert_created :: time

record detection_finding =
  alert_generated :: bool
  found_severity :: severity
  found_score :: pyfloat

record detection_agent =
  entity_event_buffer :: "(string, event list) dict"
  max_buffer_per_entity :: nat
  detection_audit :: "(string \<times> string \<times> nat, detection_finding) audit_record list"

definition detection_agent_init :: detection_agent where
  "detection_agent_init = \<lparr>entity_event_buffer = [], max_buffer_per_entity = 100,
     detection_audit = []\<rparr>"

section \<open>Patterns\<close>

text \<open>The local variables \<open>evidence\<close>, \<open>threat_cat\<close>, \<open>severity\<close> and \<open>score\<close>.\<close>

record verdict =
  vd_evidence :: "evidence list"
  vd_cat :: "threat_category option"
  vd_severity :: severity
  vd_score :: pyfloat

definition no_verdict :: verdict where
  "no_verdict = \<lparr>vd_evidence = [], vd_cat = None, vd_severity = LOW, vd_score = 0\<rparr>"

definition last_n :: "nat \<Rightarrow> 'a list \<Rightarrow> 'a list" where
  "last_n n xs = drop (length xs - n) xs"

definition login_path :: string where
  "login_path = ''/api/auth/login''"

definition failed_login :: "event \<Rightarrow> bool" where
  "failed_login e \<longleftrightarrow>
     ev_decision e \<in> {Some ''BLOCK'', Some ''LIMIT''} \<or> ev_status_code e = Some 401"

definition recent_logins :: "event list \<Rightarrow> event list" where
  "recent_logins history = filter (\<lambda>e. ev_path e = Some login_path) (last_n 20 history)"

definition detect_stuffing :: "event list \<Rightarrow> string \<Rightarrow> verdict \<Rightarrow> verdict" where
  "detect_stuffing history path v =
     (if path = login_path then
        let logins = recent_logins history;
            failed = filter failed_login logins
        in if length failed \<ge> 4 \<or> length logins \<ge> 6
           then v\<lparr>vd_severity := HIGH, vd_score := 85, vd_cat := Some CREDENTIAL_STUFFING,
                  vd_evidence := vd_evidence v @ [LoginVelocity (length logins) (length failed)]\<rparr>
           else v
      else v)"

definition sensitive_endpoint :: "event \<Rightarrow> bool" where
  "sensitive_endpoint e =
     (\<exists>p \<in> set [''/api/orders'', ''/api/inventory'', ''/api/finance''].
        startswith (or_else (ev_path e) []) p)"

definition detect_scraping :: "event list \<Rightarrow> verdict \<Rightarrow> verdict" where
  "detect_scraping history v =
     (if vd_cat v = None then
        let hits = filter sensitive_endpoint (last_n 25 history)
        in if length hits \<ge> 8
           then v\<lparr>vd_severity := HIGH, vd_score := 75, vd_cat := Some MASS_SCRAPING,
                  vd_evidence := vd_evidence v @ [RecordAccess (length hits)]\<rparr>
           else v
      else v)"

definition detect_escalation ::
  "string list \<Rightarrow> string \<Rightarrow> string option \<Rightarrow> string \<Rightarrow> pyfloat \<Rightarrow> verdict \<Rightarrow> verdict" where
  "detect_escalation fired path meth dec risk v =
     (if vd_cat v = None \<and>
         (''R004'' \<in> set fired \<or>
          contains_sub path ''/api/users'' \<and>
          meth \<in> {Some ''POST'', Some ''PUT'', Some ''DELETE''})
      then if dec = ''BLOCK'' \<or> risk \<ge> 50
           then v\<lparr>vd_severity := CRITICAL, vd_score := 95, vd_cat := Some PRIVILEGE_ESCALATION,
                  vd_evidence := vd_evidence v @ [PrivilegeAttempt]\<rparr>
           else v
      else v)"

definition detect_compound :: "string list \<Rightarrow> pyfloat \<Rightarrow> pyfloat \<Rightarrow> verdict \<Rightarrow> verdict" where
  "detect_compound fired ml risk v =
     (if vd_cat v = None \<and> (ml \<ge> 50 \<or> length fired > 0 \<or> risk \<ge> 50) then
        let signals = (if ml \<ge> 50 then [MlOutlier ml] else [])
                    @ (if length fired > 0 then [RulesTriggered fired] else [])
                    @ (if risk \<ge> 50 then [ElevatedRisk risk] else []);
            v1 = v\<lparr>vd_evidence := vd_evidence v @ signals\<rparr>
        in if length signals \<ge> 2
           then v1\<lparr>vd_severity := (if length signals = 2 then HIGH else CRITICAL),
                   vd_score := min 100 (max 60 (risk + ml * (3/10))),
                   vd_cat := Some COMPOUND_ANOMALY\<rparr>
           else v1
      else v)"

definition detect :: "event list \<Rightarrow> event \<Rightarrow> verdict" where
  "detect history e =
     (let fired = or_else (ev_fired_rules e) [];
          ml = or_else (ev_ml_score e) 0;
          risk = or_else (ev_risk_score e) 0;
          path = or_else (ev_path e) [];
          dec = or_else (ev_decision e) ''ALLOW'';
          v1 = detect_stuffing history path no_verdict;
          v2 = detect_scraping history v1;
          v3 = detect_escalation fired path (ev_method e) dec risk v2
      in detect_compound fired ml risk v3)"

section \<open>analyze\_event\<close>

definition entity_key :: "event \<Rightarrow> string" where
  "entity_key e = (case str_or (ev_principal_ref e) (ev_client_ip e) of
       Some k \<Rightarrow> if k = [] then ''unknown'' else k | None \<Rightarrow> ''unknown'')"

definition buffer_event :: "string \<Rightarrow> event \<Rightarrow> detection_agent \<Rightarrow> detection_agent" where
  "buffer_event k e ag =
     (let buf = dget_or [] (entity_event_buffer ag) k @ [e];
          buf' = (if length buf > max_buffer_per_entity ag then tl buf else buf)
      in ag\<lparr>entity_event_buffer := dput k buf' (entity_event_buffer ag)\<rparr>)"

definition alert_of :: "time \<Rightarrow> string \<Rightarrow> string \<Rightarrow> string \<Rightarrow> verdict \<Rightarrow> security_alert option" where
  "alert_of now uid k req v =
     (if vd_evidence v \<noteq> [] \<and> vd_score v \<ge> 50 then
        (case vd_cat v of
           Some c \<Rightarrow> Some \<lparr>alert_id = ''alt-'' @ uid, alert_severity = vd_severity v,
             threat_category = c, alert_target = k, alert_score = py_round 2 (vd_score v),
             alert_evidence = vd_evidence v, event_ids = (if req \<noteq> [] then [req] else []),
             alert_created = now\<rparr>
         | None \<Rightarrow> None)
      else None)"

definition analyze_event ::
  "string \<Rightarrow> string \<Rightarrow> time \<Rightarrow> pyfloat \<Rightarrow> event \<Rightarrow> event list option \<Rightarrow> detection_agent
     \<Rightarrow> security_alert option \<times> detection_agent" where
  "analyze_event uid aud now latency e recent_events ag =
     (let k = entity_key e;
          history = (case recent_events of
                Some (x # xs) \<Rightarrow> x # xs
              | _ \<Rightarrow> dget_or [] (entity_event_buffer ag) k);
          ag1 = buffer_event k e ag;
          v = detect history e;
          req = or_else (ev_request_id e) [];
          alert = alert_of now uid k req v;
          fnd = \<lparr>alert_generated = (alert \<noteq> None), found_severity = vd_severity v,
                 found_score = vd_score v\<rparr>
      in (alert, ag1\<lparr>detection_audit := record_audit aud DETECTION ''detection_agent_v1'' now k
                        (req, or_else (ev_path e) [], length history) fnd [] ''COMPLETED'' latency (Some req) (detection_audit ag1)\<rparr>))"

section \<open>Properties\<close>

text \<open>What the patterns leave behind: a category comes with a score of at least 60 and a
  severity of HIGH or CRITICAL, and without a category the score is still 0.\<close>

definition verdict_ok :: "verdict \<Rightarrow> bool" where
  "verdict_ok v = (case vd_cat v of
       None \<Rightarrow> vd_score v = 0 \<and> vd_severity v = LOW
     | Some c \<Rightarrow> 60 \<le> vd_score v \<and> vd_score v \<le> 100 \<and> vd_evidence v \<noteq> []
         \<and> vd_severity v \<in> {HIGH, CRITICAL}
         \<and> (vd_severity v = CRITICAL \<longrightarrow> c \<in> {PRIVILEGE_ESCALATION, COMPOUND_ANOMALY})
         \<and> (c = PRIVILEGE_ESCALATION \<longrightarrow> vd_severity v = CRITICAL \<and> vd_score v = 95))"

lemma no_verdict_ok [inv_intros]: "verdict_ok no_verdict"
  by (simp add: verdict_ok_def no_verdict_def)

lemma detect_stuffing_ok [inv_intros]:
  "verdict_ok v \<Longrightarrow> vd_cat v = None \<Longrightarrow> verdict_ok (detect_stuffing h p v)"
  by (simp add: verdict_ok_def detect_stuffing_def Let_def)

lemma detect_scraping_ok [inv_intros]: "verdict_ok v \<Longrightarrow> verdict_ok (detect_scraping h v)"
  by (cases "vd_cat v") (simp_all add: verdict_ok_def detect_scraping_def Let_def)

lemma detect_escalation_ok [inv_intros]:
  "verdict_ok v \<Longrightarrow> verdict_ok (detect_escalation f p m d r v)"
  by (cases "vd_cat v") (simp_all add: verdict_ok_def detect_escalation_def)

lemma detect_compound_ok [inv_intros]: "verdict_ok v \<Longrightarrow> verdict_ok (detect_compound f ml r v)"
  by (cases "vd_cat v") (auto simp: verdict_ok_def detect_compound_def Let_def)

lemma detect_ok: "verdict_ok (detect h e)"
  unfolding detect_def Let_def
  by (intro inv_intros) (simp add: no_verdict_def)

lemma alert_of_fields:
  assumes "alert_of now uid k req v = Some a"
  shows "vd_cat v = Some (threat_category a)" "alert_severity a = vd_severity v"
    "alert_score a = py_round 2 (vd_score v)" "alert_target a = k" "alert_id a = ''alt-'' @ uid"
    "alert_evidence a = vd_evidence v"
  using assms by (auto simp: alert_of_def split: if_splits option.splits)

lemma analyze_event_alert:
  "analyze_event uid aud now lt e r ag = (Some a, ag') \<Longrightarrow>
   \<exists>h. alert_of now uid (entity_key e) (or_else (ev_request_id e) []) (detect h e) = Some a"
  by (auto simp: analyze_event_def Let_def)

lemma analyze_event_agent:
  "entity_event_buffer (snd (analyze_event uid aud now lt e r ag))
     = entity_event_buffer (buffer_event (entity_key e) e ag)"
  "max_buffer_per_entity (snd (analyze_event uid aud now lt e r ag)) = max_buffer_per_entity ag"
  by (simp_all add: analyze_event_def Let_def buffer_event_def)


text \<open>Single weak signals do not alert.\<close>

lemma one_signal_is_quiet:
  assumes "or_else (ev_path e) [] \<noteq> login_path" "or_else (ev_fired_rules e) [] = []"
    "or_else (ev_risk_score e) 0 < 50" "or_else (ev_decision e) ''ALLOW'' \<noteq> ''BLOCK''" "length (filter sensitive_endpoint (last_n 25 h)) < 8"
  shows "vd_cat (detect h e) = None"
  using assms
  by (simp add: detect_def Let_def detect_stuffing_def detect_scraping_def detect_escalation_def
      detect_compound_def no_verdict_def)

definition buffers_bounded :: "detection_agent \<Rightarrow> bool" where
  "buffers_bounded ag \<longleftrightarrow> 0 < max_buffer_per_entity ag \<and>
     (\<forall>b \<in> ran (dget (entity_event_buffer ag)). length b \<le> max_buffer_per_entity ag)"

lemma buffer_event_bounded:
  assumes "buffers_bounded ag"
  shows "buffers_bounded (buffer_event k e ag)"
proof -
  let ?n = "max_buffer_per_entity ag"
  have old: "length (dget_or [] (entity_event_buffer ag) k) \<le> ?n"
    using assms by (auto simp: buffers_bounded_def dget_or_def ran_def split: option.splits)
  show ?thesis
    using assms old
    by (auto simp: buffers_bounded_def buffer_event_def Let_def update_conv' ran_def
        split: if_splits)
qed

type_synonym analysis = "(string \<times> string) \<times> (time \<times> pyfloat) \<times> event \<times> event list option"

fun analyze_run :: "analysis list \<Rightarrow> detection_agent \<Rightarrow> detection_agent" where
  "analyze_run [] ag = ag"
| "analyze_run (((uid, aud), (now, lt), e, r) # xs) ag =
     analyze_run xs (snd (analyze_event uid aud now lt e r ag))"

lemma analyze_run_bounded: "buffers_bounded ag \<Longrightarrow> buffers_bounded (analyze_run xs ag)"
proof (induction xs ag rule: analyze_run.induct)
  case (2 uid aud now lt e r xs ag)
  have "buffers_bounded (snd (analyze_event uid aud now lt e r ag))"
    using buffer_event_bounded [OF "2.prems", of "entity_key e" e]
    by (simp add: buffers_bounded_def analyze_event_agent) (simp add: buffer_event_def Let_def)
  then show ?case using "2.IH" by simp
qed simp

text \<open>The agent's memory is bounded: whatever events it analyses, no entity's buffer ever
  holds more than a hundred of them.\<close>

theorem detection_buffer_bounded:
  "length (dget_or [] (entity_event_buffer (analyze_run xs detection_agent_init)) k) \<le> 100"
proof -
  have start: "buffers_bounded detection_agent_init"
    by (simp add: buffers_bounded_def detection_agent_init_def)
  have limit: "max_buffer_per_entity (analyze_run xs ag) = max_buffer_per_entity ag" for ag
    by (induction xs ag rule: analyze_run.induct) (simp_all add: analyze_event_agent)
  have "buffers_bounded (analyze_run xs detection_agent_init)"
    using start by (rule analyze_run_bounded)
  then show ?thesis
    using limit [of detection_agent_init]
    by (auto simp: buffers_bounded_def dget_or_def ran_def detection_agent_init_def
        split: option.splits)
qed

text \<open>The failure count of the credential-stuffing pattern reads the keys \<open>decision\<close> and
  \<open>status_code\<close>.  On a history of records that carry neither, as the feature history of
  the gateway does, no login counts as failed, and only the count of all logins is left.\<close>

lemma unlabelled_history_never_fails:
  assumes "\<forall>e \<in> set history. ev_decision e = None \<and> ev_status_code e = None"
  shows "filter failed_login (recent_logins history) = []"
proof -
  have "set (recent_logins history) \<subseteq> set history"
    using set_drop_subset [of "length history - 20" history]
    by (auto simp: recent_logins_def last_n_def)
  then show ?thesis using assms by (auto simp: filter_empty_conv failed_login_def)
qed

definition login_event :: event where
  "login_event = empty_event\<lparr>ev_client_ip := Some ''203.0.113.9'', ev_path := Some login_path,
     ev_status_code := Some 401, ev_request_id := Some ''r1''\<rparr>"

definition spray :: "security_alert option \<times> detection_agent" where
  "spray = analyze_event ''1'' ''2'' 0 0 login_event
     (Some [login_event, login_event, login_event, login_event]) detection_agent_init"

lemma spray_alerts: "\<exists>a ag'. spray = (Some a, ag')"
  by (simp add: spray_def analyze_event_def Let_def detect_def alert_of_def detect_stuffing_def
      recent_logins_def last_n_def login_event_def failed_login_def no_verdict_def
      detect_scraping_def detect_escalation_def detect_compound_def empty_event_def)


end
