(* ===== verification/Response_Agent.thy ===== *)
theory Response_Agent
  imports Detection_Agent
begin

text \<open>
  \<open>agents/response_agent.py\<close>: formulation of a response plan, the automatic execution of
  its reversible actions, and the three analyst operations.

  The registry is a dict from action identifiers to actions.  Plans hold the same action
  objects as the registry, so a plan of the model holds their identifiers.  \<open>fresh n\<close> is the
  \<open>n\<close>-th identifier that one plan formulation draws from \<open>uuid4\<close>.  A Python exception is a
  value of \<open>agent_error\<close>; none of the operations changes any state before it raises.
\<close>

datatype agent_error =
    KeyError string
  | ValueError string approval_status

record response_plan =
  plan_incident_id :: string
  plan_target_entity :: string
  plan_actions :: "string list"
  auto_executed_actions :: "string list"
  pending_human_actions :: "string list"

record response_agent =
  actions_registry :: "(string, agent_action) dict"
  active_rate_limits :: "(string, json) dict"
  active_quarantined_ips :: "(string, string) dict"
  active_challenges :: "(string, string) dict"
  ra_revoked_tokens :: "string set"
  response_audit :: "(string \<times> string, response_plan) audit_record list"

definition response_agent_init :: response_agent where
  "response_agent_init = \<lparr>actions_registry = [], active_rate_limits = [],
     active_quarantined_ips = [], active_challenges = [], ra_revoked_tokens = {},
     response_audit = []\<rparr>"

section \<open>Containment state\<close>

definition apply_containment :: "agent_action \<Rightarrow> response_agent \<Rightarrow> response_agent" where
  "apply_containment a ag =
     (let tgt = target_entity a in
      case action_type a of
        RATE_LIMIT \<Rightarrow> ag\<lparr>active_rate_limits :=
          dput tgt (dget_or (JInt 5) (parameters a) ''rate_limit'') (active_rate_limits ag)\<rparr>
      | QUARANTINE_IP_TEMP \<Rightarrow> ag\<lparr>active_quarantined_ips :=
          dput tgt (justification a) (active_quarantined_ips ag)\<rparr>
      | CHALLENGE_MFA \<Rightarrow> ag\<lparr>active_challenges :=
          dput tgt (justification a) (active_challenges ag)\<rparr>
      | SUSPEND_ACCOUNT \<Rightarrow> ag\<lparr>active_challenges :=
          dput tgt ''SUSPENDED'' (active_challenges ag)\<rparr>
      | _ \<Rightarrow> ag)"

definition release_containment :: "agent_action \<Rightarrow> response_agent \<Rightarrow> response_agent" where
  "release_containment a ag =
     (let tgt = target_entity a in
      case action_type a of
        RATE_LIMIT \<Rightarrow> ag\<lparr>active_rate_limits := ddel tgt (active_rate_limits ag)\<rparr>
      | QUARANTINE_IP_TEMP \<Rightarrow>
          ag\<lparr>active_quarantined_ips := ddel tgt (active_quarantined_ips ag)\<rparr>
      | CHALLENGE_MFA \<Rightarrow> ag\<lparr>active_challenges := ddel tgt (active_challenges ag)\<rparr>
      | SUSPEND_ACCOUNT \<Rightarrow> ag\<lparr>active_challenges := ddel tgt (active_challenges ag)\<rparr>
      | _ \<Rightarrow> ag)"

section \<open>Plans\<close>

definition quoted :: "string \<Rightarrow> string" where
  "quoted s = CHR 0x27 # s @ [CHR 0x27]"

definition throttle_text :: "string \<Rightarrow> threat_category \<Rightarrow> string" where
  "throttle_text target cat = ''Automated containment: throttle abusive entity '' @ quoted target
     @ '' due to '' @ category_name cat"

definition mfa_text :: "string \<Rightarrow> string" where
  "mfa_text target = ''Require MFA re-authentication for '' @ quoted target
     @ '' following suspicious velocity/anomaly''"

definition quarantine_text :: "string \<Rightarrow> string" where
  "quarantine_text target =
     ''Temporary 1-hour IP quarantine for '' @ quoted target @ '' pending investigation''"

definition suspend_text :: "string \<Rightarrow> string" where
  "suspend_text target = ''CRITICAL privilege abuse by '' @ quoted target
     @ ''. Human analyst approval required to suspend account.''"

text \<open>The four constructor calls of \<open>formulate_response_plan\<close>, each waiting for its
  generated identifier, and the conditions under which they are made.\<close>

definition throttle_action :: "time \<Rightarrow> security_alert \<Rightarrow> string \<Rightarrow> agent_action" where
  "throttle_action now al aid = (mk_action aid now RATE_LIMIT (alert_target al)
     (throttle_text (alert_target al) (threat_category al)))
     \<lparr>parameters := [(''rate_limit'', JInt 5), (''window_seconds'', JInt 60)]\<rparr>"

definition mfa_action :: "time \<Rightarrow> security_alert \<Rightarrow> string \<Rightarrow> agent_action" where
  "mfa_action now al aid = (mk_action aid now CHALLENGE_MFA (alert_target al)
     (mfa_text (alert_target al)))\<lparr>duration_seconds := Some 1800\<rparr>"

definition quarantine_action :: "time \<Rightarrow> security_alert \<Rightarrow> string \<Rightarrow> agent_action" where
  "quarantine_action now al aid = mk_action aid now QUARANTINE_IP_TEMP (alert_target al)
     (quarantine_text (alert_target al))"

definition suspend_action :: "time \<Rightarrow> security_alert \<Rightarrow> string \<Rightarrow> agent_action" where
  "suspend_action now al aid = mk_action aid now SUSPEND_ACCOUNT (alert_target al)
     (suspend_text (alert_target al))"

definition proposals :: "time \<Rightarrow> security_alert \<Rightarrow> (string \<Rightarrow> agent_action) list" where
  "proposals now al =
     (let sev = alert_severity al; cat = threat_category al in
      (if sev \<in> {MEDIUM, HIGH, CRITICAL} then [throttle_action now al] else [])
      @ (if cat \<in> {CREDENTIAL_STUFFING, COMPOUND_ANOMALY} then [mfa_action now al] else [])
      @ (if sev \<in> {HIGH, CRITICAL} then [quarantine_action now al] else [])
      @ (if sev = CRITICAL \<or> cat = PRIVILEGE_ESCALATION then [suspend_action now al] else []))"

definition proposed_actions ::
  "(nat \<Rightarrow> string) \<Rightarrow> time \<Rightarrow> security_alert \<Rightarrow> agent_action list" where
  "proposed_actions fresh now al = map (\<lambda>(i, mk). mk (fresh i)) (enumerate 0 (proposals now al))"

definition register_action :: "agent_action \<Rightarrow> response_agent \<Rightarrow> response_agent" where
  "register_action a ag = ag\<lparr>actions_registry := dput (action_id a) a (actions_registry ag)\<rparr>"

text \<open>One pass of the registration loop: an action that needs a human is only registered;
  any other is applied and marked as executed.\<close>

definition settle :: "time \<Rightarrow> agent_action \<Rightarrow> agent_action" where
  "settle now a = (if requires_human_approval a then a
     else a\<lparr>approval_status := EXECUTED, executed_at := Some now\<rparr>)"

definition admit_action :: "time \<Rightarrow> agent_action \<Rightarrow> response_agent \<Rightarrow> response_agent" where
  "admit_action now a ag =
     (if requires_human_approval a then register_action (settle now a) ag
      else register_action (settle now a) (apply_containment a ag))"

definition admit_all :: "time \<Rightarrow> agent_action list \<Rightarrow> response_agent \<Rightarrow> response_agent" where
  "admit_all now acts ag = fold (admit_action now) acts ag"

definition plan_of :: "string \<Rightarrow> string \<Rightarrow> agent_action list \<Rightarrow> response_plan" where
  "plan_of incident target acts =
     \<lparr>plan_incident_id = incident, plan_target_entity = target,
      plan_actions = map action_id acts,
      auto_executed_actions = map action_id (filter (\<lambda>a. \<not> requires_human_approval a) acts),
      pending_human_actions = map action_id (filter requires_human_approval acts)\<rparr>"

definition formulate_response_plan ::
  "(nat \<Rightarrow> string) \<Rightarrow> string \<Rightarrow> time \<Rightarrow> pyfloat \<Rightarrow> security_alert \<Rightarrow> string \<Rightarrow> response_agent
     \<Rightarrow> response_plan \<times> response_agent" where
  "formulate_response_plan fresh aud now latency al incident ag =
     (let acts = proposed_actions fresh now al;
          ag1 = admit_all now acts ag;
          plan = plan_of incident (alert_target al) acts
      in (plan, ag1\<lparr>response_audit := record_audit aud RESPONSE ''response_agent_v1'' now
                  (alert_target al) (alert_id al, incident) plan (map (settle now) acts) ''COMPLETED''
                  latency (Some (alert_id al)) (response_audit ag1)\<rparr>))"

section \<open>Analyst operations\<close>

definition ra_approve ::
  "time \<Rightarrow> string \<Rightarrow> string \<Rightarrow> response_agent \<Rightarrow> agent_error + agent_action \<times> response_agent" where
  "ra_approve now aid analyst ag =
     (case dget (actions_registry ag) aid of
        None \<Rightarrow> Inl (KeyError aid)
      | Some a \<Rightarrow>
          if approval_status a \<noteq> PENDING_HUMAN_APPROVAL
          then Inl (ValueError aid (approval_status a))
          else
            let a1 = a\<lparr>approved_by := Some analyst, approved_at := Some now,
                       approval_status := APPROVED\<rparr>;
                ag1 = apply_containment a1 ag;
                a2 = a1\<lparr>approval_status := EXECUTED, executed_at := Some now\<rparr>
            in Inr (a2, ag1\<lparr>actions_registry := dput aid a2 (actions_registry ag1)\<rparr>))"

definition ra_reject ::
  "time \<Rightarrow> string \<Rightarrow> string \<Rightarrow> string \<Rightarrow> response_agent
     \<Rightarrow> agent_error + agent_action \<times> response_agent" where
  "ra_reject now aid analyst reason ag =
     (case dget (actions_registry ag) aid of
        None \<Rightarrow> Inl (KeyError aid)
      | Some a \<Rightarrow>
          let a1 = a\<lparr>approved_by := Some analyst, approved_at := Some now,
                     approval_status := REJECTED,
                     parameters := dput ''rejection_reason'' (JStr reason) (parameters a)\<rparr>
          in Inr (a1, ag\<lparr>actions_registry := dput aid a1 (actions_registry ag)\<rparr>))"

definition ra_revoke ::
  "time \<Rightarrow> string \<Rightarrow> string option \<Rightarrow> response_agent
     \<Rightarrow> agent_error + agent_action \<times> response_agent" where
  "ra_revoke now aid analyst ag =
     (case dget (actions_registry ag) aid of
        None \<Rightarrow> Inl (KeyError aid)
      | Some a \<Rightarrow>
          if approval_status a \<noteq> EXECUTED then Inl (ValueError aid (approval_status a))
          else
            let ag1 = release_containment a ag;
                a1 = a\<lparr>approval_status := REVOKED, revoked_at := Some now\<rparr>;
                a2 = (if truthy_str analyst
                      then a1\<lparr>parameters := dput ''revoked_by'' (JStr (the analyst))
                                              (parameters a1)\<rparr>
                      else a1)
            in Inr (a2, ag1\<lparr>actions_registry := dput aid a2 (actions_registry ag1)\<rparr>))"

section \<open>The life of an action\<close>

lemma containment_registry [simp]:
  "actions_registry (apply_containment a ag) = actions_registry ag"
  "actions_registry (release_containment a ag) = actions_registry ag"
  by (simp_all add: apply_containment_def release_containment_def Let_def split: action_type.splits)

lemma apply_containment_challenges [simp]:
  "active_challenges (apply_containment a ag) =
     (if action_type a = CHALLENGE_MFA
      then dput (target_entity a) (justification a) (active_challenges ag)
      else if action_type a = SUSPEND_ACCOUNT
      then dput (target_entity a) ''SUSPENDED'' (active_challenges ag)
      else active_challenges ag)"
  by (simp add: apply_containment_def Let_def split: action_type.splits)

lemma release_containment_challenges [simp]:
  "active_challenges (release_containment a ag) =
     (if action_type a = CHALLENGE_MFA \<or> action_type a = SUSPEND_ACCOUNT
      then ddel (target_entity a) (active_challenges ag) else active_challenges ag)"
  by (simp add: release_containment_def Let_def split: action_type.splits)

lemma settle_sel [simp]:
  "action_type (settle now a) = action_type a" "target_entity (settle now a) = target_entity a"
  "requires_human_approval (settle now a) = requires_human_approval a"
  "approved_by (settle now a) = approved_by a" "action_id (settle now a) = action_id a"
  "approval_status (settle now a)
     = (if requires_human_approval a then approval_status a else EXECUTED)"
  by (simp_all add: settle_def)

lemma admit_action_registry:
  "actions_registry (admit_action now a ag) = dput (action_id a) (settle now a) (actions_registry ag)"
  by (simp add: admit_action_def register_action_def)

lemma admit_action_challenges:
  "active_challenges (admit_action now a ag) =
     (if requires_human_approval a then active_challenges ag
      else active_challenges (apply_containment a ag))"
  by (simp add: admit_action_def register_action_def)

text \<open>What every proposed action looks like.\<close>

definition fresh_action :: "agent_action \<Rightarrow> bool" where
  "fresh_action a \<longleftrightarrow>
     (requires_human_approval a \<longleftrightarrow> human_approval_required (action_type a))
     \<and> approval_status a = (if requires_human_approval a then PENDING_HUMAN_APPROVAL else AUTO_APPROVED)
     \<and> approved_by a = None
     \<and> (action_type a = CHALLENGE_MFA \<longrightarrow> justification a \<noteq> ''SUSPENDED'')"

lemma proposal_fresh [simp]:
  "fresh_action (throttle_action now al i)" "fresh_action (mfa_action now al i)"
  "fresh_action (quarantine_action now al i)" "fresh_action (suspend_action now al i)"
  by (simp_all add: fresh_action_def throttle_action_def mfa_action_def quarantine_action_def
      suspend_action_def human_approval_required_def mfa_text_def)

lemma proposal_id [simp]:
  "action_id (throttle_action now al i) = i" "action_id (mfa_action now al i) = i"
  "action_id (quarantine_action now al i) = i" "action_id (suspend_action now al i) = i"
  by (simp_all add: throttle_action_def mfa_action_def quarantine_action_def suspend_action_def)

lemma proposals_fresh:
  "mk \<in> set (proposals now al) \<Longrightarrow> fresh_action (mk i) \<and> action_id (mk i) = i"
  by (auto simp: proposals_def Let_def split: if_splits)

lemma proposed_ids:
  "map action_id (proposed_actions fresh now al) = map fresh [0..<length (proposals now al)]"
  using proposals_fresh [of _ now al]
  by (auto simp: proposed_actions_def intro!: nth_equalityI simp: nth_enumerate_eq)

lemma proposed_fresh: "a \<in> set (proposed_actions fresh now al) \<Longrightarrow> fresh_action a"
  using proposals_fresh [of _ now al]
  by (auto simp: proposed_actions_def in_set_enumerate_eq)


section \<open>Reachable agents\<close>

text \<open>An operation on the agent: formulating a plan or one of the analyst's three calls.  A
  call that raises leaves the state alone.  The identifiers that \<open>uuid4\<close> generates are taken
  to be new; this is the only hypothesis on the environment.\<close>

inductive ra_step :: "response_agent \<Rightarrow> response_agent \<Rightarrow> bool" where
  formulate: "distinct (map action_id (proposed_actions fresh now al)) \<Longrightarrow>
    \<forall>a \<in> set (proposed_actions fresh now al). dget (actions_registry ag) (action_id a) = None \<Longrightarrow>
    ra_step ag (snd (formulate_response_plan fresh aud now lt al incident ag))"
| approve: "ra_approve now aid analyst ag = Inr (a, ag') \<Longrightarrow> ra_step ag ag'"
| reject: "ra_reject now aid analyst reason ag = Inr (a, ag') \<Longrightarrow> ra_step ag ag'"
| revoke: "ra_revoke now aid who ag = Inr (a, ag') \<Longrightarrow> ra_step ag ag'"

inductive ra_reachable :: "response_agent \<Rightarrow> bool" where
  init: "ra_reachable response_agent_init"
| step: "ra_reachable ag \<Longrightarrow> ra_step ag ag' \<Longrightarrow> ra_reachable ag'"

text \<open>An action in the registry: the human gate is set exactly for the high-impact types, an
  executed or revoked high-impact action has an approver, and only those wait.\<close>

definition gated :: "agent_action \<Rightarrow> bool" where
  "gated a \<longleftrightarrow>
     (requires_human_approval a \<longleftrightarrow> human_approval_required (action_type a))
     \<and> (requires_human_approval a \<and> approval_status a \<noteq> PENDING_HUMAN_APPROVAL
          \<longrightarrow> approved_by a \<noteq> None)
     \<and> (\<not> requires_human_approval a \<longrightarrow> approval_status a \<noteq> PENDING_HUMAN_APPROVAL)
     \<and> (action_type a = CHALLENGE_MFA \<longrightarrow> justification a \<noteq> ''SUSPENDED'')"

definition suspended_by :: "response_agent \<Rightarrow> string \<Rightarrow> bool" where
  "suspended_by ag t \<longleftrightarrow> (\<exists>a \<in> ran (dget (actions_registry ag)).
     action_type a = SUSPEND_ACCOUNT \<and> target_entity a = t \<and> approved_by a \<noteq> None)"

definition ra_inv :: "response_agent \<Rightarrow> bool" where
  "ra_inv ag \<longleftrightarrow> (\<forall>a \<in> ran (dget (actions_registry ag)). gated a) \<and>
     (\<forall>t. dget (active_challenges ag) t = Some ''SUSPENDED'' \<longrightarrow> suspended_by ag t)"

lemma ran_dput_sub: "ran (dget (dput k v m)) \<subseteq> insert v (ran (dget m))"
  by (auto simp: update_conv' ran_def)

lemma ra_inv_update:
  assumes inv: "ra_inv ag" and b: "gated b"
    and reg: "actions_registry ag' = dput k b (actions_registry ag)"
    and same: "\<And>a. dget (actions_registry ag) k = Some a \<Longrightarrow>
      action_type b = action_type a \<and> target_entity b = target_entity a
      \<and> (approved_by a \<noteq> None \<longrightarrow> approved_by b \<noteq> None)"
    and ch: "\<And>t. dget (active_challenges ag') t = Some ''SUSPENDED'' \<Longrightarrow>
      dget (active_challenges ag) t = Some ''SUSPENDED''
      \<or> action_type b = SUSPEND_ACCOUNT \<and> target_entity b = t \<and> approved_by b \<noteq> None"
  shows "ra_inv ag'"
proof -
  have new: "b \<in> ran (dget (actions_registry ag'))"
    by (auto simp: reg update_conv' ran_def)
  have keep: "suspended_by ag' t" if s: "suspended_by ag t" for t
  proof -
    obtain c i where c: "dget (actions_registry ag) i = Some c" "action_type c = SUSPEND_ACCOUNT"
        "target_entity c = t" "approved_by c \<noteq> None"
      using s unfolding suspended_by_def ran_def by blast
    show ?thesis
    proof (cases "i = k")
      case True
      then show ?thesis using same c new unfolding suspended_by_def by metis
    next
      case False
      then have "c \<in> ran (dget (actions_registry ag'))"
        using c by (auto simp: reg update_conv' ran_def)
      then show ?thesis using c unfolding suspended_by_def by auto
    qed
  qed
  have "suspended_by ag' t" if "dget (active_challenges ag') t = Some ''SUSPENDED''" for t
    using ch [OF that] keep inv new unfolding ra_inv_def suspended_by_def by blast
  moreover have "\<forall>a \<in> ran (dget (actions_registry ag')). gated a"
    using inv b ran_dput_sub [of k b "actions_registry ag"] by (auto simp: ra_inv_def reg)
  ultimately show ?thesis by (simp add: ra_inv_def)
qed

lemma ra_inv_gated: "ra_inv ag \<Longrightarrow> dget (actions_registry ag) k = Some a \<Longrightarrow> gated a"
  by (auto simp: ra_inv_def ran_def)

lemma admit_action_inv:
  assumes "ra_inv ag" "fresh_action a" "dget (actions_registry ag) (action_id a) = None"
  shows "ra_inv (admit_action now a ag)"
proof (rule ra_inv_update [OF assms(1), of "settle now a" _ "action_id a"])
  show "gated (settle now a)" using assms(2) by (auto simp: fresh_action_def gated_def settle_def)
  show "actions_registry (admit_action now a ag)
      = dput (action_id a) (settle now a) (actions_registry ag)"
    by (rule admit_action_registry)
  fix t assume "dget (active_challenges (admit_action now a ag)) t = Some ''SUSPENDED''"
  then show "dget (active_challenges ag) t = Some ''SUSPENDED''
      \<or> action_type (settle now a) = SUSPEND_ACCOUNT \<and> target_entity (settle now a) = t
        \<and> approved_by (settle now a) \<noteq> None"
    using assms(2)
    by (auto simp: admit_action_challenges fresh_action_def human_approval_required_def
        update_conv' split: if_splits)
qed (use assms(3) in simp)

lemma admit_all_inv:
  "ra_inv ag \<Longrightarrow> \<forall>a \<in> set acts. fresh_action a \<Longrightarrow> distinct (map action_id acts) \<Longrightarrow>
   \<forall>a \<in> set acts. dget (actions_registry ag) (action_id a) = None \<Longrightarrow>
   ra_inv (admit_all now acts ag)"
proof (induction acts arbitrary: ag)
  case (Cons a acts)
  have "action_id b \<noteq> action_id a" if "b \<in> set acts" for b
    using imageI [OF that, of action_id] Cons.prems(3) by auto
  then have "\<forall>b \<in> set acts. dget (actions_registry (admit_action now a ag)) (action_id b) = None"
    using Cons.prems(4) by (simp add: admit_action_registry update_conv')
  moreover have "ra_inv (admit_action now a ag)"
    using Cons.prems by (auto intro: admit_action_inv)
  ultimately have "ra_inv (admit_all now acts (admit_action now a ag))"
    using Cons.prems by (intro Cons.IH) auto
  then show ?case by (simp add: admit_all_def)
qed (simp add: admit_all_def)

lemma ra_approve_inv:
  assumes "ra_inv ag" "ra_approve now aid analyst ag = Inr (b, ag')"
  shows "ra_inv ag'"
proof -
  obtain a where a: "dget (actions_registry ag) aid = Some a"
      "approval_status a = PENDING_HUMAN_APPROVAL"
    and b: "b = a\<lparr>approved_by := Some analyst, approved_at := Some now,
        approval_status := EXECUTED, executed_at := Some now\<rparr>"
    and ag': "actions_registry ag' = dput aid b (actions_registry ag)"
      "active_challenges ag' = active_challenges (apply_containment (a\<lparr>approved_by := Some analyst,
         approved_at := Some now, approval_status := APPROVED\<rparr>) ag)"
    using assms(2) by (auto simp: ra_approve_def Let_def split: option.splits if_splits)
  have g: "gated a" by (rule ra_inv_gated [OF assms(1) a(1)])
  then have hi: "requires_human_approval a" "action_type a \<noteq> CHALLENGE_MFA"
    using a(2) by (auto simp: gated_def human_approval_required_def)
  show ?thesis
  proof (rule ra_inv_update [OF assms(1) _ ag'(1)])
    show "gated b" using g by (simp add: gated_def b)
    fix t assume "dget (active_challenges ag') t = Some ''SUSPENDED''"
    then show "dget (active_challenges ag) t = Some ''SUSPENDED''
        \<or> action_type b = SUSPEND_ACCOUNT \<and> target_entity b = t \<and> approved_by b \<noteq> None"
      using hi by (auto simp: ag' b update_conv' split: if_splits)
  qed (use a(1) in \<open>auto simp: b\<close>)
qed

lemma ra_reject_inv:
  assumes "ra_inv ag" "ra_reject now aid analyst reason ag = Inr (b, ag')"
  shows "ra_inv ag'"
proof -
  obtain a where a: "dget (actions_registry ag) aid = Some a"
    and b: "b = a\<lparr>approved_by := Some analyst, approved_at := Some now, approval_status := REJECTED,
        parameters := dput ''rejection_reason'' (JStr reason) (parameters a)\<rparr>"
    and ag': "ag' = ag\<lparr>actions_registry := dput aid b (actions_registry ag)\<rparr>"
    using assms(2) by (auto simp: ra_reject_def Let_def split: option.splits)
  have g: "gated a" by (rule ra_inv_gated [OF assms(1) a])
  show ?thesis
    by (rule ra_inv_update [OF assms(1), of b _ aid])
      (use g a in \<open>auto simp: gated_def b ag'\<close>)
qed

lemma ra_revoke_inv:
  assumes "ra_inv ag" "ra_revoke now aid who ag = Inr (b, ag')"
  shows "ra_inv ag'"
proof -
  obtain a where a: "dget (actions_registry ag) aid = Some a" "approval_status a = EXECUTED"
    and b: "action_type b = action_type a" "target_entity b = target_entity a"
      "approved_by b = approved_by a" "justification b = justification a"
      "approval_status b = REVOKED" "requires_human_approval b = requires_human_approval a"
    and ag': "actions_registry ag' = dput aid b (actions_registry ag)"
      "active_challenges ag' = active_challenges (release_containment a ag)"
    using assms(2) by (auto simp: ra_revoke_def Let_def split: option.splits if_splits)
  have g: "gated a" by (rule ra_inv_gated [OF assms(1) a(1)])
  show ?thesis
    by (rule ra_inv_update [OF assms(1) _ ag'(1)])
      (use g a in \<open>auto simp: gated_def b ag' delete_conv' split: if_splits\<close>)
qed

lemma ra_step_inv: "ra_step ag ag' \<Longrightarrow> ra_inv ag \<Longrightarrow> ra_inv ag'"
proof (induction rule: ra_step.induct)
  case (formulate fresh now al ag aud lt incident)
  have "ra_inv (admit_all now (proposed_actions fresh now al) ag)"
    using formulate proposed_fresh by (auto intro!: admit_all_inv)
  then show ?case
    by (simp add: formulate_response_plan_def Let_def ra_inv_def suspended_by_def)
qed (auto intro: ra_approve_inv ra_reject_inv ra_revoke_inv)

lemma ra_reachable_inv: "ra_reachable ag \<Longrightarrow> ra_inv ag"
proof (induction rule: ra_reachable.induct)
  case init
  show ?case by (simp add: ra_inv_def response_agent_init_def)
qed (rule ra_step_inv)

section \<open>Properties\<close>

text \<open>C8: No high-impact containment without a human.  In every reachable state of the
  response agent, an action of a high-impact type that has been approved, executed, rejected
  or revoked carries the analyst who decided it, and a principal is marked
  as suspended only if some analyst has decided a suspension of that principal.\<close>

theorem human_gate_holds:
  assumes "ra_reachable ag"
  shows "(\<forall>k a. dget (actions_registry ag) k = Some a \<longrightarrow> human_approval_required (action_type a)
            \<longrightarrow> approval_status a \<noteq> PENDING_HUMAN_APPROVAL \<longrightarrow> approved_by a \<noteq> None)
    \<and> (\<forall>t. dget (active_challenges ag) t = Some ''SUSPENDED''
          \<longrightarrow> (\<exists>k a. dget (actions_registry ag) k = Some a \<and> action_type a = SUSPEND_ACCOUNT
                \<and> target_entity a = t \<and> approved_by a \<noteq> None))"
proof -
  have inv: "ra_inv ag" by (rule ra_reachable_inv [OF assms])
  show ?thesis
  proof (intro conjI allI impI)
    fix k a assume "dget (actions_registry ag) k = Some a" "human_approval_required (action_type a)"
      "approval_status a \<noteq> PENDING_HUMAN_APPROVAL"
    then show "approved_by a \<noteq> None"
      using ra_inv_gated [OF inv] by (auto simp: gated_def)
  next
    fix t assume "dget (active_challenges ag) t = Some ''SUSPENDED''"
    then have "suspended_by ag t" using inv by (simp add: ra_inv_def)
    then show "\<exists>k a. dget (actions_registry ag) k = Some a \<and> action_type a = SUSPEND_ACCOUNT
        \<and> target_entity a = t \<and> approved_by a \<noteq> None"
      unfolding suspended_by_def ran_def by blast
  qed
qed

text \<open>The status of one action, as the operations move it.\<close>

inductive status_step :: "approval_status \<Rightarrow> approval_status \<Rightarrow> bool" where
  stay: "status_step s s"
| approved: "status_step PENDING_HUMAN_APPROVAL EXECUTED"
| rejected: "status_step s REJECTED"
| revoked: "status_step EXECUTED REVOKED"

inductive_cases status_stepE: "status_step s t"

lemma fold_admit_registry_other:
  "k \<notin> set (map action_id acts) \<Longrightarrow>
   dget (actions_registry (admit_all now acts ag)) k = dget (actions_registry ag) k"
proof (induction acts arbitrary: ag)
  case (Cons a acts)
  then have "dget (actions_registry (admit_all now acts (admit_action now a ag))) k
      = dget (actions_registry (admit_action now a ag)) k"
    by (intro Cons.IH) simp
  also have "\<dots> = dget (actions_registry ag) k"
    using Cons.prems by (auto simp: admit_action_registry update_conv')
  finally show ?case by (simp add: admit_all_def)
qed (simp add: admit_all_def)

text \<open>An action never leaves the registry, keeps its type and target, and its status moves
  only along the edges above: only a pending action is approved, only an executed one is
  revoked, and what was rejected or revoked is never executed again.\<close>

theorem action_status_transitions:
  assumes "ra_step ag ag'" "dget (actions_registry ag) k = Some a"
  shows "\<exists>b. dget (actions_registry ag') k = Some b
    \<and> action_type b = action_type a \<and> target_entity b = target_entity a
    \<and> status_step (approval_status a) (approval_status b)"
  using assms
proof (induction rule: ra_step.induct)
  case (formulate fresh now al ag aud lt incident)
  then have "k \<notin> set (map action_id (proposed_actions fresh now al))" by auto
  then show ?case
    using formulate.prems fold_admit_registry_other
    by (simp add: formulate_response_plan_def Let_def status_step.stay)
qed (auto simp: ra_approve_def ra_reject_def ra_revoke_def Let_def update_conv'
    intro: status_step.intros split: option.splits if_splits)

text \<open>Revoking undoes approving: an analyst who approves a pending action and revokes it
  leaves every containment table as it was, provided nothing was in force for the target.\<close>

definition contained :: "response_agent \<Rightarrow> string \<Rightarrow> json option \<times> string option \<times> string option" where
  "contained ag t = (dget (active_rate_limits ag) t, dget (active_quarantined_ips ag) t,
     dget (active_challenges ag) t)"

lemma contained_apply_release:
  assumes "contained ag (target_entity a) = (None, None, None)"
    and "action_type b = action_type a" "target_entity b = target_entity a"
    and "active_rate_limits x = active_rate_limits (apply_containment a ag)"
      "active_quarantined_ips x = active_quarantined_ips (apply_containment a ag)"
      "active_challenges x = active_challenges (apply_containment a ag)"
  shows "contained (release_containment b x) t = contained ag t"
  using assms
  by (auto simp: contained_def apply_containment_def release_containment_def Let_def
      update_conv' delete_conv' split: action_type.splits)

theorem approve_revoke_roundtrip:
  assumes "ra_approve t1 aid analyst ag = Inr (a, ag1)"
    and "contained ag (target_entity a) = (None, None, None)"
  shows "\<exists>b ag2. ra_revoke t2 aid who ag1 = Inr (b, ag2) \<and> approval_status b = REVOKED
    \<and> (\<forall>t. contained ag2 t = contained ag t)"
proof -
  obtain a0 where a0: "dget (actions_registry ag) aid = Some a0"
    and a: "a = a0\<lparr>approved_by := Some analyst, approved_at := Some t1,
        approval_status := EXECUTED, executed_at := Some t1\<rparr>"
    and ag1: "ag1 = (apply_containment (a0\<lparr>approved_by := Some analyst, approved_at := Some t1,
        approval_status := APPROVED\<rparr>) ag)\<lparr>actions_registry := dput aid a (actions_registry ag)\<rparr>"
    using assms(1) by (auto simp: ra_approve_def Let_def split: option.splits if_splits)
  have "contained (release_containment a ag1) t = contained ag t" for t
    by (rule contained_apply_release [of ag "a0\<lparr>approved_by := Some analyst, approved_at := Some t1,
        approval_status := APPROVED\<rparr>"]) (use assms(2) in \<open>simp_all add: a ag1\<close>)
  moreover have "dget (actions_registry ag1) aid = Some a" by (simp add: ag1)
  ultimately show ?thesis
    by (simp add: ra_revoke_def Let_def a contained_def)
qed

text \<open>Rejecting has no guard on the status.  Rejecting an action that is already in force
  marks it as rejected but lifts nothing, and from then on \<open>revoke_action\<close> refuses to lift
  it: the containment is stranded.\<close>

theorem reject_strands_containment:
  assumes "dget (actions_registry ag) aid = Some a"
  shows "\<exists>b ag1. ra_reject t1 aid analyst reason ag = Inr (b, ag1)
    \<and> (\<forall>t. contained ag1 t = contained ag t)
    \<and> ra_revoke t2 aid who ag1 = Inl (ValueError aid REJECTED)"
  using assms by (simp add: ra_reject_def ra_revoke_def Let_def contained_def)

text \<open>\<open>CHALLENGE_MFA\<close> and \<open>SUSPEND_ACCOUNT\<close> share the slot \<open>active_challenges\<close>: revoking an
  executed step-up challenge lifts a suspension of the same target as well.\<close>

theorem revoking_challenge_lifts_suspension:
  assumes "dget (actions_registry ag) aid = Some a" "approval_status a = EXECUTED"
    and "action_type a = CHALLENGE_MFA"
    and "dget (active_challenges ag) (target_entity a) = Some ''SUSPENDED''"
  shows "\<exists>b ag1. ra_revoke now aid who ag = Inr (b, ag1)
    \<and> dget (active_challenges ag1) (target_entity a) = None"
  using assms by (simp add: ra_revoke_def Let_def delete_conv')

section \<open>Witnesses\<close>

definition escalation_alert :: security_alert where
  "escalation_alert = \<lparr>alert_id = ''alt-1'', alert_severity = CRITICAL,
     threat_category = PRIVILEGE_ESCALATION, alert_target = ''eve'', alert_score = 95,
     alert_evidence = [PrivilegeAttempt], event_ids = [], alert_created = 0\<rparr>"

definition stick_ids :: "nat \<Rightarrow> string" where
  "stick_ids n = replicate (Suc n) CHR ''x''"

definition planned :: response_agent where
  "planned = snd (formulate_response_plan stick_ids ''9'' 0 0 escalation_alert ''inc-1''
     response_agent_init)"

lemma demo_proposals: "proposed_actions stick_ids 0 escalation_alert =
    [throttle_action 0 escalation_alert ''x'', quarantine_action 0 escalation_alert ''xx'',
     suspend_action 0 escalation_alert ''xxx'']"
  by (simp add: proposed_actions_def proposals_def Let_def escalation_alert_def stick_ids_def)

lemma proposal_sel [simp]:
  "requires_human_approval (throttle_action now al i) = False"
  "requires_human_approval (quarantine_action now al i) = False"
  "requires_human_approval (suspend_action now al i) = True"
  "approval_status (suspend_action now al i) = PENDING_HUMAN_APPROVAL"
  "action_type (suspend_action now al i) = SUSPEND_ACCOUNT"
  "target_entity (suspend_action now al i) = alert_target al"
  "action_type (throttle_action now al i) = RATE_LIMIT"
  "action_type (quarantine_action now al i) = QUARANTINE_IP_TEMP"
  by (simp_all add: throttle_action_def quarantine_action_def suspend_action_def
      human_approval_required_def)

lemma planned_registry:
  "actions_registry planned =
     [(''x'', settle 0 (throttle_action 0 escalation_alert ''x'')),
      (''xx'', settle 0 (quarantine_action 0 escalation_alert ''xx'')),
      (''xxx'', suspend_action 0 escalation_alert ''xxx'')]"
  by (simp add: planned_def formulate_response_plan_def Let_def demo_proposals admit_all_def
      admit_action_registry response_agent_init_def settle_def)

lemma planned_reachable: "ra_reachable planned"
  unfolding planned_def
  by (rule ra_reachable.step [OF ra_reachable.init ra_step.formulate])
    (simp_all add: demo_proposals response_agent_init_def)

lemma planned_challenges: "active_challenges planned = []"
  by (simp add: planned_def formulate_response_plan_def Let_def demo_proposals admit_all_def
      admit_action_challenges response_agent_init_def)

definition approved_plan :: "agent_error + agent_action \<times> response_agent" where
  "approved_plan = ra_approve 1 ''xxx'' ''ana'' planned"

lemma approved_plan_ok: "\<exists>a ag. approved_plan = Inr (a, ag) \<and> approval_status a = EXECUTED
    \<and> target_entity a = ''eve'' \<and> dget (active_challenges ag) ''eve'' = Some ''SUSPENDED''
    \<and> dget (actions_registry ag) ''xxx'' = Some a"
  by (simp add: approved_plan_def ra_approve_def Let_def planned_registry planned_challenges
      escalation_alert_def)

theorem human_gate_holds_witness:
  "\<exists>a ag. approved_plan = Inr (a, ag)
    \<and> (\<exists>k b. dget (actions_registry ag) k = Some b \<and> action_type b = SUSPEND_ACCOUNT
          \<and> target_entity b = ''eve'' \<and> approved_by b \<noteq> None)"
proof -
  obtain a ag where ok: "approved_plan = Inr (a, ag)"
      "dget (active_challenges ag) ''eve'' = Some ''SUSPENDED''"
    using approved_plan_ok by blast
  have "ra_reachable ag"
    using ra_reachable.step [OF planned_reachable ra_step.approve] ok(1)
    by (simp add: approved_plan_def)
  from human_gate_holds [OF this] ok show ?thesis by blast
qed

theorem action_status_transitions_witness:
  "\<exists>a ag. approved_plan = Inr (a, ag)
    \<and> (\<exists>b. dget (actions_registry ag) ''xxx'' = Some b
          \<and> status_step PENDING_HUMAN_APPROVAL (approval_status b))"
proof -
  obtain a ag where ok: "approved_plan = Inr (a, ag)"
    using approved_plan_ok by blast
  have "ra_step planned ag"
    using ra_step.approve ok by (simp add: approved_plan_def)
  from action_status_transitions [OF this, of "''xxx''"] ok show ?thesis
    by (auto simp: planned_registry)
qed

theorem approve_revoke_roundtrip_witness:
  "\<exists>a ag b ag2. ra_approve 1 ''xxx'' ''ana'' (planned\<lparr>active_rate_limits := [],
       active_quarantined_ips := []\<rparr>) = Inr (a, ag)
     \<and> ra_revoke 2 ''xxx'' None ag = Inr (b, ag2) \<and> approval_status b = REVOKED"
proof -
  let ?ag = "planned\<lparr>active_rate_limits := [], active_quarantined_ips := []\<rparr>"
  have "\<exists>a ag. ra_approve 1 ''xxx'' ''ana'' ?ag = Inr (a, ag)
      \<and> contained ?ag (target_entity a) = (None, None, None)"
    by (simp add: ra_approve_def Let_def planned_registry contained_def planned_challenges)
  then obtain a ag where ok: "ra_approve 1 ''xxx'' ''ana'' ?ag = Inr (a, ag)"
      "contained ?ag (target_entity a) = (None, None, None)"
    by blast
  from approve_revoke_roundtrip [OF ok, of 2 None] ok show ?thesis by blast
qed

theorem reject_strands_containment_witness:
  "\<exists>b ag1. ra_reject 1 ''x'' ''ana'' ''fp'' planned = Inr (b, ag1)
     \<and> ra_revoke 2 ''x'' None ag1 = Inl (ValueError ''x'' REJECTED)"
  using reject_strands_containment [of planned "''x''" _ 1 "''ana''" "''fp''" 2 None]
  by (simp add: planned_registry) blast

definition challenged :: response_agent where
  "challenged = response_agent_init
     \<lparr>actions_registry := [(''m'', (mfa_action 0 escalation_alert ''m'')\<lparr>approval_status := EXECUTED\<rparr>)],
      active_challenges := [(''eve'', ''SUSPENDED'')]\<rparr>"

theorem revoking_challenge_lifts_suspension_witness:
  "\<exists>b ag1. ra_revoke 5 ''m'' None challenged = Inr (b, ag1)
     \<and> dget (active_challenges ag1) ''eve'' = None"
  using revoking_challenge_lifts_suspension [of challenged "''m''"
      "(mfa_action 0 escalation_alert ''m'')\<lparr>approval_status := EXECUTED\<rparr>" 5 None]
  by (simp add: challenged_def mfa_action_def escalation_alert_def)

end
