(* ===== verification/IP_Address.thy ===== *)
theory IP_Address
  imports Prelude "HOL-Library.Word"
begin

unbundle bit_operations_syntax

text \<open>
  What the gateway uses of Python's \<open>ipaddress\<close>: textual IPv4 and IPv6 addresses, networks
  in prefix, netmask or hostmask notation with \<open>strict=False\<close>, equality and membership.
  A \<open>ValueError\<close> of the library is \<open>None\<close>.  Addresses are 32- and 128-bit words.
\<close>

datatype ip_addr = V4 "32 word" | V6 "128 word" "string option"

section \<open>IPv4\<close>

definition parse_octet :: "string \<Rightarrow> int option" where
  "parse_octet s =
     (if s = [] \<or> \<not> list_all is_digit s \<or> length s > 3
         \<or> (s \<noteq> ''0'' \<and> hd s = CHR ''0'') then None
      else let v = fst (scan_digits 0 0 s) in if v > 255 then None else Some v)"

definition pack4 :: "int \<Rightarrow> int \<Rightarrow> int \<Rightarrow> int \<Rightarrow> 32 word" where
  "pack4 a b c d = word_of_int (((a * 256 + b) * 256 + c) * 256 + d)"

definition parse_ipv4 :: "string \<Rightarrow> 32 word option" where
  "parse_ipv4 s =
     (case map parse_octet (split_on CHR ''.'' s) of
        [Some a, Some b, Some c, Some d] \<Rightarrow> Some (pack4 a b c d)
      | _ \<Rightarrow> None)"

section \<open>IPv6\<close>

definition parse_hextet :: "string \<Rightarrow> int option" where
  "parse_hextet s = (if s = [] \<or> length s > 4 then None else hex_digits 0 s)"

definition pack6 :: "int list \<Rightarrow> 128 word" where
  "pack6 hs = word_of_int (foldl (\<lambda>acc h. acc * 65536 + h) 0 hs)"

text \<open>The trailing dotted quad of a mixed address becomes two hextets.\<close>

definition v6_parts :: "string \<Rightarrow> int list option list option" where
  "v6_parts s =
     (let parts = split_on CHR '':'' s; txt = (\<lambda>p. if p = [] then Some [] else
            map_option (\<lambda>v. [v]) (parse_hextet p)) in
      if length parts < 3 then None
      else if CHR ''.'' \<in> set (last parts)
      then (case parse_ipv4 (last parts) of
              None \<Rightarrow> None
            | Some w \<Rightarrow> Some (map txt (butlast parts)
                @ [Some [uint w div 65536], Some [uint w mod 65536]]))
      else Some (map txt parts))"

text \<open>An empty inner part is the double colon; at most one is allowed, and an empty first
  or last part only beside it.\<close>

definition assemble6 :: "int list option list \<Rightarrow> 128 word option" where
  "assemble6 parts =
     (let n = length parts;
          skips = filter (\<lambda>i. parts ! i = Some []) [1..<n - 1];
          values = (\<lambda>ps. if None \<in> set ps \<or> Some [] \<in> set ps then None
                         else Some (concat (map the ps))) in
      if n > 9 then None
      else case skips of
          [] \<Rightarrow> if n \<noteq> 8 then None else map_option pack6 (values parts)
        | [i] \<Rightarrow>
            let hi = take i parts; lo = drop (Suc i) parts;
                hi' = (if hd parts = Some [] then tl hi else hi);
                lo' = (if last parts = Some [] then butlast lo else lo)
            in if (hd parts = Some [] \<and> hi' \<noteq> []) \<or> (last parts = Some [] \<and> lo' \<noteq> [])
                  \<or> length hi' + length lo' > 7 then None
               else (case (values hi', values lo') of
                       (Some h, Some l) \<Rightarrow>
                         Some (pack6 (h @ replicate (8 - (length h + length l)) 0 @ l))
                     | _ \<Rightarrow> None)
        | _ \<Rightarrow> None)"

definition parse_ipv6 :: "string \<Rightarrow> (128 word \<times> string option) option" where
  "parse_ipv6 s =
     (let body = takeWhile (\<lambda>c. c \<noteq> CHR ''%'') s; rest = dropWhile (\<lambda>c. c \<noteq> CHR ''%'') s;
          scope = (if rest = [] then None else Some (tl rest)) in
      if scope = Some [] \<or> CHR ''%'' \<in> set (tl rest) \<and> rest \<noteq> [] \<or> CHR ''/'' \<in> set s then None
      else map_option (\<lambda>w. (w, scope)) (Option.bind (v6_parts body) assemble6))"

definition ip_address :: "string \<Rightarrow> ip_addr option" where
  "ip_address s =
     (case parse_ipv4 s of
        Some w \<Rightarrow> Some (V4 w)
      | None \<Rightarrow> map_option (\<lambda>(w, sc). V6 w sc) (parse_ipv6 s))"

section \<open>Networks\<close>

datatype ip_network = N4 "32 word" "32 word" | N6 "128 word" "128 word"

text \<open>The netmask of a prefix length, and the prefix length of a dotted net- or hostmask.\<close>

definition netmask :: "nat \<Rightarrow> 'a::len word" where
  "netmask n = NOT (mask (LENGTH('a) - n))"

definition prefix_of_digits :: "nat \<Rightarrow> string \<Rightarrow> nat option" where
  "prefix_of_digits width s =
     (if s = [] \<or> \<not> list_all is_digit s then None
      else let v = nat (fst (scan_digits 0 0 s)) in if v > width then None else Some v)"

definition prefix_of_mask :: "32 word \<Rightarrow> nat option" where
  "prefix_of_mask w =
     (case List.find (\<lambda>n. netmask n = w) [0..<33] of
        Some n \<Rightarrow> Some n
      | None \<Rightarrow> List.find (\<lambda>n. netmask n = NOT w) [0..<33])"

definition parse_prefix4 :: "string \<Rightarrow> nat option" where
  "parse_prefix4 s = (case prefix_of_digits 32 s of
       Some n \<Rightarrow> Some n
     | None \<Rightarrow> Option.bind (parse_ipv4 s) prefix_of_mask)"

definition ip_network :: "string \<Rightarrow> ip_network option" where
  "ip_network s =
     (case split_on CHR ''/'' s of
        [a, m] \<Rightarrow>
          (case (parse_ipv4 a, parse_prefix4 m) of
             (Some w, Some n) \<Rightarrow> Some (N4 (w AND netmask n) (netmask n))
           | _ \<Rightarrow> (case (parse_ipv6 a, prefix_of_digits 128 m) of
                (Some (w, _), Some n) \<Rightarrow> Some (N6 (w AND netmask n) (netmask n))
              | _ \<Rightarrow> None))
      | [a] \<Rightarrow> (case ip_address a of
             Some (V4 w) \<Rightarrow> Some (N4 w (netmask 32))
           | Some (V6 w _) \<Rightarrow> Some (N6 w (netmask 128))
           | None \<Rightarrow> None)
      | _ \<Rightarrow> None)"

fun in_network :: "ip_addr \<Rightarrow> ip_network \<Rightarrow> bool" where
  "in_network (V4 w) (N4 net m) = (w AND m = net)"
| "in_network (V6 w _) (N6 net m) = (w AND m = net)"
| "in_network _ _ = False"

lemma parse_examples:
  "parse_ipv4 ''10.1.2.3'' = Some 0x0A010203" "parse_ipv4 ''10.1.2.03'' = None"
  "parse_ipv4 ''10.1.2.256'' = None" "parse_ipv4 ''10.1.2'' = None"
  "ip_address ''::1'' = Some (V6 1 None)"
  "ip_address ''::'' = Some (V6 0 None)"
  "ip_address ''fe80::1%eth0'' = Some (V6 0xfe800000000000000000000000000001 (Some ''eth0''))"
  "ip_address ''::ffff:10.0.0.1'' = Some (V6 0xffff0a000001 None)"
  "ip_address ''1::2::3'' = None" "ip_address '':1:2:3:4:5:6:7'' = None"
  "ip_address ''1:2:3:4:5:6:7:8'' = Some (V6 0x00010002000300040005000600070008 None)"
  "ip_network ''10.9.0.0/255.0.0.0'' = Some (N4 0x0A000000 0xFF000000)"
  by code_simp+

section \<open>Facts\<close>

text \<open>Membership compares the leading bits.\<close>

lemma netmask_eq_iff:
  fixes x y :: "'a::len word"
  assumes "n \<le> LENGTH('a)"
  shows "x AND netmask n = y AND netmask n
    \<longleftrightarrow> drop_bit (LENGTH('a) - n) x = drop_bit (LENGTH('a) - n) y"
proof -
  let ?k = "LENGTH('a) - n"
  have bits: "bit (netmask n :: 'a word) i \<longleftrightarrow> ?k \<le> i" if "i < LENGTH('a)" for i
    using that by (auto simp: netmask_def bit_not_iff bit_mask_iff)
  show ?thesis
  proof
    assume eq: "x AND netmask n = y AND netmask n"
    show "drop_bit ?k x = drop_bit ?k y"
    proof (rule bit_word_eqI)
      fix i assume "i < LENGTH('a)"
      show "bit (drop_bit ?k x) i = bit (drop_bit ?k y) i"
      proof (cases "?k + i < LENGTH('a)")
        case True
        then have "bit (x AND netmask n) (?k + i) = bit (y AND netmask n) (?k + i)"
          using eq by simp
        then show ?thesis using True by (simp add: bit_and_iff bits bit_drop_bit_eq)
      next
        case False
        then show ?thesis
          using bit_imp_le_length [of x "?k + i"] bit_imp_le_length [of y "?k + i"]
          by (auto simp: bit_drop_bit_eq)
      qed
    qed
  next
    assume eq: "drop_bit ?k x = drop_bit ?k y"
    show "x AND netmask n = y AND netmask n"
    proof (rule bit_word_eqI)
      fix i assume i: "i < LENGTH('a)"
      have "bit x i = bit y i" if "?k \<le> i"
      proof -
        have "bit (drop_bit ?k x) (i - ?k) = bit (drop_bit ?k y) (i - ?k)" using eq by simp
        then show ?thesis using that by (simp add: bit_drop_bit_eq)
      qed
      then show "bit (x AND netmask n) i = bit (y AND netmask n) i"
        using i by (auto simp: bit_and_iff bits)
    qed
  qed
qed

lemma in_network4_iff:
  "n \<le> 32 \<Longrightarrow> in_network (V4 x) (N4 (y AND netmask n) (netmask n))
     \<longleftrightarrow> drop_bit (32 - n) x = drop_bit (32 - n) y"
  using netmask_eq_iff [of n x y] by simp

end
