(* ===== verification/Gateway_Config.thy ===== *)
theory Gateway_Config
  imports IP_Address
begin

text \<open>
  \<open>gateway/config.py\<close>: the settings the request path reads, the secret accessors with their
  production rules, and the two address tests (whitelist, trusted proxy).  The process
  environment is a dict; \<open>from_env\<close> is the class body's reading of it.
\<close>

section \<open>GatewayConfig\<close>

record gateway_config =
  max_body_bytes :: int
  environment :: string
  jwt_secret :: string
  jwt_algorithm :: string
  compliance_secret :: string
  telemetry_secret :: string
  trusted_proxies :: "string list"
  internal_ip_whitelist :: "string list"
  ml_enabled :: bool
  ml_canary_percentage :: pynum
  ml_max_inference_ms :: pynum

definition csv :: "string \<Rightarrow> string list" where
  "csv s = filter (\<lambda>x. x \<noteq> []) (map strip (split_on CHR '','' s))"

text \<open>\<open>None\<close> where \<open>int\<close> or \<open>float\<close> raises while the module is imported.\<close>

definition from_env :: "(string, string) dict \<Rightarrow> gateway_config option" where
  "from_env env =
     (let e = (\<lambda>z k. dget_or z env k) in
      case (parse_int (e ''10485760'' ''MAX_BODY_BYTES''),
            parse_float (e ''100.0'' ''ML_CANARY_PERCENTAGE''),
            parse_float (e ''50.0'' ''ML_MAX_INFERENCE_MS'')) of
        (Some body, Some pct, Some ms) \<Rightarrow> Some
          \<lparr>max_body_bytes = body,
           environment = lower (e ''test'' ''ENVIRONMENT''),
           jwt_secret = e [] ''JWT_SECRET_KEY'',
           jwt_algorithm = e ''HS256'' ''JWT_ALGORITHM'',
           compliance_secret = e [] ''COMPLIANCE_SIGNING_SECRET'',
           telemetry_secret = e [] ''TELEMETRY_SALT'',
           trusted_proxies =
             csv (e ''127.0.0.1,::1,10.0.0.0/8,172.16.0.0/12,192.168.0.0/16'' ''TRUSTED_PROXIES''),
           internal_ip_whitelist =
             csv (e ''127.0.0.1,::1,10.0.0.0/8,172.16.0.0/12,192.168.0.0/16,localhost''
                  ''INTERNAL_IP_WHITELIST''),
           ml_enabled = (lower (e ''true'' ''ML_ENABLED'') = ''true''),
           ml_canary_percentage = pct,
           ml_max_inference_ms = ms\<rparr>
      | _ \<Rightarrow> None)"

section \<open>Secrets\<close>

datatype config_error =
    SecretRequired string
  | SecretTooShort string nat
  | SecretsMissing "string list"

definition dev_jwt_secret :: string where
  "dev_jwt_secret = ''erp_dev_jwt_secret_key_minimum_32_bytes_long_2026!''"

definition dev_compliance_secret :: string where
  "dev_compliance_secret = ''erp_gateway_enterprise_tamper_evident_secret_key_2026''"

definition dev_telemetry_salt :: string where
  "dev_telemetry_salt = ''erp_dev_telemetry_pseudonym_salt_2026!''"

definition jwt_secret_key :: "gateway_config \<Rightarrow> config_error + string" where
  "jwt_secret_key c =
     (if jwt_secret c \<noteq> [] then Inr (jwt_secret c)
      else if environment c = ''production'' then Inl (SecretRequired ''JWT_SECRET_KEY'')
      else Inr dev_jwt_secret)"

definition compliance_signing_secret :: "gateway_config \<Rightarrow> config_error + string" where
  "compliance_signing_secret c =
     (if compliance_secret c \<noteq> [] then Inr (compliance_secret c)
      else if environment c = ''production'' then Inl (SecretRequired ''COMPLIANCE_SIGNING_SECRET'')
      else Inr dev_compliance_secret)"

definition telemetry_salt :: "gateway_config \<Rightarrow> config_error + string" where
  "telemetry_salt c =
     (let raw = (if telemetry_secret c \<noteq> [] then telemetry_secret c
                 else if environment c \<noteq> ''production'' then dev_telemetry_salt else []) in
      if raw = [] \<and> environment c = ''production'' then Inl (SecretRequired ''TELEMETRY_SALT'')
      else Inr raw)"

text \<open>The three checks append to \<open>missing\<close> or raise at once.\<close>

definition check_secret ::
  "string \<Rightarrow> nat \<Rightarrow> string \<Rightarrow> string list \<Rightarrow> config_error + string list" where
  "check_secret name n value missing =
     (if value = [] then Inr (missing @ [name])
      else if length value < n then Inl (SecretTooShort name n)
      else Inr missing)"

definition bind_sum :: "'e + 'a \<Rightarrow> ('a \<Rightarrow> 'e + 'b) \<Rightarrow> 'e + 'b" where
  "bind_sum x f = (case x of Inl e \<Rightarrow> Inl e | Inr v \<Rightarrow> f v)"

definition validate_production_secrets :: "gateway_config \<Rightarrow> config_error + unit" where
  "validate_production_secrets c =
     (if environment c \<noteq> ''production'' then Inr ()
      else
        bind_sum (check_secret ''JWT_SECRET_KEY'' 32 (jwt_secret c) []) (\<lambda>m1.
        bind_sum (check_secret ''COMPLIANCE_SIGNING_SECRET'' 32 (compliance_secret c) m1) (\<lambda>m2.
        bind_sum (check_secret ''TELEMETRY_SALT'' 16 (telemetry_secret c) m2) (\<lambda>m3.
          if m3 \<noteq> [] then Inl (SecretsMissing m3) else Inr ()))))"

section \<open>Addresses\<close>

definition clean_ip :: "string \<Rightarrow> string" where
  "clean_ip s =
     (if s = [] then []
      else let c = strip s in
        if startswith c ''['' \<and> CHR '']'' \<in> set c
        then dropWhile (\<lambda>x. x = CHR ''['') (hd (split_on CHR '']'' c))
        else if length (filter (\<lambda>x. x = CHR '':'') c) = 1
        then strip (hd (split_on CHR '':'' c))
        else c)"

text \<open>One entry of either list against an address; a malformed entry matches nothing.\<close>

definition cidr_matches :: "ip_addr \<Rightarrow> string \<Rightarrow> bool" where
  "cidr_matches addr cidr =
     (if CHR ''/'' \<in> set cidr
      then (case ip_network cidr of Some n \<Rightarrow> in_network addr n | None \<Rightarrow> False)
      else ip_address cidr = Some addr)"

definition local_names :: "string list" where
  "local_names = [''127.0.0.1'', ''::1'', ''localhost'', ''testclient'']"

definition is_ip_whitelisted :: "gateway_config \<Rightarrow> string \<Rightarrow> bool" where
  "is_ip_whitelisted c s =
     (if s = [] then False
      else let ip = clean_ip s in
        if ip \<in> set local_names then True
        else (case ip_address ip of
            None \<Rightarrow> False
          | Some addr \<Rightarrow>
             (\<exists>cidr \<in> set (internal_ip_whitelist c).
                cidr \<noteq> ''localhost'' \<and> cidr \<noteq> ''testclient'' \<and> cidr_matches addr cidr)))"

definition is_trusted_proxy :: "gateway_config \<Rightarrow> string \<Rightarrow> bool" where
  "is_trusted_proxy c s =
     (if s = [] then False
      else let ip = clean_ip s in
        if ip \<in> set local_names then True
        else (case ip_address ip of
            None \<Rightarrow> False
          | Some addr \<Rightarrow> (\<exists>cidr \<in> set (trusted_proxies c). cidr_matches addr cidr)))"

section \<open>Properties\<close>

lemma check_secret_Inr:
  "check_secret name n v m = Inr m' \<Longrightarrow> m' = [] \<Longrightarrow> m = [] \<and> v \<noteq> [] \<and> n \<le> length v"
  by (auto simp: check_secret_def split: if_splits)


text \<open>Without the secrets a production process cannot obtain a key at all.\<close>

lemma production_has_no_default:
  "environment c = ''production'' \<Longrightarrow> jwt_secret_key c \<noteq> Inr dev_jwt_secret \<or> jwt_secret c = dev_jwt_secret"
  by (auto simp: jwt_secret_key_def)

text \<open>The shipped configuration and its protected ranges.\<close>

definition default_config :: gateway_config where
  "default_config = the (from_env [])"

lemma default_whitelist:
  "internal_ip_whitelist default_config =
     [''127.0.0.1'', ''::1'', ''10.0.0.0/8'', ''172.16.0.0/12'', ''192.168.0.0/16'', ''localhost'']"
  by code_simp

lemma default_networks:
  "ip_network ''10.0.0.0/8'' = Some (N4 (0x0A000000 AND netmask 8) (netmask 8))"
  "ip_network ''172.16.0.0/12'' = Some (N4 (0xAC100000 AND netmask 12) (netmask 12))"
  "ip_network ''192.168.0.0/16'' = Some (N4 (0xC0A80000 AND netmask 16) (netmask 16))"
  by code_simp+

lemma default_literals:
  "ip_address ''127.0.0.1'' = Some (V4 0x7F000001)" "ip_address ''::1'' = Some (V6 1 None)"
  "ip_address ''localhost'' = None" "ip_address ''testclient'' = None"
  by code_simp+

lemma default_cidr_matches:
  "cidr_matches (V4 w) ''127.0.0.1'' \<longleftrightarrow> w = 0x7F000001"
  "\<not> cidr_matches (V4 w) ''::1''"
  "cidr_matches (V4 w) ''10.0.0.0/8'' \<longleftrightarrow> drop_bit 24 w = 10"
  "cidr_matches (V4 w) ''172.16.0.0/12'' \<longleftrightarrow> drop_bit 20 w = 0xAC1"
  "cidr_matches (V4 w) ''192.168.0.0/16'' \<longleftrightarrow> drop_bit 16 w = 0xC0A8"
proof -
  show "cidr_matches (V4 w) ''127.0.0.1'' \<longleftrightarrow> w = 0x7F000001"
    by (auto simp: cidr_matches_def default_literals)
  show "\<not> cidr_matches (V4 w) ''::1''"
    by (simp add: cidr_matches_def default_literals)
  show "cidr_matches (V4 w) ''10.0.0.0/8'' \<longleftrightarrow> drop_bit 24 w = 10"
    using in_network4_iff [of 8 w "0x0A000000"] default_networks(1)
    by (simp add: cidr_matches_def del: in_network.simps)
  show "cidr_matches (V4 w) ''172.16.0.0/12'' \<longleftrightarrow> drop_bit 20 w = 0xAC1"
    using in_network4_iff [of 12 w "0xAC100000"] default_networks(2)
    by (simp add: cidr_matches_def del: in_network.simps)
  show "cidr_matches (V4 w) ''192.168.0.0/16'' \<longleftrightarrow> drop_bit 16 w = 0xC0A8"
    using in_network4_iff [of 16 w "0xC0A80000"] default_networks(3)
    by (simp add: cidr_matches_def del: in_network.simps)
qed

text \<open>With the default whitelist, exactly the RFC 1918 addresses and the IPv4 loopback
  address are protected among the IPv4 addresses.\<close>

theorem internal_ranges_protected:
  assumes "ip_address (clean_ip s) = Some (V4 w)"
  shows "is_ip_whitelisted default_config s \<longleftrightarrow>
    drop_bit 24 w = 10 \<or> drop_bit 20 w = 0xAC1 \<or> drop_bit 16 w = 0xC0A8 \<or> w = 0x7F000001"
proof -
  have ne: "s \<noteq> []"
    using assms by (auto simp: clean_ip_def ip_address_def parse_ipv4_def parse_ipv6_def
        parse_octet_def v6_parts_def)
  have names: "clean_ip s \<in> set local_names \<Longrightarrow> w = 0x7F000001"
    using assms by (auto simp: local_names_def default_literals)
  show ?thesis
    using assms ne names
    by (auto simp: is_ip_whitelisted_def Let_def default_whitelist default_cidr_matches)
qed

definition hardened_config :: gateway_config where
  "hardened_config = default_config
     \<lparr>environment := ''production'', jwt_secret := replicate 32 CHR ''k'',
      compliance_secret := replicate 40 CHR ''c'', telemetry_secret := replicate 16 CHR ''t''\<rparr>"


theorem internal_ranges_protected_witness:
  "is_ip_whitelisted default_config ''10.200.3.4:5000'' \<and>
   \<not> is_ip_whitelisted default_config ''172.32.0.1''"
proof -
  have a: "ip_address (clean_ip ''10.200.3.4:5000'') = Some (V4 0x0AC80304)"
    "ip_address (clean_ip ''172.32.0.1'') = Some (V4 0xAC200001)"
    by code_simp+
  show ?thesis
    using internal_ranges_protected [OF a(1)] internal_ranges_protected [OF a(2)] by simp
qed

end
