(* ===== verification/Mitigation_Engine.thy ===== *)
theory Mitigation_Engine
  imports Agent_Base Gateway_Config State_Store
begin

text \<open>
  \<open>gateway/mitigation_engine.py\<close>: the tables of active mitigations, their registration
  from agent actions, their roll-back and their enforcement on a request.

  The engine is parametric in the store it is given (\<open>store_ops\<close>); a datum written to the
  shared store is the datatype \<open>hentry\<close>, one constructor per dict shape.  Every stage of
  \<open>evaluate_request\<close> is one definition, chained in the order of the code.
\<close>

section \<open>State\<close>

record mit_entry =
  until :: time
  mit_reason :: string
  mit_action_id :: string

record rate_entry =
  rl_limit :: int
  rl_window_seconds :: int
  rl_until :: time
  rl_action_id :: string

record susp_entry =
  susp_action_id :: string
  susp_approved_by :: string
  susp_timestamp :: time
  susp_reason :: string

datatype hentry = QEntry mit_entry | SEntry susp_entry

fun hentry_id :: "hentry \<Rightarrow> string" where
  "hentry_id (QEntry q) = mit_action_id q"
| "hentry_id (SEntry s) = susp_action_id s"

record 's mitigation_engine =
  store :: 's
  quarantined_ips :: "(string, mit_entry) dict"
  revoked_tokens :: "string set"
  revoked_principals :: "(string, mit_entry) dict"
  mfa_enforced_principals :: "(string, mit_entry) dict"
  dynamic_rate_limits :: "(string, rate_entry) dict"
  suspended_accounts :: "(string, susp_entry) dict"
  action_registry :: "(string, action_type \<times> string) dict"

definition mitigation_init :: "'s \<Rightarrow> 's mitigation_engine" where
  "mitigation_init s = \<lparr>store = s, quarantined_ips = [], revoked_tokens = {},
     revoked_principals = [], mfa_enforced_principals = [], dynamic_rate_limits = [],
     suspended_accounts = [], action_registry = []\<rparr>"

datatype mitigation_error =
    UnauthorizedMitigation action_type string approval_status
  | NoExpiry string

record mitigation_decision =
  md_action :: action_type
  md_status :: int
  md_reason :: string
  md_headers :: "(string, string) dict"
  md_action_id :: "string option"

definition max_auto_quarantine_seconds :: int where
  "max_auto_quarantine_seconds = 3600"

section \<open>apply\_action\<close>

definition needs_approval :: "action_type \<Rightarrow> bool" where
  "needs_approval t \<longleftrightarrow> t \<in> {SUSPEND_ACCOUNT, BLOCK_CIDR_ORGANIZATION}"

definition approved_status :: "approval_status \<Rightarrow> bool" where
  "approved_status s \<longleftrightarrow> s \<in> {APPROVED, EXECUTED}"

definition effective_duration :: "agent_action \<Rightarrow> int" where
  "effective_duration a =
     (let d = (case duration_seconds a of Some n \<Rightarrow> if n = 0 then 900 else n | None \<Rightarrow> 900)
      in if action_type a = QUARANTINE_IP_TEMP then min d max_auto_quarantine_seconds else d)"

definition is_token_target :: "string \<Rightarrow> bool" where
  "is_token_target t \<longleftrightarrow> startswith t ''Bearer '' \<or> length t > 32"

definition clean_token :: "string \<Rightarrow> string" where
  "clean_token t = strip (remove_all ''Bearer '' t)"

definition register_mitigation :: "agent_action \<Rightarrow> 's mitigation_engine \<Rightarrow> 's mitigation_engine" where
  "register_mitigation a e = e\<lparr>action_registry :=
     dput (action_id a) (action_type a, target_entity a) (action_registry e)\<rparr>"

definition install ::
  "('s, hentry) store_ops \<Rightarrow> time \<Rightarrow> agent_action \<Rightarrow> 's mitigation_engine
     \<Rightarrow> bool \<times> 's mitigation_engine" where
  "install ops now a e =
     (let tgt = target_entity a; dur = effective_duration a;
          ent = \<lparr>until = now + of_int dur, mit_reason = justification a, mit_action_id = action_id a\<rparr>
      in case action_type a of
        QUARANTINE_IP_TEMP \<Rightarrow> (True, register_mitigation a
          (e\<lparr>quarantined_ips := dput tgt ent (quarantined_ips e),
             store := op_set_hash_entry ops now ''quarantined_ips'' tgt (QEntry ent) (Some dur)
                        (store e)\<rparr>))
      | REVOKE_SESSION \<Rightarrow> (True, register_mitigation a
          (if is_token_target tgt
           then e\<lparr>revoked_tokens := insert (clean_token tgt) (revoked_tokens e),
                  store := op_add_to_set ops now ''revoked_tokens'' (clean_token tgt) (store e)\<rparr>
           else e\<lparr>revoked_principals := dput tgt ent (revoked_principals e),
                  store := op_set_hash_entry ops now ''revoked_principals'' tgt (QEntry ent)
                             (Some dur) (store e)\<rparr>))
      | CHALLENGE_MFA \<Rightarrow> (True, register_mitigation a
          (e\<lparr>mfa_enforced_principals := dput tgt ent (mfa_enforced_principals e)\<rparr>))
      | RATE_LIMIT \<Rightarrow> (True, register_mitigation a
          (e\<lparr>dynamic_rate_limits := dput tgt
               \<lparr>rl_limit = 5, rl_window_seconds = 60, rl_until = now + of_int dur,
                rl_action_id = action_id a\<rparr> (dynamic_rate_limits e)\<rparr>))
      | SUSPEND_ACCOUNT \<Rightarrow>
          (let by = (case str_or (approved_by a) None of Some x \<Rightarrow> x | None \<Rightarrow> ''HUMAN_ANALYST'');
               s = \<lparr>susp_action_id = action_id a, susp_approved_by = by, susp_timestamp = now,
                    susp_reason = justification a\<rparr>
           in (True, register_mitigation a
                (e\<lparr>suspended_accounts := dput tgt s (suspended_accounts e),
                   store := op_set_hash_entry ops now ''suspended_accounts'' tgt (SEntry s) None
                              (store e)\<rparr>)))
      | _ \<Rightarrow> (False, e))"

definition apply_action ::
  "('s, hentry) store_ops \<Rightarrow> gateway_config \<Rightarrow> time \<Rightarrow> agent_action \<Rightarrow> 's mitigation_engine
     \<Rightarrow> mitigation_error + bool \<times> 's mitigation_engine" where
  "apply_action ops cfg now a e =
     (if needs_approval (action_type a) \<and> \<not> approved_status (approval_status a)
      then Inl (UnauthorizedMitigation (action_type a) (target_entity a) (approval_status a))
      else if action_type a \<in> {QUARANTINE_IP_TEMP, BLOCK_CIDR_ORGANIZATION}
              \<and> is_ip_whitelisted cfg (target_entity a)
      then Inr (False, e)
      else Inr (install ops now a e))"

section \<open>rollback\_action\<close>

definition rollback_action ::
  "('s, hentry) store_ops \<Rightarrow> time \<Rightarrow> string \<Rightarrow> 's mitigation_engine
     \<Rightarrow> bool \<times> 's mitigation_engine" where
  "rollback_action ops now aid e =
     (case dget (action_registry e) aid of
        None \<Rightarrow> (False, e)
      | Some (ty, tgt) \<Rightarrow>
         let e1 = (case ty of
            QUARANTINE_IP_TEMP \<Rightarrow> e\<lparr>quarantined_ips := ddel tgt (quarantined_ips e),
               store := snd (op_delete_hash_entry ops now ''quarantined_ips'' tgt (store e))\<rparr>
          | REVOKE_SESSION \<Rightarrow> e\<lparr>revoked_tokens := revoked_tokens e - {clean_token tgt},
               revoked_principals := ddel tgt (revoked_principals e),
               store := snd (op_delete_hash_entry ops now ''revoked_principals'' tgt
                  (snd (op_remove_from_set ops now ''revoked_tokens'' (clean_token tgt) (store e))))\<rparr>
          | CHALLENGE_MFA \<Rightarrow>
               e\<lparr>mfa_enforced_principals := ddel tgt (mfa_enforced_principals e)\<rparr>
          | RATE_LIMIT \<Rightarrow> e\<lparr>dynamic_rate_limits := ddel tgt (dynamic_rate_limits e)\<rparr>
          | SUSPEND_ACCOUNT \<Rightarrow> e\<lparr>suspended_accounts := ddel tgt (suspended_accounts e),
               store := snd (op_delete_hash_entry ops now ''suspended_accounts'' tgt (store e))\<rparr>
          | _ \<Rightarrow> e)
         in (True, e1\<lparr>action_registry := ddel aid (action_registry e1)\<rparr>))"

section \<open>evaluate\_request\<close>

text \<open>A stage answers with a mitigation, with nothing, or with the \<open>TypeError\<close> of comparing
  an instant with a missing expiry.\<close>

type_synonym 's staged = "(mitigation_error + mitigation_decision option) \<times> 's mitigation_engine"

definition in_quotes :: "string \<Rightarrow> string" where
  "in_quotes s = CHR 0x27 # s @ [CHR 0x27]"

definition suspended_answer :: "string \<Rightarrow> string \<Rightarrow> mitigation_decision" where
  "suspended_answer p aid = \<lparr>md_action = SUSPEND_ACCOUNT, md_status = 403,
     md_reason = ''Account '' @ in_quotes p
       @ '' is suspended by security policy. Contact administrator.'',
     md_headers = [], md_action_id = Some aid\<rparr>"

definition stage_suspended ::
  "('s, hentry) store_ops \<Rightarrow> time \<Rightarrow> string option \<Rightarrow> 's mitigation_engine \<Rightarrow> 's staged" where
  "stage_suspended ops now pref e =
     (if \<not> truthy_str pref then (Inr None, e)
      else let p = the pref in
        case dget (suspended_accounts e) p of
          Some s \<Rightarrow> (Inr (Some (suspended_answer p (susp_action_id s))), e)
        | None \<Rightarrow>
           (case op_get_hash_entry ops now ''suspended_accounts'' p (store e) of
              (Some h, s) \<Rightarrow> (Inr (Some (suspended_answer p (hentry_id h))), e\<lparr>store := s\<rparr>)
            | (None, s) \<Rightarrow> (Inr None, e\<lparr>store := s\<rparr>)))"

text \<open>The quarantine entry a request is checked against: the local table first, by client
  address and then by principal, then the shared store in the same order.\<close>

definition local_quarantine ::
  "string \<Rightarrow> string option \<Rightarrow> 's mitigation_engine \<Rightarrow> (string \<times> mit_entry) option" where
  "local_quarantine ip pref e =
     (case dget (quarantined_ips e) ip of
        Some q \<Rightarrow> if ip = [] then None else Some (ip, q)
      | None \<Rightarrow>
          if truthy_str pref
          then map_option (\<lambda>q. (the pref, q)) (dget (quarantined_ips e) (the pref))
          else None)"

fun shared_quarantine ::
  "('s, hentry) store_ops \<Rightarrow> time \<Rightarrow> string list \<Rightarrow> 's \<Rightarrow> (string \<times> hentry) option \<times> 's" where
  "shared_quarantine ops now [] s = (None, s)"
| "shared_quarantine ops now (c # cs) s =
     (if c = [] then shared_quarantine ops now cs s
      else case op_get_hash_entry ops now ''quarantined_ips'' c s of
          (Some h, s1) \<Rightarrow> (Some (c, h), s1)
        | (None, s1) \<Rightarrow> shared_quarantine ops now cs s1)"

definition quarantine_answer :: "time \<Rightarrow> string \<Rightarrow> mit_entry \<Rightarrow> mitigation_decision" where
  "quarantine_answer now key q = \<lparr>md_action = QUARANTINE_IP_TEMP, md_status = 403,
     md_reason = ''Entity '' @ in_quotes key
       @ '' is quarantined due to automated threat containment. '' @ mit_reason q,
     md_headers = [(''Retry-After'', str_int (max 1 \<lfloor>until q - now\<rfloor>))],
     md_action_id = Some (mit_action_id q)\<rparr>"

definition check_quarantine ::
  "('s, hentry) store_ops \<Rightarrow> time \<Rightarrow> string \<Rightarrow> mit_entry \<Rightarrow> 's mitigation_engine \<Rightarrow> 's staged" where
  "check_quarantine ops now key q e =
     (if now \<le> until q then (Inr (Some (quarantine_answer now key q)), e)
      else (Inr None, e\<lparr>quarantined_ips := ddel key (quarantined_ips e),
              store := snd (op_delete_hash_entry ops now ''quarantined_ips'' key (store e))\<rparr>))"

definition stage_quarantine ::
  "('s, hentry) store_ops \<Rightarrow> time \<Rightarrow> string \<Rightarrow> string option \<Rightarrow> 's mitigation_engine
     \<Rightarrow> 's staged" where
  "stage_quarantine ops now ip pref e =
     (case local_quarantine ip pref e of
        Some (key, q) \<Rightarrow> check_quarantine ops now key q e
      | None \<Rightarrow>
         (case shared_quarantine ops now [ip, or_else pref []] (store e) of
            (None, s) \<Rightarrow> (Inr None, e\<lparr>store := s\<rparr>)
          | (Some (key, QEntry q), s) \<Rightarrow> check_quarantine ops now key q (e\<lparr>store := s\<rparr>)
          | (Some (key, SEntry _), s) \<Rightarrow> (Inl (NoExpiry key), e\<lparr>store := s\<rparr>)))"

definition token_answer :: mitigation_decision where
  "token_answer = \<lparr>md_action = REVOKE_SESSION, md_status = 401,
     md_reason = ''Session authentication token has been revoked by security response.'',
     md_headers = [(''WWW-Authenticate'',
       ''Bearer error=\"invalid_token\", error_description=\"token_revoked\"'')],
     md_action_id = None\<rparr>"

definition stage_token ::
  "('s, hentry) store_ops \<Rightarrow> time \<Rightarrow> string option \<Rightarrow> 's mitigation_engine \<Rightarrow> 's staged" where
  "stage_token ops now token e =
     (if \<not> truthy_str token then (Inr None, e)
      else let t = clean_token (the token) in
        if t \<in> revoked_tokens e then (Inr (Some token_answer), e)
        else (case op_is_member ops now ''revoked_tokens'' t (store e) of
            (b, s) \<Rightarrow> (Inr (if b then Some token_answer else None), e\<lparr>store := s\<rparr>)))"

definition stage_revoked :: "time \<Rightarrow> string option \<Rightarrow> 's mitigation_engine \<Rightarrow> 's staged" where
  "stage_revoked now pref e =
     (if \<not> truthy_str pref then (Inr None, e)
      else let p = the pref in
        case dget (revoked_principals e) p of
          None \<Rightarrow> (Inr None, e)
        | Some i \<Rightarrow>
            if now \<le> until i
            then (Inr (Some \<lparr>md_action = REVOKE_SESSION, md_status = 401,
                   md_reason = ''Active session for user '' @ in_quotes p
                     @ '' has been revoked. Re-authentication required.'',
                   md_headers = [(''WWW-Authenticate'', ''Bearer error=\"session_revoked\"'')],
                   md_action_id = Some (mit_action_id i)\<rparr>), e)
            else (Inr None, e\<lparr>revoked_principals := ddel p (revoked_principals e)\<rparr>))"

definition stage_mfa :: "time \<Rightarrow> string option \<Rightarrow> 's mitigation_engine \<Rightarrow> 's staged" where
  "stage_mfa now pref e =
     (if \<not> truthy_str pref then (Inr None, e)
      else let p = the pref in
        case dget (mfa_enforced_principals e) p of
          None \<Rightarrow> (Inr None, e)
        | Some i \<Rightarrow>
            if now \<le> until i
            then (Inr (Some \<lparr>md_action = CHALLENGE_MFA, md_status = 403,
                   md_reason = ''Multi-factor authentication challenge required due to anomalous activity.'',
                   md_headers = [(''X-MFA-Required'', ''true''), (''X-MFA-Reason'', mit_reason i)],
                   md_action_id = Some (mit_action_id i)\<rparr>), e)
            else (Inr None, e\<lparr>mfa_enforced_principals := ddel p (mfa_enforced_principals e)\<rparr>))"

definition stage_rate ::
  "time \<Rightarrow> string \<Rightarrow> string option \<Rightarrow> 's mitigation_engine \<Rightarrow> 's staged" where
  "stage_rate now ip pref e =
     (let hit = (case dget (dynamic_rate_limits e) ip of
            Some i \<Rightarrow> Some (ip, i)
          | None \<Rightarrow> if truthy_str pref
                   then map_option (\<lambda>i. (the pref, i)) (dget (dynamic_rate_limits e) (the pref))
                   else None)
      in case hit of
          None \<Rightarrow> (Inr None, e)
        | Some (key, i) \<Rightarrow>
            if now \<le> rl_until i
            then (Inr (Some \<lparr>md_action = RATE_LIMIT, md_status = 429,
                   md_reason = ''Dynamic security throttling enforced due to rapid anomalous behavior.'',
                   md_headers = [(''Retry-After'', ''60''), (''X-RateLimit-Limit'', str_int (rl_limit i))],
                   md_action_id = Some (rl_action_id i)\<rparr>), e)
            else (Inr None, e\<lparr>dynamic_rate_limits := ddel key (dynamic_rate_limits e)\<rparr>))"

text \<open>The next stage runs only where the one before it returned nothing.\<close>

definition and_then :: "'s staged \<Rightarrow> ('s mitigation_engine \<Rightarrow> 's staged) \<Rightarrow> 's staged" where
  "and_then r f = (case r of (Inr None, e) \<Rightarrow> f e | _ \<Rightarrow> r)"

definition evaluate_request ::
  "('s, hentry) store_ops \<Rightarrow> time \<Rightarrow> string \<Rightarrow> string option \<Rightarrow> string option
     \<Rightarrow> 's mitigation_engine \<Rightarrow> 's staged" where
  "evaluate_request ops now ip pref token e =
     and_then (stage_suspended ops now pref e) (\<lambda>e1.
     and_then (stage_quarantine ops now ip pref e1) (\<lambda>e2.
     and_then (stage_token ops now token e2) (\<lambda>e3.
     and_then (stage_revoked now pref e3) (\<lambda>e4.
     and_then (stage_mfa now pref e4) (\<lambda>e5.
     stage_rate now ip pref e5)))))"

record mitigation_status =
  active_quarantined :: nat
  active_revoked_tokens :: nat
  active_revoked_principals :: nat
  active_mfa_challenges :: nat
  active_dynamic_rate_limits :: nat
  active_suspended_accounts :: nat
  total_mitigations_enforced :: nat

definition mitigation_get_status :: "'s mitigation_engine \<Rightarrow> mitigation_status" where
  "mitigation_get_status e =
     \<lparr>active_quarantined = length (quarantined_ips e),
      active_revoked_tokens = card (revoked_tokens e),
      active_revoked_principals = length (revoked_principals e),
      active_mfa_challenges = length (mfa_enforced_principals e),
      active_dynamic_rate_limits = length (dynamic_rate_limits e),
      active_suspended_accounts = length (suspended_accounts e),
      total_mitigations_enforced = length (action_registry e)\<rparr>"

section \<open>Runs of the engine\<close>

datatype mit_op =
    Apply time agent_action
  | Rollback time string
  | Evaluate time string "string option" "string option"

fun mit_step :: "('s, hentry) store_ops \<Rightarrow> gateway_config \<Rightarrow> mit_op \<Rightarrow> 's mitigation_engine
    \<Rightarrow> 's mitigation_engine" where
  "mit_step ops cfg (Apply t a) e =
     (case apply_action ops cfg t a e of Inr (_, e') \<Rightarrow> e' | Inl _ \<Rightarrow> e)"
| "mit_step ops cfg (Rollback t aid) e = snd (rollback_action ops t aid e)"
| "mit_step ops cfg (Evaluate t ip pref tok) e = snd (evaluate_request ops t ip pref tok e)"

definition mit_run :: "('s, hentry) store_ops \<Rightarrow> gateway_config \<Rightarrow> mit_op list \<Rightarrow> 's mitigation_engine
    \<Rightarrow> 's mitigation_engine" where
  "mit_run ops cfg xs e = fold (mit_step ops cfg) xs e"

text \<open>The applications among the operations of a run, and what such an application must look
  like to explain a table entry for \<open>key\<close> with expiry \<open>u\<close> and action \<open>aid\<close>.\<close>

definition applied :: "mit_op list \<Rightarrow> (time \<times> agent_action) set" where
  "applied xs = {(t, a). Apply t a \<in> set xs}"

definition caused :: "gateway_config \<Rightarrow> (time \<times> agent_action) set \<Rightarrow> action_type \<Rightarrow> string \<Rightarrow> time
    \<Rightarrow> string \<Rightarrow> bool" where
  "caused cfg L ty key u aid \<longleftrightarrow> (\<exists>t a. (t, a) \<in> L \<and> action_type a = ty \<and> target_entity a = key
     \<and> action_id a = aid \<and> u = t + of_int (effective_duration a)
     \<and> (ty = SUSPEND_ACCOUNT \<longrightarrow> approved_status (approval_status a))
     \<and> (ty = QUARANTINE_IP_TEMP \<longrightarrow> \<not> is_ip_whitelisted cfg key))"

definition token_caused :: "(time \<times> agent_action) set \<Rightarrow> string \<Rightarrow> bool" where
  "token_caused L tok \<longleftrightarrow> (\<exists>t a. (t, a) \<in> L \<and> action_type a = REVOKE_SESSION
     \<and> is_token_target (target_entity a) \<and> clean_token (target_entity a) = tok)"

lemma caused_mono: "caused cfg L ty k u i \<Longrightarrow> L \<subseteq> L' \<Longrightarrow> caused cfg L' ty k u i"
  unfolding caused_def by blast

lemma token_caused_mono: "token_caused L t \<Longrightarrow> L \<subseteq> L' \<Longrightarrow> token_caused L' t"
  unfolding token_caused_def by blast

text \<open>The tables held locally, and the two shared tables that requests read, contain only
  entries with a cause.\<close>

definition local_inv :: "gateway_config \<Rightarrow> (time \<times> agent_action) set \<Rightarrow> 's mitigation_engine \<Rightarrow> bool" where
  "local_inv cfg L e \<longleftrightarrow>
     (\<forall>k q. dget (quarantined_ips e) k = Some q
        \<longrightarrow> caused cfg L QUARANTINE_IP_TEMP k (until q) (mit_action_id q))
   \<and> (\<forall>t \<in> revoked_tokens e. token_caused L t)
   \<and> (\<forall>k q. dget (revoked_principals e) k = Some q
        \<longrightarrow> caused cfg L REVOKE_SESSION k (until q) (mit_action_id q))
   \<and> (\<forall>k q. dget (mfa_enforced_principals e) k = Some q
        \<longrightarrow> caused cfg L CHALLENGE_MFA k (until q) (mit_action_id q))
   \<and> (\<forall>k q. dget (dynamic_rate_limits e) k = Some q
        \<longrightarrow> caused cfg L RATE_LIMIT k (rl_until q) (rl_action_id q))
   \<and> (\<forall>k q. dget (suspended_accounts e) k = Some q
        \<longrightarrow> (\<exists>u. caused cfg L SUSPEND_ACCOUNT k u (susp_action_id q)))"

definition shared_inv :: "gateway_config \<Rightarrow> (time \<times> agent_action) set
    \<Rightarrow> (string \<Rightarrow> string \<Rightarrow> hentry option) \<Rightarrow> (string \<Rightarrow> string \<Rightarrow> bool) \<Rightarrow> bool" where
  "shared_inv cfg L hv sv \<longleftrightarrow>
     (\<forall>k h. hv ''quarantined_ips'' k = Some h \<longrightarrow> (\<exists>q. h = QEntry q
        \<and> caused cfg L QUARANTINE_IP_TEMP k (until q) (mit_action_id q)))
   \<and> (\<forall>k h. hv ''suspended_accounts'' k = Some h
        \<longrightarrow> (\<exists>u. caused cfg L SUSPEND_ACCOUNT k u (hentry_id h)))
   \<and> (\<forall>t. sv ''revoked_tokens'' t \<longrightarrow> token_caused L t)"

lemma local_inv_mono: "local_inv cfg L e \<Longrightarrow> L \<subseteq> L' \<Longrightarrow> local_inv cfg L' e"
  unfolding local_inv_def using caused_mono token_caused_mono by meson

lemma shared_inv_mono: "shared_inv cfg L hv sv \<Longrightarrow> L \<subseteq> L' \<Longrightarrow> shared_inv cfg L' hv sv"
  unfolding shared_inv_def using caused_mono token_caused_mono by meson

lemma local_invD:
  assumes "local_inv cfg L e"
  shows "dget (quarantined_ips e) k = Some q
      \<Longrightarrow> caused cfg L QUARANTINE_IP_TEMP k (until q) (mit_action_id q)"
    "t \<in> revoked_tokens e \<Longrightarrow> token_caused L t"
    "dget (revoked_principals e) k = Some q
      \<Longrightarrow> caused cfg L REVOKE_SESSION k (until q) (mit_action_id q)"
    "dget (mfa_enforced_principals e) k = Some q
      \<Longrightarrow> caused cfg L CHALLENGE_MFA k (until q) (mit_action_id q)"
    "dget (dynamic_rate_limits e) k = Some r
      \<Longrightarrow> caused cfg L RATE_LIMIT k (rl_until r) (rl_action_id r)"
    "dget (suspended_accounts e) k = Some s
      \<Longrightarrow> \<exists>u. caused cfg L SUSPEND_ACCOUNT k u (susp_action_id s)"
  using assms unfolding local_inv_def by blast+

lemma shared_invD:
  assumes "shared_inv cfg L hv sv"
  shows "hv ''quarantined_ips'' k = Some h \<Longrightarrow> \<exists>q. h = QEntry q
      \<and> caused cfg L QUARANTINE_IP_TEMP k (until q) (mit_action_id q)"
    "hv ''suspended_accounts'' k = Some h \<Longrightarrow> \<exists>u. caused cfg L SUSPEND_ACCOUNT k u (hentry_id h)"
    "sv ''revoked_tokens'' t \<Longrightarrow> token_caused L t"
  using assms unfolding shared_inv_def by blast+

lemma local_inv_frame [simp]:
  "local_inv cfg L (e\<lparr>store := s\<rparr>) = local_inv cfg L e"
  "local_inv cfg L (e\<lparr>action_registry := r\<rparr>) = local_inv cfg L e"
  by (simp_all add: local_inv_def)

lemma dget_ddel_Some: "dget (ddel k m) k' = Some v \<Longrightarrow> dget m k' = Some v"
  by (auto simp: delete_conv' split: if_splits)

lemma local_inv_drop:
  assumes "local_inv cfg L e"
  shows "local_inv cfg L (e\<lparr>quarantined_ips := ddel k (quarantined_ips e)\<rparr>)"
    "local_inv cfg L (e\<lparr>revoked_tokens := revoked_tokens e - T\<rparr>)"
    "local_inv cfg L (e\<lparr>revoked_principals := ddel k (revoked_principals e)\<rparr>)"
    "local_inv cfg L (e\<lparr>mfa_enforced_principals := ddel k (mfa_enforced_principals e)\<rparr>)"
    "local_inv cfg L (e\<lparr>dynamic_rate_limits := ddel k (dynamic_rate_limits e)\<rparr>)"
    "local_inv cfg L (e\<lparr>suspended_accounts := ddel k (suspended_accounts e)\<rparr>)"
  using assms unfolding local_inv_def by (auto dest!: dget_ddel_Some)

text \<open>What justifies an answer to a request.\<close>

definition justified :: "gateway_config \<Rightarrow> time \<Rightarrow> string \<Rightarrow> string option \<Rightarrow> string option
    \<Rightarrow> mitigation_decision \<Rightarrow> time \<Rightarrow> agent_action \<Rightarrow> bool" where
  "justified cfg now ip pref tok d t a \<longleftrightarrow> action_type a = md_action d \<and>
     (case md_action d of
        SUSPEND_ACCOUNT \<Rightarrow> pref = Some (target_entity a) \<and> approved_status (approval_status a)
      | QUARANTINE_IP_TEMP \<Rightarrow> (target_entity a = ip \<or> pref = Some (target_entity a))
          \<and> \<not> is_ip_whitelisted cfg (target_entity a) \<and> now \<le> t + 3600
      | REVOKE_SESSION \<Rightarrow>
          (\<exists>s. tok = Some s \<and> clean_token s = clean_token (target_entity a)
             \<and> is_token_target (target_entity a))
          \<or> pref = Some (target_entity a) \<and> now \<le> t + of_int (effective_duration a)
      | CHALLENGE_MFA \<Rightarrow> pref = Some (target_entity a) \<and> now \<le> t + of_int (effective_duration a)
      | RATE_LIMIT \<Rightarrow> (target_entity a = ip \<or> pref = Some (target_entity a))
          \<and> now \<le> t + of_int (effective_duration a)
      | _ \<Rightarrow> False)"

definition answer_ok :: "gateway_config \<Rightarrow> (time \<times> agent_action) set \<Rightarrow> time \<Rightarrow> string
    \<Rightarrow> string option \<Rightarrow> string option \<Rightarrow> mitigation_error + mitigation_decision option \<Rightarrow> bool" where
  "answer_ok cfg L now ip pref tok r \<longleftrightarrow> (\<exists>ans. r = Inr ans \<and>
     (\<forall>d. ans = Some d \<longrightarrow> (\<exists>t a. (t, a) \<in> L \<and> justified cfg now ip pref tok d t a)))"

lemma answer_ok_None [simp]: "answer_ok cfg L now ip pref tok (Inr None)"
  by (simp add: answer_ok_def)

lemma answer_ok_Some [simp]:
  "answer_ok cfg L now ip pref tok (Inr (Some d))
     \<longleftrightarrow> (\<exists>t a. (t, a) \<in> L \<and> justified cfg now ip pref tok d t a)"
  by (simp add: answer_ok_def)

lemma quarantine_duration: "action_type a = QUARANTINE_IP_TEMP \<Longrightarrow> effective_duration a \<le> 3600"
  by (simp add: effective_duration_def Let_def max_auto_quarantine_seconds_def)

lemma justified_quarantine:
  assumes "caused cfg L QUARANTINE_IP_TEMP k (until q) (mit_action_id q)" "now \<le> until q"
    "k = ip \<or> pref = Some k"
  shows "\<exists>t a. (t, a) \<in> L \<and> justified cfg now ip pref tok (quarantine_answer now k q) t a"
proof -
  obtain t a where a: "(t, a) \<in> L" "action_type a = QUARANTINE_IP_TEMP" "target_entity a = k"
      "until q = t + of_int (effective_duration a)" "\<not> is_ip_whitelisted cfg k"
    using assms(1) unfolding caused_def by auto
  have "(of_int (effective_duration a) :: rat) \<le> 3600"
    using quarantine_duration [OF a(2)] by (simp add: of_int_le_iff [symmetric] del: of_int_le_iff)
  then show ?thesis
    using a assms(2,3) by (intro exI [of _ t] exI [of _ a]) (auto simp: justified_def quarantine_answer_def)
qed

lemma justified_suspension:
  assumes "caused cfg L SUSPEND_ACCOUNT k u i" "pref = Some k"
  shows "\<exists>t a. (t, a) \<in> L \<and> justified cfg now ip pref tok (suspended_answer k j) t a"
  using assms unfolding caused_def by (auto simp: justified_def suspended_answer_def)

lemma justified_token:
  assumes "token_caused L (clean_token s)" "tok = Some s"
  shows "\<exists>t a. (t, a) \<in> L \<and> justified cfg now ip pref tok token_answer t a"
  using assms unfolding token_caused_def justified_def token_answer_def
  by (simp add: eq_commute) blast

lemma justified_timed:
  assumes "caused cfg L ty k u i" "now \<le> u" "md_action d = ty"
    and "ty \<in> {REVOKE_SESSION, CHALLENGE_MFA} \<and> pref = Some k
      \<or> ty = RATE_LIMIT \<and> (k = ip \<or> pref = Some k)"
  shows "\<exists>t a. (t, a) \<in> L \<and> justified cfg now ip pref tok d t a"
proof -
  obtain t a where a: "(t, a) \<in> L" "action_type a = ty" "target_entity a = k"
      "u = t + of_int (effective_duration a)"
    using assms(1) unfolding caused_def by blast
  then have "justified cfg now ip pref tok d t a"
    using assms(2-4) by (auto simp: justified_def)
  then show ?thesis using a(1) by blast
qed

lemma truthy_the: "truthy_str x \<Longrightarrow> x = Some (the x)"
  by (cases x) simp_all

locale mitigation_store = entry_store ops hview sview inv
  for ops :: "('s, hentry) store_ops" and hview sview inv
begin

definition mit_inv :: "gateway_config \<Rightarrow> (time \<times> agent_action) set \<Rightarrow> 's mitigation_engine \<Rightarrow> bool" where
  "mit_inv cfg L e \<longleftrightarrow> inv (store e) \<and> local_inv cfg L e
     \<and> shared_inv cfg L (hview (store e)) (sview (store e))"

definition stage_ok :: "gateway_config \<Rightarrow> (time \<times> agent_action) set \<Rightarrow> time \<Rightarrow> string
    \<Rightarrow> string option \<Rightarrow> string option \<Rightarrow> 's staged \<Rightarrow> bool" where
  "stage_ok cfg L now ip pref tok r \<longleftrightarrow>
     mit_inv cfg L (snd r) \<and> answer_ok cfg L now ip pref tok (fst r)"

lemma and_then_ok:
  assumes "stage_ok cfg L now ip pref tok r"
    and "\<And>e. mit_inv cfg L e \<Longrightarrow> stage_ok cfg L now ip pref tok (f e)"
  shows "stage_ok cfg L now ip pref tok (and_then r f)"
proof (cases r)
  case (Pair x e)
  then show ?thesis
    using assms by (cases x) (auto simp: and_then_def stage_ok_def split: option.splits)
qed

lemma get_hash_mit_inv:
  "mit_inv cfg L e \<Longrightarrow> mit_inv cfg L (e\<lparr>store := snd (op_get_hash_entry ops now hn k (store e))\<rparr>)"
  by (simp add: mit_inv_def store_laws)

lemma stage_suspended_ok:
  assumes inv: "mit_inv cfg L e"
  shows "stage_ok cfg L now ip pref tok (stage_suspended ops now pref e)"
proof (cases "truthy_str pref")
  case True
  then obtain p where p: "pref = Some p" by (cases pref) auto
  show ?thesis
  proof (cases "dget (suspended_accounts e) p")
    case (Some s)
    then obtain u where "caused cfg L SUSPEND_ACCOUNT p u (susp_action_id s)"
      using inv local_invD(6) unfolding mit_inv_def by blast
    then show ?thesis
      using inv True p Some by (simp add: stage_suspended_def stage_ok_def justified_suspension)
  next
    case None
    let ?g = "op_get_hash_entry ops now ''suspended_accounts'' p (store e)"
    have view: "fst ?g = hview (store e) ''suspended_accounts'' p"
      using inv by (simp add: mit_inv_def store_laws)
    have inv': "mit_inv cfg L (e\<lparr>store := snd ?g\<rparr>)" using get_hash_mit_inv [OF inv] .
    show ?thesis
    proof (cases "fst ?g")
      case (Some h)
      then obtain u where "caused cfg L SUSPEND_ACCOUNT p u (hentry_id h)"
        using inv view shared_invD(2) unfolding mit_inv_def by metis
      then show ?thesis
        using inv' True p None Some
        by (cases ?g) (simp add: stage_suspended_def stage_ok_def justified_suspension)
    next
      case no: None
      then show ?thesis
        using inv' True p None by (cases ?g) (simp add: stage_suspended_def stage_ok_def)
    qed
  qed
qed (use inv in \<open>simp add: stage_suspended_def stage_ok_def\<close>)

lemma check_quarantine_ok:
  assumes inv: "mit_inv cfg L e"
    and q: "caused cfg L QUARANTINE_IP_TEMP k (until q) (mit_action_id q)" "k = ip \<or> pref = Some k"
  shows "stage_ok cfg L now ip pref tok (check_quarantine ops now k q e)"
proof (cases "now \<le> until q")
  case True
  then show ?thesis
    using inv justified_quarantine [OF q(1) True q(2)] by (simp add: check_quarantine_def stage_ok_def)
next
  case False
  have "shared_inv cfg L (hview (snd (op_delete_hash_entry ops now ''quarantined_ips'' k (store e))))
      (sview (snd (op_delete_hash_entry ops now ''quarantined_ips'' k (store e))))"
    using inv by (auto simp: mit_inv_def store_laws shared_inv_def)
  moreover have "inv (snd (op_delete_hash_entry ops now ''quarantined_ips'' k (store e)))"
    using inv by (simp add: mit_inv_def store_laws)
  ultimately show ?thesis
    using False inv local_inv_drop(1) [of cfg L e k]
    by (simp add: check_quarantine_def stage_ok_def mit_inv_def)
qed

lemma shared_quarantine_spec:
  assumes "inv s" "shared_quarantine ops now cs s = (r, s')"
  shows "inv s' \<and> hview s' = hview s \<and> sview s' = sview s \<and>
    (\<forall>k h. r = Some (k, h) \<longrightarrow> k \<in> set cs \<and> k \<noteq> [] \<and> hview s ''quarantined_ips'' k = Some h)"
  using assms
proof (induction cs arbitrary: s)
  case (Cons c cs)
  show ?case
  proof (cases "c = []")
    case True
    then show ?thesis using Cons.IH [OF Cons.prems(1)] Cons.prems(2) by auto
  next
    case False
    obtain x s1 where g: "op_get_hash_entry ops now ''quarantined_ips'' c s = (x, s1)"
      by (cases "op_get_hash_entry ops now ''quarantined_ips'' c s") auto
    have f: "x = hview s ''quarantined_ips'' c" "hview s1 = hview s" "sview s1 = sview s" "inv s1"
      using g get_hash [OF Cons.prems(1), of now "''quarantined_ips''" c]
        get_hash_hview [OF Cons.prems(1), of now "''quarantined_ips''" c]
        get_hash_sview [OF Cons.prems(1), of now "''quarantined_ips''" c]
        get_hash_inv [OF Cons.prems(1), of now "''quarantined_ips''" c] by simp_all
    show ?thesis
    proof (cases x)
      case None
      then show ?thesis using Cons.IH [OF f(4)] Cons.prems(2) g f False by auto
    next
      case (Some h)
      then show ?thesis using Cons.prems(2) g f False by auto
    qed
  qed
qed simp

lemma stage_quarantine_ok:
  assumes inv: "mit_inv cfg L e"
  shows "stage_ok cfg L now ip pref tok (stage_quarantine ops now ip pref e)"
proof (cases "local_quarantine ip pref e")
  case (Some kq)
  obtain k q where kq: "kq = (k, q)" by (cases kq)
  have "dget (quarantined_ips e) k = Some q" "k = ip \<or> pref = Some k"
    using Some kq by (auto simp: local_quarantine_def truthy_the split: option.splits if_splits)
  moreover from this(1) have "caused cfg L QUARANTINE_IP_TEMP k (until q) (mit_action_id q)"
    using local_invD(1) inv unfolding mit_inv_def by blast
  ultimately show ?thesis
    using Some kq check_quarantine_ok [OF inv] by (simp add: stage_quarantine_def)
next
  case None
  let ?cs = "[ip, or_else pref []]"
  obtain r s where sq: "shared_quarantine ops now ?cs (store e) = (r, s)"
    by (cases "shared_quarantine ops now ?cs (store e)") auto
  have sp: "inv s \<and> hview s = hview (store e) \<and> sview s = sview (store e) \<and>
      (\<forall>k h. r = Some (k, h) \<longrightarrow> k \<in> set ?cs \<and> k \<noteq> [] \<and> hview (store e) ''quarantined_ips'' k = Some h)"
    using inv by (intro shared_quarantine_spec [OF _ sq]) (simp add: mit_inv_def)
  have inv': "mit_inv cfg L (e\<lparr>store := s\<rparr>)"
    using inv sp by (simp add: mit_inv_def)
  show ?thesis
  proof (cases r)
    case None
    then show ?thesis
      using \<open>local_quarantine ip pref e = None\<close> sq inv' by (simp add: stage_quarantine_def stage_ok_def)
  next
    case (Some kh)
    obtain k h where kh: "kh = (k, h)" by (cases kh)
    then have "hview (store e) ''quarantined_ips'' k = Some h" and k: "k \<in> set ?cs" "k \<noteq> []"
      using sp Some by auto
    then obtain q where q: "h = QEntry q"
        "caused cfg L QUARANTINE_IP_TEMP k (until q) (mit_action_id q)"
      using shared_invD(1) inv unfolding mit_inv_def by blast
    have "k = ip \<or> pref = Some k" using k by (cases pref) auto
    then show ?thesis
      using check_quarantine_ok [OF inv' q(2)] None sq Some kh q(1)
      by (simp add: stage_quarantine_def)
  qed
qed

lemma stage_token_ok:
  assumes inv: "mit_inv cfg L e"
  shows "stage_ok cfg L now ip pref tok (stage_token ops now tok e)"
proof (cases "truthy_str tok")
  case True
  then obtain s where s: "tok = Some s" by (cases tok) auto
  let ?t = "clean_token s"
  obtain b s1 where m: "op_is_member ops now ''revoked_tokens'' ?t (store e) = (b, s1)"
    by (cases "op_is_member ops now ''revoked_tokens'' ?t (store e)") auto
  have i: "inv (store e)" using inv by (simp add: mit_inv_def)
  have f: "b = sview (store e) ''revoked_tokens'' ?t" "mit_inv cfg L (e\<lparr>store := s1\<rparr>)"
    using m inv is_member_result [OF i, of now "''revoked_tokens''" ?t]
      is_member_hview [OF i, of now "''revoked_tokens''" ?t]
      is_member_sview [OF i, of now "''revoked_tokens''" ?t]
      is_member_inv [OF i, of now "''revoked_tokens''" ?t]
    by (simp_all add: mit_inv_def)
  have "token_caused L ?t" if "?t \<in> revoked_tokens e \<or> b"
    using that f(1) inv local_invD(2) shared_invD(3) unfolding mit_inv_def by blast
  then show ?thesis
    using True s m f(2) inv justified_token [of L s tok]
    by (auto simp: stage_token_def stage_ok_def Let_def)
qed (use inv in \<open>simp add: stage_token_def stage_ok_def\<close>)

text \<open>The three stages that read a local table only.\<close>

lemma stage_revoked_ok:
  assumes inv: "mit_inv cfg L e"
  shows "stage_ok cfg L now ip pref tok (stage_revoked now pref e)"
proof (cases "truthy_str pref \<and> dget (revoked_principals e) (the pref) \<noteq> None")
  case True
  then obtain p q where p: "pref = Some p" "p \<noteq> []" "dget (revoked_principals e) p = Some q"
    by (cases pref) auto
  have c: "caused cfg L REVOKE_SESSION p (until q) (mit_action_id q)"
    using p(3) inv local_invD(3) unfolding mit_inv_def by blast
  show ?thesis
    using inv local_inv_drop(3) [of cfg L e p] p c
    by (auto simp: stage_revoked_def stage_ok_def mit_inv_def intro!: justified_timed)
qed (use inv in \<open>auto simp: stage_revoked_def stage_ok_def\<close>)

lemma stage_mfa_ok:
  assumes inv: "mit_inv cfg L e"
  shows "stage_ok cfg L now ip pref tok (stage_mfa now pref e)"
proof (cases "truthy_str pref \<and> dget (mfa_enforced_principals e) (the pref) \<noteq> None")
  case True
  then obtain p q where p: "pref = Some p" "p \<noteq> []" "dget (mfa_enforced_principals e) p = Some q"
    by (cases pref) auto
  have c: "caused cfg L CHALLENGE_MFA p (until q) (mit_action_id q)"
    using p(3) inv local_invD(4) unfolding mit_inv_def by blast
  show ?thesis
    using inv local_inv_drop(4) [of cfg L e p] p c
    by (auto simp: stage_mfa_def stage_ok_def mit_inv_def intro!: justified_timed)
qed (use inv in \<open>auto simp: stage_mfa_def stage_ok_def\<close>)

lemma rate_entry_ok:
  assumes inv: "mit_inv cfg L e" and i: "dget (dynamic_rate_limits e) k = Some i"
    and k: "k = ip \<or> pref = Some k" and d: "md_action d = RATE_LIMIT"
  shows "stage_ok cfg L now ip pref tok
    (if now \<le> rl_until i then (Inr (Some d), e)
     else (Inr None, e\<lparr>dynamic_rate_limits := ddel k (dynamic_rate_limits e)\<rparr>))"
proof -
  have c: "caused cfg L RATE_LIMIT k (rl_until i) (rl_action_id i)"
    using i inv local_invD(5) unfolding mit_inv_def by blast
  then show ?thesis
    using inv local_inv_drop(5) [of cfg L e k] k d
    by (auto simp: stage_ok_def mit_inv_def intro!: justified_timed)
qed

lemma stage_rate_ok:
  assumes inv: "mit_inv cfg L e"
  shows "stage_ok cfg L now ip pref tok (stage_rate now ip pref e)"
proof (cases "dget (dynamic_rate_limits e) ip")
  case (Some i)
  show ?thesis
    unfolding stage_rate_def Let_def Some option.case prod.case
    by (rule rate_entry_ok [OF inv Some]) simp_all
next
  case None
  show ?thesis
  proof (cases "truthy_str pref \<and> dget (dynamic_rate_limits e) (the pref) \<noteq> None")
    case True
    then obtain p i where p: "pref = Some p" "p \<noteq> []" "dget (dynamic_rate_limits e) p = Some i"
      by (cases pref) auto
    have hit: "(if truthy_str pref then map_option (\<lambda>i. (the pref, i))
        (dget (dynamic_rate_limits e) (the pref)) else None) = Some (p, i)"
      using p by simp
    show ?thesis
      unfolding stage_rate_def Let_def None option.case hit prod.case
      by (rule rate_entry_ok [OF inv p(3)]) (simp_all add: p(1))
  qed (use inv None in \<open>auto simp: stage_rate_def stage_ok_def\<close>)
qed

lemma evaluate_request_ok:
  assumes "mit_inv cfg L e"
  shows "stage_ok cfg L now ip pref tok (evaluate_request ops now ip pref tok e)"
  unfolding evaluate_request_def
  by (intro and_then_ok stage_suspended_ok stage_quarantine_ok stage_token_ok stage_revoked_ok
      stage_mfa_ok stage_rate_ok assms)

lemma mit_inv_mono: "mit_inv cfg L e \<Longrightarrow> L \<subseteq> L' \<Longrightarrow> mit_inv cfg L' e"
  unfolding mit_inv_def using local_inv_mono shared_inv_mono by blast

lemma apply_action_inv:
  assumes "mit_inv cfg L e" "apply_action ops cfg now a e = Inr (b, e')"
  shows "mit_inv cfg (insert (now, a) L) e'"
proof -
  let ?L = "insert (now, a) L"
  have inv: "mit_inv cfg ?L e" using mit_inv_mono [OF assms(1)] by blast
  note i = inv [unfolded mit_inv_def]
  have gate: "needs_approval (action_type a) \<longrightarrow> approved_status (approval_status a)"
    and how: "e' = e \<or> \<not> (action_type a = QUARANTINE_IP_TEMP \<and> is_ip_whitelisted cfg (target_entity a))
      \<and> e' = snd (install ops now a e)"
    using assms(2) by (auto simp: apply_action_def split: if_splits)
  have new: "caused cfg ?L (action_type a) (target_entity a) (now + of_int (effective_duration a))
      (action_id a)"
    if "e' \<noteq> e"
    using gate how that unfolding caused_def needs_approval_def by blast
  have tok: "token_caused ?L (clean_token (target_entity a))"
    if "action_type a = REVOKE_SESSION" "is_token_target (target_entity a)"
    using that unfolding token_caused_def by blast
  show ?thesis
  proof (cases "e' = e")
    case False
    then have e': "e' = snd (install ops now a e)" using how by blast
    show ?thesis
      unfolding e' using i new [OF False] tok
      by (cases "action_type a")
        (auto simp: install_def Let_def register_mitigation_def mit_inv_def local_inv_def shared_inv_def
          store_laws update_conv' split: if_splits)
  qed (use inv in simp)
qed

lemma rollback_action_inv:
  assumes "mit_inv cfg L e"
  shows "mit_inv cfg L (snd (rollback_action ops now aid e))"
proof (cases "dget (action_registry e) aid")
  case (Some tt)
  obtain ty tgt where tt: "tt = (ty, tgt)" by (cases tt)
  show ?thesis
    using assms Some tt
    by (cases ty)
      (auto simp: rollback_action_def mit_inv_def local_inv_def shared_inv_def store_laws
        dest!: dget_ddel_Some split: if_splits)
qed (use assms in \<open>simp add: rollback_action_def\<close>)

lemma mit_run_inv:
  "mit_inv cfg L e \<Longrightarrow> mit_inv cfg (L \<union> applied xs) (mit_run ops cfg xs e)"
proof (induction xs arbitrary: L e)
  case (Cons x xs)
  let ?L = "L \<union> applied [x]"
  have "mit_inv cfg ?L (mit_step ops cfg x e)"
  proof (cases x)
    case (Apply t a)
    have sub: "insert (t, a) L = ?L" by (auto simp: applied_def Apply)
    show ?thesis
      using mit_inv_mono [OF Cons.prems, of ?L] apply_action_inv [OF Cons.prems, of t a]
      by (auto simp: Apply sub split: sum.splits)
  next
    case (Rollback t i)
    then show ?thesis
      using rollback_action_inv [OF Cons.prems] mit_inv_mono by (auto simp: applied_def)
  next
    case (Evaluate t ip pref tok)
    then show ?thesis
      using evaluate_request_ok [OF Cons.prems] mit_inv_mono
      by (auto simp: applied_def stage_ok_def)
  qed
  then have "mit_inv cfg (?L \<union> applied xs) (mit_run ops cfg xs (mit_step ops cfg x e))"
    by (rule Cons.IH)
  moreover have "?L \<union> applied xs = L \<union> applied (x # xs)" by (auto simp: applied_def)
  ultimately show ?case by (simp add: mit_run_def)
qed (simp add: mit_run_def applied_def)

lemma run_answers_justified:
  assumes "mit_inv cfg {} e0"
  shows "answer_ok cfg (applied xs) now ip pref tok
    (fst (evaluate_request ops now ip pref tok (mit_run ops cfg xs e0)))"
  using evaluate_request_ok [of cfg "applied xs"] mit_run_inv [OF assms, of xs]
  by (simp add: stage_ok_def)

end

interpretation standalone_mitigation:
  mitigation_store "dist_ops no_redis" dist_hview dist_sview standalone ..

section \<open>Properties\<close>

definition standalone_engine :: "(unit, hentry) dist_store mitigation_engine" where
  "standalone_engine = mitigation_init (dist_init None)"

abbreviation sa_run where "sa_run \<equiv> mit_run (dist_ops no_redis)"
abbreviation sa_evaluate where "sa_evaluate \<equiv> evaluate_request (dist_ops no_redis)"

lemma standalone_engine_inv: "standalone_mitigation.mit_inv cfg {} standalone_engine"
  using standalone_init
  by (simp add: standalone_mitigation.mit_inv_def standalone_engine_def mitigation_init_def
      local_inv_def shared_inv_def dist_hview_def dist_sview_def dist_init_def
      mem_init_def mem_get_hash_entry_def mem_is_member_def dget_or_def)


lemma stages_keep_rate_limits:
  "dynamic_rate_limits (snd (stage_suspended ops now pref e)) = dynamic_rate_limits e"
  "dynamic_rate_limits (snd (stage_quarantine ops now ip pref e)) = dynamic_rate_limits e"
  "dynamic_rate_limits (snd (stage_token ops now tok e)) = dynamic_rate_limits e"
  "dynamic_rate_limits (snd (stage_revoked now pref e)) = dynamic_rate_limits e"
  "dynamic_rate_limits (snd (stage_mfa now pref e)) = dynamic_rate_limits e"
  by (simp_all add: stage_suspended_def stage_quarantine_def stage_token_def stage_revoked_def
      stage_mfa_def check_quarantine_def Let_def split: option.splits prod.splits hentry.splits)

lemma and_then_not_None:
  "(\<And>e. fst r = Inr None \<Longrightarrow> e = snd r \<Longrightarrow> fst (f e) \<noteq> Inr None) \<Longrightarrow> fst (and_then r f) \<noteq> Inr None"
  by (cases r) (auto simp: and_then_def split: sum.splits option.splits)

text \<open>The dynamic throttle is announced as five requests a minute, but it lets none through:
  while an entry for the client's address is in force, every request from it is stopped.\<close>

theorem throttle_stops_every_request:
  assumes "dget (dynamic_rate_limits e) ip = Some i" "now \<le> rl_until i"
  shows "fst (evaluate_request ops now ip pref tok e) \<noteq> Inr None"
proof -
  have last: "fst (stage_rate now ip pref x) \<noteq> Inr None"
    if "dynamic_rate_limits x = dynamic_rate_limits e" for x
    using assms that by (simp add: stage_rate_def)
  show ?thesis
    unfolding evaluate_request_def
    by (intro and_then_not_None last) (simp add: stages_keep_rate_limits)
qed

lemma install_quarantine:
  assumes "action_type a = QUARANTINE_IP_TEMP" "\<not> is_ip_whitelisted cfg (target_entity a)"
  obtains e1 where "apply_action ops cfg t a e = Inr (True, e1)"
    "dget (quarantined_ips e1) (target_entity a)
       = Some \<lparr>until = t + of_int (effective_duration a), mit_reason = justification a,
               mit_action_id = action_id a\<rparr>"
    "store e1 = op_set_hash_entry ops t ''quarantined_ips'' (target_entity a)
       (QEntry \<lparr>until = t + of_int (effective_duration a), mit_reason = justification a,
               mit_action_id = action_id a\<rparr>) (Some (effective_duration a)) (store e)"
    "action_registry e1
       = dput (action_id a) (QUARANTINE_IP_TEMP, target_entity a) (action_registry e)"
  using assms
  by (simp add: apply_action_def install_def Let_def needs_approval_def register_mitigation_def)

lemma stage_suspended_result:
  "(\<exists>d. fst (stage_suspended ops now pref e) = Inr (Some d) \<and> md_status d = 403)
    \<or> fst (stage_suspended ops now pref e) = Inr None"
  "quarantined_ips (snd (stage_suspended ops now pref e)) = quarantined_ips e"
  by (auto simp: stage_suspended_def Let_def suspended_answer_def split: option.splits prod.splits)

text \<open>An applied quarantine is enforced: from the moment it is accepted until its expiry, a
  request from that address is answered with 403, and the expiry is at most an
  hour away whatever duration the action asked for.\<close>

theorem quarantine_enforced:
  assumes "action_type a = QUARANTINE_IP_TEMP" "\<not> is_ip_whitelisted cfg (target_entity a)"
    and "target_entity a \<noteq> []" "now \<le> t + of_int (effective_duration a)"
  shows "effective_duration a \<le> 3600 \<and>
    (\<exists>e1 d e2. apply_action ops cfg t a e = Inr (True, e1)
       \<and> evaluate_request ops now (target_entity a) pref tok e1 = (Inr (Some d), e2)
       \<and> md_status d = 403)"
proof -
  let ?ip = "target_entity a"
  obtain e1 where e1: "apply_action ops cfg t a e = Inr (True, e1)"
    "dget (quarantined_ips e1) ?ip
       = Some \<lparr>until = t + of_int (effective_duration a), mit_reason = justification a,
               mit_action_id = action_id a\<rparr>"
    using install_quarantine [OF assms(1,2)] by blast
  obtain x e2 where s: "stage_suspended ops now pref e1 = (x, e2)"
    by (cases "stage_suspended ops now pref e1") auto
  have q: "quarantined_ips e2 = quarantined_ips e1"
    using stage_suspended_result(2) [of ops now pref e1] s by simp
  have "\<exists>d e2. evaluate_request ops now ?ip pref tok e1 = (Inr (Some d), e2) \<and> md_status d = 403"
  proof (cases "x = Inr None")
    case True
    then show ?thesis
      using s q e1(2) assms(3,4)
      by (simp add: evaluate_request_def and_then_def stage_quarantine_def local_quarantine_def
          check_quarantine_def quarantine_answer_def)
  next
    case False
    then obtain d where "x = Inr (Some d)" "md_status d = 403"
      using stage_suspended_result(1) [of ops now pref e1] s by auto
    then show ?thesis using s by (simp add: evaluate_request_def and_then_def)
  qed
  then show ?thesis using e1(1) quarantine_duration [OF assms(1)] by blast
qed

text \<open>The approval gate of \<open>apply_action\<close>: an unapproved suspension or CIDR block is refused and
  nothing is recorded; a whitelisted address cannot be quarantined; and a
  CIDR block never takes effect, because no branch installs one even when it is approved.\<close>

theorem apply_action_gates:
  "(needs_approval (action_type a) \<and> \<not> approved_status (approval_status a)
      \<longrightarrow> (\<exists>err. apply_action ops cfg t a e = Inl err))
   \<and> (action_type a = QUARANTINE_IP_TEMP \<and> is_ip_whitelisted cfg (target_entity a)
      \<longrightarrow> apply_action ops cfg t a e = Inr (False, e))
   \<and> (action_type a = BLOCK_CIDR_ORGANIZATION \<and> approved_status (approval_status a)
      \<longrightarrow> apply_action ops cfg t a e = Inr (False, e))"
  by (simp add: apply_action_def install_def Let_def needs_approval_def)

text \<open>A request without principal and token, on an engine that knows no quarantine of its
  address in either table, is not answered with a quarantine.\<close>

context mitigation_store begin

lemma no_quarantine_answer:
  assumes "inv (store e)" "dget (quarantined_ips e) ip = None"
    "hview (store e) ''quarantined_ips'' ip = None"
  shows "fst (evaluate_request ops now ip None None e) = fst (stage_rate now ip None
    (snd (stage_quarantine ops now ip None e)))"
proof -
  obtain r s where sq: "shared_quarantine ops now [ip, []] (store e) = (r, s)"
    by (cases "shared_quarantine ops now [ip, []] (store e)") auto
  have "r = None"
    using shared_quarantine_spec [OF assms(1) sq] assms(3) by (cases r) auto
  then have "fst (stage_quarantine ops now ip None e) = Inr None"
    using sq assms(2) by (simp add: stage_quarantine_def local_quarantine_def)
  then show ?thesis
    by (cases "stage_quarantine ops now ip None e")
      (simp add: evaluate_request_def and_then_def stage_suspended_def stage_token_def
        stage_revoked_def stage_mfa_def)
qed

lemma rate_stage_action:
  "fst (stage_rate now ip pref e) = Inr (Some d) \<Longrightarrow> md_action d = RATE_LIMIT"
  by (auto simp: stage_rate_def Let_def split: option.splits if_splits)

text \<open>Rolling an action back clears its target's quarantine from both tables.\<close>

lemma rollback_clears_quarantine:
  assumes "inv (store e)" "dget (action_registry e) aid = Some (QUARANTINE_IP_TEMP, ip)"
    "rollback_action ops t aid e = (b, e')"
  shows "b \<and> inv (store e') \<and> dget (quarantined_ips e') ip = None
    \<and> hview (store e') ''quarantined_ips'' ip = None"
  using assms by (auto simp: rollback_action_def store_laws delete_conv')

lemma rollback_lifts:
  assumes "inv (store e)" "dget (action_registry e) aid = Some (QUARANTINE_IP_TEMP, ip)"
    "rollback_action ops t aid e = (b, e')"
    "fst (evaluate_request ops now ip None None e') = Inr (Some d)"
  shows "md_action d \<noteq> QUARANTINE_IP_TEMP"
proof -
  have "fst (evaluate_request ops now ip None None e')
      = fst (stage_rate now ip None (snd (stage_quarantine ops now ip None e')))"
    using rollback_clears_quarantine [OF assms(1-3)] by (intro no_quarantine_answer) auto
  with assms(4) have "fst (stage_rate now ip None (snd (stage_quarantine ops now ip None e'))) = Inr (Some d)"
    by metis
  from rate_stage_action [OF this] show ?thesis by simp
qed

lemma apply_quarantine_registry:
  assumes "inv (store e)" "action_type a = QUARANTINE_IP_TEMP"
    "\<not> is_ip_whitelisted cfg (target_entity a)" "apply_action ops cfg t a e = Inr (b, e1)"
  shows "inv (store e1) \<and> (\<forall>i. dget (action_registry e1) i =
    (if i = action_id a then Some (QUARANTINE_IP_TEMP, target_entity a) else dget (action_registry e) i))"
proof -
  obtain e2 where e2: "apply_action ops cfg t a e = Inr (True, e2)"
    "store e2 = op_set_hash_entry ops t ''quarantined_ips'' (target_entity a)
       (QEntry \<lparr>until = t + of_int (effective_duration a), mit_reason = justification a,
               mit_action_id = action_id a\<rparr>) (Some (effective_duration a)) (store e)"
    "action_registry e2
       = dput (action_id a) (QUARANTINE_IP_TEMP, target_entity a) (action_registry e)"
    using install_quarantine [OF assms(2,3)] by blast
  then show ?thesis using assms(1,4) by (auto simp: store_laws update_conv')
qed

end

text \<open>Roll-back works by target and not by action: after two quarantines of one address,
  rolling back the older one lifts the newer one as well, although the
  newer action is still registered as enforced.\<close>

theorem rollback_of_older_lifts_newer:
  assumes "standalone (store e)" "action_id a1 \<noteq> action_id a2"
    and "action_type a1 = QUARANTINE_IP_TEMP" "action_type a2 = QUARANTINE_IP_TEMP"
    and "target_entity a1 = ip" "target_entity a2 = ip" "\<not> is_ip_whitelisted cfg ip"
    and "apply_action (dist_ops no_redis) cfg t1 a1 e = Inr (b1, e1)"
    and "apply_action (dist_ops no_redis) cfg t2 a2 e1 = Inr (b2, e2)"
    and "rollback_action (dist_ops no_redis) t3 (action_id a1) e2 = (b3, e3)"
  shows "b3 \<and> dget (action_registry e3) (action_id a2) = Some (QUARANTINE_IP_TEMP, ip)
    \<and> (\<forall>now d. fst (sa_evaluate now ip None None e3) = Inr (Some d)
          \<longrightarrow> md_action d \<noteq> QUARANTINE_IP_TEMP)"
proof -
  note apply_facts = standalone_mitigation.apply_quarantine_registry
  have s1: "standalone (store e1)"
      "\<forall>i. dget (action_registry e1) i = (if i = action_id a1 then Some (QUARANTINE_IP_TEMP, ip)
         else dget (action_registry e) i)"
    using apply_facts [OF assms(1,3) _ assms(8)] assms(5,7) by auto
  have s2: "standalone (store e2)"
      "\<forall>i. dget (action_registry e2) i = (if i = action_id a2 then Some (QUARANTINE_IP_TEMP, ip)
         else dget (action_registry e1) i)"
    using apply_facts [OF s1(1) assms(4) _ assms(9)] assms(6,7) by auto
  have reg: "dget (action_registry e2) (action_id a1) = Some (QUARANTINE_IP_TEMP, ip)"
      "dget (action_registry e2) (action_id a2) = Some (QUARANTINE_IP_TEMP, ip)"
    using s1 s2 assms(2) by auto
  have "dget (action_registry e3) (action_id a2) = Some (QUARANTINE_IP_TEMP, ip)"
    using assms(2,10) reg by (auto simp: rollback_action_def delete_conv')
  then show ?thesis
    using standalone_mitigation.rollback_lifts [OF s2(1) reg(1) assms(10)]
      standalone_mitigation.rollback_clears_quarantine [OF s2(1) reg(1) assms(10)] by blast
qed

text \<open>Roll-back undoes a quarantine: after an accepted quarantine is rolled back by its action
  identifier, requests from the address are no longer answered with a quarantine.\<close>

theorem quarantine_rollback_roundtrip:
  assumes "standalone (store e)" "action_type a = QUARANTINE_IP_TEMP"
    and "apply_action (dist_ops no_redis) cfg t a e = Inr (True, e1)"
    and "\<not> is_ip_whitelisted cfg (target_entity a)"
  shows "\<exists>e2. rollback_action (dist_ops no_redis) t' (action_id a) e1 = (True, e2)
    \<and> (\<forall>now d. fst (sa_evaluate now (target_entity a) None None e2) = Inr (Some d)
          \<longrightarrow> md_action d \<noteq> QUARANTINE_IP_TEMP)"
proof -
  obtain b e2 where r: "rollback_action (dist_ops no_redis) t' (action_id a) e1 = (b, e2)"
    by (cases "rollback_action (dist_ops no_redis) t' (action_id a) e1") auto
  have s1: "standalone (store e1)"
      "dget (action_registry e1) (action_id a) = Some (QUARANTINE_IP_TEMP, target_entity a)"
    using standalone_mitigation.apply_quarantine_registry [OF assms(1,2,4,3)] by auto
  show ?thesis
    using standalone_mitigation.rollback_lifts [OF s1 r]
      standalone_mitigation.rollback_clears_quarantine [OF s1 r] r by auto
qed

section \<open>Witnesses\<close>

definition bad_ip :: string where
  "bad_ip = ''203.0.113.9''"

definition demo_quarantine :: "string \<Rightarrow> agent_action" where
  "demo_quarantine i = (mk_action i 0 QUARANTINE_IP_TEMP bad_ip ''scan'')\<lparr>duration_seconds := Some 7200\<rparr>"

lemma demo_quarantine_sel [simp]:
  "action_type (demo_quarantine i) = QUARANTINE_IP_TEMP" "target_entity (demo_quarantine i) = bad_ip"
  "action_id (demo_quarantine i) = i" "effective_duration (demo_quarantine i) = 3600"
  by (simp_all add: demo_quarantine_def effective_duration_def max_auto_quarantine_seconds_def)

lemma bad_ip_facts: "\<not> is_ip_whitelisted default_config bad_ip" "bad_ip \<noteq> []"
  unfolding bad_ip_def by code_simp+

lemma standalone_engine_store: "standalone (store standalone_engine)"
  using standalone_init by (simp add: standalone_engine_def mitigation_init_def)

theorem throttle_stops_every_request_witness:
  "fst (sa_evaluate 30 ''10.0.0.5'' None None
     (standalone_engine\<lparr>dynamic_rate_limits := [(''10.0.0.5'', \<lparr>rl_limit = 5, rl_window_seconds = 60,
        rl_until = 60, rl_action_id = ''a''\<rparr>)]\<rparr>)) \<noteq> Inr None"
  by (rule throttle_stops_every_request [where i = "\<lparr>rl_limit = 5, rl_window_seconds = 60,
        rl_until = 60, rl_action_id = ''a''\<rparr>"]) simp_all

theorem quarantine_enforced_witness:
  "\<exists>e1 d e2. apply_action (dist_ops no_redis) default_config 100 (demo_quarantine ''q'')
       standalone_engine = Inr (True, e1)
     \<and> sa_evaluate 3700 bad_ip None None e1 = (Inr (Some d), e2) \<and> md_status d = 403"
  using quarantine_enforced [of "demo_quarantine ''q''" default_config 3700 100
      "dist_ops no_redis" standalone_engine None None] bad_ip_facts by simp

theorem apply_action_gates_witness:
  "\<exists>err. apply_action (dist_ops no_redis) default_config 0
     (mk_action ''s'' 0 SUSPEND_ACCOUNT ''eve'' ''abuse'') standalone_engine = Inl err"
  using apply_action_gates [of "mk_action ''s'' 0 SUSPEND_ACCOUNT ''eve'' ''abuse''"
      "dist_ops no_redis" default_config 0 standalone_engine]
  by (simp add: needs_approval_def approved_status_def human_approval_required_def)

lemma demo_apply:
  assumes "standalone (store e)"
  shows "\<exists>e1. apply_action (dist_ops no_redis) default_config t (demo_quarantine i) e = Inr (True, e1)"
  using install_quarantine [of "demo_quarantine i" default_config] bad_ip_facts
  by (metis demo_quarantine_sel(1,2))

theorem quarantine_rollback_roundtrip_witness:
  "\<exists>e1 e2. apply_action (dist_ops no_redis) default_config 0 (demo_quarantine ''q'') standalone_engine
       = Inr (True, e1)
     \<and> rollback_action (dist_ops no_redis) 1 ''q'' e1 = (True, e2)"
proof -
  obtain e1 where e1: "apply_action (dist_ops no_redis) default_config 0 (demo_quarantine ''q'')
      standalone_engine = Inr (True, e1)"
    using demo_apply [OF standalone_engine_store] by blast
  show ?thesis
    using quarantine_rollback_roundtrip [OF standalone_engine_store _ e1, of 1] e1 bad_ip_facts by auto
qed

theorem rollback_of_older_lifts_newer_witness:
  "\<exists>e1 e2 e3. apply_action (dist_ops no_redis) default_config 0 (demo_quarantine ''a'') standalone_engine
       = Inr (True, e1)
     \<and> apply_action (dist_ops no_redis) default_config 9 (demo_quarantine ''b'') e1 = Inr (True, e2)
     \<and> rollback_action (dist_ops no_redis) 10 ''a'' e2 = (True, e3)
     \<and> dget (action_registry e3) ''b'' = Some (QUARANTINE_IP_TEMP, bad_ip)"
proof -
  obtain e1 where e1: "apply_action (dist_ops no_redis) default_config 0 (demo_quarantine ''a'')
      standalone_engine = Inr (True, e1)"
    using demo_apply [OF standalone_engine_store] by blast
  then have "standalone (store e1)"
    using standalone_mitigation.apply_quarantine_registry [OF standalone_engine_store _ _ e1] bad_ip_facts
    by simp
  then obtain e2 where e2: "apply_action (dist_ops no_redis) default_config 9 (demo_quarantine ''b'')
      e1 = Inr (True, e2)"
    using demo_apply by blast
  obtain b e3 where e3: "rollback_action (dist_ops no_redis) 10 ''a'' e2 = (b, e3)"
    by (cases "rollback_action (dist_ops no_redis) 10 ''a'' e2") auto
  show ?thesis
    using rollback_of_older_lifts_newer [OF standalone_engine_store, of "demo_quarantine ''a''"
        "demo_quarantine ''b''" bad_ip default_config 0 True e1 9 True e2 10 b e3]
      e1 e2 e3 bad_ip_facts by auto
qed


end
