(* ===== verification/Threat_Intel.thy ===== *)
theory Threat_Intel
  imports Agent_Base IP_Address
begin

text \<open>
  \<open>agents/threat_intel_agent.py\<close>: reputation of an address and of a user agent.  Which
  address ranges count as private changed between patch releases of the interpreter, so the
  test \<open>is_private or is_loopback\<close> on a parsed address is the argument \<open>internal\<close>.
\<close>

datatype reputation = CLEAN | SUSPICIOUS | MALICIOUS

datatype intel_tag =
    KNOWN_BOTNET_C2 | TOR_EXIT_NODE | DATACENTER_PROXY | INTERNAL_NETWORK
  | SCANNER_SIGNATURE string | GENERIC_HTTP_CLIENT

record enrichment =
  enr_ip :: string
  ip_reputation_score :: pyfloat
  is_tor_exit_node :: bool
  is_known_botnet :: bool
  is_datacenter_proxy :: bool
  user_agent_risk :: pyfloat
  is_scanner_tool :: bool
  reputation_category :: reputation
  intel_tags :: "intel_tag list"

record threat_intel_agent =
  known_botnet_ips :: "string set"
  known_tor_nodes :: "string set"
  known_datacenters :: "string set"
  scanner_signatures :: "string list"
  intel_audit :: "(string \<times> string, enrichment) audit_record list"

definition threat_intel_init :: threat_intel_agent where
  "threat_intel_init = \<lparr>
     known_botnet_ips = {''198.51.100.200'', ''198.51.100.201'', ''198.51.100.202'',
                         ''203.0.113.100'', ''203.0.113.101''},
     known_tor_nodes = {''198.51.100.250'', ''198.51.100.251'', ''203.0.113.250''},
     known_datacenters = {''198.51.100.150'', ''198.51.100.151'', ''10.0.99.1''},
     scanner_signatures = [''sqlmap'', ''nikto'', ''dirbuster'', ''gobuster'', ''hydra'',
                           ''masscan'', ''zgrab'', ''burpcollaborator''],
     intel_audit = []\<rparr>"

definition ip_evaluation ::
  "(ip_addr \<Rightarrow> bool) \<Rightarrow> string \<Rightarrow> threat_intel_agent \<Rightarrow> pyfloat \<times> intel_tag list" where
  "ip_evaluation internal ip ag =
     (if ip \<in> known_botnet_ips ag then (100, [KNOWN_BOTNET_C2])
      else if ip \<in> known_tor_nodes ag then (85, [TOR_EXIT_NODE])
      else if ip \<in> known_datacenters ag then (60, [DATACENTER_PROXY])
      else (case ip_address ip of
          Some a \<Rightarrow> if internal a then (0, [INTERNAL_NETWORK]) else (0, [])
        | None \<Rightarrow> (0, [])))"

definition scanner_match :: "string \<Rightarrow> threat_intel_agent \<Rightarrow> string option" where
  "scanner_match ua ag = List.find (\<lambda>sig. contains_sub ua sig) (scanner_signatures ag)"

definition ua_evaluation :: "string \<Rightarrow> threat_intel_agent \<Rightarrow> pyfloat \<times> intel_tag list" where
  "ua_evaluation ua ag =
     (case scanner_match ua ag of
        Some sig \<Rightarrow> (95, [SCANNER_SIGNATURE (upper sig)])
      | None \<Rightarrow> if ua \<in> {''python-requests'', ''curl'', ''wget'', ''''}
                then (30, [GENERIC_HTTP_CLIENT]) else (0, []))"

definition categorise :: "pyfloat \<Rightarrow> reputation" where
  "categorise m = (if m \<ge> 80 then MALICIOUS else if m \<ge> 40 then SUSPICIOUS else CLEAN)"

definition enrich ::
  "(ip_addr \<Rightarrow> bool) \<Rightarrow> string \<Rightarrow> string option \<Rightarrow> threat_intel_agent \<Rightarrow> enrichment" where
  "enrich internal ip user_agent ag =
     (let ua = lower (or_else user_agent []);
          (ip_score, t1) = ip_evaluation internal ip ag;
          (ua_score, t2) = ua_evaluation ua ag
      in \<lparr>enr_ip = ip, ip_reputation_score = py_round 1 ip_score,
          is_tor_exit_node = (ip \<in> known_tor_nodes ag),
          is_known_botnet = (ip \<in> known_botnet_ips ag),
          is_datacenter_proxy = (ip \<in> known_datacenters ag),
          user_agent_risk = py_round 1 ua_score,
          is_scanner_tool = (scanner_match ua ag \<noteq> None),
          reputation_category = categorise (max ip_score ua_score),
          intel_tags = t1 @ t2\<rparr>)"

definition enrich_indicator ::
  "(ip_addr \<Rightarrow> bool) \<Rightarrow> string \<Rightarrow> time \<Rightarrow> pyfloat \<Rightarrow> string \<Rightarrow> string option \<Rightarrow> threat_intel_agent
     \<Rightarrow> enrichment \<times> threat_intel_agent" where
  "enrich_indicator internal aud now latency ip user_agent ag =
     (let r = enrich internal ip user_agent ag
      in (r, ag\<lparr>intel_audit := record_audit aud THREAT_INTEL ''threat_intel_agent_v1'' now ip
                 (ip, or_else user_agent []) r [] ''COMPLETED'' latency None (intel_audit ag)\<rparr>))"

text \<open>The verdict is exact: an indicator is malicious if and only if its address is a known
  botnet or Tor address or its user agent carries a scanner's signature; a data-centre address
  on its own is suspicious, and nothing else is.\<close>

theorem malicious_iff_listed_or_scanner:
  "(reputation_category (enrich internal ip ua ag) = MALICIOUS \<longleftrightarrow>
      ip \<in> known_botnet_ips ag \<or> ip \<in> known_tor_nodes ag
      \<or> (\<exists>sig \<in> set (scanner_signatures ag). contains_sub (lower (or_else ua [])) sig))
   \<and> (reputation_category (enrich internal ip ua ag) = SUSPICIOUS \<longrightarrow> ip \<in> known_datacenters ag)"
proof -
  have scan: "scanner_match u ag \<noteq> None \<longleftrightarrow> (\<exists>sig \<in> set (scanner_signatures ag). contains_sub u sig)" for u
    by (auto simp: scanner_match_def find_None_iff)
  show ?thesis
    unfolding scan [symmetric]
    by (auto simp: enrich_def Let_def ip_evaluation_def ua_evaluation_def categorise_def max_def
        split: option.splits if_splits)
qed

theorem malicious_iff_listed_or_scanner_witness:
  "reputation_category (enrich (\<lambda>_. False) ''198.51.100.200'' None threat_intel_init) = MALICIOUS"
  using malicious_iff_listed_or_scanner [of "\<lambda>_. False" "''198.51.100.200''" None threat_intel_init]
  by (simp add: threat_intel_init_def)

end
