(* ===== verification/Investigation.thy ===== *)
theory Investigation
  imports Detection_Agent Threat_Intel "HOL-Library.Multiset" "HOL-Library.List_Lexorder"
    "HOL-Library.Char_ord"
begin

text \<open>
  \<open>agents/investigation_agent.py\<close>: the incident timeline, the blast radius and the report.

  Time stamps are ISO strings and are compared as strings.  The iteration order of a Python
  set is unspecified; where the code turns a set into a list, \<open>order\<close> is that list.
\<close>

record timeline_event =
  tl_timestamp :: string
  tl_request_id :: string
  tl_path :: string
  tl_method :: string
  tl_decision :: string
  tl_risk_score :: pyfloat
  tl_fired_rules :: "string list"
  tl_ml_score :: pyfloat
  tl_summary :: string

record blast_radius =
  total_requests_analyzed :: nat
  distinct_endpoints_accessed :: nat
  sensitive_endpoints_targeted :: "string list"
  roles_involved :: "string list"
  exfiltration_risk_high :: bool

record user_profile =
  account_age_days :: int
  past_incident_count :: int
  profile_client_ip :: string
  profile_user_agent :: string

record investigation_report =
  incident_id :: string
  rep_target_entity :: string
  alert_ref :: "string option"
  timeline :: "timeline_event list"
  blast :: blast_radius
  profile :: user_profile
  threat_intel :: "enrichment option"
  root_cause_hypothesis :: string
  risk_level :: severity

fun join :: "string \<Rightarrow> string list \<Rightarrow> string" where
  "join sep [] = []"
| "join sep [x] = x"
| "join sep (x # xs) = x @ sep @ join sep xs"

definition stamp_of :: "event \<Rightarrow> string" where
  "stamp_of e = or_else (ev_timestamp e) []"

definition path_of :: "event \<Rightarrow> string" where
  "path_of e = or_else (ev_path e) []"

definition timeline_event_of :: "event \<Rightarrow> timeline_event" where
  "timeline_event_of e =
     (let path = path_of e; meth = or_else (ev_method e) ''GET'';
          dec = or_else (ev_decision e) ''ALLOW''; rules = or_else (ev_fired_rules e) [];
          base = meth @ '' '' @ path @ '' ['' @ dec @ '']''
      in \<lparr>tl_timestamp = stamp_of e, tl_request_id = or_else (ev_request_id e) [], tl_path = path,
          tl_method = meth, tl_decision = dec, tl_risk_score = or_else (ev_risk_score e) 0,
          tl_fired_rules = rules, tl_ml_score = or_else (ev_ml_score e) 0,
          tl_summary = (if rules \<noteq> [] then base @ '' rules='' @ join '','' rules else base)\<rparr>)"

definition sensitive_record :: "string \<Rightarrow> bool" where
  "sensitive_record p \<longleftrightarrow>
     contains_sub p ''/orders/'' \<or> contains_sub p ''/inventory/'' \<or> contains_sub p ''/finance/''"

definition roles_of :: "event list \<Rightarrow> string set" where
  "roles_of evs = set (filter (\<lambda>r. r \<noteq> []) (List.map_filter (\<lambda>e. str_or (ev_current_role e) (ev_role e)) evs))"

definition assess_blast :: "(string set \<Rightarrow> string list) \<Rightarrow> event list \<Rightarrow> blast_radius" where
  "assess_blast order evs =
     (let sens = {p \<in> path_of ` set evs. sensitive_record p}
      in \<lparr>total_requests_analyzed = length evs,
          distinct_endpoints_accessed = card (path_of ` set evs),
          sensitive_endpoints_targeted = take 10 (order sens),
          roles_involved = order (roles_of evs),
          exfiltration_risk_high = (card sens > 5)\<rparr>)"

definition profile_of :: "string \<Rightarrow> event list \<Rightarrow> user_profile" where
  "profile_of target sorted_evs =
     (let latest = (if sorted_evs = [] then empty_event else last sorted_evs)
      in \<lparr>account_age_days = or_else (ev_account_age_days latest) 365,
          past_incident_count = or_else (ev_incident_count latest) 0,
          profile_client_ip = or_else (ev_client_ip latest) target,
          profile_user_agent = or_else (ev_user_agent latest) ''unknown''\<rparr>)"

definition tag_text :: "intel_tag \<Rightarrow> string" where
  "tag_text t = (case t of
       KNOWN_BOTNET_C2 \<Rightarrow> ''KNOWN_BOTNET_C2'' | TOR_EXIT_NODE \<Rightarrow> ''TOR_EXIT_NODE''
     | DATACENTER_PROXY \<Rightarrow> ''DATACENTER_PROXY'' | INTERNAL_NETWORK \<Rightarrow> ''INTERNAL_NETWORK''
     | SCANNER_SIGNATURE s \<Rightarrow> ''SCANNER_SIGNATURE:'' @ s
     | GENERIC_HTTP_CLIENT \<Rightarrow> ''GENERIC_HTTP_CLIENT'')"

definition hypothesis_text ::
  "security_alert \<Rightarrow> nat \<Rightarrow> enrichment option \<Rightarrow> string" where
  "hypothesis_text al n intel =
     ''Entity '' @ [CHR 0x27] @ alert_target al @ [CHR 0x27]
     @ '' exhibited suspicious activity matching category '' @ [CHR 0x27]
     @ category_name (threat_category al) @ [CHR 0x27] @ ''. ''
     @ ''Evidence indicates '' @ str_nat (length (alert_evidence al))
     @ '' correlation points across '' @ str_nat n @ '' requests. ''
     @ (case intel of
          Some i \<Rightarrow> if reputation_category i = MALICIOUS
            then ''Corroborated by high-risk threat intel tags: '' @ join '', '' (map tag_text (intel_tags i)) @ ''.''
            else ''Activity warrants containment review based on internal anomaly thresholds.''
        | None \<Rightarrow> ''Activity warrants containment review based on internal anomaly thresholds.'')"

definition build_report ::
  "(string set \<Rightarrow> string list) \<Rightarrow> string \<Rightarrow> security_alert \<Rightarrow> event list \<Rightarrow> enrichment option
     \<Rightarrow> investigation_report" where
  "build_report order uid al evs intel =
     (let sorted_evs = sort_key stamp_of evs
      in \<lparr>incident_id = ''inc-'' @ uid, rep_target_entity = alert_target al,
          alert_ref = Some (alert_id al), timeline = map timeline_event_of sorted_evs,
          blast = assess_blast order evs, profile = profile_of (alert_target al) sorted_evs,
          threat_intel = intel, root_cause_hypothesis = hypothesis_text al (length evs) intel,
          risk_level = alert_severity al\<rparr>)"

type_synonym investigation_log = "(string \<times> nat, investigation_report) audit_record list"

definition investigate ::
  "(string set \<Rightarrow> string list) \<Rightarrow> string \<Rightarrow> string \<Rightarrow> time \<Rightarrow> pyfloat \<Rightarrow> security_alert \<Rightarrow> event list
     \<Rightarrow> enrichment option \<Rightarrow> investigation_log \<Rightarrow> investigation_report \<times> investigation_log" where
  "investigate order uid aud now latency al evs intel lg =
     (let rep = build_report order uid al evs intel
      in (rep, record_audit aud INVESTIGATION ''investigation_agent_v1'' now (alert_target al)
                 (alert_id al, length evs) rep [] ''COMPLETED'' latency (Some (alert_id al)) lg))"

text \<open>The timeline is a faithful chronology: it is in ascending order of the time stamps,
  contains every analysed event exactly as often as it was given, and keeps the order of events
  with the same stamp.\<close>

theorem timeline_chronological:
  "sorted (map tl_timestamp (timeline (build_report order uid al evs intel)))
   \<and> mset (timeline (build_report order uid al evs intel)) = image_mset timeline_event_of (mset evs)
   \<and> filter (\<lambda>t. tl_timestamp t = s) (timeline (build_report order uid al evs intel))
       = map timeline_event_of (filter (\<lambda>e. stamp_of e = s) evs)"
proof -
  have stamp: "tl_timestamp \<circ> timeline_event_of = stamp_of"
    by (simp add: timeline_event_of_def Let_def fun_eq_iff)
  have "tl_timestamp (timeline_event_of e) = stamp_of e" for e
    using stamp by (metis comp_apply)
  then show ?thesis
    by (simp add: build_report_def Let_def stamp filter_map o_def sort_key_stable)
qed

text \<open>The blast radius never counts more end points than requests.\<close>

lemma blast_bounded:
  "distinct_endpoints_accessed (assess_blast order evs) \<le> total_requests_analyzed (assess_blast order evs)"
proof -
  have "card (path_of ` set evs) \<le> length evs"
    using card_image_le [of "set evs" path_of] card_length [of evs] by simp
  then show ?thesis by (simp add: assess_blast_def Let_def)
qed

end
