(* ===== verification/Orchestrator.thy ===== *)
theory Orchestrator
  imports Response_Agent Investigation Mitigation_Engine
begin

text \<open>
  \<open>agents/orchestrator.py\<close>: the pipeline from a telemetry event to a response plan, the
  analyst operations with their effect on the mitigation engine, and the flushing of the agents'
  audit records.

  The mitigation engine is optional, as in the constructor.  \<open>draws\<close> holds what one call draws
  from \<open>uuid4\<close> and the clock; \<open>file_ok\<close> says whether the append to the audit file succeeds.
\<close>

record draws =
  dr_alert :: string
  dr_incident :: string
  dr_action :: "nat \<Rightarrow> string"
  dr_audit :: "nat \<Rightarrow> string"
  dr_now :: time
  dr_latency :: "nat \<Rightarrow> pyfloat"

datatype audit_line =
    DetectionLine "(string \<times> string \<times> nat, detection_finding) audit_record"
  | IntelLine "(string \<times> string, enrichment) audit_record"
  | InvestigationLine "(string \<times> nat, investigation_report) audit_record"
  | ResponseLine "(string \<times> string, response_plan) audit_record"

record 's orchestrator =
  orch_enabled :: bool
  detection :: detection_agent
  intel :: threat_intel_agent
  investigation :: investigation_log
  response :: response_agent
  mitigation :: "'s mitigation_engine option"
  alerts :: "(string, security_alert) dict"
  incidents :: "(string, investigation_report) dict"
  plans :: "(string, response_plan) dict"
  audit_file :: "audit_line list"

definition orchestrator_init :: "bool \<Rightarrow> 's mitigation_engine option \<Rightarrow> 's orchestrator" where
  "orchestrator_init on m = \<lparr>orch_enabled = on, detection = detection_agent_init,
     intel = threat_intel_init, investigation = [], response = response_agent_init,
     mitigation = m, alerts = [], incidents = [], plans = [], audit_file = []\<rparr>"

text \<open>\<open>_flush_audit_records\<close> empties the agents' lists first and writes afterwards; what was
  taken out is gone when the write fails.\<close>

definition flush_audit_records :: "bool \<Rightarrow> 's orchestrator \<Rightarrow> 's orchestrator" where
  "flush_audit_records file_ok orch =
     (let records = map DetectionLine (detection_audit (detection orch))
            @ map IntelLine (intel_audit (intel orch))
            @ map InvestigationLine (investigation orch)
            @ map ResponseLine (response_audit (response orch));
          drained = orch\<lparr>detection := (detection orch)\<lparr>detection_audit := []\<rparr>,
              intel := (intel orch)\<lparr>intel_audit := []\<rparr>, investigation := [],
              response := (response orch)\<lparr>response_audit := []\<rparr>\<rparr>
      in if records \<noteq> [] \<and> file_ok then drained\<lparr>audit_file := audit_file orch @ records\<rparr>
         else drained)"

text \<open>Applying an action to the engine, with every exception swallowed.\<close>

definition try_apply ::
  "('s, hentry) store_ops \<Rightarrow> gateway_config \<Rightarrow> time \<Rightarrow> agent_action \<Rightarrow> 's mitigation_engine
     \<Rightarrow> 's mitigation_engine" where
  "try_apply ops cfg now a e = (case apply_action ops cfg now a e of Inr (_, e') \<Rightarrow> e' | Inl _ \<Rightarrow> e)"

definition auto_actions :: "response_plan \<Rightarrow> response_agent \<Rightarrow> agent_action list" where
  "auto_actions plan ag =
     List.map_filter (\<lambda>i. dget (actions_registry ag) i) (auto_executed_actions plan)"

definition process_security_event ::
  "('s, hentry) store_ops \<Rightarrow> gateway_config \<Rightarrow> (ip_addr \<Rightarrow> bool) \<Rightarrow> (string set \<Rightarrow> string list)
     \<Rightarrow> bool \<Rightarrow> draws \<Rightarrow> event \<Rightarrow> event list option \<Rightarrow> 's orchestrator
     \<Rightarrow> response_plan option \<times> 's orchestrator" where
  "process_security_event ops cfg internal order file_ok dr e history orch =
     (if \<not> orch_enabled orch then (None, orch)
      else case analyze_event (dr_alert dr) (dr_audit dr 0) (dr_now dr) (dr_latency dr 0) e history
                  (detection orch) of
        (None, det) \<Rightarrow> (None, orch\<lparr>detection := det\<rparr>)
      | (Some al, det) \<Rightarrow>
          let o1 = orch\<lparr>detection := det, alerts := dput (alert_id al) al (alerts orch)\<rparr>;
              ip = or_else (ev_client_ip e) (alert_target al);
              ua = or_else (ev_user_agent e) [];
              (enr, ti) = enrich_indicator internal (dr_audit dr 1) (dr_now dr) (dr_latency dr 1) ip
                            (Some ua) (intel o1);
              o2 = o1\<lparr>intel := ti\<rparr>;
              evs = (case history of Some (x # xs) \<Rightarrow> x # xs | _ \<Rightarrow> [e]);
              (rep, inv) = investigate order (dr_incident dr) (dr_audit dr 2) (dr_now dr)
                             (dr_latency dr 2) al evs (Some enr) (investigation o2);
              o3 = o2\<lparr>investigation := inv, incidents := dput (incident_id rep) rep (incidents o2)\<rparr>;
              (plan, ra) = formulate_response_plan (dr_action dr) (dr_audit dr 3) (dr_now dr)
                             (dr_latency dr 3) al (incident_id rep) (response o3);
              o4 = o3\<lparr>response := ra, plans := dput (incident_id rep) plan (plans o3)\<rparr>;
              o5 = o4\<lparr>mitigation := map_option
                        (fold (try_apply ops cfg (dr_now dr)) (auto_actions plan ra)) (mitigation o4)\<rparr>
          in (Some plan, flush_audit_records file_ok o5))"

section \<open>Analyst operations\<close>

definition orch_approve ::
  "('s, hentry) store_ops \<Rightarrow> gateway_config \<Rightarrow> bool \<Rightarrow> time \<Rightarrow> string \<Rightarrow> string \<Rightarrow> 's orchestrator
     \<Rightarrow> agent_error + agent_action \<times> 's orchestrator" where
  "orch_approve ops cfg file_ok now aid analyst orch =
     (case ra_approve now aid analyst (response orch) of
        Inl err \<Rightarrow> Inl err
      | Inr (a, ra) \<Rightarrow>
          let o1 = orch\<lparr>response := ra\<rparr>;
              o2 = (if approval_status a \<in> {APPROVED, EXECUTED}
                    then o1\<lparr>mitigation := map_option (try_apply ops cfg now a) (mitigation o1)\<rparr>
                    else o1)
          in Inr (a, flush_audit_records file_ok o2))"

definition orch_reject ::
  "bool \<Rightarrow> time \<Rightarrow> string \<Rightarrow> string \<Rightarrow> string \<Rightarrow> 's orchestrator
     \<Rightarrow> agent_error + agent_action \<times> 's orchestrator" where
  "orch_reject file_ok now aid analyst reason orch =
     (case ra_reject now aid analyst reason (response orch) of
        Inl err \<Rightarrow> Inl err
      | Inr (a, ra) \<Rightarrow> Inr (a, flush_audit_records file_ok (orch\<lparr>response := ra\<rparr>)))"

definition orch_revoke ::
  "('s, hentry) store_ops \<Rightarrow> bool \<Rightarrow> time \<Rightarrow> string \<Rightarrow> string option \<Rightarrow> 's orchestrator
     \<Rightarrow> agent_error + agent_action \<times> 's orchestrator" where
  "orch_revoke ops file_ok now aid who orch =
     (case ra_revoke now aid who (response orch) of
        Inl err \<Rightarrow> Inl err
      | Inr (a, ra) \<Rightarrow>
          let o1 = orch\<lparr>response := ra,
                mitigation := map_option (\<lambda>m. snd (rollback_action ops now aid m)) (mitigation orch)\<rparr>
          in Inr (a, flush_audit_records file_ok o1))"

definition get_alerts :: "int \<Rightarrow> 's orchestrator \<Rightarrow> security_alert list" where
  "get_alerts limit orch =
     (let recent = sort_key (\<lambda>a. - alert_created a) (map snd (alerts orch))
      in if 0 \<le> limit then take (nat limit) recent else take (length recent - nat (- limit)) recent)"

definition get_pending_actions :: "'s orchestrator \<Rightarrow> agent_action list" where
  "get_pending_actions orch =
     filter (\<lambda>a. approval_status a = PENDING_HUMAN_APPROVAL) (map snd (actions_registry (response orch)))"

definition get_incident :: "string \<Rightarrow> 's orchestrator \<Rightarrow> investigation_report option" where
  "get_incident i orch = dget (incidents orch) i"

record orch_status =
  os_enabled :: bool
  os_total_alerts :: nat
  os_total_incidents :: nat
  os_pending :: nat
  os_rate_limits :: nat
  os_quarantined :: nat
  os_challenges :: nat

definition orch_get_status :: "'s orchestrator \<Rightarrow> orch_status" where
  "orch_get_status orch = \<lparr>os_enabled = orch_enabled orch, os_total_alerts = length (alerts orch),
     os_total_incidents = length (incidents orch), os_pending = length (get_pending_actions orch),
     os_rate_limits = length (active_rate_limits (response orch)),
     os_quarantined = length (active_quarantined_ips (response orch)),
     os_challenges = length (active_challenges (response orch))\<rparr>"

section \<open>Properties\<close>

lemma admit_all_registry:
  assumes "i \<in> set (map action_id acts)"
  shows "\<exists>a \<in> set acts. dget (actions_registry (admit_all now acts ag)) i = Some (settle now a)"
  using assms
proof (induction acts arbitrary: ag)
  case (Cons a acts)
  have step: "admit_all now (a # acts) ag = admit_all now acts (admit_action now a ag)"
    by (simp add: admit_all_def)
  show ?case
  proof (cases "i \<in> set (map action_id acts)")
    case True
    then show ?thesis using Cons.IH [OF True, of "admit_action now a ag"] step by auto
  next
    case False
    then show ?thesis
      using Cons.prems fold_admit_registry_other [OF False, of now "admit_action now a ag"] step
      by (auto simp: admit_action_registry)
  qed
qed simp

lemma auto_actions_proposed:
  assumes "formulate_response_plan fresh aud now lt al incident ag = (plan, ag')"
    and "a \<in> set (auto_actions plan ag')"
  shows "\<exists>b \<in> set (proposed_actions fresh now al). a = settle now b"
proof -
  let ?acts = "proposed_actions fresh now al"
  have plan: "auto_executed_actions plan = map action_id (filter (\<lambda>a. \<not> requires_human_approval a) ?acts)"
    and reg: "actions_registry ag' = actions_registry (admit_all now ?acts ag)"
    using assms(1) by (auto simp: formulate_response_plan_def Let_def plan_of_def)
  obtain i where i: "i \<in> set (auto_executed_actions plan)" "dget (actions_registry ag') i = Some a"
    using assms(2) by (auto simp: auto_actions_def List.map_filter_def)
  then have "i \<in> set (map action_id ?acts)" by (auto simp: plan)
  then show ?thesis using admit_all_registry [of i ?acts now ag] i(2) reg by auto
qed

lemma proposals_target:
  "mk \<in> set (proposals now al) \<Longrightarrow> target_entity (mk i) = alert_target al \<and> action_type (mk i) \<noteq> REVOKE_SESSION"
  by (auto simp: proposals_def Let_def throttle_action_def mfa_action_def quarantine_action_def
      suspend_action_def split: if_splits)

lemma proposed_target:
  "a \<in> set (proposed_actions fresh now al) \<Longrightarrow> target_entity a = alert_target al \<and> action_type a \<noteq> REVOKE_SESSION"
  using proposals_target [of _ now al] by (auto simp: proposed_actions_def in_set_enumerate_eq)

lemma settle_fields [simp]:
  "target_entity (settle now a) = target_entity a" "action_type (settle now a) = action_type a"
  by (simp_all add: settle_def)

lemma auto_actions_harmless:
  assumes "formulate_response_plan fresh aud now lt al incident ag = (plan, ag')"
    and "a \<in> set (auto_actions plan ag')"
  shows "\<not> needs_approval (action_type a) \<or> \<not> approved_status (approval_status a)"
proof -
  obtain b where b: "b \<in> set (proposed_actions fresh now al)" "a = settle now b"
    using auto_actions_proposed [OF assms] by blast
  show ?thesis
    using proposed_fresh [OF b(1)] b(2)
    by (auto simp: fresh_action_def needs_approval_def approved_status_def human_approval_required_def)
qed

lemma try_apply_suspensions:
  assumes "\<not> needs_approval (action_type a) \<or> \<not> approved_status (approval_status a)"
  shows "suspended_accounts (try_apply ops cfg now a e) = suspended_accounts e"
  using assms
  by (auto simp: try_apply_def apply_action_def install_def register_mitigation_def Let_def
      needs_approval_def split: action_type.splits)

lemma fold_try_apply_suspensions:
  "\<forall>a \<in> set acts. \<not> needs_approval (action_type a) \<or> \<not> approved_status (approval_status a) \<Longrightarrow>
   suspended_accounts (fold (try_apply ops cfg now) acts e) = suspended_accounts e"
  by (induction acts arbitrary: e) (simp_all add: try_apply_suspensions)

lemma flush_frame [simp]:
  "mitigation (flush_audit_records ok orch) = mitigation orch"
  "orch_enabled (flush_audit_records ok orch) = orch_enabled orch"
  "actions_registry (response (flush_audit_records ok orch)) = actions_registry (response orch)"
  by (simp_all add: flush_audit_records_def Let_def)

text \<open>A predicate on the actions that the registry holds, kept by plans and by the analyst's operations
  when it depends on type and target only.\<close>

definition registry_all :: "(action_type \<Rightarrow> string \<Rightarrow> bool) \<Rightarrow> response_agent \<Rightarrow> bool" where
  "registry_all P ag \<longleftrightarrow>
     (\<forall>i a. dget (actions_registry ag) i = Some a \<longrightarrow> P (action_type a) (target_entity a))"

lemma registry_allD: "registry_all P ag \<Longrightarrow> dget (actions_registry ag) i = Some a \<Longrightarrow> P (action_type a) (target_entity a)"
  by (auto simp: registry_all_def)

lemma admit_all_registry_all:
  "registry_all P ag \<Longrightarrow> \<forall>a \<in> set acts. P (action_type a) (target_entity a) \<Longrightarrow> registry_all P (admit_all now acts ag)"
proof (induction acts arbitrary: ag)
  case (Cons a acts)
  have "registry_all P (admit_action now a ag)"
    using Cons.prems by (auto simp: registry_all_def admit_action_registry update_conv')
  then show ?case using Cons by (simp add: admit_all_def)
qed (simp add: admit_all_def)

lemma formulate_registry_all:
  assumes "formulate_response_plan fresh aud now lt al inc ag = (plan, ag')" "registry_all P ag"
    and "\<And>t. t \<noteq> REVOKE_SESSION \<Longrightarrow> P t (alert_target al)"
  shows "registry_all P ag'"
proof -
  have "actions_registry ag' = actions_registry (admit_all now (proposed_actions fresh now al) ag)"
    using assms(1) by (auto simp: formulate_response_plan_def Let_def)
  then show ?thesis
    using admit_all_registry_all [OF assms(2), of "proposed_actions fresh now al" now] assms(3) proposed_target
    by (metis registry_all_def)
qed

lemma analyst_registry_all:
  assumes "registry_all P ag"
  shows "ra_approve now aid who ag = Inr (a, ag') \<Longrightarrow> registry_all P ag' \<and> P (action_type a) (target_entity a)"
    "ra_reject now aid who why ag = Inr (a, ag') \<Longrightarrow> registry_all P ag'"
    "ra_revoke now aid by ag = Inr (a, ag') \<Longrightarrow> registry_all P ag'"
  using assms
  by (auto simp: ra_approve_def ra_reject_def ra_revoke_def registry_all_def Let_def update_conv'
      split: option.splits if_splits)

text \<open>What the automatic pipeline applies to the engine: nothing, or the automatic actions of a plan
  against the alert's target.\<close>

lemma process_mitigation:
  assumes "mitigation orch = Some m"
    and "process_security_event ops cfg internal order ok dr e history orch = (r, orch')"
  shows "mitigation orch' = Some m \<or>
    (\<exists>al inc plan ra. alert_target al = entity_key e
      \<and> formulate_response_plan (dr_action dr) (dr_audit dr 3) (dr_now dr) (dr_latency dr 3) al inc
          (response orch) = (plan, ra)
      \<and> mitigation orch' = Some (fold (try_apply ops cfg (dr_now dr)) (auto_actions plan ra) m))"
proof (cases "orch_enabled orch")
  case True
  obtain x det where x: "analyze_event (dr_alert dr) (dr_audit dr 0) (dr_now dr) (dr_latency dr 0) e
      history (detection orch) = (x, det)"
    by (cases "analyze_event (dr_alert dr) (dr_audit dr 0) (dr_now dr) (dr_latency dr 0) e history
        (detection orch)") auto
  show ?thesis
  proof (cases x)
    case None
    then show ?thesis using assms True x by (auto simp: process_security_event_def)
  next
    case (Some al)
    have "alert_target al = entity_key e"
      using x Some by (auto simp: analyze_event_def alert_of_def Let_def split: if_splits option.splits)
    moreover obtain plan ra inc where "formulate_response_plan (dr_action dr) (dr_audit dr 3) (dr_now dr)
        (dr_latency dr 3) al inc (response orch) = (plan, ra)"
      "mitigation orch' = Some (fold (try_apply ops cfg (dr_now dr)) (auto_actions plan ra) m)"
      using assms True x Some
      by (auto simp: process_security_event_def Let_def split: prod.splits)
    ultimately show ?thesis by blast
  qed
qed (use assms in \<open>auto simp: process_security_event_def\<close>)

lemma process_keeps_suspensions:
  assumes "mitigation orch = Some m"
    and "process_security_event ops cfg internal order ok dr e history orch = (r, orch')"
  shows "\<exists>m'. mitigation orch' = Some m' \<and> suspended_accounts m' = suspended_accounts m"
  using process_mitigation [OF assms] auto_actions_harmless
  by (auto simp: fold_try_apply_suspensions)

text \<open>The automatic pipeline never suspends anybody: whatever event arrives, with whatever
  history and in whatever state, processing it leaves the engine's table of suspended
  accounts as it was.\<close>

theorem pipeline_never_suspends:
  assumes "mitigation orch = Some m"
    and "process_security_event ops cfg internal order ok dr e history orch = (r, orch')"
  shows "\<exists>m'. mitigation orch' = Some m' \<and> suspended_accounts m' = suspended_accounts m"
  by (rule process_keeps_suspensions [OF assms])

lemma later_stages_never_suspend:
  "fst (stage_quarantine ops now ip pref e) = Inr (Some d) \<Longrightarrow> md_action d \<noteq> SUSPEND_ACCOUNT"
  "fst (stage_token ops now tok e) = Inr (Some d) \<Longrightarrow> md_action d \<noteq> SUSPEND_ACCOUNT"
  "fst (stage_revoked now pref e) = Inr (Some d) \<Longrightarrow> md_action d \<noteq> SUSPEND_ACCOUNT"
  "fst (stage_mfa now pref e) = Inr (Some d) \<Longrightarrow> md_action d \<noteq> SUSPEND_ACCOUNT"
  "fst (stage_rate now ip pref e) = Inr (Some d) \<Longrightarrow> md_action d \<noteq> SUSPEND_ACCOUNT"
  by (auto simp: stage_quarantine_def check_quarantine_def quarantine_answer_def stage_token_def
      token_answer_def stage_revoked_def stage_mfa_def stage_rate_def Let_def
      split: option.splits prod.splits if_splits hentry.splits)

lemma and_then_answer:
  assumes "fst (and_then r f) = Inr (Some d)"
    and "fst r = Inr (Some d) \<Longrightarrow> P" and "\<And>e. fst (f e) = Inr (Some d) \<Longrightarrow> P"
  shows P
  using assms by (cases r) (auto simp: and_then_def split: sum.splits option.splits)

lemma suspension_from_first_stage:
  assumes "fst (evaluate_request ops now ip pref tok e) = Inr (Some d)" "md_action d = SUSPEND_ACCOUNT"
  shows "fst (stage_suspended ops now pref e) = Inr (Some d)"
  using assms(1) unfolding evaluate_request_def
proof (rule and_then_answer)
  fix e1
  assume "fst (and_then (stage_quarantine ops now ip pref e1) (\<lambda>e2.
     and_then (stage_token ops now tok e2) (\<lambda>e3. and_then (stage_revoked now pref e3) (\<lambda>e4.
     and_then (stage_mfa now pref e4) (\<lambda>e5. stage_rate now ip pref e5))))) = Inr (Some d)"
  then have "md_action d \<noteq> SUSPEND_ACCOUNT"
    by (elim and_then_answer later_stages_never_suspend)
  then show ?thesis using assms(2) by simp
qed

lemma approve_installs:
  assumes "dget (actions_registry (response orch)) aid = Some a"
    and "approval_status a = PENDING_HUMAN_APPROVAL" "action_type a = SUSPEND_ACCOUNT"
    and "mitigation orch = Some m"
  obtains b o1 m1 where "orch_approve ops cfg ok t aid analyst orch = Inr (b, o1)"
    "dget (actions_registry (response o1)) aid = Some b" "approval_status b = EXECUTED"
    "mitigation o1 = Some m1"
    "store m1 = op_set_hash_entry ops t ''suspended_accounts'' (target_entity a)
       (SEntry (the (dget (suspended_accounts m1) (target_entity a)))) None (store m)"
    "dget (suspended_accounts m1) (target_entity a) \<noteq> None"
    "dget (action_registry m1) (action_id a) = Some (SUSPEND_ACCOUNT, target_entity a)"
proof -
  let ?b = "a\<lparr>approved_by := Some analyst, approved_at := Some t, approval_status := EXECUTED,
      executed_at := Some t\<rparr>"
  obtain ra where ra: "ra_approve t aid analyst (response orch) = Inr (?b, ra)"
      "dget (actions_registry ra) aid = Some ?b"
    using assms(1,2) by (simp add: ra_approve_def Let_def)
  obtain m1 where m1: "try_apply ops cfg t ?b m = m1"
    "store m1 = op_set_hash_entry ops t ''suspended_accounts'' (target_entity a)
       (SEntry (the (dget (suspended_accounts m1) (target_entity a)))) None (store m)"
    "dget (suspended_accounts m1) (target_entity a) \<noteq> None"
    "dget (action_registry m1) (action_id a) = Some (SUSPEND_ACCOUNT, target_entity a)"
    using assms(3) by (simp add: try_apply_def apply_action_def install_def register_mitigation_def
        Let_def needs_approval_def approved_status_def)
  show thesis
    by (rule that [of ?b "flush_audit_records ok (orch\<lparr>response := ra, mitigation := Some m1\<rparr>)" m1])
      (use ra m1 assms(4) in \<open>simp_all add: orch_approve_def Let_def\<close>)
qed

lemma suspended_locally:
  assumes "dget (suspended_accounts m) p \<noteq> None" "p \<noteq> []"
  shows "\<exists>d e'. evaluate_request ops now ip (Some p) tok m = (Inr (Some d), e')
    \<and> md_action d = SUSPEND_ACCOUNT \<and> md_status d = 403"
  using assms
  by (auto simp: evaluate_request_def and_then_def stage_suspended_def suspended_answer_def)


text \<open>The audit trail survives a flush only if the write succeeds: on success the pending
  records of all four agents are appended in order, on failure they are dropped.\<close>

theorem failed_flush_drops_audit:
  "detection_audit (detection (flush_audit_records ok orch)) = []
   \<and> response_audit (response (flush_audit_records ok orch)) = []
   \<and> audit_file (flush_audit_records ok orch) =
       audit_file orch @ (if ok then map DetectionLine (detection_audit (detection orch))
            @ map IntelLine (intel_audit (intel orch))
            @ map InvestigationLine (investigation orch)
            @ map ResponseLine (response_audit (response orch)) else [])"
  by (simp add: flush_audit_records_def Let_def)

section \<open>Witnesses\<close>

definition demo_draws :: draws where
  "demo_draws = \<lparr>dr_alert = ''1'', dr_incident = ''2'', dr_action = stick_ids, dr_audit = stick_ids,
     dr_now = 0, dr_latency = (\<lambda>_. 0)\<rparr>"

definition spray_outcome :: "response_plan option \<times> (unit, hentry) dist_store orchestrator" where
  "spray_outcome = process_security_event (dist_ops no_redis) default_config (\<lambda>_. False) (\<lambda>_. []) True
     demo_draws login_event (Some [login_event, login_event, login_event, login_event])
     (orchestrator_init True (Some standalone_engine))"

theorem pipeline_never_suspends_witness:
  "\<exists>m'. mitigation (snd spray_outcome) = Some m' \<and> suspended_accounts m' = []"
proof -
  have m: "mitigation (orchestrator_init True (Some standalone_engine)) = Some standalone_engine"
    by (simp add: orchestrator_init_def)
  have s: "spray_outcome = (fst spray_outcome, snd spray_outcome)" by simp
  show ?thesis
    using pipeline_never_suspends [OF m s [unfolded spray_outcome_def]]
    by (simp add: spray_outcome_def standalone_engine_def mitigation_init_def)
qed

definition planned_orchestrator :: "(unit, hentry) dist_store orchestrator" where
  "planned_orchestrator = (orchestrator_init True (Some standalone_engine))\<lparr>response := planned\<rparr>"


end
