(* ===== verification/Json_Text.thy ===== *)
theory Json_Text
  imports Prelude "HOL-Library.List_Lexorder" "HOL-Library.Char_ord"
begin

text \<open>
  Text of JSON values: \<open>json.dumps(v, sort_keys=True)\<close> and \<open>str(v)\<close>, and comparisons of JSON
  values with numbers as Python evaluates them.  The digest functions, the printing of floats
  and the \<open>str\<close> of containers are the record \<open>prims\<close>.
\<close>

record prims =
  hmac_hex :: "string \<Rightarrow> string \<Rightarrow> string"
  sha256_hex :: "string \<Rightarrow> string"
  float_repr :: "rat \<Rightarrow> string"
  container_str :: "json \<Rightarrow> string"

section \<open>Canonical JSON\<close>

definition hex_digit :: "nat \<Rightarrow> char" where
  "hex_digit n = (''0123456789abcdef'') ! n"

definition escape_char :: "char \<Rightarrow> string" where
  "escape_char c = (let n = (of_char c :: nat) in
     if n = 34 then [CHR 92, CHR 34] else if n = 92 then [CHR 92, CHR 92]
     else if n = 10 then [CHR 92, CHR ''n''] else if n = 13 then [CHR 92, CHR ''r'']
     else if n = 9 then [CHR 92, CHR ''t''] else if n = 12 then [CHR 92, CHR ''f'']
     else if n = 8 then [CHR 92, CHR ''b'']
     else if 32 \<le> n \<and> n \<le> 126 then [c]
     else [CHR 92, CHR ''u'', CHR ''0'', CHR ''0'', hex_digit (n div 16), hex_digit (n mod 16)])"

definition json_string :: "string \<Rightarrow> string" where
  "json_string s = CHR 34 # concat (map escape_char s) @ [CHR 34]"

fun sep_by :: "string \<Rightarrow> string list \<Rightarrow> string" where
  "sep_by sep [] = []"
| "sep_by sep [x] = x"
| "sep_by sep (x # xs) = x @ sep @ sep_by sep xs"

fun dumps :: "prims \<Rightarrow> json \<Rightarrow> string" where
  "dumps P JNull = ''null''"
| "dumps P (JBool b) = (if b then ''true'' else ''false'')"
| "dumps P (JInt i) = str_int i"
| "dumps P (JFloat r) = float_repr P r"
| "dumps P (JStr s) = json_string s"
| "dumps P (JList xs) = ''['' @ sep_by '', '' (map (dumps P) xs) @ '']''"
| "dumps P (JObj kvs) = ''{'' @ sep_by '', '' (map (\<lambda>(k, v). json_string k @ '': '' @ v)
     (sort_key fst (map (\<lambda>(k, v). (k, dumps P v)) kvs))) @ ''}''"

text \<open>\<open>str(v)\<close> of a JSON value, as an f-string inserts it.\<close>

fun py_str :: "prims \<Rightarrow> json \<Rightarrow> string" where
  "py_str P JNull = ''None''"
| "py_str P (JBool b) = (if b then ''True'' else ''False'')"
| "py_str P (JInt i) = str_int i"
| "py_str P (JFloat r) = float_repr P r"
| "py_str P (JStr s) = s"
| "py_str P j = container_str P j"

section \<open>Numbers among JSON values\<close>

text \<open>The numeric value of a JSON value; \<open>None\<close> where an ordering comparison with a number
  raises \<open>TypeError\<close>.\<close>

definition json_num :: "json \<Rightarrow> rat option" where
  "json_num j = (case j of
       JInt i \<Rightarrow> Some (of_int i) | JFloat r \<Rightarrow> Some r | JBool b \<Rightarrow> Some (if b then 1 else 0)
     | _ \<Rightarrow> None)"

definition json_lt :: "json \<Rightarrow> rat \<Rightarrow> bool option" where
  "json_lt j q = map_option (\<lambda>x. x < q) (json_num j)"

definition json_gt :: "json \<Rightarrow> rat \<Rightarrow> bool option" where
  "json_gt j q = map_option (\<lambda>x. x > q) (json_num j)"

definition is_obj :: "json \<Rightarrow> bool" where
  "is_obj j = (case j of JObj _ \<Rightarrow> True | _ \<Rightarrow> False)"

definition json_or :: "json \<Rightarrow> json \<Rightarrow> json" where
  "json_or a b = (if truthy a then a else b)"

text \<open>\<open>x or y\<close> on conditions that may raise (\<open>None\<close>): the second is not evaluated when the first
  holds.\<close>

definition or_raise :: "bool option \<Rightarrow> bool option \<Rightarrow> bool option" where
  "or_raise a b = (case a of None \<Rightarrow> None | Some True \<Rightarrow> Some True | Some False \<Rightarrow> b)"

text \<open>\<open>float(v)\<close>; \<open>None\<close> where it raises.  A text of infinity or not-a-number counts as raising.\<close>

definition py_float :: "json \<Rightarrow> rat option" where
  "py_float j = (case j of
       JStr s \<Rightarrow> (case parse_float s of Some (FNum r) \<Rightarrow> Some r | _ \<Rightarrow> None)
     | _ \<Rightarrow> json_num j)"

text \<open>\<open>len(v)\<close> and the assignment \<open>d[k] = v\<close> to a dict.\<close>

definition json_len :: "json \<Rightarrow> nat option" where
  "json_len j = (case j of
       JStr s \<Rightarrow> Some (length s) | JList xs \<Rightarrow> Some (length xs) | JObj kvs \<Rightarrow> Some (length kvs)
     | _ \<Rightarrow> None)"

definition jput :: "string \<Rightarrow> json \<Rightarrow> json \<Rightarrow> json" where
  "jput k v j = (case j of JObj kvs \<Rightarrow> JObj (dput k v kvs) | _ \<Rightarrow> j)"

lemma jget_jput: "jget (jput k v (JObj kvs)) k' = (if k' = k then Some v else jget (JObj kvs) k')"
  by (simp add: jput_def)

end
