(* ===== verification/Audit_Chain.thy ===== *)
theory Audit_Chain
  imports Json_Text
begin

text \<open>
  \<open>gateway/compliance.py\<close>: the HMAC-chained audit log, its verification, its resumption
  after a restart, and the compliance report built on it.

  A log file is the list of its lines, each blank, not JSON, or a JSON value.  HMAC-SHA256
  is a field of the record \<open>prims\<close>.
\<close>

section \<open>TamperEvidentAuditChain\<close>

datatype line = Blank | Malformed | Line json

record audit_chain =
  chain_secret :: string
  log_file :: "line list option"
  last_hash :: json
  block_count :: json

definition genesis_hash :: string where
  "genesis_hash = replicate 64 CHR ''0''"

definition sign_string :: "prims \<Rightarrow> json \<Rightarrow> json \<Rightarrow> json \<Rightarrow> string" where
  "sign_string P index prev payload =
     py_str P index @ '':'' @ py_str P prev @ '':'' @ dumps P payload"

definition compute_signature :: "prims \<Rightarrow> string \<Rightarrow> json \<Rightarrow> json \<Rightarrow> json \<Rightarrow> string" where
  "compute_signature P secret index prev payload = hmac_hex P secret (sign_string P index prev payload)"

text \<open>\<open>n + 1\<close> on a JSON value; \<open>None\<close> where Python raises \<open>TypeError\<close>.\<close>

fun json_succ :: "json \<Rightarrow> json option" where
  "json_succ (JInt i) = Some (JInt (i + 1))"
| "json_succ (JFloat r) = Some (JFloat (r + 1))"
| "json_succ (JBool b) = Some (JInt (if b then 2 else 1))"
| "json_succ _ = None"

text \<open>Reading the log at start-up stops at the first line that raises, keeping what it has.\<close>

fun read_log :: "line list \<Rightarrow> json \<Rightarrow> json \<Rightarrow> json \<times> json" where
  "read_log [] h n = (h, n)"
| "read_log (Blank # ls) h n = read_log ls h n"
| "read_log (Malformed # ls) h n = (h, n)"
| "read_log (Line (JObj kvs) # ls) h n =
     (let h1 = jget_or (JStr genesis_hash) (JObj kvs) ''block_signature'' in
      case json_succ (jget_or (JInt 0) (JObj kvs) ''block_index'') of
        Some n1 \<Rightarrow> read_log ls h1 n1
      | None \<Rightarrow> (h1, n))"
| "read_log (Line _ # ls) h n = (h, n)"

definition chain_init :: "string \<Rightarrow> line list option \<Rightarrow> audit_chain" where
  "chain_init secret file =
     (let (h, n) = (case file of None \<Rightarrow> (JStr genesis_hash, JInt 0)
                     | Some ls \<Rightarrow> read_log ls (JStr genesis_hash) (JInt 0))
      in \<lparr>chain_secret = secret, log_file = file, last_hash = h, block_count = n\<rparr>)"

definition mk_block :: "json \<Rightarrow> string \<Rightarrow> json \<Rightarrow> json \<Rightarrow> json \<Rightarrow> json" where
  "mk_block index stamp prev sig payload = JObj
     [(''block_index'', index), (''timestamp'', JStr stamp), (''previous_hash'', prev),
      (''block_signature'', sig), (''payload'', payload)]"

text \<open>\<open>append_event\<close>: \<open>None\<close> is the exception re-raised when the write fails (\<open>ok\<close> false); the
  in-memory counters move only after a successful write.\<close>

definition append_event ::
  "prims \<Rightarrow> bool \<Rightarrow> string \<Rightarrow> json \<Rightarrow> audit_chain \<Rightarrow> (json \<times> audit_chain) option" where
  "append_event P ok stamp ev c =
     (let sig = JStr (compute_signature P (chain_secret c) (block_count c) (last_hash c) ev);
          block = mk_block (block_count c) stamp (last_hash c) sig ev;
          old = (case log_file c of Some ls \<Rightarrow> ls | None \<Rightarrow> [])
      in if \<not> ok then None
         else map_option (\<lambda>n. (block, c\<lparr>log_file := Some (old @ [Line block]),
                 last_hash := sig, block_count := n\<rparr>)) (json_succ (block_count c)))"

datatype failure =
    MalformedRecord nat
  | IndexDiscontinuity nat json
  | LinkBroken json
  | SignatureMismatch json

datatype verify_error = NotAnObject | SignatureNotText

type_synonym verdict = "verify_error + bool \<times> nat \<times> failure option"

definition is_index :: "json \<Rightarrow> nat \<Rightarrow> bool" where
  "is_index j n = (case j of
       JInt i \<Rightarrow> i = int n | JBool b \<Rightarrow> (if b then 1 else 0) = n | JFloat r \<Rightarrow> r = of_nat n
     | _ \<Rightarrow> False)"

definition ascii_text :: "json \<Rightarrow> string option" where
  "ascii_text j = (case j of
       JStr s \<Rightarrow> if list_all (\<lambda>c. (of_char c :: nat) < 128) s then Some s else None | _ \<Rightarrow> None)"

text \<open>The body of the loop for one non-blank line: a verdict, or the signature to chain on.\<close>

definition check_block ::
  "prims \<Rightarrow> string \<Rightarrow> json \<Rightarrow> nat \<Rightarrow> json \<Rightarrow> verify_error + failure option \<times> json" where
  "check_block P secret prev n block =
     (case block of
        JObj kvs \<Rightarrow>
          (let get = (\<lambda>k. jget_or JNull block k);
               index = get ''block_index''; ph = get ''previous_hash'';
               sig = get ''block_signature''; payload = get ''payload''
           in if \<not> is_index index n then Inr (Some (IndexDiscontinuity n index), sig)
              else if ph \<noteq> prev then Inr (Some (LinkBroken index), sig)
              else (case ascii_text sig of
                  None \<Rightarrow> Inl SignatureNotText
                | Some s \<Rightarrow>
                    if s \<noteq> compute_signature P secret index ph payload
                    then Inr (Some (SignatureMismatch index), sig)
                    else Inr (None, sig)))
      | _ \<Rightarrow> Inl NotAnObject)"

fun verify_lines :: "prims \<Rightarrow> string \<Rightarrow> nat \<Rightarrow> json \<Rightarrow> nat \<Rightarrow> line list \<Rightarrow> verdict" where
  "verify_lines P secret no prev n [] = Inr (True, n, None)"
| "verify_lines P secret no prev n (Blank # ls) = verify_lines P secret (Suc no) prev n ls"
| "verify_lines P secret no prev n (Malformed # ls) = Inr (False, n, Some (MalformedRecord (no + 1)))"
| "verify_lines P secret no prev n (Line block # ls) =
     (case check_block P secret prev n block of
        Inl e \<Rightarrow> Inl e
      | Inr (Some f, _) \<Rightarrow> Inr (False, n, Some f)
      | Inr (None, sig) \<Rightarrow> verify_lines P secret (Suc no) sig (Suc n) ls)"

definition verify_file :: "prims \<Rightarrow> string \<Rightarrow> line list option \<Rightarrow> verdict" where
  "verify_file P secret file = (case file of
       None \<Rightarrow> Inr (True, 0, None)
     | Some ls \<Rightarrow> verify_lines P secret 0 (JStr genesis_hash) 0 ls)"

definition verify_chain :: "prims \<Rightarrow> audit_chain \<Rightarrow> verdict" where
  "verify_chain P c = verify_file P (chain_secret c) (log_file c)"

section \<open>ComplianceReportGenerator\<close>

record compliance_report =
  overall_compliant :: bool
  chain_valid :: bool
  verified_blocks :: nat
  integrity_error :: "failure option"
  frameworks :: "(string \<times> (string \<times> string) list) list"

definition attested_controls :: "(string \<times> (string \<times> string) list) list" where
  "attested_controls =
    [(''SOC_2_TYPE_II'',
       [(''CC6.1 Logical Access Controls'', ''PASS''), (''CC6.6 Boundary Protection'', ''PASS''),
        (''CC7.2 Incident Response & Human Approval Gate'', ''PASS''),
        (''CC7.3 Mitigation & Recovery'', ''PASS'')]),
     (''ISO_IEC_27001_2022'',
       [(''A.8.7 Protection Against Malware & Injections'', ''PASS''),
        (''A.8.16 Monitoring & Anti-Poisoning'', ''PASS''), (''A.8.20 Network Security'', ''PASS'')]),
     (''GDPR_ARTICLE_32'',
       [(''Data Pseudonymization'', ''PASS''), (''Zero-PII Telemetry'', ''PASS''),
        (''Right to Erasure Audit'', ''PASS'')]),
     (''SOX_SECTION_404'',
       [(''Financial ERP Transaction Integrity'', ''PASS''),
        (''Duplicate Payment Prevention'', ''PASS''), (''Inventory Safeguards'', ''PASS'')])]"

definition generate_full_compliance_report ::
  "prims \<Rightarrow> audit_chain \<Rightarrow> verify_error + compliance_report" where
  "generate_full_compliance_report P c =
     (case verify_chain P c of
        Inl e \<Rightarrow> Inl e
      | Inr (ok, n, err) \<Rightarrow> Inr \<lparr>overall_compliant = ok, chain_valid = ok, verified_blocks = n,
          integrity_error = err, frameworks = attested_controls\<rparr>)"

section \<open>Appending\<close>

definition hex_text :: "string \<Rightarrow> bool" where
  "hex_text s = list_all (\<lambda>c. c \<in> set ''0123456789abcdef'') s"

text \<open>The state of verification after a valid prefix.\<close>

fun chain_end :: "json \<Rightarrow> nat \<Rightarrow> line list \<Rightarrow> json \<times> nat" where
  "chain_end h n [] = (h, n)"
| "chain_end h n (Line b # ls) = chain_end (jget_or JNull b ''block_signature'') (Suc n) ls"
| "chain_end h n (_ # ls) = chain_end h n ls"

lemma check_block_sig:
  "check_block P secret prev n b = Inr (r, sig) \<Longrightarrow> sig = jget_or JNull b ''block_signature''"
  by (auto simp: check_block_def Let_def split: json.splits if_splits option.splits)

lemma verify_append:
  "verify_lines P secret no prev n (xs @ ys) =
     (case verify_lines P secret no prev n xs of
        Inr (True, m, None) \<Rightarrow>
          (case chain_end prev n xs of (h, k) \<Rightarrow> verify_lines P secret (no + length xs) h k ys)
      | r \<Rightarrow> r)"
  by (induction P secret no prev n xs rule: verify_lines.induct)
    (auto split: sum.splits option.splits prod.splits bool.splits dest: check_block_sig)

lemma chain_end_count:
  "verify_lines P secret no prev n xs = Inr (True, m, None) \<Longrightarrow> snd (chain_end prev n xs) = m"
  by (induction P secret no prev n xs rule: verify_lines.induct)
    (auto split: sum.splits option.splits prod.splits dest: check_block_sig)

lemma mk_block_get [simp]:
  "jget_or JNull (mk_block i st ph sg ev) ''block_index'' = i"
  "jget_or JNull (mk_block i st ph sg ev) ''previous_hash'' = ph"
  "jget_or JNull (mk_block i st ph sg ev) ''block_signature'' = sg"
  "jget_or JNull (mk_block i st ph sg ev) ''payload'' = ev"
  by (simp_all add: mk_block_def jget_or_def)

lemma check_mk_block:
  "check_block P k h n (mk_block i st ph sg ev) =
     (if \<not> is_index i n then Inr (Some (IndexDiscontinuity n i), sg)
      else if ph \<noteq> h then Inr (Some (LinkBroken i), sg)
      else case ascii_text sg of
          None \<Rightarrow> Inl SignatureNotText
        | Some s \<Rightarrow> if s \<noteq> compute_signature P k i ph ev then Inr (Some (SignatureMismatch i), sg)
                  else Inr (None, sg))"
proof -
  obtain kvs where kvs: "mk_block i st ph sg ev = JObj kvs" by (simp add: mk_block_def)
  show ?thesis
    unfolding check_block_def kvs json.case Let_def
    unfolding kvs [symmetric] mk_block_get ..
qed

text \<open>A chain object in step with its file: the file verifies and the object holds the last
  signature and the number of blocks.\<close>

definition in_step :: "prims \<Rightarrow> audit_chain \<Rightarrow> nat \<Rightarrow> bool" where
  "in_step P c n \<longleftrightarrow> verify_chain P c = Inr (True, n, None) \<and> block_count c = JInt (int n)
     \<and> (case log_file c of None \<Rightarrow> (JStr genesis_hash, 0)
          | Some ls \<Rightarrow> chain_end (JStr genesis_hash) 0 ls) = (last_hash c, n)"

fun append_all :: "prims \<Rightarrow> (string \<times> json) list \<Rightarrow> audit_chain \<Rightarrow> audit_chain option" where
  "append_all P [] c = Some c"
| "append_all P ((stamp, ev) # evs) c =
     (case append_event P True stamp ev c of None \<Rightarrow> None | Some (_, c') \<Rightarrow> append_all P evs c')"

definition hex_prims :: "prims \<Rightarrow> bool" where
  "hex_prims P \<longleftrightarrow> (\<forall>k m. hex_text (hmac_hex P k m))"

lemma hex_text_ascii: "hex_text s \<Longrightarrow> ascii_text (JStr s) = Some s"
proof -
  have "list_all (\<lambda>c. (of_char c :: nat) < 128) ''0123456789abcdef''" by code_simp
  then have "\<forall>c \<in> set ''0123456789abcdef''. (of_char c :: nat) < 128"
    unfolding list_all_iff .
  moreover assume "hex_text s"
  ultimately have "list_all (\<lambda>c. (of_char c :: nat) < 128) s"
    unfolding hex_text_def list_all_iff by blast
  then show ?thesis unfolding ascii_text_def json.case by (rule if_P)
qed

lemma signature_ascii:
  "hex_prims P \<Longrightarrow> ascii_text (JStr (compute_signature P k i h ev)) = Some (compute_signature P k i h ev)"
  by (intro hex_text_ascii) (simp add: hex_prims_def compute_signature_def)

definition own_line :: "line \<Rightarrow> bool" where
  "own_line l \<longleftrightarrow> (\<exists>i st ph sg pl. l = Line (mk_block (JInt i) st ph sg pl))"

lemma read_own_line:
  "read_log (Line (mk_block (JInt i) st ph sg pl) # ls) h n = read_log ls sg (JInt (i + 1))"
proof -
  obtain kvs where kvs: "mk_block (JInt i) st ph sg pl = JObj kvs" by (simp add: mk_block_def)
  have get: "jget (JObj kvs) ''block_signature'' = Some sg" "jget (JObj kvs) ''block_index'' = Some (JInt i)"
    by (simp_all add: kvs [symmetric]) (simp_all add: mk_block_def)
  show ?thesis
    by (simp only: kvs read_log.simps jget_or_def get option.case json_succ.simps Let_def)
qed

lemma read_log_append:
  "\<forall>l \<in> set xs. own_line l \<Longrightarrow>
   read_log (xs @ ys) h n = (case read_log xs h n of (h', n') \<Rightarrow> read_log ys h' n')"
proof (induction xs arbitrary: h n)
  case (Cons l xs)
  then obtain i st ph sg pl where l: "l = Line (mk_block (JInt i) st ph sg pl)"
    by (auto simp: own_line_def)
  show ?case using Cons.IH Cons.prems by (simp add: l read_own_line)
qed simp

definition own_blocks :: "audit_chain \<Rightarrow> bool" where
  "own_blocks c \<longleftrightarrow> (\<forall>l \<in> set (case log_file c of None \<Rightarrow> [] | Some ls \<Rightarrow> ls). own_line l)"

lemma append_event_in_step:
  assumes P: "hex_prims P" and c: "in_step P c n" "own_blocks c" "chain_init (chain_secret c) (log_file c) = c"
  shows "\<exists>b c'. append_event P True stamp ev c = Some (b, c') \<and> in_step P c' (Suc n) \<and> own_blocks c'
    \<and> chain_init (chain_secret c') (log_file c') = c' \<and> chain_secret c' = chain_secret c"
proof -
  define ls where "ls = (case log_file c of Some ls \<Rightarrow> ls | None \<Rightarrow> [])"
  define sig where "sig = JStr (compute_signature P (chain_secret c) (JInt (int n)) (last_hash c) ev)"
  define b where "b = mk_block (JInt (int n)) stamp (last_hash c) sig ev"
  define c' where "c' = c\<lparr>log_file := Some (ls @ [Line b]), last_hash := sig,
      block_count := JInt (int (Suc n))\<rparr>"
  have n: "block_count c = JInt (int n)" using c(1) by (simp add: in_step_def)
  have step: "append_event P True stamp ev c = Some (b, c')"
    by (simp add: append_event_def Let_def n b_def c'_def sig_def ls_def add.commute)
  have "end": "chain_end (JStr genesis_hash) 0 ls = (last_hash c, n)"
    using c(1) by (auto simp: in_step_def ls_def split: option.splits)
  have ok: "verify_lines P (chain_secret c) 0 (JStr genesis_hash) 0 ls = Inr (True, n, None)"
    using c(1) by (auto simp: in_step_def verify_chain_def verify_file_def ls_def split: option.splits)
  have blk: "check_block P (chain_secret c) (last_hash c) n b = Inr (None, sig)"
    using signature_ascii [OF P] by (simp add: b_def sig_def check_mk_block is_index_def)
  have sig_b: "jget_or JNull b ''block_signature'' = sig"
    by (simp add: b_def)
  have "verify_lines P (chain_secret c) 0 (JStr genesis_hash) 0 (ls @ [Line b]) = Inr (True, Suc n, None)"
    by (simp add: verify_append ok "end" blk)
  moreover have "chain_end h k (xs @ [Line b]) = (sig, Suc (snd (chain_end h k xs)))" for h k xs
    by (induction h k xs rule: chain_end.induct) (simp_all add: sig_b)
  ultimately have "in_step P c' (Suc n)"
    using "end" by (simp add: in_step_def c'_def verify_chain_def verify_file_def)
  moreover have "own_blocks c'"
  proof -
    have "own_line (Line b)" unfolding own_line_def b_def by blast
    moreover have "\<forall>l \<in> set ls. own_line l" using c(2) by (simp add: own_blocks_def ls_def)
    ultimately show ?thesis by (simp add: own_blocks_def c'_def)
  qed
  moreover have "chain_init (chain_secret c) (Some (ls @ [Line b])) = c'"
  proof -
    have "read_log ls (JStr genesis_hash) (JInt 0) = (last_hash c, JInt (int n))"
      using n arg_cong [OF c(3), of last_hash] arg_cong [OF c(3), of block_count]
      by (cases "log_file c") (simp_all add: chain_init_def Let_def ls_def split: prod.splits)
    then have "read_log (ls @ [Line b]) (JStr genesis_hash) (JInt 0) = (sig, JInt (int (Suc n)))"
      using c(2) by (simp add: read_log_append own_blocks_def ls_def b_def read_own_line add.commute)
    then show ?thesis
      by (cases c) (simp add: chain_init_def c'_def)
  qed
  ultimately show ?thesis using step by (auto simp: c'_def)
qed

lemma append_all_in_step:
  "hex_prims P \<Longrightarrow> in_step P c n \<Longrightarrow> own_blocks c \<Longrightarrow> chain_init (chain_secret c) (log_file c) = c \<Longrightarrow>
   \<exists>c'. append_all P evs c = Some c' \<and> in_step P c' (n + length evs)
      \<and> chain_init (chain_secret c') (log_file c') = c'"
proof (induction evs arbitrary: c n)
  case (Cons e evs)
  obtain stamp ev where e: "e = (stamp, ev)" by (cases e)
  obtain b c1 where c1: "append_event P True stamp ev c = Some (b, c1)" "in_step P c1 (Suc n)"
      "own_blocks c1" "chain_init (chain_secret c1) (log_file c1) = c1"
    using append_event_in_step [OF Cons.prems, of stamp ev] by blast
  show ?case using Cons.IH [OF Cons.prems(1) c1(2-4)] c1(1) e by simp
qed simp

text \<open>What the chain writes, it accepts: after any sequence of successful appends to a new log,
  verification succeeds with exactly that many blocks, and a process that restarts on
  the file resumes in exactly the state the writer was in.\<close>

theorem appended_chain_verifies:
  assumes "\<forall>k m. hex_text (hmac_hex P k m)"
  shows "\<exists>c. append_all P evs (chain_init secret None) = Some c
    \<and> verify_chain P c = Inr (True, length evs, None)
    \<and> chain_init (chain_secret c) (log_file c) = c"
proof -
  have "hex_prims P" using assms by (simp add: hex_prims_def)
  moreover have "in_step P (chain_init secret None) 0"
    by (simp add: in_step_def chain_init_def verify_chain_def verify_file_def)
  moreover have "own_blocks (chain_init secret None)" by (simp add: own_blocks_def chain_init_def)
  moreover have "chain_init (chain_secret (chain_init secret None)) (log_file (chain_init secret None))
      = chain_init secret None"
    by (simp add: chain_init_def)
  ultimately show ?thesis
    using append_all_in_step [of P "chain_init secret None" 0 evs] by (auto simp: in_step_def)
qed

section \<open>Tampering\<close>

text \<open>Changing the payload of a sealed block is detected at that block, unless the changed block
  has the same authentication code as the original.\<close>

theorem payload_tamper_detected:
  assumes "verify_file P k (Some (pre @ Line (mk_block i st ph sg ev) # post)) = Inr (True, n, None)"
    and "compute_signature P k i ph ev' \<noteq> compute_signature P k i ph ev"
  shows "\<exists>m. verify_file P k (Some (pre @ Line (mk_block i st ph sg ev') # post))
      = Inr (False, m, Some (SignatureMismatch i))"
proof -
  let ?v = "verify_lines P k 0 (JStr genesis_hash) 0 pre"
  obtain m where m: "?v = Inr (True, m, None)"
    using assms(1) by (auto simp: verify_file_def verify_append
        split: sum.splits prod.splits bool.splits option.splits)
  obtain h j where e: "chain_end (JStr genesis_hash) 0 pre = (h, j)" by fastforce
  obtain s' where "check_block P k h j (mk_block i st ph sg ev) = Inr (None, s')"
    using assms(1) m e
    by (auto simp: verify_file_def verify_append split: sum.splits prod.splits option.splits)
  then have "check_block P k h j (mk_block i st ph sg ev') = Inr (Some (SignatureMismatch i), sg)"
    using assms(2) by (auto simp: check_mk_block split: option.splits if_splits)
  then show ?thesis using m e by (simp add: verify_file_def verify_append)
qed

text \<open>The other side: cutting blocks off the end is not detected, and neither is removing the
  whole file, which verifies as an intact log of no blocks.\<close>

theorem truncation_undetected:
  assumes "verify_file P k (Some (xs @ ys)) = Inr (True, n, None)"
  shows "\<exists>m. verify_file P k (Some xs) = Inr (True, m, None) \<and> verify_file P k None = Inr (True, 0, None)"
  using assms by (auto simp: verify_file_def verify_append
        split: sum.splits prod.splits bool.splits option.splits)

text \<open>The time stamp of a block is not signed: two blocks that differ only there are accepted
  alike.\<close>

lemma stamp_not_signed:
  "check_block P k h n (mk_block i st ph sg ev) = check_block P k h n (mk_block i st' ph sg ev)"
  by (simp add: check_mk_block)

section \<open>The last signature commits to the whole log\<close>

fun blocks_of :: "line list \<Rightarrow> json list" where
  "blocks_of [] = []"
| "blocks_of (Line b # ls) = b # blocks_of ls"
| "blocks_of (_ # ls) = blocks_of ls"

definition payload_text :: "prims \<Rightarrow> json \<Rightarrow> string" where
  "payload_text P b = dumps P (jget_or JNull b ''payload'')"

definition signature_of :: "json \<Rightarrow> json" where
  "signature_of b = jget_or JNull b ''block_signature''"

definition message_of :: "prims \<Rightarrow> json \<Rightarrow> string" where
  "message_of P b = sign_string P (jget_or JNull b ''block_index'') (jget_or JNull b ''previous_hash'')
     (jget_or JNull b ''payload'')"

definition end_sig :: "json \<Rightarrow> json list \<Rightarrow> json" where
  "end_sig h bs = (if bs = [] then h else signature_of (last bs))"

fun valid_blocks :: "prims \<Rightarrow> string \<Rightarrow> json \<Rightarrow> nat \<Rightarrow> json list \<Rightarrow> bool" where
  "valid_blocks P k h n [] = True"
| "valid_blocks P k h n (b # bs) \<longleftrightarrow>
     check_block P k h n b = Inr (None, signature_of b) \<and> valid_blocks P k (signature_of b) (Suc n) bs"

lemma verify_valid_blocks:
  "verify_lines P k no h n ls = Inr (True, m, None) \<Longrightarrow>
   valid_blocks P k h n (blocks_of ls) \<and> m = n + length (blocks_of ls)"
  by (induction P k no h n ls rule: verify_lines.induct)
    (auto split: sum.splits prod.splits option.splits dest: check_block_sig simp: signature_of_def)

lemma valid_blocks_snoc:
  "valid_blocks P k h n (bs @ [b]) \<longleftrightarrow> valid_blocks P k h n bs
     \<and> check_block P k (end_sig h bs) (n + length bs) b = Inr (None, signature_of b)"
  by (induction P k h n bs rule: valid_blocks.induct) (auto simp: end_sig_def)

lemma accepted_block:
  assumes "check_block P k h n b = Inr (None, sig)"
  shows "is_index (jget_or JNull b ''block_index'') n" "jget_or JNull b ''previous_hash'' = h"
    "sig = JStr (hmac_hex P k (message_of P b))"
  using assms
  by (auto simp: check_block_def Let_def message_of_def compute_signature_def ascii_text_def
      split: json.splits if_splits option.splits)

definition no_colon :: "string \<Rightarrow> bool" where
  "no_colon s \<longleftrightarrow> CHR '':'' \<notin> set s"

lemma split_at_colon:
  assumes "x @ CHR '':'' # y = x' @ CHR '':'' # y'" "no_colon x" "no_colon x'"
  shows "x = x' \<and> y = y'"
proof -
  have tw: "takeWhile (\<lambda>c. c \<noteq> CHR '':'') (a @ CHR '':'' # b) = a" if "no_colon a" for a b
    using that by (induction a) (auto simp: no_colon_def)
  have "x = x'" using tw [OF assms(2), of y] tw [OF assms(3), of y'] assms(1) by simp
  then show ?thesis using assms(1) by simp
qed

lemma str_nat_no_colon: "no_colon (str_nat n)"
proof (induction n rule: str_nat.induct)
  case (1 n)
  have d: "d < 10 \<Longrightarrow> char_of (48 + d) \<noteq> CHR '':''" for d :: nat
  proof
    assume "d < 10" "char_of (48 + d) = CHR '':''"
    then have "(of_char (char_of (48 + d) :: char) :: nat) = of_char (CHR '':'')" by simp
    then have "(48 + d) mod 256 = 58" by simp
    then show False using \<open>d < 10\<close> by simp
  qed
  show ?case
    using 1 d [of n] d [of "n mod 10"] by (auto simp: no_colon_def str_nat.simps [of n])
qed

definition colon_free_prims :: "prims \<Rightarrow> bool" where
  "colon_free_prims P \<longleftrightarrow> (\<forall>k m. no_colon (hmac_hex P k m)) \<and> (\<forall>r. no_colon (float_repr P r))"

lemma index_no_colon:
  assumes "colon_free_prims P" "is_index j n"
  shows "no_colon (py_str P j)"
  using assms str_nat_no_colon
  by (cases j) (auto simp: is_index_def colon_free_prims_def str_int_def no_colon_def)

text \<open>Equal messages have equal predecessors and equal canonical payloads.\<close>

lemma message_parts:
  assumes P: "colon_free_prims P"
    and b: "is_index (jget_or JNull b ''block_index'') n" "jget_or JNull b ''previous_hash'' = JStr h"
      "no_colon h"
    and c: "is_index (jget_or JNull c ''block_index'') n" "jget_or JNull c ''previous_hash'' = JStr h'"
      "no_colon h'"
    and eq: "message_of P b = message_of P c"
  shows "h = h' \<and> payload_text P b = payload_text P c"
proof -
  have "h @ CHR '':'' # payload_text P b = h' @ CHR '':'' # payload_text P c"
    using split_at_colon [OF _ index_no_colon [OF P b(1)] index_no_colon [OF P c(1)]] eq
    by (simp add: message_of_def sign_string_def payload_text_def b(2) c(2))
  then show ?thesis using split_at_colon b(3) c(3) by blast
qed

definition colliding :: "prims \<Rightarrow> string \<Rightarrow> json list \<Rightarrow> json list \<Rightarrow> bool" where
  "colliding P k bs cs \<longleftrightarrow> (\<exists>m \<in> message_of P ` set bs. \<exists>m' \<in> message_of P ` set cs.
     m \<noteq> m' \<and> hmac_hex P k m = hmac_hex P k m')"

lemma end_sig_text:
  assumes "colon_free_prims P" "valid_blocks P k (JStr h) n bs" "no_colon h"
  shows "\<exists>s. end_sig (JStr h) bs = JStr s \<and> no_colon s"
proof (cases bs rule: rev_cases)
  case (snoc cs b)
  have "signature_of b = JStr (hmac_hex P k (message_of P b))"
    using assms(2) accepted_block(3) unfolding snoc valid_blocks_snoc by blast
  then show ?thesis using assms(1) snoc by (simp add: end_sig_def colon_free_prims_def)
qed (use assms(3) in \<open>simp add: end_sig_def\<close>)

lemma commitment:
  assumes P: "colon_free_prims P" "no_colon h"
  shows "valid_blocks P k (JStr h) n bs \<Longrightarrow> valid_blocks P k (JStr h) n cs \<Longrightarrow>
    length bs = length cs \<Longrightarrow> end_sig (JStr h) bs = end_sig (JStr h) cs \<Longrightarrow>
    map (payload_text P) bs = map (payload_text P) cs \<or> colliding P k bs cs"
proof (induction bs arbitrary: cs rule: rev_induct)
  case (snoc b bs)
  then obtain c ds where cs: "cs = ds @ [c]" "length ds = length bs"
    by (cases cs rule: rev_cases) auto
  note vb = snoc.prems(1) [unfolded valid_blocks_snoc]
  note vc = snoc.prems(2) [unfolded cs(1) valid_blocks_snoc]
  obtain s where s: "end_sig (JStr h) bs = JStr s" "no_colon s"
    using end_sig_text [OF P(1) _ P(2)] vb by blast
  obtain s' where s': "end_sig (JStr h) ds = JStr s'" "no_colon s'"
    using end_sig_text [OF P(1) _ P(2)] vc by blast
  note ab = accepted_block [OF conjunct2 [OF vb], unfolded s(1)]
  note ac = accepted_block [OF conjunct2 [OF vc], unfolded s'(1) cs(2)]
  have same: "hmac_hex P k (message_of P b) = hmac_hex P k (message_of P c)"
    using snoc.prems(4) ab(3) ac(3) by (simp add: cs(1) end_sig_def)
  show ?case
  proof (cases "message_of P b = message_of P c")
    case False
    then have "colliding P k (bs @ [b]) cs"
      using same by (auto simp: colliding_def cs(1))
    then show ?thesis ..
  next
    case True
    have parts: "s = s' \<and> payload_text P b = payload_text P c"
      by (rule message_parts [OF P(1) ab(1,2) s(2) ac(1,2) s'(2) True])
    then have "map (payload_text P) bs = map (payload_text P) ds \<or> colliding P k bs ds"
      using snoc.IH [of ds] vb vc s(1) s'(1) cs(2) by simp
    then show ?thesis
      using parts by (auto simp: cs(1) colliding_def)
  qed
qed simp

text \<open>C9: The chain commits to its history.  Two logs of equal length that both verify under one
  key and end with the same signature contain the same canonical payloads in the
  same order, or two different signed messages of theirs have the same authentication code.  The
  hypotheses are facts of the code's primitives: hexadecimal digests and the
  digits of a float contain no colon.\<close>

theorem last_signature_commits:
  assumes "\<forall>key m. no_colon (hmac_hex P key m)" "\<forall>r. no_colon (float_repr P r)"
    and "verify_file P k (Some xs) = Inr (True, n, None)"
    and "verify_file P k (Some ys) = Inr (True, n, None)"
    and "end_sig (JStr genesis_hash) (blocks_of xs) = end_sig (JStr genesis_hash) (blocks_of ys)"
  shows "map (payload_text P) (blocks_of xs) = map (payload_text P) (blocks_of ys)
    \<or> colliding P k (blocks_of xs) (blocks_of ys)"
proof (rule commitment [of P genesis_hash k 0])
  show "colon_free_prims P" using assms(1,2) by (simp add: colon_free_prims_def)
  show "no_colon genesis_hash" by (simp add: no_colon_def genesis_hash_def)
  show "valid_blocks P k (JStr genesis_hash) 0 (blocks_of xs)"
    "valid_blocks P k (JStr genesis_hash) 0 (blocks_of ys)"
    "length (blocks_of xs) = length (blocks_of ys)"
    using verify_valid_blocks [of P k 0 "JStr genesis_hash" 0] assms(3,4)
    by (auto simp: verify_file_def)
qed (rule assms(5))

section \<open>Witnesses\<close>

text \<open>Concrete primitives to evaluate on: the digest of a message is as many letters as the
  message has characters.\<close>

definition toy_prims :: prims where
  "toy_prims = \<lparr>hmac_hex = (\<lambda>k m. replicate (length m) CHR ''a''),
     sha256_hex = (\<lambda>m. replicate (length m) CHR ''a''), float_repr = (\<lambda>_. ''0.5''),
     container_str = (\<lambda>_. ''{}'')\<rparr>"

lemma toy_hex: "hex_text (hmac_hex toy_prims k m)"
  by (simp add: toy_prims_def hex_text_def list_all_iff)

lemma toy_no_colon: "no_colon (hmac_hex toy_prims k m)" "no_colon (float_repr toy_prims r)"
  by (simp_all add: toy_prims_def no_colon_def)

definition toy_log :: "line list" where
  "toy_log = (case append_all toy_prims [(''t'', JStr ''login''), (''u'', JInt 7)] (chain_init ''k'' None) of
     Some c \<Rightarrow> (case log_file c of Some ls \<Rightarrow> ls | None \<Rightarrow> []) | None \<Rightarrow> [])"

theorem appended_chain_verifies_witness:
  "\<exists>c. append_all toy_prims [(''t'', JStr ''login''), (''u'', JInt 7)] (chain_init ''k'' None) = Some c
     \<and> verify_chain toy_prims c = Inr (True, 2, None)"
  using appended_chain_verifies [of toy_prims "[(''t'', JStr ''login''), (''u'', JInt 7)]" "''k''"] toy_hex
  by auto

definition one_block :: "json \<Rightarrow> line" where
  "one_block ev = Line (mk_block (JInt 0) ''t'' (JStr genesis_hash)
     (JStr (compute_signature toy_prims ''k'' (JInt 0) (JStr genesis_hash) (JInt 7))) ev)"

lemma one_block_ok: "verify_file toy_prims ''k'' (Some ([] @ one_block (JInt 7) # [])) = Inr (True, 1, None)"
  by (simp add: verify_file_def one_block_def check_mk_block is_index_def
      hex_text_ascii compute_signature_def toy_hex)

theorem payload_tamper_detected_witness:
  "\<exists>m. verify_file toy_prims ''k'' (Some [one_block (JInt 700)])
     = Inr (False, m, Some (SignatureMismatch (JInt 0)))"
proof -
  have "length (str_int 700) \<noteq> length (str_int 7)"
    by (simp add: str_int_def str_nat.simps)
  then have "compute_signature toy_prims ''k'' (JInt 0) (JStr genesis_hash) (JInt 700)
      \<noteq> compute_signature toy_prims ''k'' (JInt 0) (JStr genesis_hash) (JInt 7)"
    by (auto simp: compute_signature_def toy_prims_def sign_string_def dest: arg_cong [of _ _ length])
  then show ?thesis
    using payload_tamper_detected [OF one_block_ok [unfolded one_block_def], of "JInt 700"]
    by (simp add: one_block_def)
qed

theorem truncation_undetected_witness:
  "\<exists>m. verify_file toy_prims ''k'' (Some []) = Inr (True, m, None)"
  using truncation_undetected [OF one_block_ok] by blast

theorem last_signature_commits_witness:
  "map (payload_text toy_prims) (blocks_of [one_block (JInt 7)])
     = map (payload_text toy_prims) (blocks_of [Blank, one_block (JInt 7)])
   \<or> colliding toy_prims ''k'' (blocks_of [one_block (JInt 7)]) (blocks_of [Blank, one_block (JInt 7)])"
  using last_signature_commits [of toy_prims "''k''" "[one_block (JInt 7)]" 1 "[Blank, one_block (JInt 7)]"]
    one_block_ok toy_no_colon
  by (simp add: one_block_def verify_file_def check_mk_block is_index_def hex_text_ascii
      compute_signature_def toy_hex)

end
