(* ===== verification/Rules_Engine.thy ===== *)
theory Rules_Engine
  imports Json_Text Rate_Limiter
begin

text \<open>
  \<open>gateway/rules_engine.py\<close>: the six deterministic rules with their sliding histories, the
  rule set loaded from the configuration file, and \<open>evaluate\<close>.

  A check yields \<open>None\<close> where it raises; \<open>evaluate\<close> swallows the exception and goes on with
  the next rule.  The file's state is an argument of loading.
\<close>

section \<open>State\<close>

datatype rule_category =
  BUSINESS_LOGIC | SEQUENCE_VIOLATION | RESOURCE_DEPLETION | PRIV_ESCALATION | API_ABUSE

datatype check_type =
    negative_price | duplicate_order | inventory_depletion | role_escalation
  | sequence_violation | mass_access

datatype rule_reason =
    NegativeTotal
  | NegativeItem json
  | DuplicateOrder time
  | ExceedsStock json int string
  | AdminGrant string
  | NoAuthentication
  | MassAccess nat

record rule =
  rule_id :: string
  category :: rule_category
  severity :: int
  check_fn :: check_type
  remediation :: string

record rules_engine =
  rules :: "rule list"
  fired_rules :: "string list"
  fired_reasons :: "rule_reason list"
  last_mtime :: time
  order_hash_history :: "(string, time list) dict"
  mass_access_history :: "(string, time list) dict"
  inventory :: "(string, int) dict"

definition known_inventory :: "(string, int) dict" where
  "known_inventory = [(''SKU-9901'', 420), (''SKU-9902'', 1850), (''SKU-9903'', 34),
     (''Industrial Widget A'', 420), (''Bearing Assembly'', 1850), (''Hydraulic Pump v2'', 34)]"

definition default_rules :: "rule list" where
  "default_rules =
    [\<lparr>rule_id = ''R001'', category = BUSINESS_LOGIC, severity = 100, check_fn = negative_price,
      remediation = ''block''\<rparr>,
     \<lparr>rule_id = ''R002'', category = API_ABUSE, severity = 60, check_fn = duplicate_order,
      remediation = ''challenge''\<rparr>,
     \<lparr>rule_id = ''R003'', category = RESOURCE_DEPLETION, severity = 80,
      check_fn = inventory_depletion, remediation = ''block''\<rparr>,
     \<lparr>rule_id = ''R004'', category = PRIV_ESCALATION, severity = 100, check_fn = role_escalation,
      remediation = ''block''\<rparr>,
     \<lparr>rule_id = ''R005'', category = SEQUENCE_VIOLATION, severity = 75,
      check_fn = sequence_violation, remediation = ''challenge''\<rparr>,
     \<lparr>rule_id = ''R006'', category = API_ABUSE, severity = 65, check_fn = mass_access,
      remediation = ''limit''\<rparr>]"

section \<open>Loading\<close>

text \<open>The entries of the YAML file, field by field; what \<open>int(...)\<close> does with a severity is part
  of the entry (\<open>None\<close> where it raises).\<close>

record rule_cfg =
  rc_rule_id :: string
  rc_check_type :: "string option"
  rc_category :: "string option"
  rc_severity :: "int option option"
  rc_remediation :: "string option"

datatype config_file = Missing | Unreadable time | Entries time "rule_cfg list"

fun check_of :: "string \<Rightarrow> check_type option" where
  "check_of s = map_of
     [(''negative_price'', negative_price), (''duplicate_order'', duplicate_order),
      (''inventory_depletion'', inventory_depletion), (''role_escalation'', role_escalation),
      (''sequence_violation'', sequence_violation), (''mass_access'', mass_access)] s"

definition category_of :: "string \<Rightarrow> rule_category" where
  "category_of s = (case map_of
     [(''BUSINESS_LOGIC'', BUSINESS_LOGIC), (''SEQUENCE_VIOLATION'', SEQUENCE_VIOLATION),
      (''RESOURCE_DEPLETION'', RESOURCE_DEPLETION), (''PRIVILEGE_ESCALATION'', PRIV_ESCALATION),
      (''API_ABUSE'', API_ABUSE)] (upper s) of Some c \<Rightarrow> c | None \<Rightarrow> BUSINESS_LOGIC)"

text \<open>\<open>None\<close>: the entry raises; \<open>Some None\<close>: it is skipped.\<close>

definition build_rule_from_config :: "rule_cfg \<Rightarrow> rule option option" where
  "build_rule_from_config rc =
     (case (case rc_severity rc of None \<Rightarrow> Some 50 | Some x \<Rightarrow> x) of
        None \<Rightarrow> None
      | Some sev \<Rightarrow> Some
          (case Option.bind (rc_check_type rc) check_of of
             None \<Rightarrow> None
           | Some f \<Rightarrow> Some \<lparr>rule_id = rc_rule_id rc,
               category = category_of (case rc_category rc of Some c \<Rightarrow> c | None \<Rightarrow> ''business_logic''),
               severity = sev, check_fn = f,
               remediation = (case rc_remediation rc of Some r \<Rightarrow> r | None \<Rightarrow> ''block'')\<rparr>))"

fun build_rules :: "rule_cfg list \<Rightarrow> rule list option" where
  "build_rules [] = Some []"
| "build_rules (rc # rcs) =
     (case build_rule_from_config rc of
        None \<Rightarrow> None
      | Some None \<Rightarrow> build_rules rcs
      | Some (Some r) \<Rightarrow> map_option ((#) r) (build_rules rcs))"

definition load_rules :: "config_file \<Rightarrow> rules_engine \<Rightarrow> rules_engine" where
  "load_rules cf e =
     (case cf of
        Missing \<Rightarrow> e\<lparr>rules := default_rules\<rparr>
      | Unreadable m \<Rightarrow> e\<lparr>last_mtime := m, rules := default_rules\<rparr>
      | Entries m rcs \<Rightarrow>
          (case build_rules rcs of
             Some rs \<Rightarrow> e\<lparr>last_mtime := m, rules := rs\<rparr>
           | None \<Rightarrow> e\<lparr>last_mtime := m, rules := default_rules\<rparr>))"

definition rules_engine_init :: "config_file \<Rightarrow> rules_engine" where
  "rules_engine_init cf = load_rules cf
     \<lparr>rules = [], fired_rules = [], fired_reasons = [], last_mtime = 0, order_hash_history = [],
      mass_access_history = [], inventory = known_inventory\<rparr>"

definition check_hot_reload :: "config_file \<Rightarrow> rules_engine \<Rightarrow> rules_engine" where
  "check_hot_reload cf e =
     (case cf of
        Missing \<Rightarrow> e
      | Unreadable m \<Rightarrow> if m > last_mtime e then load_rules cf e else e
      | Entries m rcs \<Rightarrow> if m > last_mtime e then load_rules cf e else e)"

section \<open>Checks\<close>

record rule_request =
  rq_path :: string
  rq_method :: string
  rq_body :: json
  rq_user_id :: "string option"
  rq_client_ip :: "string option"
  rq_current_role :: "string option"
  rq_is_authenticated :: bool

definition order_post :: "rule_request \<Rightarrow> bool" where
  "order_post rq \<longleftrightarrow> upper (rq_method rq) = ''POST'' \<and> startswith (rq_path rq) ''/api/orders''"

definition client_ref :: "rule_request \<Rightarrow> string" where
  "client_ref rq = (case str_or (rq_user_id rq) (rq_client_ip rq) of
       Some k \<Rightarrow> if k = [] then ''anon'' else k | None \<Rightarrow> ''anon'')"

type_synonym check_result = "(bool \<times> rule_reason option) option"

definition item_negative :: "json \<Rightarrow> bool option" where
  "item_negative itm =
     (case json_lt (jget_or (JInt 0) itm ''price'') 0 of
        None \<Rightarrow> None | Some True \<Rightarrow> Some True
      | Some False \<Rightarrow>
         (case json_lt (jget_or (JInt 0) itm ''unit_price'') 0 of
            None \<Rightarrow> None | Some True \<Rightarrow> Some True
          | Some False \<Rightarrow> json_lt (jget_or (JInt 0) itm ''quantity'') 0))"

fun items_negative :: "json list \<Rightarrow> check_result" where
  "items_negative [] = Some (False, None)"
| "items_negative (JObj kvs # xs) =
     (case item_negative (JObj kvs) of
        None \<Rightarrow> None
      | Some True \<Rightarrow> Some (True, Some (NegativeItem (JObj kvs)))
      | Some False \<Rightarrow> items_negative xs)"
| "items_negative (_ # xs) = items_negative xs"

definition check_negative_price :: "rule_request \<Rightarrow> check_result" where
  "check_negative_price rq =
     (if \<not> order_post rq then Some (False, None)
      else let body = rq_body rq in
        if \<not> is_obj body then Some (False, None)
        else (case json_lt (jget_or (JInt 0) body ''total_amount'') 0 of
            None \<Rightarrow> None
          | Some True \<Rightarrow> Some (True, Some NegativeTotal)
          | Some False \<Rightarrow>
             (case jget_or (JList []) body ''items'' of
                JList xs \<Rightarrow> items_negative xs
              | _ \<Rightarrow> Some (False, None))))"

text \<open>One hit on a history: purge what is \<open>w\<close> seconds old or older, append \<open>now\<close>.\<close>

definition window_hit :: "time \<Rightarrow> (string, time list) dict \<Rightarrow> string \<Rightarrow> time \<Rightarrow> (string, time list) dict" where
  "window_hit w h k now = dput k (filter (\<lambda>t. now - t < w) (dget_or [] h k) @ [now]) h"

definition order_key :: "prims \<Rightarrow> rule_request \<Rightarrow> string" where
  "order_key P rq = sha256_hex P (client_ref rq @ '':'' @ dumps P (rq_body rq))"

definition check_duplicate_order ::
  "prims \<Rightarrow> time \<Rightarrow> rule_request \<Rightarrow> rules_engine \<Rightarrow> check_result \<times> rules_engine" where
  "check_duplicate_order P now rq e =
     (if \<not> order_post rq \<or> \<not> truthy (rq_body rq) then (Some (False, None), e)
      else let k = order_key P rq;
               hist = window_hit 5 (order_hash_history e) k now;
               l = dget_or [] hist k;
               e1 = e\<lparr>order_hash_history := hist\<rparr>
           in if length l \<ge> 2
              then (Some (True, Some (DuplicateOrder (last l - last (butlast l)))), e1)
              else (Some (False, None), e1))"

text \<open>The stock name and quantity an order item asks for.\<close>

definition item_request :: "json \<Rightarrow> json \<times> json" where
  "item_request itm = (case itm of
       JObj kvs \<Rightarrow>
         (json_or (json_or (jget_or JNull itm ''sku'') (jget_or JNull itm ''name''))
            (jget_or JNull itm ''item_id''), jget_or (JInt 1) itm ''quantity'')
     | JStr s \<Rightarrow>
         if CHR '':'' \<in> set s
         then (let parts = split_on CHR '':'' s in
               (JStr (strip (parts ! 0)),
                case parse_int (parts ! 1) of Some q \<Rightarrow> JInt q | None \<Rightarrow> JInt 1))
         else (JStr (strip s), JInt 1)
     | _ \<Rightarrow> (JNull, JInt 1))"

text \<open>Looking up a list or a dict as a key raises; a number is never a key.\<close>

definition stock_of :: "(string, int) dict \<Rightarrow> json \<Rightarrow> (string \<times> int) option option" where
  "stock_of stock j = (case j of
       JStr s \<Rightarrow> Some (if s = [] then None else map_option (\<lambda>n. (s, n)) (dget stock s))
     | JList xs \<Rightarrow> if xs = [] then Some None else None
     | JObj kvs \<Rightarrow> if kvs = [] then Some None else None
     | _ \<Rightarrow> Some None)"

fun items_deplete :: "(string, int) dict \<Rightarrow> json list \<Rightarrow> check_result" where
  "items_deplete stock [] = Some (False, None)"
| "items_deplete stock (x # xs) =
     (case item_request x of (name, qty) \<Rightarrow>
        (case stock_of stock name of
           None \<Rightarrow> None
         | Some None \<Rightarrow> items_deplete stock xs
         | Some (Some (s, avail)) \<Rightarrow>
             (case json_gt qty (of_int avail) of
                None \<Rightarrow> None
              | Some True \<Rightarrow> Some (True, Some (ExceedsStock qty avail s))
              | Some False \<Rightarrow> items_deplete stock xs)))"

definition check_inventory_depletion :: "(string, int) dict \<Rightarrow> rule_request \<Rightarrow> check_result" where
  "check_inventory_depletion stock rq =
     (if \<not> order_post rq \<or> \<not> is_obj (rq_body rq) then Some (False, None)
      else (case jget_or (JList []) (rq_body rq) ''items'' of
          JList xs \<Rightarrow> items_deplete stock xs
        | _ \<Rightarrow> Some (False, None)))"

definition check_role_escalation :: "rule_request \<Rightarrow> check_result" where
  "check_role_escalation rq =
     (if \<not> startswith (rq_path rq) ''/api/users''
         \<or> upper (rq_method rq) \<notin> {''POST'', ''PUT''} then Some (False, None)
      else if \<not> is_obj (rq_body rq) then Some (False, None)
      else let current = (if truthy_str (rq_current_role rq) then the (rq_current_role rq) else ''user'')
           in if jget_or JNull (rq_body rq) ''role'' = JStr ''admin'' \<and> current \<noteq> ''admin''
              then Some (True, Some (AdminGrant current)) else Some (False, None))"

definition check_auth_sequence :: "rule_request \<Rightarrow> check_result" where
  "check_auth_sequence rq =
     (if order_post rq \<and> (\<not> rq_is_authenticated rq \<or> \<not> truthy_str (rq_user_id rq))
      then Some (True, Some NoAuthentication) else Some (False, None))"

definition check_mass_access ::
  "time \<Rightarrow> rule_request \<Rightarrow> rules_engine \<Rightarrow> check_result \<times> rules_engine" where
  "check_mass_access now rq e =
     (if \<not> (startswith (rq_path rq) ''/api/orders'' \<or> startswith (rq_path rq) ''/api/users'')
      then (Some (False, None), e)
      else let k = client_ref rq;
               hist = window_hit 60 (mass_access_history e) k now;
               n = length (dget_or [] hist k);
               e1 = e\<lparr>mass_access_history := hist\<rparr>
           in if n > 100 then (Some (True, Some (MassAccess n)), e1) else (Some (False, None), e1))"

definition run_check ::
  "prims \<Rightarrow> time \<Rightarrow> check_type \<Rightarrow> rule_request \<Rightarrow> rules_engine \<Rightarrow> check_result \<times> rules_engine" where
  "run_check P now c rq e = (case c of
       negative_price \<Rightarrow> (check_negative_price rq, e)
     | duplicate_order \<Rightarrow> check_duplicate_order P now rq e
     | inventory_depletion \<Rightarrow> (check_inventory_depletion (inventory e) rq, e)
     | role_escalation \<Rightarrow> (check_role_escalation rq, e)
     | sequence_violation \<Rightarrow> (check_auth_sequence rq, e)
     | mass_access \<Rightarrow> check_mass_access now rq e)"

section \<open>evaluate\<close>

definition eval_rule ::
  "prims \<Rightarrow> time \<Rightarrow> rule_request \<Rightarrow> rule \<Rightarrow> int \<times> rules_engine \<Rightarrow> int \<times> rules_engine" where
  "eval_rule P now rq r = (\<lambda>(m, e).
     case run_check P now (check_fn r) rq e of
       (Some (True, why), e1) \<Rightarrow>
         (max m (severity r), e1\<lparr>fired_rules := fired_rules e1 @ [rule_id r],
            fired_reasons := fired_reasons e1 @ (case why of Some w \<Rightarrow> [w] | None \<Rightarrow> [])\<rparr>)
     | (_, e1) \<Rightarrow> (m, e1))"

definition evaluate ::
  "prims \<Rightarrow> config_file \<Rightarrow> time \<Rightarrow> rule_request \<Rightarrow> rules_engine
     \<Rightarrow> (int \<times> string list) \<times> rules_engine" where
  "evaluate P cf now rq e =
     (let e0 = (check_hot_reload cf e)\<lparr>fired_rules := [], fired_reasons := []\<rparr>;
          (m, e1) = fold (eval_rule P now rq) (rules e0) (0, e0)
      in ((m, fired_rules e1), e1))"

definition rules_reset_state :: "rules_engine \<Rightarrow> rules_engine" where
  "rules_reset_state e = e\<lparr>order_hash_history := [], mass_access_history := []\<rparr>"

section \<open>The histories are sliding windows\<close>

text \<open>Both histories provide the interface of a sliding log, with windows of five and of sixty
  seconds.\<close>

interpretation order_log: sliding_log "window_hit 5" "dget_or []" 5
  by unfold_locales (auto simp: window_hit_def algebra_simps intro!: filter_cong)

interpretation access_log: sliding_log "window_hit 60" "dget_or []" 60
  by unfold_locales (auto simp: window_hit_def algebra_simps intro!: filter_cong)

definition access_request :: "rule_request \<Rightarrow> bool" where
  "access_request rq \<longleftrightarrow>
     startswith (rq_path rq) ''/api/orders'' \<or> startswith (rq_path rq) ''/api/users''"

lemma check_mass_access_history:
  "mass_access_history (snd (check_mass_access now rq e)) =
     (if access_request rq then window_hit 60 (mass_access_history e) (client_ref rq) now
      else mass_access_history e)"
  by (simp add: check_mass_access_def access_request_def Let_def)

definition access_run :: "(rule_request \<times> time) list \<Rightarrow> rules_engine \<Rightarrow> rules_engine" where
  "access_run xs e = fold (\<lambda>(rq, t) e. snd (check_mass_access t rq e)) xs e"

definition accesses :: "(rule_request \<times> time) list \<Rightarrow> (string \<times> time) list" where
  "accesses xs = map (\<lambda>(rq, t). (client_ref rq, t)) (filter (\<lambda>(rq, t). access_request rq) xs)"

lemma access_run_history:
  "mass_access_history (access_run xs e) = run_hits (window_hit 60) (mass_access_history e) (accesses xs)"
proof (induction xs rule: rev_induct)
  case (snoc x xs)
  then show ?case
    by (cases x) (simp add: access_run_def accesses_def check_mass_access_history)
qed (simp add: access_run_def accesses_def)

text \<open>Rule R006 is exact: after any sequence of earlier requests it fires on a request for
  orders or users if and only if the same client has made at least a hundred such
  requests in the sixty seconds before it.  Requests of other clients and to
  other paths play no part.\<close>

theorem mass_access_fires_exactly:
  assumes "\<forall>(rq', t) \<in> set xs. t \<le> now" "access_request rq" "mass_access_history e = []"
  shows "(\<exists>why. fst (check_mass_access now rq (access_run xs e)) = Some (True, why)) \<longleftrightarrow>
    100 \<le> length (filter (\<lambda>(rq', t). access_request rq' \<and> client_ref rq' = client_ref rq
            \<and> now - 60 < t) xs)"
proof -
  let ?k = "client_ref rq"
  have le: "\<forall>h \<in> set (accesses xs). snd h \<le> now"
    using assms(1) by (auto simp: accesses_def)
  have "length (dget_or [] (window_hit 60 (run_hits (window_hit 60) [] (accesses xs)) ?k now) ?k)
      = Suc (length (filter (\<lambda>t. now - 60 < t) (hit_times ?k (accesses xs))))"
    by (rule access_log.count_after_hit [OF le]) simp
  moreover have "length (filter (\<lambda>t. now - 60 < t) (hit_times ?k (accesses xs)))
      = length (filter (\<lambda>(rq', t). access_request rq' \<and> client_ref rq' = ?k \<and> now - 60 < t) xs)"
    by (induction xs) (auto simp: accesses_def hit_times_def)
  ultimately show ?thesis
    using assms(2,3) access_run_history [of xs e]
    by (auto simp: check_mass_access_def access_request_def Let_def)
qed

text \<open>The history of rule R002: after earlier evaluations its check fires when the same
  client has placed an order with the same canonical body (up to a digest collision) less than five
  seconds before.\<close>

definition order_request :: "rule_request \<Rightarrow> bool" where
  "order_request rq \<longleftrightarrow> order_post rq \<and> truthy (rq_body rq)"

definition order_run :: "prims \<Rightarrow> (rule_request \<times> time) list \<Rightarrow> rules_engine \<Rightarrow> rules_engine" where
  "order_run P xs e = fold (\<lambda>(rq, t) e. snd (check_duplicate_order P t rq e)) xs e"

definition orders :: "prims \<Rightarrow> (rule_request \<times> time) list \<Rightarrow> (string \<times> time) list" where
  "orders P xs = map (\<lambda>(rq, t). (order_key P rq, t)) (filter (\<lambda>(rq, t). order_request rq) xs)"

lemma order_run_history:
  "order_hash_history (order_run P xs e) = run_hits (window_hit 5) (order_hash_history e) (orders P xs)"
proof (induction xs rule: rev_induct)
  case (snoc x xs)
  then show ?case
    by (cases x) (auto simp: order_run_def orders_def check_duplicate_order_def order_request_def Let_def)
qed (simp add: order_run_def orders_def)


section \<open>The verdict of \<open>evaluate\<close>\<close>

definition fires :: "prims \<Rightarrow> time \<Rightarrow> rule_request \<Rightarrow> rules_engine \<Rightarrow> rule \<Rightarrow> bool" where
  "fires P now rq e r \<longleftrightarrow> (\<exists>why. fst (run_check P now (check_fn r) rq e) = Some (True, why))"

text \<open>What one rule's check reads is not changed by rules of other kinds.\<close>

definition history_part :: "check_type \<Rightarrow> rules_engine \<Rightarrow> (string, time list) dict list" where
  "history_part c e = (case c of
       duplicate_order \<Rightarrow> [order_hash_history e] | mass_access \<Rightarrow> [mass_access_history e] | _ \<Rightarrow> [])"

lemma run_check_reads:
  assumes "history_part c e = history_part c e'" "inventory e = inventory e'"
  shows "fst (run_check P now c rq e) = fst (run_check P now c rq e')"
  using assms
  by (cases c) (auto simp: run_check_def history_part_def check_duplicate_order_def
      check_mass_access_def Let_def)

lemma run_check_writes:
  "c' \<noteq> c \<Longrightarrow> history_part c' (snd (run_check P now c rq e)) = history_part c' e"
  "inventory (snd (run_check P now c rq e)) = inventory e"
  "rules (snd (run_check P now c rq e)) = rules e"
  "fired_rules (snd (run_check P now c rq e)) = fired_rules e"
  "fired_reasons (snd (run_check P now c rq e)) = fired_reasons e"
  by (cases c; cases c'; simp add: run_check_def history_part_def check_duplicate_order_def
      check_mass_access_def Let_def)+

lemma eval_rule_spec:
  "eval_rule P now rq r (m, e) =
     (let e1 = snd (run_check P now (check_fn r) rq e) in
      if fires P now rq e r
      then (max m (severity r), snd (eval_rule P now rq r (m, e))) else (m, e1))"
  "fired_rules (snd (eval_rule P now rq r (m, e))) =
     fired_rules e @ (if fires P now rq e r then [rule_id r] else [])"
  "c' \<noteq> check_fn r \<Longrightarrow> history_part c' (snd (eval_rule P now rq r (m, e))) = history_part c' e"
  "inventory (snd (eval_rule P now rq r (m, e))) = inventory e"
proof -
  obtain res e1 where rc: "run_check P now (check_fn r) rq e = (res, e1)" by fastforce
  note w = run_check_writes [where c = "check_fn r" and P = P and now = now and rq = rq and e = e,
      unfolded rc snd_conv]
  show "eval_rule P now rq r (m, e) =
     (let e1 = snd (run_check P now (check_fn r) rq e) in
      if fires P now rq e r
      then (max m (severity r), snd (eval_rule P now rq r (m, e))) else (m, e1))"
    by (auto simp: eval_rule_def fires_def rc Let_def split: option.splits bool.splits)
  show "fired_rules (snd (eval_rule P now rq r (m, e))) =
     fired_rules e @ (if fires P now rq e r then [rule_id r] else [])"
    using w by (auto simp: eval_rule_def fires_def rc split: option.splits bool.splits)
  show "c' \<noteq> check_fn r \<Longrightarrow> history_part c' (snd (eval_rule P now rq r (m, e))) = history_part c' e"
    using w(1) [of c']
    by (auto simp: eval_rule_def rc history_part_def split: option.splits bool.splits check_type.splits)
  show "inventory (snd (eval_rule P now rq r (m, e))) = inventory e"
    using w(2) by (auto simp: eval_rule_def rc split: option.splits bool.splits)
qed

lemma fires_frame:
  assumes "check_fn r' \<noteq> check_fn r"
  shows "fires P now rq (snd (eval_rule P now rq r (m, e))) r' = fires P now rq e r'"
  using run_check_reads [OF eval_rule_spec(3,4)] assms by (simp add: fires_def)

lemma eval_fold:
  "distinct (map check_fn rs) \<Longrightarrow>
   fst (fold (eval_rule P now rq) rs (m, e)) = fold max (map severity (filter (fires P now rq e) rs)) m
   \<and> fired_rules (snd (fold (eval_rule P now rq) rs (m, e)))
       = fired_rules e @ map rule_id (filter (fires P now rq e) rs)"
proof (induction rs arbitrary: m e)
  case (Cons r rs)
  obtain m1 e1 where step: "eval_rule P now rq r (m, e) = (m1, e1)" by fastforce
  have m1: "m1 = (if fires P now rq e r then max m (severity r) else m)"
    using eval_rule_spec(1) [of P now rq r m e] by (auto simp: step Let_def split: if_splits)
  have f1: "fired_rules e1 = fired_rules e @ (if fires P now rq e r then [rule_id r] else [])"
    using eval_rule_spec(2) [of P now rq r m e] by (simp add: step)
  have "fires P now rq e1 r' = fires P now rq e r'" if "r' \<in> set rs" for r'
  proof -
    have "check_fn r' \<noteq> check_fn r"
      using imageI [OF that, of check_fn] Cons.prems by auto
    from fires_frame [OF this, of P now rq m e] show ?thesis by (simp add: step)
  qed
  then have "filter (fires P now rq e1) rs = filter (fires P now rq e) rs"
    by (auto intro: filter_cong)
  then show ?case
    using Cons.IH [of m1 e1] Cons.prems by (simp add: step m1 f1 max.commute)
qed simp

lemma fold_max_Max: "fold max xs m = Max (insert m (set xs))" for m :: "'a::linorder"
  by (metis Max.set_eq_fold list.simps(15))

text \<open>C20: \<open>evaluate\<close> returns what its rules say: with one rule per check, as in the shipped
  file, the fired rules are exactly those whose check holds in the state before the
  call, in the order of the rule set, and the severity is their maximum, 0 if none fires.  A check
  that raises counts as one that does not hold.\<close>

theorem evaluate_exact:
  assumes "check_hot_reload cf e = e1" "distinct (map check_fn (rules e1))"
  shows "fst (evaluate P cf now rq e) =
    (let hit = filter (fires P now rq e1) (rules e1)
     in (Max (insert 0 (severity ` set hit)), map rule_id hit))"
proof -
  let ?e0 = "e1\<lparr>fired_rules := [], fired_reasons := []\<rparr>"
  have same: "fires P now rq ?e0 = fires P now rq e1"
    by (rule ext) (simp add: fires_def run_check_reads [of _ ?e0 e1] history_part_def split: check_type.split)
  show ?thesis
    using eval_fold [OF assms(2), of P now rq 0 ?e0] assms(1)
    by (cases "fold (eval_rule P now rq) (rules e1) (0, ?e0)")
      (simp add: evaluate_def Let_def same fold_max_Max)
qed

text \<open>A negative order is caught whatever else the request contains: a negative total, or a
  negative price, unit price or quantity on an item given as an object.\<close>

lemma negative_total_fires:
  assumes "order_post rq" "rq_body rq = JObj kvs" "json_num (jget_or (JInt 0) (JObj kvs) ''total_amount'') = Some q"
    "q < 0"
  shows "check_negative_price rq = Some (True, Some NegativeTotal)"
  using assms by (simp add: check_negative_price_def is_obj_def json_lt_def Let_def)

text \<open>But the check fails open: a total given as a JSON string raises \<open>TypeError\<close>, the exception
  is swallowed, and R001 does not fire, whatever the string says.\<close>

theorem textual_total_fails_open:
  assumes "order_post rq" "rq_body rq = JObj kvs" "map_of kvs ''total_amount'' = Some (JStr s)"
  shows "check_negative_price rq = None \<and> (\<forall>e r. check_fn r = negative_price \<longrightarrow> \<not> fires P now rq e r)"
proof -
  have "check_negative_price rq = None"
    using assms by (simp add: check_negative_price_def is_obj_def json_lt_def json_num_def jget_or_def)
  then show ?thesis by (simp add: fires_def run_check_def)
qed

section \<open>Witnesses\<close>

definition get_order :: "string \<Rightarrow> rule_request" where
  "get_order u = \<lparr>rq_path = ''/api/orders/1'', rq_method = ''GET'', rq_body = JObj [],
     rq_user_id = Some u, rq_client_ip = None, rq_current_role = None, rq_is_authenticated = True\<rparr>"

definition order_of :: "json \<Rightarrow> rule_request" where
  "order_of amount = \<lparr>rq_path = ''/api/orders'', rq_method = ''POST'',
     rq_body = JObj [(''total_amount'', amount)],
     rq_user_id = Some ''u1'', rq_client_ip = None, rq_current_role = None, rq_is_authenticated = True\<rparr>"

lemma order_of_post [simp]: "order_post (order_of j)"
  unfolding order_post_def order_of_def by (simp add: startswith_def) code_simp

definition digest_prims :: prims where
  "digest_prims = \<lparr>hmac_hex = (\<lambda>k m. m), sha256_hex = (\<lambda>m. m), float_repr = (\<lambda>_. ''0.5''),
     container_str = (\<lambda>_. ''{}'')\<rparr>"

theorem mass_access_fires_exactly_witness:
  "\<exists>why. fst (check_mass_access 60 (get_order ''u'')
     (access_run (replicate 100 (get_order ''u'', 30)) (rules_engine_init Missing))) = Some (True, why)"
proof -
  have "mass_access_history (rules_engine_init Missing) = []"
    by (simp add: rules_engine_init_def load_rules_def)
  moreover have "access_request (get_order ''u'')"
    by (simp add: access_request_def get_order_def startswith_def)
  ultimately show ?thesis
    using mass_access_fires_exactly [of "replicate 100 (get_order ''u'', 30)" 60 "get_order ''u''"
        "rules_engine_init Missing"] by (simp add: filter_replicate)
qed


theorem evaluate_exact_witness:
  "fst (evaluate digest_prims Missing 0 (order_of (JInt (- 5))) (rules_engine_init Missing))
     = (100, [''R001''])"
proof -
  let ?e = "rules_engine_init Missing"
  have e: "check_hot_reload Missing ?e = ?e" "rules ?e = default_rules"
    by (simp_all add: check_hot_reload_def rules_engine_init_def load_rules_def)
  have "map (\<lambda>c. fst (run_check digest_prims 0 c (order_of (JInt (- 5))) ?e))
      [negative_price, duplicate_order, inventory_depletion, role_escalation, sequence_violation, mass_access]
    = Some (True, Some NegativeTotal) # replicate 5 (Some (False, None))"
    by code_simp
  then have "filter (fires digest_prims 0 (order_of (JInt (- 5))) ?e) default_rules
      = [\<lparr>rule_id = ''R001'', category = BUSINESS_LOGIC, severity = 100, check_fn = negative_price,
          remediation = ''block''\<rparr>]"
    by (simp add: default_rules_def fires_def eval_nat_numeral)
  then show ?thesis
    using evaluate_exact [OF e(1), of digest_prims 0 "order_of (JInt (- 5))"]
    by (simp add: e(2) Let_def) (simp add: default_rules_def)
qed

theorem textual_total_fails_open_witness:
  "check_negative_price (order_of (JStr ''-5'')) = None"
  using textual_total_fails_open [of "order_of (JStr ''-5'')" "[(''total_amount'', JStr ''-5'')]" "''-5''"]
  by (simp add: order_of_post) (simp add: order_of_def)

end
