(* ===== verification/Auth_Engine.thy ===== *)
theory Auth_Engine
  imports Json_Text Gateway_Config
begin

text \<open>
  \<open>gateway/auth_engine.py\<close>: verification of the bearer token and the object-level
  authorisation check.

  PyJWT is third-party code: \<open>jwt_decode token secret algorithm\<close> is its verdict, one
  constructor per exception the code distinguishes, and \<open>jwt_encode\<close> the token it mints.
  Claims are JSON objects.  Where Python raises (a claim of an unexpected type), the check is
  \<open>None\<close>.
\<close>

datatype jwt_outcome =
    Claims json
  | ExpiredSignature
  | InvalidAlgorithm
  | InvalidSignature
  | DecodeError
  | InvalidToken
  | UnexpectedError

record auth_engine =
  ae_secret :: "string option"
  ae_algorithm :: "string option"

definition ae_key :: "gateway_config \<Rightarrow> auth_engine \<Rightarrow> config_error + string" where
  "ae_key cfg ae = (if truthy_str (ae_secret ae) then Inr (the (ae_secret ae)) else jwt_secret_key cfg)"

definition ae_alg :: "gateway_config \<Rightarrow> auth_engine \<Rightarrow> string" where
  "ae_alg cfg ae = (if truthy_str (ae_algorithm ae) then the (ae_algorithm ae) else jwt_algorithm cfg)"

datatype auth_reason =
    MissingHeader | InvalidScheme | EmptyToken | ValidToken | TokenExpired | BadAlgorithm
  | BadSignature | MalformedToken | RejectedToken | VerificationError

record auth_result =
  is_valid :: bool
  auth_reason :: auth_reason
  claims :: "json option"
  anomaly :: pyfloat
  trust :: pyfloat

definition refused :: "auth_reason \<Rightarrow> pyfloat \<Rightarrow> pyfloat \<Rightarrow> auth_result" where
  "refused r a t = \<lparr>is_valid = False, auth_reason = r, claims = None, anomaly = a, trust = t\<rparr>"

definition judge_token :: "jwt_outcome \<Rightarrow> auth_result" where
  "judge_token out = (case out of
       Claims c \<Rightarrow> \<lparr>is_valid = True, auth_reason = ValidToken, claims = Some c, anomaly = 0, trust = 1\<rparr>
     | ExpiredSignature \<Rightarrow> refused TokenExpired 85 (1/10)
     | InvalidAlgorithm \<Rightarrow> refused BadAlgorithm 95 0
     | InvalidSignature \<Rightarrow> refused BadSignature 95 0
     | DecodeError \<Rightarrow> refused MalformedToken 90 0
     | InvalidToken \<Rightarrow> refused RejectedToken 90 0
     | UnexpectedError \<Rightarrow> refused VerificationError 90 0)"

definition bearer_token :: "string \<Rightarrow> string" where
  "bearer_token h = strip (drop 7 h)"

definition decode_and_verify ::
  "(string \<Rightarrow> string \<Rightarrow> string \<Rightarrow> jwt_outcome) \<Rightarrow> gateway_config \<Rightarrow> auth_engine \<Rightarrow> string option
     \<Rightarrow> auth_result" where
  "decode_and_verify jwt_decode cfg ae header =
     (if \<not> truthy_str header then refused MissingHeader 85 0
      else let h = the header in
        if \<not> startswith h ''Bearer '' then refused InvalidScheme 80 0
        else let token = bearer_token h in
          if token = [] then refused EmptyToken 85 0
          else (case ae_key cfg ae of
              Inl _ \<Rightarrow> judge_token UnexpectedError
            | Inr key \<Rightarrow> judge_token (jwt_decode token key (ae_alg cfg ae))))"

section \<open>Object-level authorisation\<close>

definition order_ownership :: "(string, string) dict" where
  "order_ownership = [(''101'', ''cust-882''), (''102'', ''cust-941'')]"

definition path_parts :: "string \<Rightarrow> string list" where
  "path_parts p = filter (\<lambda>x. x \<noteq> []) (split_on CHR ''/'' p)"

text \<open>\<open>x in roles\<close> and iteration over \<open>roles\<close>, by the type of the claim.\<close>

definition role_in :: "string \<Rightarrow> json \<Rightarrow> bool option" where
  "role_in x roles = (case roles of
       JList rs \<Rightarrow> Some (JStr x \<in> set rs)
     | JStr s \<Rightarrow> Some (contains_sub s x)
     | JObj kvs \<Rightarrow> Some (x \<in> fst ` set kvs)
     | _ \<Rightarrow> None)"

definition staff_roles :: "string list" where
  "staff_roles = [''admin'', ''sales'', ''warehouse'', ''finance'', ''support'']"

definition is_staff_role :: "json \<Rightarrow> bool" where
  "is_staff_role r = (case r of JStr s \<Rightarrow> s \<in> set staff_roles | _ \<Rightarrow> False)"

definition any_staff :: "json \<Rightarrow> bool option" where
  "any_staff roles = (case roles of
       JList rs \<Rightarrow> Some (list_ex is_staff_role rs)
     | JStr s \<Rightarrow> Some (list_ex (\<lambda>c. [c] \<in> set staff_roles) s)
     | JObj kvs \<Rightarrow> Some (list_ex (\<lambda>(k, _). k \<in> set staff_roles) kvs)
     | _ \<Rightarrow> None)"

record caller =
  c_role :: json
  c_roles :: json
  c_sub :: string
  c_cust :: string

definition caller_of :: "prims \<Rightarrow> json \<Rightarrow> caller" where
  "caller_of P cl =
     (let role = jget_or (JStr ''user'') cl ''role'';
          sub = py_str P (jget_or (JStr []) cl ''sub'');
          cust = py_str P (jget_or (JStr []) cl ''customer_id'')
      in \<lparr>c_role = role, c_roles = jget_or (JList [role]) cl ''roles'', c_sub = sub,
          c_cust = (if cust = [] then sub else cust)\<rparr>)"

text \<open>The three spellings under which the caller owns an identifier.\<close>

definition owns :: "caller \<Rightarrow> string \<Rightarrow> bool" where
  "owns c t \<longleftrightarrow> c_sub c = t \<or> ''cust-'' @ c_sub c = t \<or> c_cust c = t"

definition check_user_profile :: "caller \<Rightarrow> string \<Rightarrow> bool option" where
  "check_user_profile c path =
     (let parts = path_parts path in
      if length parts \<ge> 3
      then map_option (\<lambda>admin. admin \<or> owns c (parts ! 2))
             (or_raise (Some (c_role c = JStr ''admin'')) (role_in ''admin'' (c_roles c)))
      else Some True)"

definition check_order :: "caller \<Rightarrow> string \<Rightarrow> string \<Rightarrow> json option \<Rightarrow> bool option" where
  "check_order c path meth body =
     (case or_raise (any_staff (c_roles c)) (Some (is_staff_role (c_role c))) of
        None \<Rightarrow> None
      | Some True \<Rightarrow> Some True
      | Some False \<Rightarrow>
          if startswith path ''/api/orders/'' then
            (let parts = path_parts path in
             if length parts \<ge> 3
             then (case dget order_ownership (parts ! 2) of
                     Some owner \<Rightarrow> Some (owns c owner)
                   | None \<Rightarrow> Some True)
             else Some True)
          else (case body of
              None \<Rightarrow> Some True
            | Some b \<Rightarrow>
                if \<not> truthy b then Some True
                else (case b of
                    JObj kvs \<Rightarrow>
                      (let pid = jget_or JNull b ''customer_id'' in
                       if \<not> truthy pid then Some True
                       else (case pid of JStr t \<Rightarrow> Some (owns c t) | _ \<Rightarrow> Some False))
                  | _ \<Rightarrow> None)))"

definition order_mutation :: "string \<Rightarrow> string \<Rightarrow> bool" where
  "order_mutation path meth \<longleftrightarrow> path = ''/api/orders'' \<and> meth \<in> {''POST'', ''PUT'', ''PATCH''}"

definition check_bola_idor ::
  "prims \<Rightarrow> string \<Rightarrow> json option \<Rightarrow> string \<Rightarrow> json option \<Rightarrow> bool option" where
  "check_bola_idor P path cl meth body =
     (case cl of
        None \<Rightarrow> Some True
      | Some j \<Rightarrow>
         if \<not> truthy j then Some True
         else let c = caller_of P j in
           if startswith path ''/api/users/'' then check_user_profile c path
           else if startswith path ''/api/orders/'' \<or> order_mutation path meth
           then check_order c path meth body
           else Some True)"

section \<open>Minting\<close>

definition token_payload :: "string \<Rightarrow> string list option \<Rightarrow> int \<Rightarrow> string option \<Rightarrow> time \<Rightarrow> json" where
  "token_payload pid rls expires username now =
     (let sub = (case str_or username (Some pid) of Some s \<Rightarrow> if s = [] then ''user'' else s | None \<Rightarrow> ''user'');
          rs = (case rls of Some (r # rs) \<Rightarrow> r # rs | _ \<Rightarrow> [''user''])
      in JObj [(''sub'', JStr sub), (''roles'', JList (map JStr rs)), (''role'', JStr (hd rs)),
               (''exp'', JInt (\<lfloor>now\<rfloor> + expires)), (''iat'', JInt \<lfloor>now\<rfloor>)])"

definition generate_token ::
  "(json \<Rightarrow> string \<Rightarrow> string \<Rightarrow> string) \<Rightarrow> gateway_config \<Rightarrow> auth_engine \<Rightarrow> string
     \<Rightarrow> string list option \<Rightarrow> int \<Rightarrow> string option \<Rightarrow> time \<Rightarrow> config_error + string" where
  "generate_token jwt_encode cfg ae pid rls expires username now =
     (case ae_key cfg ae of
        Inl e \<Rightarrow> Inl e
      | Inr key \<Rightarrow> Inr (jwt_encode (token_payload pid rls expires username now) key (ae_alg cfg ae)))"

section \<open>Properties\<close>

text \<open>C10: Acceptance is exactly the library's verdict: a request is authenticated, with the claims
  it carries, if and only if it presents a bearer token that the JWT library verifies under the
  configured key and under no other algorithm than the configured one; every other
  outcome scores at least 80 and at most a tenth of trust.\<close>

theorem authentication_exact:
  "(is_valid (decode_and_verify jd cfg ae header) \<longleftrightarrow>
      (\<exists>h key c. header = Some h \<and> startswith h ''Bearer '' \<and> bearer_token h \<noteq> []
         \<and> ae_key cfg ae = Inr key \<and> jd (bearer_token h) key (ae_alg cfg ae) = Claims c
         \<and> claims (decode_and_verify jd cfg ae header) = Some c))
   \<and> (\<not> is_valid (decode_and_verify jd cfg ae header)
        \<longrightarrow> claims (decode_and_verify jd cfg ae header) = None
          \<and> 80 \<le> anomaly (decode_and_verify jd cfg ae header)
          \<and> trust (decode_and_verify jd cfg ae header) \<le> 1/10)"
proof (cases "truthy_str header")
  case True
  then obtain h where h: "header = Some h" "h \<noteq> []" by (cases header) auto
  show ?thesis
    using h
    by (auto simp: decode_and_verify_def judge_token_def refused_def Let_def startswith_def
        split: sum.splits jwt_outcome.splits)
next
  case False
  then have "header = None \<or> header = Some []" by (cases header) auto
  then show ?thesis by (auto simp: decode_and_verify_def refused_def startswith_def)
qed

text \<open>A caller without the administrator role reaches exactly its own profile: with claims whose
  roles are a list, a request for the profile of \<open>t\<close> is authorised if and only if \<open>t\<close> is the
  caller's subject, its customer identifier, or the subject with the prefix \<open>cust-\<close>.\<close>

theorem profile_isolation:
  assumes "startswith path ''/api/users/''" "length (path_parts path) \<ge> 3"
    and "truthy cl" "c_role (caller_of P cl) \<noteq> JStr ''admin''"
    and "c_roles (caller_of P cl) = JList rs" "JStr ''admin'' \<notin> set rs"
  shows "check_bola_idor P path (Some cl) meth body = Some (owns (caller_of P cl) (path_parts path ! 2))"
  using assms
  by (simp add: check_bola_idor_def check_user_profile_def or_raise_def role_in_def Let_def)

text \<open>Callers without a staff role, as the order checks see them, and orders placed for another
  customer are refused.\<close>

definition plain_customer :: "caller \<Rightarrow> bool" where
  "plain_customer c \<longleftrightarrow> (\<exists>rs. c_roles c = JList rs \<and> \<not> list_ex is_staff_role rs)
     \<and> \<not> is_staff_role (c_role c)"

lemma plain_customer_not_staff:
  "plain_customer c \<Longrightarrow> or_raise (any_staff (c_roles c)) (Some (is_staff_role (c_role c))) = Some False"
  by (auto simp: plain_customer_def any_staff_def or_raise_def)

text \<open>C16: Registered orders are isolated, and so are orders placed for another customer: with claims
  that carry neither a staff role nor a staff role list, an existing order of the ownership table is
  authorised if and only if the caller owns it, and an order placed for a
  customer if and only if that customer is the caller.\<close>

theorem order_isolation:
  assumes "truthy cl" "plain_customer (caller_of P cl)"
  shows "(startswith path ''/api/orders/'' \<longrightarrow> length (path_parts path) \<ge> 3 \<longrightarrow>
            dget order_ownership (path_parts path ! 2) = Some owner \<longrightarrow>
            check_bola_idor P path (Some cl) meth body = Some (owns (caller_of P cl) owner))
       \<and> (order_mutation path meth \<longrightarrow> cust \<noteq> [] \<longrightarrow>
            jget (JObj kvs) ''customer_id'' = Some (JStr cust) \<longrightarrow>
            check_bola_idor P path (Some cl) meth (Some (JObj kvs)) = Some (owns (caller_of P cl) cust))"
proof -
  have nu: "\<not> startswith path ''/api/users/''" if "startswith path ''/api/orders/'' \<or> order_mutation path meth"
    using that by (auto simp: startswith_iff order_mutation_def)
  have no: "order_mutation path meth \<Longrightarrow> \<not> startswith path ''/api/orders/''"
    by (auto simp: order_mutation_def startswith_def)
  have ne: "jget (JObj kvs) ''customer_id'' = Some v \<Longrightarrow> kvs \<noteq> []" for v by auto
  show ?thesis
    using assms nu no ne
    by (auto simp: check_bola_idor_def check_order_def Let_def plain_customer_not_staff jget_or_def)
qed

text \<open>An order that is not in the static ownership table is open to every authenticated
  caller: the check authorises it whoever asks.\<close>

theorem unregistered_order_open:
  assumes "startswith path ''/api/orders/''" "length (path_parts path) \<ge> 3"
    and "path_parts path ! 2 \<notin> {''101'', ''102''}" "c_roles (caller_of P cl) = JList rs"
  shows "check_bola_idor P path (Some cl) meth body = Some True"
proof -
  have "\<not> startswith path ''/api/users/''" using assms(1) by (auto simp: startswith_iff)
  then show ?thesis
    using assms
    by (auto simp: check_bola_idor_def check_order_def order_ownership_def Let_def any_staff_def
        or_raise_def split: bool.splits)
qed

text \<open>A minted token is accepted with the claims it was minted with.  The hypotheses say what
  the library documents: a token it encodes with a key and an algorithm decodes under the same
  two to the payload while that is unexpired; and a token is non-empty without
  white space around it.\<close>

definition unexpired :: "time \<Rightarrow> json \<Rightarrow> bool" where
  "unexpired now c \<longleftrightarrow> (\<exists>e. jget c ''exp'' = Some (JInt e) \<and> now < of_int e) \<and> jget c ''sub'' \<noteq> None"

lemma payload_unexpired: "0 < expires \<Longrightarrow> unexpired now (token_payload pid rls expires username now)"
proof -
  assume "0 < expires"
  moreover have "now < of_int (\<lfloor>now\<rfloor> + 1)" by linarith
  ultimately have "now < of_int (\<lfloor>now\<rfloor> + expires)" by linarith
  then show ?thesis by (simp add: unexpired_def token_payload_def Let_def)
qed

theorem minted_token_accepted:
  assumes "0 < expires"
    and "\<And>key alg. unexpired now (token_payload pid rls expires username now) \<Longrightarrow>
      jd (je (token_payload pid rls expires username now) key alg) key alg
        = Claims (token_payload pid rls expires username now)"
    and "\<And>c key alg. je c key alg \<noteq> [] \<and> strip (je c key alg) = je c key alg"
    and "generate_token je cfg ae pid rls expires username now = Inr tok"
  shows "decode_and_verify jd cfg ae (Some (''Bearer '' @ tok)) =
    \<lparr>is_valid = True, auth_reason = ValidToken,
     claims = Some (token_payload pid rls expires username now), anomaly = 0, trust = 1\<rparr>"
proof -
  obtain key where key: "ae_key cfg ae = Inr key"
    "tok = je (token_payload pid rls expires username now) key (ae_alg cfg ae)"
    using assms(4) by (auto simp: generate_token_def split: sum.splits)
  have "bearer_token (''Bearer '' @ tok) = tok"
    using assms(3) by (simp add: bearer_token_def key(2))
  then show ?thesis
    using assms(2) [OF payload_unexpired [OF assms(1)]] assms(3) key(1)
    by (simp add: decode_and_verify_def judge_token_def startswith_def key(2))
qed

section \<open>Witnesses\<close>

definition plain_prims :: prims where
  "plain_prims = \<lparr>hmac_hex = (\<lambda>k m. m), sha256_hex = (\<lambda>m. m), float_repr = (\<lambda>_. ''0.5''),
     container_str = (\<lambda>_. ''{}'')\<rparr>"

definition alice :: json where
  "alice = JObj [(''sub'', JStr ''alice''), (''role'', JStr ''user''),
     (''roles'', JList [JStr ''user'']), (''customer_id'', JStr ''cust-941'')]"

definition dev_engine :: auth_engine where
  "dev_engine = \<lparr>ae_secret = Some ''k'', ae_algorithm = Some ''HS256''\<rparr>"

lemma alice_caller: "caller_of plain_prims alice =
    \<lparr>c_role = JStr ''user'', c_roles = JList [JStr ''user''], c_sub = ''alice'', c_cust = ''cust-941''\<rparr>"
  by (simp add: caller_of_def alice_def jget_or_def Let_def)

theorem authentication_exact_witness:
  "\<not> is_valid (decode_and_verify (\<lambda>_ _ _. InvalidSignature) default_config dev_engine (Some ''Bearer x''))
   \<and> 80 \<le> anomaly (decode_and_verify (\<lambda>_ _ _. InvalidSignature) default_config dev_engine (Some ''Bearer x''))"
  using authentication_exact [of "\<lambda>_ _ _. InvalidSignature" default_config dev_engine "Some ''Bearer x''"]
  by auto

theorem profile_isolation_witness:
  "check_bola_idor plain_prims ''/api/users/bob'' (Some alice) ''GET'' None = Some False
   \<and> check_bola_idor plain_prims ''/api/users/alice'' (Some alice) ''GET'' None = Some True"
  using profile_isolation [of "''/api/users/bob''" alice plain_prims "[JStr ''user'']" "''GET''" None]
    profile_isolation [of "''/api/users/alice''" alice plain_prims "[JStr ''user'']" "''GET''" None]
  by (simp add: alice_caller owns_def path_parts_def startswith_def) (simp add: alice_def)

theorem order_isolation_witness:
  "check_bola_idor plain_prims ''/api/orders/101'' (Some alice) ''GET'' None = Some False
   \<and> check_bola_idor plain_prims ''/api/orders/102'' (Some alice) ''GET'' None = Some True"
  using order_isolation [of alice plain_prims "''/api/orders/101''" "''cust-882''" "''GET''" None]
    order_isolation [of alice plain_prims "''/api/orders/102''" "''cust-941''" "''GET''" None]
  by (simp add: alice_caller owns_def path_parts_def startswith_def plain_customer_def
      is_staff_role_def staff_roles_def order_ownership_def) (simp add: alice_def)

theorem unregistered_order_open_witness:
  "check_bola_idor plain_prims ''/api/orders/500'' (Some alice) ''GET'' None = Some True"
  using unregistered_order_open [of "''/api/orders/500''" plain_prims alice "[JStr ''user'']" "''GET''" None]
  by (simp add: alice_caller path_parts_def startswith_def)

theorem minted_token_accepted_witness:
  "is_valid (decode_and_verify (\<lambda>_ _ _. Claims (token_payload ''p'' None 60 None 10)) default_config dev_engine
     (Some (''Bearer '' @ ''tok'')))"
  using minted_token_accepted [of 60 10 "''p''" None None
      "\<lambda>_ _ _. Claims (token_payload ''p'' None 60 None 10)" "\<lambda>_ _ _. ''tok''" default_config dev_engine "''tok''"]
  by (simp add: generate_token_def ae_key_def dev_engine_def strip_def py_space_def)

end
