(* ===== verification/Route_Allowlist.thy ===== *)
theory Route_Allowlist
  imports Prelude
begin

text \<open>
  \<open>gateway/route_allowlist.py\<close>: path patterns, the route catalogue and its lookup.

  A pattern is compiled the way the constructor builds its regular expression.  For a pattern
  ending in \<open>/*\<close> the prefix is escaped; any other pattern is used as it stands after its
  \<open>{name}\<close> parts are replaced, so a dot in it matches any character.  The other
  metacharacters of regular expressions occur in no pattern of the repository and are taken
  literally here.
\<close>

section \<open>Patterns\<close>

datatype tok = Lit char | AnyChar | Segment

datatype regex = Exact "tok list" | Prefix string

definition word_char :: "char \<Rightarrow> bool" where
  "word_char c \<longleftrightarrow> (let n = (of_char c :: nat) in
     48 \<le> n \<and> n \<le> 57 \<or> 65 \<le> n \<and> n \<le> 90 \<or> 97 \<le> n \<and> n \<le> 122 \<or> n = 95)"

text \<open>The part after a \<open>{name}\<close> at the head of the text, if there is one.\<close>

definition after_placeholder :: "string \<Rightarrow> string option" where
  "after_placeholder s = (case s of
       c # r \<Rightarrow>
         if c = CHR ''{'' \<and> takeWhile word_char r \<noteq> []
            \<and> (case dropWhile word_char r of d # _ \<Rightarrow> d = CHR ''}'' | [] \<Rightarrow> False)
         then Some (tl (dropWhile word_char r)) else None
     | [] \<Rightarrow> None)"

lemma after_placeholder_shorter: "after_placeholder s = Some r \<Longrightarrow> length r < length s"
  using length_dropWhile_le [of word_char "tl s"]
  by (auto simp: after_placeholder_def split: list.splits if_splits)

function tokens :: "string \<Rightarrow> tok list" where
  "tokens s = (case after_placeholder s of
       Some r \<Rightarrow> Segment # tokens r
     | None \<Rightarrow> (case s of [] \<Rightarrow> []
         | c # r \<Rightarrow> (if c = CHR ''.'' then AnyChar else Lit c) # tokens r))"
  by pat_completeness auto
termination
  by (relation "measure length") (auto dest: after_placeholder_shorter)

declare tokens.simps [simp del]

definition is_wildcard :: "string \<Rightarrow> bool" where
  "is_wildcard p = endswith p ''/*''"

definition compile :: "string \<Rightarrow> regex" where
  "compile p = (if is_wildcard p then Prefix (take (length p - 2) p) else Exact (tokens p))"

text \<open>\<open>$\<close> holds at the end of the text and before a final newline.\<close>

definition newline :: char where
  "newline = char_of (10 :: nat)"

definition at_end :: "string \<Rightarrow> bool" where
  "at_end s \<longleftrightarrow> s = [] \<or> s = [newline]"

fun match_toks :: "tok list \<Rightarrow> string \<Rightarrow> bool" where
  "match_toks [] s = at_end s"
| "match_toks (Lit c # ts) s = (case s of [] \<Rightarrow> False | d # r \<Rightarrow> d = c \<and> match_toks ts r)"
| "match_toks (AnyChar # ts) s = (case s of [] \<Rightarrow> False | d # r \<Rightarrow> d \<noteq> newline \<and> match_toks ts r)"
| "match_toks (Segment # ts) s =
     list_ex (\<lambda>n. CHR ''/'' \<notin> set (take n s) \<and> match_toks ts (drop n s)) [1..<length s + 1]"

text \<open>\<open>(/.*)?$\<close> after the prefix.\<close>

definition match_rest :: "string \<Rightarrow> bool" where
  "match_rest s \<longleftrightarrow> at_end s
     \<or> (case s of [] \<Rightarrow> False | d # r \<Rightarrow> d = CHR ''/'' \<and> newline \<notin> set (butlast r))"

fun regex_match :: "regex \<Rightarrow> string \<Rightarrow> bool" where
  "regex_match (Exact ts) s = match_toks ts s"
| "regex_match (Prefix p) s = (startswith s p \<and> match_rest (drop (length p) s))"

section \<open>RouteAllowlist\<close>

record route_rule =
  raw_pattern :: string
  methods :: "string list"
  auth_required :: bool
  roles :: "string list"
  compiled :: regex

definition mk_rule :: "string \<Rightarrow> string list \<Rightarrow> bool \<Rightarrow> string list \<Rightarrow> route_rule" where
  "mk_rule p ms auth rs = \<lparr>raw_pattern = p, methods = map upper ms, auth_required = auth,
     roles = rs, compiled = compile p\<rparr>"

definition rule_matches :: "route_rule \<Rightarrow> string \<Rightarrow> bool" where
  "rule_matches r path = regex_match (compiled r) path"

type_synonym catalogue = "route_rule list"

definition builtin_routes :: catalogue where
  "builtin_routes =
    [mk_rule ''/health'' [''GET''] False [],
     mk_rule ''/docs'' [''GET''] False [],
     mk_rule ''/openapi.json'' [''GET''] False [],
     mk_rule ''/redoc'' [''GET''] False [],
     mk_rule ''/api/auth/login'' [''POST''] False [],
     mk_rule ''/api/orders'' [''GET'', ''POST''] True [''sales'', ''manager'', ''admin''],
     mk_rule ''/api/orders/{id}'' [''GET'', ''PUT'', ''DELETE''] True [''sales'', ''manager'', ''admin''],
     mk_rule ''/api/users/{id}'' [''GET'', ''PUT''] True [''user'', ''manager'', ''admin''],
     mk_rule ''/api/inventory'' [''GET''] True [''warehouse'', ''sales'', ''manager'', ''admin'']]"

definition add_route :: "string \<Rightarrow> string list \<Rightarrow> bool \<Rightarrow> string list \<Rightarrow> catalogue \<Rightarrow> catalogue" where
  "add_route p ms auth rs cat =
     filter (\<lambda>r. raw_pattern r \<noteq> p) cat @ [mk_rule p ms auth rs]"

text \<open>An entry of the YAML file; \<open>path\<close> is the only key it must have.\<close>

record route_cfg =
  cfg_path :: "string option"
  cfg_methods :: "string list option"
  cfg_auth :: "bool option"
  cfg_roles :: "string list option"

fun load_entries :: "route_cfg list \<Rightarrow> int \<Rightarrow> catalogue \<Rightarrow> int \<times> catalogue" where
  "load_entries [] n cat = (n, cat)"
| "load_entries (rc # rcs) n cat =
     (case cfg_path rc of
        None \<Rightarrow> (0, cat)
      | Some p \<Rightarrow> load_entries rcs (n + 1)
          (add_route p (case cfg_methods rc of Some ms \<Rightarrow> ms | None \<Rightarrow> [''GET''])
             (case cfg_auth rc of Some b \<Rightarrow> b | None \<Rightarrow> True)
             (case cfg_roles rc of Some rs \<Rightarrow> rs | None \<Rightarrow> []) cat))"

definition load_from_yaml :: "route_cfg list option \<Rightarrow> catalogue \<Rightarrow> int \<times> catalogue" where
  "load_from_yaml file cat = (case file of None \<Rightarrow> (0, cat) | Some rcs \<Rightarrow> load_entries rcs 0 cat)"

definition allowlist_init :: "route_cfg list option option \<Rightarrow> catalogue" where
  "allowlist_init file = (case file of None \<Rightarrow> builtin_routes | Some f \<Rightarrow> snd (load_from_yaml f builtin_routes))"

text \<open>The sort key is the pair of the two below, compared lexicographically.\<close>

definition wild_rank :: "route_rule \<Rightarrow> nat" where
  "wild_rank r = (if is_wildcard (raw_pattern r) then 1 else 0)"

definition length_rank :: "route_rule \<Rightarrow> int" where
  "length_rank r = - int (length (raw_pattern r))"

definition sorted_routes :: "catalogue \<Rightarrow> catalogue" where
  "sorted_routes cat = sort_key wild_rank (sort_key length_rank cat)"

record route_verdict =
  path_known :: bool
  method_allowed :: bool
  matching_rule :: "route_rule option"

definition validate_route :: "catalogue \<Rightarrow> string \<Rightarrow> string \<Rightarrow> route_verdict" where
  "validate_route cat path meth =
     (case List.find (\<lambda>r. rule_matches r path) (sorted_routes cat) of
        None \<Rightarrow> \<lparr>path_known = False, method_allowed = False, matching_rule = None\<rparr>
      | Some r \<Rightarrow> \<lparr>path_known = True, method_allowed = (upper meth \<in> set (methods r)),
                  matching_rule = Some r\<rparr>)"

section \<open>Lookup\<close>

text \<open>At most as specific: \<open>r\<close> comes no later than \<open>r'\<close> in the order of the lookup.\<close>

definition precedes :: "route_rule \<Rightarrow> route_rule \<Rightarrow> bool" where
  "precedes r r' \<longleftrightarrow> wild_rank r < wild_rank r'
     \<or> wild_rank r = wild_rank r' \<and> length (raw_pattern r') \<le> length (raw_pattern r)"

lemma sorted_wrt_sort_key:
  "sorted_wrt Q xs \<Longrightarrow> (\<And>x y. Q x y \<Longrightarrow> f x = f y \<Longrightarrow> R x y) \<Longrightarrow> (\<And>x y. f x < f y \<Longrightarrow> R x y)
   \<Longrightarrow> sorted_wrt R (sort_key f xs)"
proof (induction xs)
  case (Cons a xs)
  have ins: "sorted_wrt R ys \<Longrightarrow> sorted (map f ys) \<Longrightarrow> (\<And>y. y \<in> set ys \<Longrightarrow> f a = f y \<Longrightarrow> R a y)
      \<Longrightarrow> sorted_wrt R (insort_key f a ys)" for ys
  proof (induction ys)
    case (Cons y ys)
    show ?case
    proof (cases "f a \<le> f y")
      case True
      have "R a z" if "z \<in> set (y # ys)" for z
      proof (cases "f a = f z")
        case False
        have "f y \<le> f z" using Cons.prems(2) that by auto
        then show ?thesis using False True \<open>\<And>x y. f x < f y \<Longrightarrow> R x y\<close> by fastforce
      qed (use Cons.prems(3) that in blast)
      then show ?thesis using True Cons.prems(1) by simp
    next
      case False
      then have "R y a" using \<open>\<And>x y. f x < f y \<Longrightarrow> R x y\<close> by simp
      then show ?thesis using False Cons by (simp add: set_insort_key)
    qed
  qed simp
  show ?case
    using Cons ins [of "sort_key f xs"] by simp
qed simp

lemma sorted_routes_sorted: "sorted_wrt precedes (sorted_routes cat)"
proof -
  have "sorted_wrt (\<lambda>r r'. length_rank r \<le> length_rank r') (sort_key length_rank cat)"
    using sorted_sort_key [of length_rank cat] by (simp add: sorted_map)
  then show ?thesis
    unfolding sorted_routes_def
    by (rule sorted_wrt_sort_key) (auto simp: precedes_def length_rank_def)
qed

lemma find_sorted:
  "sorted_wrt R xs \<Longrightarrow> List.find P xs = Some x \<Longrightarrow> y \<in> set xs \<Longrightarrow> P y \<Longrightarrow> x = y \<or> R x y"
  by (induction xs) (auto split: if_splits)

lemma set_sorted_routes [simp]: "set (sorted_routes cat) = set cat"
  by (simp add: sorted_routes_def)

text \<open>C19: The lookup is complete and picks the most specific rule: a path is known exactly if some
  rule of the catalogue matches it; the rule chosen matches and precedes every other matching rule,
  so an exact or parameterised pattern always wins over a wildcard, and a longer
  pattern over a shorter one of the same kind.\<close>

theorem most_specific_rule_wins:
  "(path_known (validate_route cat path meth) \<longleftrightarrow> (\<exists>r \<in> set cat. rule_matches r path))
   \<and> (\<forall>r. matching_rule (validate_route cat path meth) = Some r \<longrightarrow>
        r \<in> set cat \<and> rule_matches r path
        \<and> (\<forall>r' \<in> set cat. rule_matches r' path \<longrightarrow> r = r' \<or> precedes r r'))"
proof -
  let ?P = "\<lambda>r. rule_matches r path"
  show ?thesis
  proof (cases "List.find ?P (sorted_routes cat)")
    case None
    have "\<forall>r \<in> set cat. \<not> rule_matches r path"
      using None unfolding find_None_iff by auto
    then show ?thesis using None by (simp add: validate_route_def)
  next
    case (Some r)
    then have "r \<in> set cat" "rule_matches r path"
      by (auto simp: find_Some_iff) (metis nth_mem set_sorted_routes)
    then show ?thesis
      using Some find_sorted [OF sorted_routes_sorted Some] by (auto simp: validate_route_def)
  qed
qed

text \<open>Registering a route keeps one rule per pattern.\<close>

lemma add_route_distinct:
  "distinct (map raw_pattern cat) \<Longrightarrow> distinct (map raw_pattern (add_route p ms auth rs cat))"
  by (induction cat) (auto simp: add_route_def mk_rule_def)

section \<open>The shipped catalogue\<close>

definition shipped_yaml :: "route_cfg list" where
  "shipped_yaml =
    [\<lparr>cfg_path = Some ''/'', cfg_methods = Some [''GET''], cfg_auth = Some False, cfg_roles = Some []\<rparr>,
     \<lparr>cfg_path = Some ''/*'', cfg_methods = Some [''GET''], cfg_auth = Some False, cfg_roles = Some []\<rparr>,
     \<lparr>cfg_path = Some ''/sap/opu/odata/*'', cfg_methods = Some [''GET'', ''POST'', ''PUT'', ''PATCH''],
      cfg_auth = Some True, cfg_roles = Some [''sales'', ''finance'', ''admin'']\<rparr>,
     \<lparr>cfg_path = Some ''/services/rest/record/v1/*'', cfg_methods = Some [''GET'', ''POST'', ''PATCH''],
      cfg_auth = Some True, cfg_roles = Some [''sales'', ''manager'', ''admin'']\<rparr>,
     \<lparr>cfg_path = Some ''/api/data/v9.2/*'', cfg_methods = Some [''GET'', ''POST'', ''PATCH'', ''DELETE''],
      cfg_auth = Some True, cfg_roles = Some [''sales'', ''manager'', ''admin'']\<rparr>]"

definition shipped_catalogue :: catalogue where
  "shipped_catalogue = allowlist_init (Some (Some shipped_yaml))"

lemma catch_all_in_catalogue: "mk_rule ''/*'' [''GET''] False [] \<in> set shipped_catalogue"
  by (simp add: shipped_catalogue_def allowlist_init_def load_from_yaml_def shipped_yaml_def
      add_route_def) (simp add: mk_rule_def)

lemma catch_all_matches:
  assumes "path = CHR ''/'' # r" "newline \<notin> set r"
  shows "rule_matches (mk_rule ''/*'' [''GET''] False []) path"
proof -
  have "newline \<notin> set (butlast r)" using assms(2) by (meson in_set_butlastD)
  then show ?thesis
    using assms
    by (simp add: rule_matches_def mk_rule_def compile_def is_wildcard_def endswith_def
        startswith_def match_rest_def)
qed

text \<open>With the shipped \<open>routes.yaml\<close> the catalogue is not an allowlist of paths: its wildcard rule
  makes every path that starts with a slash known, so the gateway's answer 404 is out of
  reach for them.\<close>

theorem shipped_catalogue_knows_every_path:
  assumes "newline \<notin> set r"
  shows "path_known (validate_route shipped_catalogue (CHR ''/'' # r) meth)"
proof -
  have "List.find (\<lambda>x. rule_matches x (CHR ''/'' # r)) (sorted_routes shipped_catalogue) \<noteq> None"
    using catch_all_in_catalogue catch_all_matches [OF refl assms] by (auto simp: find_None_iff)
  then show ?thesis by (auto simp: validate_route_def)
qed

theorem shipped_catalogue_knows_every_path_witness:
  "path_known (validate_route shipped_catalogue ''/admin/secret'' ''GET'')"
  using shipped_catalogue_knows_every_path [of "''admin/secret''" "''GET''"] by (simp add: newline_def) code_simp

definition small_catalogue :: catalogue where
  "small_catalogue = [mk_rule ''/*'' [''GET''] False [], mk_rule ''/api/orders/{id}'' [''GET''] True []]"

theorem most_specific_rule_wins_witness:
  "path_known (validate_route small_catalogue ''/api/orders/7'' ''GET'')"
proof -
  have "\<exists>r \<in> set small_catalogue. rule_matches r ''/api/orders/7''"
    by code_simp
  then show ?thesis
    using most_specific_rule_wins [of small_catalogue "''/api/orders/7''" "''GET''"] by blast
qed

text \<open>Examples of the pattern language, the unescaped dot and the final newline among them.\<close>

lemma pattern_examples:
  "regex_match (compile ''/api/orders/{id}'') ''/api/orders/101''"
  "\<not> regex_match (compile ''/api/orders/{id}'') ''/api/orders/101/items''"
  "\<not> regex_match (compile ''/api/orders/{id}'') ''/api/orders/''"
  "regex_match (compile ''/openapi.json'') ''/openapiXjson''"
  "regex_match (compile ''/sap/*'') ''/sap''"
  "\<not> regex_match (compile ''/sap/*'') ''/sapphire''"
  by code_simp+

end
