(* ===== verification/Regex_Search.thy ===== *)
theory Regex_Search
  imports Prelude
begin

text \<open>
  The part of Python's \<open>re\<close> the gateway's detectors use: character classes, sequence,
  alternative, repetition and the word boundary, searched anywhere in a text.  None of
  the patterns has groups that are read back, so only the existence of a match matters and
  the order in which \<open>re\<close> explores alternatives does not.  \<open>ends\<close> computes the end positions
  of the matches that start at a position; \<open>matches\<close> is the declarative relation, and
  \<open>ends_iff\<close> shows that they agree.
\<close>

section \<open>Patterns\<close>

datatype pat =
    Eps
  | Cls "char \<Rightarrow> bool"
  | Seq pat pat
  | Alt pat pat
  | Star pat
  | Boundary

text \<open>\<open>str.isalnum\<close> or underscore on the 8-bit characters.\<close>

definition word_chr :: "char \<Rightarrow> bool" where
  "word_chr c = (let n = (of_char c :: nat) in
     (48 \<le> n \<and> n \<le> 57) \<or> (65 \<le> n \<and> n \<le> 90) \<or> n = 95 \<or> (97 \<le> n \<and> n \<le> 122)
     \<or> n \<in> {170, 178, 179, 181, 185, 186, 188, 189, 190}
     \<or> (192 \<le> n \<and> n \<noteq> 215 \<and> n \<noteq> 247))"

definition word_at :: "string \<Rightarrow> nat \<Rightarrow> bool" where
  "word_at s i = (i < length s \<and> word_chr (s ! i))"

definition at_boundary :: "string \<Rightarrow> nat \<Rightarrow> bool" where
  "at_boundary s i = ((0 < i \<and> word_at s (i - 1)) \<noteq> word_at s i)"

fun star_ends :: "nat \<Rightarrow> (nat \<Rightarrow> nat list) \<Rightarrow> nat \<Rightarrow> nat list" where
  "star_ends 0 f i = [i]"
| "star_ends (Suc n) f i = remdups (i # concat (map (star_ends n f) (filter (\<lambda>j. i < j) (f i))))"

fun ends :: "pat \<Rightarrow> string \<Rightarrow> nat \<Rightarrow> nat list" where
  "ends Eps s i = [i]"
| "ends (Cls P) s i = (if i < length s \<and> P (s ! i) then [Suc i] else [])"
| "ends (Seq a b) s i = remdups (concat (map (ends b s) (ends a s i)))"
| "ends (Alt a b) s i = remdups (ends a s i @ ends b s i)"
| "ends (Star a) s i = star_ends (length s - i) (ends a s) i"
| "ends Boundary s i = (if at_boundary s i then [i] else [])"

definition search_pat :: "pat \<Rightarrow> string \<Rightarrow> bool" where
  "search_pat p s = list_ex (\<lambda>i. ends p s i \<noteq> []) [0 ..< Suc (length s)]"

section \<open>The relation the matcher computes\<close>

inductive matches :: "string \<Rightarrow> pat \<Rightarrow> nat \<Rightarrow> nat \<Rightarrow> bool" for s where
  m_eps: "matches s Eps i i" for i
| m_cls: "i < length s \<Longrightarrow> P (s ! i) \<Longrightarrow> matches s (Cls P) i (Suc i)" for i P
| m_seq: "matches s a i j \<Longrightarrow> matches s b j k \<Longrightarrow> matches s (Seq a b) i k" for i j k a b
| m_alt1: "matches s a i j \<Longrightarrow> matches s (Alt a b) i j" for i j a b
| m_alt2: "matches s b i j \<Longrightarrow> matches s (Alt a b) i j" for i j a b
| m_star0: "matches s (Star a) i i" for i a
| m_star1: "matches s a i j \<Longrightarrow> matches s (Star a) j k \<Longrightarrow> matches s (Star a) i k" for i j k a
| m_bound: "at_boundary s i \<Longrightarrow> matches s Boundary i i" for i

inductive_simps matches_simps [simp]:
  "matches s Eps i j" "matches s (Cls P) i j" "matches s (Seq a b) i j"
  "matches s (Alt a b) i j" "matches s Boundary i j"

lemma matches_range: "matches s p i j \<Longrightarrow> i \<le> length s \<Longrightarrow> i \<le> j \<and> j \<le> length s"
  by (induction rule: matches.induct) auto

lemma star_ends_complete:
  assumes "\<And>i j. i \<le> length s \<Longrightarrow> matches s a i j \<Longrightarrow> j \<in> set (f i)"
  shows "matches s q i j \<Longrightarrow> q = Star a \<Longrightarrow> i \<le> length s \<Longrightarrow> length s - i \<le> n \<Longrightarrow>
    j \<in> set (star_ends n f i)"
proof (induction arbitrary: n rule: matches.induct)
  case (m_star0 i a')
  then show ?case by (cases n) auto
next
  case (m_star1 i j k a')
  have r: "i \<le> j" "j \<le> length s"
    using matches_range [OF m_star1.hyps(1)] m_star1.prems by auto
  show ?case
  proof (cases "i < j")
    case True
    with r m_star1.prems obtain m where n: "n = Suc m" "length s - j \<le> m"
      by (cases n) auto
    have "k \<in> set (star_ends m f j)"
      using m_star1.IH(2) m_star1.prems r n by blast
    moreover have "j \<in> set (f i)" using assms m_star1.hyps(1) m_star1.prems by blast
    ultimately show ?thesis using True n by auto
  next
    case False
    with r have "i = j" by simp
    then show ?thesis using m_star1.IH(2) m_star1.prems by blast
  qed
qed simp_all

theorem ends_iff: "i \<le> length s \<Longrightarrow> j \<in> set (ends p s i) \<longleftrightarrow> matches s p i j"
proof (induction p arbitrary: i j)
  case (Seq a b)
  have "j \<in> set (ends (Seq a b) s i) \<longleftrightarrow> (\<exists>m. m \<in> set (ends a s i) \<and> j \<in> set (ends b s m))"
    by auto
  also have "\<dots> \<longleftrightarrow> (\<exists>m. matches s a i m \<and> matches s b m j)"
    using Seq matches_range by blast
  finally show ?case by simp
next
  case (Star a)
  have snd: "j \<in> set (star_ends n (ends a s) i) \<Longrightarrow> i \<le> length s \<Longrightarrow> matches s (Star a) i j" for n i j
  proof (induction n arbitrary: i)
    case 0
    then show ?case by (simp add: m_star0)
  next
    case (Suc n)
    then consider "j = i" | x where "x \<in> set (ends a s i)" "j \<in> set (star_ends n (ends a s) x)"
      by (auto simp del: remdups.simps)
    then show ?case
    proof cases
      case 2
      then have "matches s a i x" using Star.IH Suc.prems by blast
      with 2 show ?thesis using Suc matches_range m_star1 by blast
    qed (simp add: m_star0)
  qed
  show ?case
    using snd Star.prems star_ends_complete [of s a "ends a s" "Star a" i j "length s - i"] Star.IH
    by auto
qed auto

lemma search_pat_iff: "search_pat p s \<longleftrightarrow> (\<exists>i j. i \<le> length s \<and> matches s p i j)"
proof -
  have "search_pat p s \<longleftrightarrow> (\<exists>i \<le> length s. \<exists>j. j \<in> set (ends p s i))"
    by (auto simp add: search_pat_def list_ex_iff Bex_def less_Suc_eq_le ex_in_conv simp del: upt_Suc)
  also have "\<dots> \<longleftrightarrow> (\<exists>i j. i \<le> length s \<and> matches s p i j)"
    using ends_iff by blast
  finally show ?thesis .
qed

section \<open>Building patterns\<close>

definition ch :: "char \<Rightarrow> pat" where
  "ch c = Cls (\<lambda>d. d = c)"

definition chi :: "char \<Rightarrow> pat" where
  "chi c = Cls (\<lambda>d. ascii_lower d = ascii_lower c)"

definition seqs :: "pat list \<Rightarrow> pat" where
  "seqs ps = foldr Seq ps Eps"

fun alts :: "pat list \<Rightarrow> pat" where
  "alts [] = Cls (\<lambda>_. False)"
| "alts [p] = p"
| "alts (p # ps) = Alt p (alts ps)"

definition lit :: "string \<Rightarrow> pat" where
  "lit s = seqs (map ch s)"

definition liti :: "string \<Rightarrow> pat" where
  "liti s = seqs (map chi s)"

definition plus :: "pat \<Rightarrow> pat" where
  "plus p = Seq p (Star p)"

definition opt :: "pat \<Rightarrow> pat" where
  "opt p = Alt Eps p"

definition spaces :: pat where "spaces = Star (Cls py_space)"
definition spaces1 :: pat where "spaces1 = plus (Cls py_space)"
definition digits1 :: pat where "digits1 = plus (Cls is_digit)"

definition word_i :: "string \<Rightarrow> pat" where
  "word_i w = seqs [Boundary, liti w, Boundary]"

lemma matches_alts: "matches s (alts ps) i j \<longleftrightarrow> (\<exists>p \<in> set ps. matches s p i j)"
  by (induction ps rule: alts.induct) auto

lemma matches_seqs_Cons [simp]:
  "matches s (seqs (p # ps)) i k \<longleftrightarrow> (\<exists>j. matches s p i j \<and> matches s (seqs ps) j k)"
  by (simp add: seqs_def)

lemma matches_seqs_Nil [simp]: "matches s (seqs []) i k \<longleftrightarrow> i = k"
  by (auto simp: seqs_def)

lemma matches_lit: "matches s (lit w) i j \<longleftrightarrow> j = i + length w \<and> (i + length w \<le> length s \<or> w = []) \<and>
    take (length w) (drop i s) = w"
proof (induction w arbitrary: i)
  case (Cons c w)
  have "matches s (lit (c # w)) i j \<longleftrightarrow> i < length s \<and> s ! i = c \<and> matches s (lit w) (Suc i) j"
    by (auto simp: lit_def ch_def)
  also have "\<dots> \<longleftrightarrow> j = i + length (c # w) \<and> i + length (c # w) \<le> length s
      \<and> take (length (c # w)) (drop i s) = c # w"
  proof (cases "i < length s")
    case True
    then have "drop i s = s ! i # drop (Suc i) s" by (simp add: Cons_nth_drop_Suc)
    with True Cons show ?thesis by auto
  qed simp
  finally show ?case by simp
qed (auto simp: lit_def)

lemma search_lit: "search_pat (lit w) s \<longleftrightarrow> contains_sub s w"
proof
  assume "search_pat (lit w) s"
  then obtain i where "take (length w) (drop i s) = w"
    by (auto simp: search_pat_iff matches_lit)
  then have "s = take i s @ w @ drop (length w) (drop i s)"
    by (metis append_take_drop_id)
  then show "contains_sub s w" unfolding contains_sub_iff by blast
next
  assume "contains_sub s w"
  then obtain a b where s: "s = a @ w @ b" by (auto simp: contains_sub_iff)
  have "matches s (lit w) (length a) (length a + length w)"
    unfolding matches_lit by (simp add: s)
  then show "search_pat (lit w) s" unfolding search_pat_iff by (metis le_add1 length_append s)
qed

lemma search_alts: "search_pat (alts ps) s \<longleftrightarrow> (\<exists>p \<in> set ps. search_pat p s)"
  by (auto simp: search_pat_iff matches_alts)

section \<open>Substitution\<close>

text \<open>\<open>re.sub\<close> for patterns whose preferred match is the longest one that starts at a position, which
  holds for those the gateway substitutes: scan from the left, replace a match and
  continue behind it.\<close>

definition longest_match :: "pat \<Rightarrow> string \<Rightarrow> nat \<Rightarrow> nat option" where
  "longest_match p s i = (case filter (\<lambda>j. i < j) (ends p s i) of
       [] \<Rightarrow> None | j # js \<Rightarrow> Some (fold max js j))"

fun sub_from :: "nat \<Rightarrow> pat \<Rightarrow> string \<Rightarrow> string \<Rightarrow> nat \<Rightarrow> string" where
  "sub_from 0 p rep s i = drop i s"
| "sub_from (Suc n) p rep s i =
     (if length s \<le> i then []
      else (case longest_match p s i of
          Some j \<Rightarrow> rep @ sub_from n p rep s j
        | None \<Rightarrow> s ! i # sub_from n p rep s (Suc i)))"

definition sub_pat :: "pat \<Rightarrow> string \<Rightarrow> string \<Rightarrow> string" where
  "sub_pat p rep s = sub_from (length s) p rep s 0"

lemma sub_pat_no_match: "\<not> search_pat p s \<Longrightarrow> sub_pat p rep s = s"
proof -
  assume no: "\<not> search_pat p s"
  have "longest_match p s i = None" if "i \<le> length s" for i
  proof -
    have "ends p s i = []" using no that by (auto simp: search_pat_def list_ex_iff simp del: upt_Suc)
    then show ?thesis by (simp add: longest_match_def)
  qed
  then have "length s - i \<le> n \<Longrightarrow> i \<le> length s \<Longrightarrow> sub_from n p rep s i = drop i s" for n i
    by (induction n arbitrary: i) (auto simp: Cons_nth_drop_Suc)
  then show ?thesis by (simp add: sub_pat_def)
qed

text \<open>\<open>p{lo,hi}\<close>.\<close>

definition repeat_pat :: "nat \<Rightarrow> nat \<Rightarrow> pat \<Rightarrow> pat" where
  "repeat_pat lo hi p = seqs (replicate lo p @ replicate (hi - lo) (opt p))"

end
