(* ===== verification/Waf.thy ===== *)
theory Waf
  imports Regex_Search
begin

text \<open>
  The web application firewall, \<open>src/gateway/waf.py\<close>: the literal and regular-expression
  signatures for SQL injection, cross-site scripting and path traversal, the normalised
  variants of a text (percent-decoding once and twice, \<open>\u\<close> and \<open>\x\<close> escapes), the inspection
  of a text and of every key and string of a JSON payload.

  \<open>json.loads\<close> is the parameter \<open>loads\<close>.  Code points above 255 are outside the character type;
  decoding one yields the stand-in character 255, a letter as most of them are, and the
  replacement character U+FFFD is 191, which is not a word character.
\<close>

section \<open>Signatures\<close>

definition sq :: string where "sq = [CHR 0x27]"
definition dq :: string where "dq = [CHR 0x22]"
definition bs :: string where "bs = [CHR 0x5C]"

definition quote_opt :: pat where
  "quote_opt = opt (Cls (\<lambda>c. c = CHR 0x27 \<or> c = CHR 0x22))"

definition not_gt :: pat where "not_gt = Cls (\<lambda>c. c \<noteq> CHR ''>'')"
definition any_chr :: pat where "any_chr = Cls (\<lambda>c. c \<noteq> CHR 0x0A)"
definition word1 :: pat where "word1 = plus (Cls word_chr)"

definition sqli_patterns :: "pat list" where
  "sqli_patterns =
    [alts [lit ''%27'', lit sq, lit ''--'', lit ''%23'', lit ''#''],
     seqs [Boundary, alts [liti ''OR'', liti ''AND''], Boundary, spaces1, quote_opt, digits1,
           quote_opt, spaces, lit ''='', spaces, quote_opt, digits1],
     seqs [word_i ''UNION'', spaces1, opt (seqs [word_i ''ALL'', spaces1]), word_i ''SELECT''],
     seqs [Boundary, alts [liti ''DROP'', liti ''ALTER'', liti ''TRUNCATE''], Boundary, spaces1,
           word_i ''TABLE''],
     seqs [word_i ''DELETE'', spaces1, word_i ''FROM''],
     seqs [word_i ''INSERT'', spaces1, word_i ''INTO''],
     seqs [Boundary, liti ''EXEC'', plus (alts [Cls py_space, lit ''+'']),
           alts [liti ''s'', liti ''x''], liti ''p'', word1],
     seqs [Boundary, alts [liti ''BENCHMARK'', liti ''SLEEP'',
             seqs [liti ''WAITFOR'', spaces1, liti ''DELAY'']], Boundary]]"

definition sqli_substrings :: "string list" where
  "sqli_substrings =
    [sq @ '' or '' @ sq @ ''1'' @ sq @ ''='' @ sq @ ''1'', sq @ '' or 1=1'',
     dq @ '' or '' @ dq @ ''1'' @ dq @ ''='' @ dq @ ''1'', dq @ '' or 1=1'',
     ''union select'', ''drop table'', ''delete from'', ''insert into'', ''--'', ''/*'']"

definition xss_patterns :: "pat list" where
  "xss_patterns =
    [seqs [lit ''<'', spaces, liti ''script'', Star not_gt, lit ''>''],
     seqs [liti ''javascript'', spaces, lit '':''],
     seqs [liti ''on'', alts (map liti [''error'', ''load'', ''click'', ''mouseover'', ''focus'', ''blur'']),
           spaces, lit ''=''],
     seqs [lit ''<'', spaces, liti ''iframe'', Star not_gt, lit ''>''],
     seqs [lit ''<'', spaces, liti ''img'', plus not_gt, liti ''src='', Star not_gt, liti ''onerror=''],
     seqs [liti ''eval'', spaces, lit ''('', Star any_chr, lit '')'']]"

definition xss_substrings :: "string list" where
  "xss_substrings = [''<script'', ''</script>'', ''javascript:'', ''onerror='', ''onload='', ''<iframe'']"

definition path_patterns :: "pat list" where
  "path_patterns =
    [lit ''../'', lit (''..'' @ bs), liti ''%2e%2e'',
     alts (map liti [''/etc/passwd'', ''/etc/shadow'', ''/proc/self'', ''/windows/system32'', ''cmd.exe''])]"

section \<open>Normalised variants\<close>

definition stand_in :: char where "stand_in = CHR 0xFF"
definition replacement :: char where "replacement = CHR 0xBF"

definition chr_code :: "int \<Rightarrow> char" where
  "chr_code n = (if n < 256 then char_of (nat n) else stand_in)"

text \<open>The tokens of \<open>unquote_to_bytes\<close>: a byte of an ASCII run, or a character outside ASCII.\<close>

fun pct_tokens :: "string \<Rightarrow> (int + char) list" where
  "pct_tokens [] = []"
| "pct_tokens (c # s) =
     (if 128 \<le> (of_char c :: int) then Inr c # pct_tokens s
      else if c = CHR ''%'' then
        (case s of
           a # b # r \<Rightarrow> (case (hex_val a, hex_val b) of
               (Some x, Some y) \<Rightarrow> Inl (16 * x + y) # pct_tokens r
             | _ \<Rightarrow> Inl 37 # pct_tokens s)
         | _ \<Rightarrow> Inl 37 # pct_tokens s)
      else Inl (of_char c) # pct_tokens s)"

text \<open>UTF-8 decoding with \<open>errors='replace'\<close>: the lead byte announces the number of
  continuation bytes and the range of the first; a broken sequence yields one
  replacement character for its longest valid prefix.\<close>

definition utf8_lead :: "int \<Rightarrow> (nat \<times> int \<times> int) option" where
  "utf8_lead b =
     (if 0xC2 \<le> b \<and> b \<le> 0xDF then Some (1, 0x80, 0xBF)
      else if b = 0xE0 then Some (2, 0xA0, 0xBF)
      else if b = 0xED then Some (2, 0x80, 0x9F)
      else if 0xE1 \<le> b \<and> b \<le> 0xEF then Some (2, 0x80, 0xBF)
      else if b = 0xF0 then Some (3, 0x90, 0xBF)
      else if b = 0xF4 then Some (3, 0x80, 0x8F)
      else if 0xF1 \<le> b \<and> b \<le> 0xF3 then Some (3, 0x80, 0xBF)
      else None)"

fun utf8_conts :: "int \<Rightarrow> int \<Rightarrow> nat \<Rightarrow> (int + char) list \<Rightarrow> nat" where
  "utf8_conts lo hi (Suc n) (Inl c # ts) =
     (if lo \<le> c \<and> c \<le> hi then Suc (utf8_conts 0x80 0xBF n ts) else 0)"
| "utf8_conts lo hi n ts = 0"

definition utf8_char :: "int \<Rightarrow> nat \<Rightarrow> (int + char) list \<Rightarrow> char" where
  "utf8_char b n ts = (case ts of
       Inl c # _ \<Rightarrow> if n = 1 then chr_code ((b - 0xC0) * 64 + (c - 0x80)) else stand_in
     | _ \<Rightarrow> stand_in)"

fun utf8_decode :: "(int + char) list \<Rightarrow> string" where
  "utf8_decode [] = []"
| "utf8_decode (Inr c # ts) = c # utf8_decode ts"
| "utf8_decode (Inl b # ts) =
     (if b < 128 then char_of (nat b) # utf8_decode ts
      else (case utf8_lead b of
          None \<Rightarrow> replacement # utf8_decode ts
        | Some (n, lo, hi) \<Rightarrow>
            let k = utf8_conts lo hi n ts
            in (if k = n then utf8_char b n ts else replacement) # utf8_decode (drop k ts)))"

definition unquote :: "string \<Rightarrow> string" where
  "unquote s = utf8_decode (pct_tokens s)"

definition all_hex :: "string \<Rightarrow> bool" where
  "all_hex s = list_all (\<lambda>c. hex_val c \<noteq> None) s"

definition hex_number :: "string \<Rightarrow> int" where
  "hex_number s = (case hex_digits 0 s of Some v \<Rightarrow> v | None \<Rightarrow> 0)"

text \<open>\<open>re.sub\<close> of a backslash, the letter \<open>m\<close> and \<open>n\<close> hexadecimal digits.\<close>

function unescape :: "char \<Rightarrow> nat \<Rightarrow> string \<Rightarrow> string" where
  "unescape m n s =
     (case s of
        [] \<Rightarrow> []
      | c # r \<Rightarrow>
          if c = CHR 0x5C \<and> startswith r [m] \<and> length (take n (tl r)) = n \<and> all_hex (take n (tl r))
          then chr_code (hex_number (take n (tl r))) # unescape m n (drop n (tl r))
          else c # unescape m n r)"
  by pat_completeness auto
termination
  by (relation "measure (\<lambda>(m, n, s). length s)") auto

declare unescape.simps [simp del]

definition unescape_unicode_and_hex :: "string \<Rightarrow> string" where
  "unescape_unicode_and_hex s = unescape (CHR ''x'') 2 (unescape (CHR ''u'') 4 s)"

definition add_variant :: "string list \<Rightarrow> string \<Rightarrow> string list" where
  "add_variant vs text =
     (let un = unescape_unicode_and_hex text; dec = unquote un
      in if un \<in> set vs then vs
         else if dec \<in> set (vs @ [un]) then vs @ [un] else vs @ [un, dec])"

definition url_variants :: "string \<Rightarrow> string list" where
  "url_variants content =
     (let decoded = unquote content; double = unquote decoded
      in content # (if decoded \<noteq> content
                    then decoded # (if double \<noteq> decoded then [double] else []) else []))"

definition variants :: "string \<Rightarrow> string list" where
  "variants content = foldl add_variant (url_variants content) (url_variants content)"

section \<open>Inspection\<close>

datatype waf_reason =
    SqlLiteral string
  | SqlRegex nat
  | XssLiteral string
  | XssRegex nat
  | PathTraversal

type_synonym waf_result = "bool \<times> waf_reason list \<times> int"

definition first_literal :: "string list \<Rightarrow> string \<Rightarrow> string option" where
  "first_literal subs v = List.find (contains_sub (lower v)) subs"

definition first_pattern :: "pat list \<Rightarrow> string \<Rightarrow> nat option" where
  "first_pattern pats v = List.find (\<lambda>i. search_pat (pats ! i) v) [0 ..< length pats]"

text \<open>One detection loop over the variants: record the first signature of a variant, raise the
  score to \<open>sc\<close>, leave the loop once the score has reached \<open>bound\<close>.\<close>

fun sweep :: "(string \<Rightarrow> waf_reason option) \<Rightarrow> int \<Rightarrow> int \<Rightarrow> string list
    \<Rightarrow> waf_reason list \<times> int \<Rightarrow> waf_reason list \<times> int" where
  "sweep f sc bound [] acc = acc"
| "sweep f sc bound (v # vs) (rs, t) =
     (let acc' = (case f v of None \<Rightarrow> (rs, t) | Some r \<Rightarrow> (rs @ [r], max t sc))
      in if bound \<le> snd acc' then acc' else sweep f sc bound vs acc')"

definition sql_lit :: "string \<Rightarrow> waf_reason option" where
  "sql_lit v = map_option SqlLiteral (first_literal sqli_substrings v)"

definition sql_re :: "string \<Rightarrow> waf_reason option" where
  "sql_re v = map_option SqlRegex (first_pattern sqli_patterns v)"

definition xss_lit :: "string \<Rightarrow> waf_reason option" where
  "xss_lit v = map_option XssLiteral (first_literal xss_substrings v)"

definition xss_re :: "string \<Rightarrow> waf_reason option" where
  "xss_re v = map_option XssRegex (first_pattern xss_patterns v)"

definition path_re :: "string \<Rightarrow> waf_reason option" where
  "path_re v = map_option (\<lambda>_. PathTraversal) (first_pattern path_patterns v)"

definition inspect_text :: "string list \<Rightarrow> waf_reason list \<times> int" where
  "inspect_text vs =
     (let a1 = sweep sql_lit 95 95 vs ([], 0);
          a2 = (if snd a1 < 90 then sweep sql_re 90 90 vs a1 else a1);
          a3 = sweep xss_lit 90 90 vs a2;
          a4 = (if snd a3 < 85 then sweep xss_re 85 85 vs a3 else a3)
      in sweep path_re 95 95 vs a4)"

text \<open>\<open>list(dict.fromkeys(rs))\<close>: the first occurrence of every reason.\<close>

definition dedup :: "'a list \<Rightarrow> 'a list" where
  "dedup rs = rev (remdups (rev rs))"

definition verdict_of :: "waf_reason list \<times> int \<Rightarrow> waf_result" where
  "verdict_of acc = (dedup (fst acc) \<noteq> [], dedup (fst acc), min 100 (snd acc))"

text \<open>\<open>inspect_content(s, _recurse_json=False)\<close>.\<close>

definition inspect_flat :: "string \<Rightarrow> waf_result" where
  "inspect_flat s = (if s = [] then (False, [], 0) else verdict_of (inspect_text (variants s)))"

definition absorb :: "waf_result \<Rightarrow> waf_reason list \<times> int \<Rightarrow> waf_reason list \<times> int" where
  "absorb res acc = (case res of (att, r, sc) \<Rightarrow>
     if att then (fst acc @ r, max (snd acc) sc) else acc)"

fun traverse :: "json \<Rightarrow> waf_reason list \<times> int \<Rightarrow> waf_reason list \<times> int" where
  "traverse (JStr s) acc = absorb (inspect_flat s) acc"
| "traverse (JList xs) acc = fold traverse xs acc"
| "traverse (JObj kvs) acc = fold (\<lambda>(k, v) a. traverse v (absorb (inspect_flat k) a)) kvs acc"
| "traverse _ acc = acc"

definition inspect_payload :: "json \<Rightarrow> waf_result" where
  "inspect_payload p = (if p = JNull then (False, [], 0) else verdict_of (traverse p ([], 0)))"

definition inspect_content :: "(string \<Rightarrow> json option) \<Rightarrow> string \<Rightarrow> waf_result" where
  "inspect_content loads s =
     (if s = [] then (False, [], 0)
      else let acc = inspect_text (variants s); stripped = strip s
           in verdict_of
                (if startswith stripped ''{'' \<or> startswith stripped ''[''
                 then (case loads stripped of
                     None \<Rightarrow> acc
                   | Some j \<Rightarrow> absorb (inspect_payload j) acc)
                 else acc))"

section \<open>The detection loops\<close>

lemma dedup_Nil [simp]: "dedup rs = [] \<longleftrightarrow> rs = []"
  by (simp add: dedup_def)

lemma set_dedup [simp]: "set (dedup rs) = set rs"
  by (simp add: dedup_def)

lemma distinct_dedup [simp]: "distinct (dedup rs)"
  by (simp add: dedup_def)

lemma sweep_keeps: "fst acc \<noteq> [] \<Longrightarrow> fst (sweep f sc b vs acc) \<noteq> []"
  by (induction f sc b vs acc rule: sweep.induct) (auto simp: Let_def split: option.splits)

lemma sweep_found:
  "fst acc = [] \<longrightarrow> snd acc < b \<Longrightarrow>
    fst (sweep f sc b vs acc) \<noteq> [] \<longleftrightarrow> fst acc \<noteq> [] \<or> (\<exists>v \<in> set vs. f v \<noteq> None)"
proof (induction f sc b vs acc rule: sweep.induct)
  case (2 f sc b v vs rs t)
  then show ?case
    using sweep_keeps [of "(rs, t)" f sc b vs]
    by (cases "f v") (auto simp: Let_def intro!: sweep_keeps)
qed simp

text \<open>A score belongs to its reasons: 0 without a reason, one of the three levels with one.\<close>

definition scored :: "waf_reason list \<times> int \<Rightarrow> bool" where
  "scored acc \<longleftrightarrow> (if fst acc = [] then snd acc = 0 else snd acc \<in> {85, 90, 95})"

lemma sweep_scored:
  "scored acc \<Longrightarrow> sc \<in> {85, 90, 95} \<Longrightarrow> scored (sweep f sc b vs acc)"
proof (induction f sc b vs acc rule: sweep.induct)
  case (2 f sc b v vs rs t)
  have "scored (rs @ [r], max t sc)" for r
    using 2 by (auto simp: scored_def split: if_splits)
  with 2 show ?case by (cases "f v") (auto simp: Let_def)
qed simp

lemma scored_Nil [simp]: "scored ([], 0)"
  by (simp add: scored_def)

text \<open>A text is suspicious when some signature matches it.\<close>

definition suspicious :: "string \<Rightarrow> bool" where
  "suspicious v \<longleftrightarrow> sql_lit v \<noteq> None \<or> sql_re v \<noteq> None \<or> xss_lit v \<noteq> None \<or> xss_re v \<noteq> None
     \<or> path_re v \<noteq> None"

lemma inspect_text_sound:
  "scored (inspect_text vs) \<and> (fst (inspect_text vs) \<noteq> [] \<longleftrightarrow> (\<exists>v \<in> set vs. suspicious v))"
proof -
  define a1 where "a1 = sweep sql_lit 95 95 vs ([], 0)"
  define a2 where "a2 = (if snd a1 < 90 then sweep sql_re 90 90 vs a1 else a1)"
  define a3 where "a3 = sweep xss_lit 90 90 vs a2"
  define a4 where "a4 = (if snd a3 < 85 then sweep xss_re 85 85 vs a3 else a3)"
  define a5 where "a5 = sweep path_re 95 95 vs a4"
  note defs = a1_def a2_def a3_def a4_def a5_def
  have it: "inspect_text vs = a5" by (simp add: inspect_text_def defs Let_def)
  have low: "scored a \<Longrightarrow> fst a = [] \<longrightarrow> snd a < 85" for a by (simp add: scored_def)
  have high: "scored a \<Longrightarrow> 85 \<le> snd a \<Longrightarrow> fst a \<noteq> []" for a by (auto simp: scored_def)
  have s1: "scored a1" unfolding a1_def by (rule sweep_scored) simp_all
  have s2: "scored a2" unfolding a2_def using sweep_scored [OF s1] s1 by simp
  have s3: "scored a3" unfolding a3_def using sweep_scored [OF s2] by simp
  have s4: "scored a4" unfolding a4_def using sweep_scored [OF s3] s3 by simp
  have s5: "scored a5" unfolding a5_def using sweep_scored [OF s4] by simp
  have f1: "fst a1 \<noteq> [] \<longleftrightarrow> (\<exists>v \<in> set vs. sql_lit v \<noteq> None)"
    unfolding a1_def by (subst sweep_found) simp_all
  have f2: "fst a2 \<noteq> [] \<longleftrightarrow> fst a1 \<noteq> [] \<or> (\<exists>v \<in> set vs. sql_re v \<noteq> None)"
    if "snd a1 < 90"
    using that low [OF s1] unfolding a2_def by (simp add: sweep_found)
  have f2': "fst a2 \<noteq> []" "fst a1 \<noteq> []" if "\<not> snd a1 < 90"
    using that high [OF s1] by (auto simp: a2_def)
  have f3: "fst a3 \<noteq> [] \<longleftrightarrow> fst a2 \<noteq> [] \<or> (\<exists>v \<in> set vs. xss_lit v \<noteq> None)"
    using low [OF s2] unfolding a3_def by (subst sweep_found) auto
  have f4: "fst a4 \<noteq> [] \<longleftrightarrow> fst a3 \<noteq> [] \<or> (\<exists>v \<in> set vs. xss_re v \<noteq> None)" if "snd a3 < 85"
    using that low [OF s3] unfolding a4_def by (simp add: sweep_found)
  have f4': "fst a4 \<noteq> []" "fst a3 \<noteq> []" if "\<not> snd a3 < 85"
    using that high [OF s3] by (auto simp: a4_def)
  have f5: "fst a5 \<noteq> [] \<longleftrightarrow> fst a4 \<noteq> [] \<or> (\<exists>v \<in> set vs. path_re v \<noteq> None)"
    using low [OF s4] unfolding a5_def by (subst sweep_found) auto
  have "fst a5 \<noteq> [] \<longleftrightarrow> (\<exists>v \<in> set vs. suspicious v)"
    unfolding suspicious_def using f1 f2 f2' f3 f4 f4' f5 by blast
  with s5 it show ?thesis by simp
qed

lemma inspect_flat_iff:
  "fst (inspect_flat s) \<longleftrightarrow> s \<noteq> [] \<and> (\<exists>v \<in> set (variants s). suspicious v)"
  using inspect_text_sound [of "variants s"] by (simp add: inspect_flat_def verdict_of_def)

text \<open>The shape of every result: reasons without repetition, present exactly for an attack, and a
  score that is 0 or one of the levels.\<close>

definition res_ok :: "waf_result \<Rightarrow> bool" where
  "res_ok res \<longleftrightarrow> (case res of (att, rs, sc) \<Rightarrow>
     distinct rs \<and> (if att then rs \<noteq> [] \<and> sc \<in> {85, 90, 95} else rs = [] \<and> sc = 0))"

lemma verdict_of_ok: "scored acc \<Longrightarrow> res_ok (verdict_of acc)"
  by (auto simp: verdict_of_def scored_def res_ok_def split: if_splits)

lemma inspect_flat_ok: "res_ok (inspect_flat s)"
proof (cases "s = []")
  case False
  then show ?thesis
    using verdict_of_ok inspect_text_sound [of "variants s"] by (simp add: inspect_flat_def)
qed (simp add: inspect_flat_def res_ok_def)

lemma absorb_scored: "res_ok res \<Longrightarrow> scored acc \<Longrightarrow> scored (absorb res acc)"
  by (cases res) (auto simp: absorb_def scored_def res_ok_def split: if_splits)

lemma absorb_found: "res_ok res \<Longrightarrow> fst (absorb res acc) \<noteq> [] \<longleftrightarrow> fst acc \<noteq> [] \<or> fst res"
  by (cases res) (auto simp: absorb_def res_ok_def)

section \<open>Payloads\<close>

text \<open>All keys and strings of a JSON value, at any depth.\<close>

fun texts_of :: "json \<Rightarrow> string list" where
  "texts_of (JStr s) = [s]"
| "texts_of (JList xs) = concat (map texts_of xs)"
| "texts_of (JObj kvs) = concat (map (\<lambda>(k, v). k # texts_of v) kvs)"
| "texts_of _ = []"

lemma fold_absorbing:
  assumes "\<And>x acc. x \<in> set xs \<Longrightarrow> scored acc \<Longrightarrow>
      scored (g x acc) \<and> (fst (g x acc) \<noteq> [] \<longleftrightarrow> fst acc \<noteq> [] \<or> P x)"
    and "scored acc"
  shows "scored (fold g xs acc) \<and> (fst (fold g xs acc) \<noteq> [] \<longleftrightarrow> fst acc \<noteq> [] \<or> (\<exists>x \<in> set xs. P x))"
  using assms
proof (induction xs arbitrary: acc)
  case (Cons x xs)
  have sc: "scored (g x acc)" and g: "fst (g x acc) \<noteq> [] \<longleftrightarrow> fst acc \<noteq> [] \<or> P x"
    using Cons.prems by auto
  have "scored (fold g xs (g x acc)) \<and>
      (fst (fold g xs (g x acc)) \<noteq> [] \<longleftrightarrow> fst (g x acc) \<noteq> [] \<or> (\<exists>x \<in> set xs. P x))"
    using Cons.IH [OF _ sc] Cons.prems(1) by (metis list.set_intros(2))
  then show ?case using g by auto
qed simp

lemma traverse_found:
  "scored acc \<Longrightarrow> scored (traverse j acc) \<and>
    (fst (traverse j acc) \<noteq> [] \<longleftrightarrow> fst acc \<noteq> [] \<or> (\<exists>s \<in> set (texts_of j). fst (inspect_flat s)))"
proof (induction j arbitrary: acc)
  case (JStr s)
  then show ?case by (simp add: absorb_scored absorb_found inspect_flat_ok)
next
  case (JList xs)
  show ?case
    using fold_absorbing [of xs traverse "\<lambda>x. \<exists>s \<in> set (texts_of x). fst (inspect_flat s)" acc]
      JList by simp
next
  case (JObj kvs)
  have step: "scored (case x of (k, v) \<Rightarrow> traverse v (absorb (inspect_flat k) a)) \<and>
      (fst (case x of (k, v) \<Rightarrow> traverse v (absorb (inspect_flat k) a)) \<noteq> [] \<longleftrightarrow> fst a \<noteq> []
        \<or> (\<exists>s \<in> set (fst x # texts_of (snd x)). fst (inspect_flat s)))"
    if "x \<in> set kvs" "scored a" for x a
  proof -
    obtain k v where x: "x = (k, v)" by (cases x)
    have "scored (absorb (inspect_flat k) a)" using that by (simp add: absorb_scored inspect_flat_ok)
    then show ?thesis
      using JObj.IH [of x v "absorb (inspect_flat k) a"] that
      by (simp add: x absorb_found inspect_flat_ok)
  qed
  show ?case
    using fold_absorbing [of kvs "\<lambda>x a. case x of (k, v) \<Rightarrow> traverse v (absorb (inspect_flat k) a)"
        "\<lambda>x. \<exists>s \<in> set (fst x # texts_of (snd x)). fst (inspect_flat s)" acc, OF step JObj.prems]
    by (simp add: case_prod_unfold)
qed simp_all

lemma inspect_payload_ok: "res_ok (inspect_payload p)"
proof -
  have "res_ok (verdict_of (traverse p ([], 0)))"
    by (rule verdict_of_ok) (simp add: traverse_found)
  then show ?thesis by (simp add: inspect_payload_def res_ok_def)
qed

lemma inspect_payload_iff:
  "fst (inspect_payload p) \<longleftrightarrow> (\<exists>s \<in> set (texts_of p). fst (inspect_flat s))"
  using traverse_found [of "([], 0)" p]
  by (cases "p = JNull") (simp_all add: inspect_payload_def verdict_of_def)

lemma inspect_content_ok: "res_ok (inspect_content loads s)"
proof (cases "s = []")
  case False
  have sc: "scored (inspect_text (variants s))" using inspect_text_sound by blast
  have ab: "scored (absorb (inspect_payload j) (inspect_text (variants s)))" for j
    by (rule absorb_scored [OF inspect_payload_ok sc])
  have "res_ok (verdict_of (inspect_text (variants s)))" by (rule verdict_of_ok [OF sc])
  moreover have "res_ok (verdict_of (absorb (inspect_payload j) (inspect_text (variants s))))" for j
    by (rule verdict_of_ok [OF ab])
  ultimately show ?thesis
    using False by (auto simp: inspect_content_def Let_def split: option.split)
qed (simp add: inspect_content_def res_ok_def)

text \<open>The texts the inspection of a request body looks at: the body itself and, if it is
  serialised JSON, every key and string in it.\<close>

definition body_texts :: "(string \<Rightarrow> json option) \<Rightarrow> string \<Rightarrow> string list" where
  "body_texts loads s = s #
     (if startswith (strip s) ''{'' \<or> startswith (strip s) ''[''
      then (case loads (strip s) of None \<Rightarrow> [] | Some j \<Rightarrow> texts_of j) else [])"

lemma inspect_content_iff:
  "fst (inspect_content loads s) \<longleftrightarrow>
    s \<noteq> [] \<and> (\<exists>t \<in> set (body_texts loads s). \<exists>v \<in> set (variants t). t \<noteq> [] \<and> suspicious v)"
proof (cases "s = []")
  case False
  have sc: "scored (inspect_text (variants s))"
    and hit: "fst (inspect_text (variants s)) \<noteq> [] \<longleftrightarrow> (\<exists>v \<in> set (variants s). suspicious v)"
    using inspect_text_sound [of "variants s"] by auto
  have pay: "fst (absorb (inspect_payload j) (inspect_text (variants s))) \<noteq> [] \<longleftrightarrow>
      (\<exists>v \<in> set (variants s). suspicious v) \<or>
      (\<exists>t \<in> set (texts_of j). t \<noteq> [] \<and> (\<exists>v \<in> set (variants t). suspicious v))" for j
    by (simp only: absorb_found [OF inspect_payload_ok] hit inspect_payload_iff inspect_flat_iff)
  let ?json = "startswith (strip s) ''{'' \<or> startswith (strip s) ''[''"
  show ?thesis
  proof (cases "if ?json then loads (strip s) else None")
    case None
    then have "inspect_content loads s = verdict_of (inspect_text (variants s))"
      and "body_texts loads s = [s]"
      using False by (simp_all add: inspect_content_def body_texts_def Let_def split: if_splits)
    then show ?thesis using False hit by (simp add: verdict_of_def)
  next
    case (Some j)
    then have "?json" "loads (strip s) = Some j" by (simp_all split: if_splits)
    with False have "inspect_content loads s
        = verdict_of (absorb (inspect_payload j) (inspect_text (variants s)))"
      and "body_texts loads s = s # texts_of j"
      unfolding inspect_content_def body_texts_def Let_def by (simp_all only: if_True if_False option.case)
    then show ?thesis using False pay [of j] by (simp add: verdict_of_def)
  qed
qed (simp add: inspect_content_def)


section \<open>Encoded attacks\<close>

lemma inspect_content_hit:
  "v \<in> set (variants s) \<Longrightarrow> suspicious v \<Longrightarrow> s \<noteq> [] \<Longrightarrow> fst (inspect_content loads s)"
  by (subst inspect_content_iff) (metis body_texts_def list.set_intros(1))

lemma variants_base: "t \<in> set (url_variants s) \<Longrightarrow> t \<in> set (variants s)"
proof -
  have "set vs \<subseteq> set (foldl add_variant vs ts)" for vs ts
  proof (induction ts arbitrary: vs)
    case (Cons a ts)
    have "set vs \<subseteq> set (add_variant vs a)" by (auto simp: add_variant_def Let_def)
    with Cons show ?case by fastforce
  qed simp
  then show "t \<in> set (url_variants s) \<Longrightarrow> t \<in> set (variants s)"
    unfolding variants_def by blast
qed

lemma url_variants_mem:
  "s \<in> set (url_variants s)" "unquote s \<in> set (url_variants s)"
  "unquote (unquote s) \<in> set (url_variants s)"
  by (auto simp: url_variants_def Let_def)

lemma unescaped_variant:
  assumes "t \<in> set (url_variants s)"
  shows "unescape_unicode_and_hex t \<in> set (variants s)"
proof -
  have "unescape_unicode_and_hex t \<in> set (foldl add_variant vs ts)" if "t \<in> set ts" for vs ts
    using that
  proof (induction ts rule: rev_induct)
    case (snoc a ts)
    then show ?case by (auto simp: add_variant_def Let_def)
  qed simp
  with assms show ?thesis unfolding variants_def by blast
qed

definition hexd :: "nat \<Rightarrow> char" where
  "hexd n = (''0123456789abcdef'') ! n"

text \<open>Percent-encoding every character, and writing every character as a \<open>\u\<close> escape.\<close>

definition pct_encode :: "string \<Rightarrow> string" where
  "pct_encode s = concat (map (\<lambda>c. [CHR ''%'', hexd (of_char c div 16), hexd (of_char c mod 16)]) s)"

definition u_encode :: "string \<Rightarrow> string" where
  "u_encode s = concat (map (\<lambda>c. [CHR 0x5C, CHR ''u'', CHR ''0'', CHR ''0'',
     hexd (of_char c div 16), hexd (of_char c mod 16)]) s)"

definition ascii :: "string \<Rightarrow> bool" where
  "ascii s = list_all (\<lambda>c. (of_char c :: nat) < 128) s"

lemma ascii_simps [simp]: "ascii []" "ascii (c # s) \<longleftrightarrow> (of_char c :: nat) < 128 \<and> ascii s"
  by (simp_all add: ascii_def)

lemma hexd_table: "list_all (\<lambda>n. hex_val (hexd n) = Some (int n) \<and> (of_char (hexd n) :: nat) < 128) [0..<16]"
  by code_simp

lemma hexd_val: "n < 16 \<Longrightarrow> hex_val (hexd n) = Some (int n)"
  and hexd_ascii: "n < 16 \<Longrightarrow> (of_char (hexd n) :: nat) < 128"
  using hexd_table by (simp_all add: list_all_iff)

lemma char_nibbles: "(of_char c :: nat) div 16 < 16" "(of_char c :: nat) mod 16 < 16"
proof -
  show "(of_char c :: nat) div 16 < 16" by (rule less_mult_imp_div_less) simp
qed simp

lemma nibbles_value: "16 * int (of_char c div 16) + int (of_char c mod 16) = (of_char c :: int)"
proof -
  have "int (16 * (of_char c div 16) + of_char c mod 16) = int (of_char (c :: char))" by simp
  then show ?thesis by (simp only: of_nat_add of_nat_mult of_nat_numeral of_nat_of_char)
qed

lemma pct_tokens_encode: "pct_tokens (pct_encode s) = map (\<lambda>c. Inl (of_char c)) s"
proof (induction s)
  case (Cons c s)
  then show ?case
    using nibbles_value [of c] by (simp add: pct_encode_def hexd_val char_nibbles)
qed (simp add: pct_encode_def)

lemma utf8_ascii: "ascii s \<Longrightarrow> utf8_decode (map (\<lambda>c. Inl (of_char c)) s) = s"
proof (induction s)
  case (Cons c s)
  have "(of_char c :: int) = int (of_char c)" by (rule of_nat_of_char [symmetric])
  with Cons show ?case by simp
qed simp

lemma unquote_encode: "ascii s \<Longrightarrow> unquote (pct_encode s) = s"
  by (simp add: unquote_def pct_tokens_encode utf8_ascii)

lemma ascii_encode: "ascii (pct_encode s)"
  by (induction s) (simp_all add: pct_encode_def hexd_ascii char_nibbles)

lemma unescape_hit:
  "length ds = n \<Longrightarrow> all_hex ds \<Longrightarrow>
    unescape m n (CHR 0x5C # m # ds @ r) = chr_code (hex_number ds) # unescape m n r"
  by (subst unescape.simps) (simp add: startswith_def)

lemma unescape_encode: "unescape (CHR ''u'') 4 (u_encode s) = s"
proof (induction s)
  case (Cons c s)
  let ?h = "hexd (of_char c div 16)" and ?l = "hexd (of_char c mod 16)"
  let ?ds = "[CHR ''0'', CHR ''0'', ?h, ?l]"
  have enc: "u_encode (c # s) = CHR 0x5C # CHR ''u'' # ?ds @ u_encode s"
    by (simp add: u_encode_def)
  have zero: "hex_val (CHR ''0'') = Some 0" by code_simp
  have hex: "all_hex ?ds" by (simp add: all_hex_def hexd_val char_nibbles zero)
  have "hex_digits 0 ?ds = Some (16 * int (of_char c div 16) + int (of_char c mod 16))"
    by (simp add: hexd_val char_nibbles zero)
  then have val: "hex_number ?ds = of_char c" by (simp only: hex_number_def nibbles_value option.case)
  have "(of_char c :: int) = int (of_char c)" by (rule of_nat_of_char [symmetric])
  then have chr: "chr_code (of_char c) = c"
    using nat_of_char_less_256 [of c] by (simp add: chr_code_def)
  show ?case
    unfolding enc by (subst unescape_hit) (simp_all add: hex val chr Cons)
qed (simp add: u_encode_def unescape.simps)

lemma unescape_id: "CHR 0x5C \<notin> set s \<Longrightarrow> unescape m n s = s"
proof (induction s)
  case (Cons c s)
  then show ?case by (auto simp: unescape.simps [of m n "c # s"])
qed (simp add: unescape.simps)

text \<open>Encoding does not hide an attack: if a text matches a signature, then the text with every
  character percent-encoded, the same encoding applied twice, and (without a backslash in the text)
  the text with every character written as a \<open>\u\<close> escape are all reported.\<close>

theorem encoded_attacks_detected:
  assumes "ascii s" "suspicious s" "s \<noteq> []"
  shows "fst (inspect_content loads (pct_encode s))
    \<and> fst (inspect_content loads (pct_encode (pct_encode s)))
    \<and> (CHR 0x5C \<notin> set s \<longrightarrow> fst (inspect_content loads (u_encode s)))"
proof -
  have hit: "fst (inspect_content loads t)" if "s \<in> set (variants t)" "t \<noteq> []" for t
    using that assms(2) by (blast intro: inspect_content_hit)
  have ne: "pct_encode t \<noteq> []" "u_encode t \<noteq> []" if "t \<noteq> []" for t
    using that by (cases t; simp add: pct_encode_def u_encode_def)+
  have "s \<in> set (variants (pct_encode s))"
    using url_variants_mem(2) [of "pct_encode s"] unquote_encode [OF assms(1)]
    by (simp add: variants_base)
  moreover have "s \<in> set (variants (pct_encode (pct_encode s)))"
    using url_variants_mem(3) [of "pct_encode (pct_encode s)"]
    by (simp add: variants_base unquote_encode ascii_encode assms(1))
  moreover have "s \<in> set (variants (u_encode s))" if "CHR 0x5C \<notin> set s"
    using unescaped_variant [OF url_variants_mem(1) [of "u_encode s"]]
    by (simp add: unescape_unicode_and_hex_def unescape_encode unescape_id that)
  ultimately show ?thesis using hit ne assms(3) by blast
qed

text \<open>The first SQL signature is a lone quote, hash or double hyphen: every text that contains one
  is reported, be it a surname such as O'Brien in an order.\<close>

theorem apostrophe_reported:
  assumes "c \<in> {CHR 0x27, CHR ''#''}" "c \<in> set s"
  shows "fst (inspect_content loads s) \<and> 85 \<le> snd (snd (inspect_content loads s))"
proof -
  have sub: "contains_sub s [c]"
    using assms(2) unfolding contains_sub_iff by (metis append_Cons append_Nil split_list)
  have "search_pat (sqli_patterns ! 0) s"
    unfolding sqli_patterns_def nth_Cons_0 search_alts
    using assms(1) sub by (auto simp: search_lit sq_def)
  moreover have "0 < length sqli_patterns" by (simp add: sqli_patterns_def)
  ultimately have "sql_re s \<noteq> None"
    unfolding sql_re_def first_pattern_def option.map_disc_iff find_None_iff by fastforce
  moreover have "s \<in> set (variants s)" "s \<noteq> []"
    using assms(2) by (auto intro: variants_base url_variants_mem)
  ultimately have "fst (inspect_content loads s)"
    using inspect_content_hit suspicious_def by blast
  then show ?thesis
    using inspect_content_ok [of loads s] by (cases "inspect_content loads s") (auto simp: res_ok_def)
qed

lemma drop_table_suspicious: "ascii ''drop table t'' \<and> sql_lit ''drop table t'' \<noteq> None"
  by code_simp

theorem encoded_attacks_detected_witness:
  "fst (inspect_content (\<lambda>_. None) (pct_encode ''drop table t''))"
  using encoded_attacks_detected [of "''drop table t''" "\<lambda>_. None"] drop_table_suspicious
  by (simp add: suspicious_def)

theorem apostrophe_reported_witness:
  "fst (inspect_content (\<lambda>_. None) ''o#b'') \<and> 85 \<le> snd (snd (inspect_content (\<lambda>_. None) ''o#b''))"
  by (rule apostrophe_reported [of "CHR ''#''"]) simp_all

end
