(* ===== verification/Redaction.thy ===== *)
theory Redaction
  imports Regex_Search Json_Text Gateway_Config
begin

text \<open>
  \<open>src/gateway/telemetry/redaction.py\<close>: masking of addresses, salted pseudonyms and the
  recursive scrubbing of telemetry events.  HMAC is a primitive of \<open>prims\<close>; the text form
  of an IPv6 network is the parameter \<open>v6_text\<close>.
\<close>

section \<open>Addresses and pseudonyms\<close>

definition octets :: "32 word \<Rightarrow> string" where
  "octets w = str_int (uint (drop_bit 24 w)) @ ''.'' @ str_int (uint (drop_bit 16 w AND 255)) @ ''.''
     @ str_int (uint (drop_bit 8 w AND 255)) @ ''.'' @ str_int (uint (w AND 255))"

text \<open>The clean-up of the text repeats \<open>GatewayConfig._clean_ip\<close> line by line.\<close>

definition mask_ip :: "(128 word \<Rightarrow> string option \<Rightarrow> string) \<Rightarrow> string \<Rightarrow> string" where
  "mask_ip v6_text s =
     (if s = [] then ''anon''
      else (case ip_address (clean_ip s) of
          None \<Rightarrow> ''anon''
        | Some (V4 w) \<Rightarrow> octets (w AND netmask 24) @ ''/24''
        | Some (V6 w scope) \<Rightarrow> v6_text (w AND netmask 64) scope @ ''/64''))"

definition pseudonymize_identifier :: "prims \<Rightarrow> string \<Rightarrow> string \<Rightarrow> string" where
  "pseudonymize_identifier P salt ident =
     (if ident = [] then ''anon'' else ''p-'' @ take 16 (hmac_hex P salt ident))"

section \<open>Scrubbing\<close>

definition sensitive_keys :: "string list" where
  "sensitive_keys =
     [''password'', ''passwd'', ''secret'', ''token'', ''access_token'', ''refresh_token'',
      ''authorization'', ''auth_token'', ''x_auth_token'', ''x-auth-token'', ''api_key'',
      ''card_number'', ''cvv'', ''ssn'', ''pin'', ''client_ip'', ''ip'', ''remote_addr'',
      ''x_forwarded_for'', ''x-forwarded-for'']"

definition key_fragments :: "string list" where
  "key_fragments = [''password'', ''secret'', ''token'', ''auth_header'']"

definition hidden_key :: "string \<Rightarrow> bool" where
  "hidden_key k \<longleftrightarrow> lower k \<in> set sensitive_keys \<or> list_ex (contains_sub (lower k)) key_fragments"

definition ip_key :: "string \<Rightarrow> bool" where
  "ip_key k \<longleftrightarrow> lower k \<in> {''client_ip'', ''ip'', ''remote_addr''}"

definition in_ranges :: "(nat \<times> nat) list \<Rightarrow> char \<Rightarrow> bool" where
  "in_ranges rs c = list_ex (\<lambda>(a, b). a \<le> (of_char c :: nat) \<and> of_char c \<le> b) rs"

text \<open>Letters, digits and the further characters of the three classes of \<open>EMAIL_REGEX\<close>.\<close>

definition alnum :: "(nat \<times> nat) list" where
  "alnum = [(48, 57), (65, 90), (97, 122)]"

definition email_pat :: pat where
  "email_pat = seqs
     [plus (Cls (in_ranges ((95, 95) # (46, 46) # (43, 43) # (45, 45) # alnum))), lit ''@'',
      plus (Cls (in_ranges ((45, 45) # alnum))), lit ''.'',
      plus (Cls (in_ranges ((45, 45) # (46, 46) # alnum)))]"

text \<open>Between 13 and 16 digits with blanks or hyphens between them, delimited by boundaries: the
  lazy separators of \<open>CREDIT_CARD_REGEX\<close> are never taken after the last digit, because the
  boundary holds there unless a word character follows.\<close>

definition card_pat :: pat where
  "card_pat = seqs [Boundary, Cls is_digit,
     repeat_pat 12 15 (Seq (Star (Cls (\<lambda>c. c = CHR '' '' \<or> c = CHR ''-''))) (Cls is_digit)), Boundary]"

definition scrub_text :: "string \<Rightarrow> string" where
  "scrub_text s = sub_pat card_pat ''[REDACTED_CARD]'' (sub_pat email_pat ''[REDACTED_EMAIL]'' s)"

fun redacted :: "prims \<Rightarrow> string \<Rightarrow> string \<Rightarrow> json \<Rightarrow> json" where
  "redacted P salt k (JStr s) =
     JStr (if ip_key k then pseudonymize_identifier P salt s else ''[REDACTED]'')"
| "redacted P salt k v = JStr ''[REDACTED]''"

fun sanitize_telemetry :: "prims \<Rightarrow> string \<Rightarrow> json \<Rightarrow> json" where
  "sanitize_telemetry P salt (JObj kvs) =
     JObj (map (\<lambda>(k, v). (k, if hidden_key k then redacted P salt k v
                                 else sanitize_telemetry P salt v)) kvs)"
| "sanitize_telemetry P salt (JList xs) = JList (map (sanitize_telemetry P salt) xs)"
| "sanitize_telemetry P salt (JStr s) = JStr (scrub_text s)"
| "sanitize_telemetry P salt j = j"

section \<open>What scrubbing hides\<close>

text \<open>Two values a reader of the telemetry must not tell apart: equal except under hidden keys, where
  anything may differ, other than the text of an address.\<close>

definition is_text :: "json \<Rightarrow> bool" where
  "is_text v = (case v of JStr s \<Rightarrow> True | _ \<Rightarrow> False)"

inductive low_eq :: "json \<Rightarrow> json \<Rightarrow> bool" where
  le_refl: "low_eq j j"
| le_list: "list_all2 low_eq xs ys \<Longrightarrow> low_eq (JList xs) (JList ys)"
| le_obj: "list_all2 (\<lambda>x y. fst x = fst y \<and>
      ((hidden_key (fst x) \<and> (\<not> ip_key (fst x) \<or> snd x = snd y \<or> \<not> is_text (snd x) \<and> \<not> is_text (snd y)))
       \<or> (\<not> hidden_key (fst x) \<and> low_eq (snd x) (snd y)))) kvs kvs'
    \<Longrightarrow> low_eq (JObj kvs) (JObj kvs')"
  monos list_all2_mono

lemma redacted_secret: "\<not> ip_key k \<Longrightarrow> redacted P salt k v = JStr ''[REDACTED]''"
  by (cases v) simp_all

text \<open>In a scrubbed value nothing but a marker or a pseudonym stands under a hidden key, at any
  depth.\<close>

fun concealed :: "prims \<Rightarrow> string \<Rightarrow> json \<Rightarrow> bool" where
  "concealed P salt (JObj kvs) \<longleftrightarrow>
     list_all (\<lambda>(k, v). if hidden_key k
        then v = JStr ''[REDACTED]'' \<or> (ip_key k \<and> (\<exists>s. v = JStr (pseudonymize_identifier P salt s)))
        else concealed P salt v) kvs"
| "concealed P salt (JList xs) \<longleftrightarrow> list_all (concealed P salt) xs"
| "concealed P salt _ \<longleftrightarrow> True"

lemma redacted_concealed:
  "redacted P salt k v = JStr ''[REDACTED]'' \<or>
   (ip_key k \<and> (\<exists>s. redacted P salt k v = JStr (pseudonymize_identifier P salt s)))"
  by (cases v) auto

lemma sanitize_concealed: "concealed P salt (sanitize_telemetry P salt j)"
proof (induction j)
  case (JObj kvs)
  have "list_all (\<lambda>(k, v). if hidden_key k
      then v = JStr ''[REDACTED]'' \<or> (ip_key k \<and> (\<exists>s. v = JStr (pseudonymize_identifier P salt s)))
      else concealed P salt v)
    (map (\<lambda>(k, v). (k, if hidden_key k then redacted P salt k v else sanitize_telemetry P salt v)) kvs)"
    unfolding list_all_iff set_map using JObj redacted_concealed by fastforce
  then show ?case by simp
qed (auto simp: list_all_iff)

lemma redacted_other: "\<not> is_text v \<Longrightarrow> redacted P salt k v = JStr ''[REDACTED]''"
  by (cases v) (simp_all add: is_text_def)

lemma sanitize_low_eq: "low_eq j j' \<Longrightarrow> sanitize_telemetry P salt j = sanitize_telemetry P salt j'"
proof (induction rule: low_eq.induct)
  case (le_list xs ys)
  then have "map (sanitize_telemetry P salt) xs = map (sanitize_telemetry P salt) ys"
    by (induction rule: list_all2_induct) auto
  then show ?case by simp
next
  case (le_obj kvs kvs')
  then have "map (\<lambda>(k, v). (k, if hidden_key k then redacted P salt k v else sanitize_telemetry P salt v)) kvs
      = map (\<lambda>(k, v). (k, if hidden_key k then redacted P salt k v else sanitize_telemetry P salt v)) kvs'"
    by (induction rule: list_all2_induct) (auto simp: case_prod_unfold redacted_secret redacted_other)
  then show ?case by simp
qed simp

text \<open>
  C30: Scrubbing conceals.  Under every hidden key of a scrubbed event, at any depth, stands the marker
  or, for the three address keys, a pseudonym; and events that differ only under hidden keys, other
  than in the text of an address, are scrubbed to the same event, whatever the digest function.\<close>

theorem scrubbing_conceals:
  "concealed P salt (sanitize_telemetry P salt j)
   \<and> (\<forall>j'. low_eq j j' \<longrightarrow> sanitize_telemetry P salt j' = sanitize_telemetry P salt j)"
  using sanitize_concealed [of P salt j] sanitize_low_eq [of j _ P salt] by auto

text \<open>Masking forgets the host part: addresses of the same /24 network, in whatever spelling, have
  the same mask.\<close>

theorem mask_forgets_host:
  assumes "s \<noteq> []" "t \<noteq> []" "ip_address (clean_ip s) = Some (V4 x)" "ip_address (clean_ip t) = Some (V4 y)"
    and "drop_bit 8 x = drop_bit 8 y"
  shows "mask_ip v6 s = mask_ip v6 t"
  using assms netmask_eq_iff [of 24 x y] by (simp add: mask_ip_def)

definition echo_prims :: prims where
  "echo_prims = \<lparr>hmac_hex = (\<lambda>k m. m), sha256_hex = id, float_repr = (\<lambda>_. []), container_str = (\<lambda>_. [])\<rparr>"

theorem scrubbing_conceals_witness:
  "low_eq (JObj [(''password'', JStr ''a'')]) (JObj [(''password'', JStr ''b'')])
   \<and> sanitize_telemetry echo_prims ''s'' (JObj [(''password'', JStr ''b'')])
     = sanitize_telemetry echo_prims ''s'' (JObj [(''password'', JStr ''a'')])"
proof -
  have "hidden_key ''password'' \<and> \<not> ip_key ''password''" by code_simp
  then have "low_eq (JObj [(''password'', JStr ''a'')]) (JObj [(''password'', JStr ''b'')])"
    by (intro le_obj) simp
  then show ?thesis
    using scrubbing_conceals [of echo_prims "''s''" "JObj [(''password'', JStr ''a'')]"] by blast
qed

theorem mask_forgets_host_witness:
  "mask_ip (\<lambda>_ _. []) ''192.0.2.7'' = mask_ip (\<lambda>_ _. []) ''192.0.2.7:443''"
proof (rule mask_forgets_host)
  show "ip_address (clean_ip ''192.0.2.7'') = Some (V4 0xC0000207)" by code_simp
  show "ip_address (clean_ip ''192.0.2.7:443'') = Some (V4 0xC0000207)" by code_simp
qed simp_all

lemma redaction_examples:
  "mask_ip (\<lambda>_ _. []) ''10.1.2.3'' = ''10.1.2.0/24''"
  "mask_ip (\<lambda>_ _. []) ''nonsense'' = ''anon''"
  "sanitize_telemetry \<lparr>hmac_hex = (\<lambda>k m. m), sha256_hex = id, float_repr = (\<lambda>_. []), container_str = (\<lambda>_. [])\<rparr> ''s''
     (JObj [(''Client_IP'', JStr ''192.0.2.7''), (''x'', JObj [(''api_key'', JInt 7), (''n'', JInt 1)])])
   = JObj [(''Client_IP'', JStr ''p-192.0.2.7''), (''x'', JObj [(''api_key'', JStr ''[REDACTED]''), (''n'', JInt 1)])]"
  by code_simp+

end
