(* ===== verification/Telemetry.thy ===== *)
theory Telemetry
  imports Json_Text "HOL-Library.Multiset"
begin

text \<open>
  Telemetry: the event pipeline (\<open>src/gateway/telemetry/event_pipeline.py\<close>), the anti-poisoning
  filter (\<open>anti_poisoning.py\<close>) and the trust gates of the baseline (\<open>baseline_gates.py\<close>).

  Both the pipeline and the filter put events into a bounded queue that a worker thread empties
  into files, and write at once when the queue is full.  A step of the worker is an operation of
  the model, so an interleaving of requests and worker is a sequence of operations; \<open>ok\<close>
  says whether the disk accepts a write.  An exception is \<open>None\<close>.
\<close>

section \<open>The event pipeline\<close>

record pipeline =
  pl_queue :: "json list"
  pl_max :: nat
  pl_log :: "json list"
  pl_fallback :: "json list"

definition pipeline_init :: "nat \<Rightarrow> pipeline" where
  "pipeline_init n = \<lparr>pl_queue = [], pl_max = n, pl_log = [], pl_fallback = []\<rparr>"

text \<open>\<open>queue.Queue\<close> is unbounded when its size is 0.\<close>

definition queue_full :: "nat \<Rightarrow> 'a list \<Rightarrow> bool" where
  "queue_full n q \<longleftrightarrow> 0 < n \<and> n \<le> length q"

definition written :: "bool \<Rightarrow> 'a \<Rightarrow> 'a list \<Rightarrow> 'a list" where
  "written ok x xs = (if ok then xs @ [x] else xs)"

definition emit :: "bool \<Rightarrow> json \<Rightarrow> pipeline \<Rightarrow> pipeline" where
  "emit ok e p =
     (if queue_full (pl_max p) (pl_queue p)
      then p\<lparr>pl_fallback := written ok e (pl_fallback p)\<rparr>
      else p\<lparr>pl_queue := pl_queue p @ [e]\<rparr>)"

text \<open>One turn of \<open>_process_queue\<close>.\<close>

definition process_one :: "bool \<Rightarrow> pipeline \<Rightarrow> pipeline" where
  "process_one ok p = (case pl_queue p of
       [] \<Rightarrow> p
     | e # q \<Rightarrow> p\<lparr>pl_queue := q, pl_log := written ok e (pl_log p)\<rparr>)"

fun flush_queue :: "bool \<Rightarrow> json list \<Rightarrow> json list \<Rightarrow> json list" where
  "flush_queue ok [] l = l"
| "flush_queue ok (e # q) l = flush_queue ok q (written ok e l)"

definition flush :: "bool \<Rightarrow> pipeline \<Rightarrow> pipeline" where
  "flush ok p = p\<lparr>pl_queue := [], pl_log := flush_queue ok (pl_queue p) (pl_log p)\<rparr>"

section \<open>The anti-poisoning filter\<close>

datatype tier = Pristine | Review | HardQuarantine

definition tier_value :: "tier \<Rightarrow> string" where
  "tier_value t = (case t of
       Pristine \<Rightarrow> ''tier_1_pristine_baseline''
     | Review \<Rightarrow> ''tier_2_review_quarantine''
     | HardQuarantine \<Rightarrow> ''tier_3_hard_quarantine'')"

text \<open>The values \<open>classify_event\<close> extracts before it decides.\<close>

record signals =
  sg_decision :: string
  sg_risk :: rat
  sg_rules :: nat
  sg_waf :: rat
  sg_auth :: rat
  sg_age :: json
  sg_incidents :: json

definition component :: "json \<Rightarrow> string \<Rightarrow> rat option" where
  "component comps k = (case comps of
       JObj kvs \<Rightarrow> py_float (json_or (jget_or (JFloat 0) comps k) (JFloat 0))
     | _ \<Rightarrow> None)"

definition signals_of :: "prims \<Rightarrow> json \<Rightarrow> signals option" where
  "signals_of P e =
     (case (py_float (jget_or (JFloat 0) e ''risk_score''),
            json_len (jget_or (JList []) e ''fired_rules''),
            component (jget_or (JObj []) e ''components'') ''waf_severity'',
            component (jget_or (JObj []) e ''components'') ''auth_anomaly'') of
        (Some r, Some n, Some w, Some a) \<Rightarrow> Some
          \<lparr>sg_decision = upper (py_str P (jget_or (JStr ''ALLOW'') e ''decision'')),
           sg_risk = r, sg_rules = n, sg_waf = w, sg_auth = a,
           sg_age = jget_or (JInt 30) e ''user_account_age_days'',
           sg_incidents = jget_or (JInt 0) e ''user_incident_count''\<rparr>
      | _ \<Rightarrow> None)"

definition tier_of :: "signals \<Rightarrow> tier option" where
  "tier_of s =
     (if sg_decision s = ''BLOCK'' \<or> 0 < sg_waf s \<or> 0 < sg_auth s \<or> 50 < sg_risk s
      then Some HardQuarantine
      else (case or_raise (json_lt (sg_age s) 7) (json_gt (sg_incidents s) 0) of
          None \<Rightarrow> None
        | Some True \<Rightarrow> Some Review
        | Some False \<Rightarrow>
            if sg_decision s = ''LIMIT'' \<or> (20 < sg_risk s \<and> sg_risk s \<le> 50) \<or> 0 < sg_rules s
            then Some Review
            else if sg_decision s = ''ALLOW'' \<and> sg_risk s \<le> 20 \<and> sg_rules s = 0
            then Some Pristine
            else Some HardQuarantine))"

definition classify_event :: "prims \<Rightarrow> json \<Rightarrow> tier option" where
  "classify_event P e = Option.bind (signals_of P e) tier_of"

datatype store_file = BaselineFile | QuarantineFile

record poison_filter =
  pf_queue :: "(store_file \<times> json) list"
  pf_max :: nat
  pf_disk :: "(store_file \<times> json) list"

definition filter_init :: "nat \<Rightarrow> poison_filter" where
  "filter_init n = \<lparr>pf_queue = [], pf_max = n, pf_disk = []\<rparr>"

definition enqueue :: "bool \<Rightarrow> store_file \<Rightarrow> json \<Rightarrow> poison_filter \<Rightarrow> poison_filter" where
  "enqueue ok file e f =
     (if queue_full (pf_max f) (pf_queue f)
      then f\<lparr>pf_disk := written ok (file, e) (pf_disk f)\<rparr>
      else f\<lparr>pf_queue := pf_queue f @ [(file, e)]\<rparr>)"

definition pf_process_one :: "bool \<Rightarrow> poison_filter \<Rightarrow> poison_filter" where
  "pf_process_one ok f = (case pf_queue f of
       [] \<Rightarrow> f
     | x # q \<Rightarrow> f\<lparr>pf_queue := q, pf_disk := written ok x (pf_disk f)\<rparr>)"

definition stamped :: "tier \<Rightarrow> json \<Rightarrow> json" where
  "stamped t e =
     (let e1 = jput ''tier'' (JStr (tier_value t)) (jput ''quarantined'' (JBool (t \<noteq> Pristine)) e)
      in case t of
        Pristine \<Rightarrow> e1
      | Review \<Rightarrow> jput ''quarantine_reasons''
          (JList [JStr ''Moderate risk score or review quarantine - awaiting analyst review'']) e1
      | HardQuarantine \<Rightarrow> jput ''quarantine_reasons''
          (json_or (jget_or JNull e1 ''reasons'')
             (JList [JStr ''Elevated risk, security attack or blocking decision''])) e1)"

text \<open>\<open>process_event\<close>: the tier, the event as it is after the call (the caller's dict is extended in
  place), and the filter.\<close>

definition process_event ::
  "prims \<Rightarrow> bool \<Rightarrow> json \<Rightarrow> poison_filter \<Rightarrow> (tier \<times> json \<times> poison_filter) option" where
  "process_event P ok e f =
     map_option (\<lambda>t. let e' = stamped t e
                  in (t, e', enqueue ok (if t = Pristine then BaselineFile else QuarantineFile) e' f))
       (classify_event P e)"

section \<open>The gates of the baseline\<close>

datatype gate = DaysCollected | TotalEvents | AnalystReviews | FalsePositiveRate | EndpointCoverage

text \<open>The comparisons in the order of the code: key, default, and whether the value must be at least
  or at most the criterion.\<close>

definition gate_table :: "(gate \<times> string \<times> json \<times> bool \<times> rat) list" where
  "gate_table =
    [(DaysCollected, ''days_collected'', JInt 0, True, 30),
     (TotalEvents, ''total_events'', JInt 0, True, 100000),
     (AnalystReviews, ''analyst_reviews'', JInt 0, True, 500),
     (FalsePositiveRate, ''false_positive_rate'', JFloat 1, False, 1/50),
     (EndpointCoverage, ''endpoint_coverage'', JFloat 0, True, 19/20)]"

definition gate_holds :: "json \<Rightarrow> gate \<times> string \<times> json \<times> bool \<times> rat \<Rightarrow> bool option" where
  "gate_holds m g = (case g of (name, key, z, at_least, q) \<Rightarrow>
     map_option (\<lambda>x. if at_least then q \<le> x else x \<le> q) (json_num (jget_or z m key)))"

record gate_result =
  is_ready_for_ml :: bool
  passed_gates :: "gate list"
  failed_gates :: "gate list"

fun run_gates :: "json \<Rightarrow> (gate \<times> string \<times> json \<times> bool \<times> rat) list \<Rightarrow> gate list \<Rightarrow> gate list
    \<Rightarrow> (gate list \<times> gate list) option" where
  "run_gates m [] ps fs = Some (ps, fs)"
| "run_gates m (g # gs) ps fs = (case gate_holds m g of
       None \<Rightarrow> None
     | Some True \<Rightarrow> run_gates m gs (ps @ [fst g]) fs
     | Some False \<Rightarrow> run_gates m gs ps (fs @ [fst g]))"

definition evaluate_baseline_trustworthiness :: "json \<Rightarrow> gate_result option" where
  "evaluate_baseline_trustworthiness m =
     map_option (\<lambda>(ps, fs). \<lparr>is_ready_for_ml = (fs = []), passed_gates = ps, failed_gates = fs\<rparr>)
       (run_gates m gate_table [] [])"

section \<open>Sinks lose nothing\<close>

text \<open>What the gateway relies on in either buffer: an event that is put in is held somewhere, and the
  worker moves events without losing or repeating one.\<close>

datatype 'a sink_op = Put 'a | Work

fun puts_of :: "'a sink_op list \<Rightarrow> 'a list" where
  "puts_of [] = []"
| "puts_of (Put x # ops) = x # puts_of ops"
| "puts_of (Work # ops) = puts_of ops"

locale event_sink =
  fixes put :: "'a \<Rightarrow> 's \<Rightarrow> 's"
    and work :: "'s \<Rightarrow> 's"
    and content :: "'s \<Rightarrow> 'a multiset"
  assumes put_content: "content (put x s) = add_mset x (content s)"
    and work_content: "content (work s) = content s"
begin

definition sink_run :: "'a sink_op list \<Rightarrow> 's \<Rightarrow> 's" where
  "sink_run ops s = fold (\<lambda>op s. case op of Put x \<Rightarrow> put x s | Work \<Rightarrow> work s) ops s"

lemma run_content: "content (sink_run ops s) = content s + mset (puts_of ops)"
  by (induction ops arbitrary: s rule: puts_of.induct)
     (simp_all add: sink_run_def put_content work_content)

lemma run_members: "x \<in># content (sink_run ops s) \<longleftrightarrow> x \<in># content s \<or> x \<in> set (puts_of ops)"
  by (simp add: run_content)

end

definition pipeline_content :: "pipeline \<Rightarrow> json multiset" where
  "pipeline_content p = mset (pl_log p @ pl_queue p @ pl_fallback p)"

definition filter_content :: "poison_filter \<Rightarrow> (store_file \<times> json) multiset" where
  "filter_content f = mset (pf_disk f @ pf_queue f)"

interpretation telemetry_sink: event_sink "emit True" "process_one True" pipeline_content
  by unfold_locales
     (auto simp: emit_def process_one_def pipeline_content_def written_def split: list.splits)

interpretation poison_sink: event_sink "\<lambda>x. enqueue True (fst x) (snd x)" "pf_process_one True" filter_content
  by unfold_locales
     (auto simp: enqueue_def pf_process_one_def filter_content_def written_def split: list.splits)

lemma flush_queue_append: "flush_queue True q l = l @ q"
  by (induction q arbitrary: l) (simp_all add: written_def)

text \<open>A run of requests and worker turns over the pipeline.\<close>

definition pipeline_run :: "json sink_op list \<Rightarrow> pipeline \<Rightarrow> pipeline" where
  "pipeline_run = telemetry_sink.sink_run"

text \<open>C31: The pipeline loses no event and repeats none: as long as the disk accepts writes, after any
  interleaving of emitted events and worker turns followed by a flush, log and fallback file together
  hold exactly the emitted events, however full the queue was in between.\<close>

theorem pipeline_conserves_events:
  "let p = flush True (pipeline_run ops (pipeline_init n))
   in pl_queue p = [] \<and> mset (pl_log p) + mset (pl_fallback p) = mset (puts_of ops)"
proof -
  let ?p = "pipeline_run ops (pipeline_init n)"
  have "pipeline_content ?p = mset (puts_of ops)"
    unfolding pipeline_run_def telemetry_sink.run_content
    by (simp add: pipeline_init_def pipeline_content_def)
  then show ?thesis by (simp add: flush_def flush_queue_append pipeline_content_def ac_simps Let_def)
qed


text \<open>Full disk: an event emitted into a full queue is lost when the fallback write fails.\<close>

lemma full_queue_full_disk_drops:
  "queue_full (pl_max p) (pl_queue p) \<Longrightarrow> emit False e p = p"
  by (simp add: emit_def written_def)

section \<open>The baseline file\<close>

text \<open>What a baseline candidate must be: allowed, of low risk, without a rule, a firewall or an
  authentication signal, from an account at least a week old without incidents.\<close>

definition trustworthy :: "prims \<Rightarrow> json \<Rightarrow> bool" where
  "trustworthy P e \<longleftrightarrow> (\<exists>s. signals_of P e = Some s \<and> sg_decision s = ''ALLOW'' \<and> sg_risk s \<le> 20
     \<and> sg_rules s = 0 \<and> sg_waf s \<le> 0 \<and> sg_auth s \<le> 0
     \<and> json_lt (sg_age s) 7 = Some False \<and> json_gt (sg_incidents s) 0 = Some False)"

lemma or_raise_False: "or_raise a b = Some False \<longleftrightarrow> a = Some False \<and> b = Some False"
  by (auto simp: or_raise_def split: option.splits bool.splits)

lemma classify_pristine_iff: "classify_event P e = Some Pristine \<longleftrightarrow> trustworthy P e"
proof (cases "signals_of P e")
  case (Some s)
  have "tier_of s = Some Pristine \<longleftrightarrow> sg_decision s = ''ALLOW'' \<and> sg_risk s \<le> 20
     \<and> sg_rules s = 0 \<and> sg_waf s \<le> 0 \<and> sg_auth s \<le> 0
     \<and> json_lt (sg_age s) 7 = Some False \<and> json_gt (sg_incidents s) 0 = Some False"
  proof (cases "or_raise (json_lt (sg_age s) 7) (json_gt (sg_incidents s) 0)")
    case None
    then show ?thesis using or_raise_False [of "json_lt (sg_age s) 7" "json_gt (sg_incidents s) 0"]
      by (auto simp: tier_of_def)
  next
    case (Some b)
    then show ?thesis using or_raise_False [of "json_lt (sg_age s) 7" "json_gt (sg_incidents s) 0"]
      by (cases b) (auto simp: tier_of_def)
  qed
  with Some show ?thesis by (simp add: classify_event_def trustworthy_def)
qed (simp add: classify_event_def trustworthy_def)

text \<open>A run of the filter: requests whose events it processes (an event whose classification raises
  leaves it unchanged) and worker turns; the second component tells whether the disk accepts
  the write.\<close>

definition filter_step :: "prims \<Rightarrow> json sink_op \<times> bool \<Rightarrow> poison_filter \<Rightarrow> poison_filter" where
  "filter_step P x f = (case x of
       (Put e, ok) \<Rightarrow> (case process_event P ok e f of Some (t, e', f') \<Rightarrow> f' | None \<Rightarrow> f)
     | (Work, ok) \<Rightarrow> pf_process_one ok f)"

definition filter_run :: "prims \<Rightarrow> (json sink_op \<times> bool) list \<Rightarrow> poison_filter \<Rightarrow> poison_filter" where
  "filter_run P ops f = fold (filter_step P) ops f"

definition held :: "poison_filter \<Rightarrow> (store_file \<times> json) set" where
  "held f = set (pf_disk f) \<union> set (pf_queue f)"

lemma held_enqueue: "held (enqueue ok file e f) \<subseteq> insert (file, e) (held f)"
  by (auto simp: held_def enqueue_def written_def)

lemma held_process_one: "held (pf_process_one ok f) \<subseteq> held f"
  by (auto simp: held_def pf_process_one_def written_def split: list.splits if_splits)

lemma filter_step_held:
  "held (filter_step P x f) \<subseteq> held f \<union>
    {(if t = Pristine then BaselineFile else QuarantineFile, stamped t e) | t e.
       fst x = Put e \<and> classify_event P e = Some t}"
proof (cases x)
  case (Pair op ok)
  show ?thesis
  proof (cases op)
    case (Put e)
    then show ?thesis
      using Pair held_enqueue [of ok _ _ f]
      by (cases "classify_event P e") (auto simp: filter_step_def process_event_def Let_def)
  next
    case Work
    then show ?thesis using Pair held_process_one [of ok f] by (auto simp: filter_step_def)
  qed
qed

lemma filter_run_held:
  "held (filter_run P ops f) \<subseteq> held f \<union>
    {(if t = Pristine then BaselineFile else QuarantineFile, stamped t e) | t e.
       Put e \<in> fst ` set ops \<and> classify_event P e = Some t}"
proof (induction ops rule: rev_induct)
  case (snoc x ops)
  then show ?case
    using filter_step_held [of P x "filter_run P ops f"]
    by (fastforce simp: filter_run_def)
qed (simp add: filter_run_def)

text \<open>\<open>flush\<close> drains the queue; it is as many worker turns as entries wait, so what a run holds, and
  where, is the same with flushes among its steps.\<close>

definition pf_flush :: "bool \<Rightarrow> poison_filter \<Rightarrow> poison_filter" where
  "pf_flush ok f = f\<lparr>pf_queue := [], pf_disk := fold (written ok) (pf_queue f) (pf_disk f)\<rparr>"

lemma pf_flush_turns: "pf_flush ok f = fold (\<lambda>_. pf_process_one ok) (pf_queue f) f"
proof (induction "pf_queue f" arbitrary: f)
  case Nil
  then show ?case by (simp add: pf_flush_def)
next
  case (Cons x q)
  have "fold (\<lambda>_. pf_process_one ok) q (pf_process_one ok f) = pf_flush ok (pf_process_one ok f)"
    using Cons.hyps(1) [of "pf_process_one ok f"] Cons.hyps(2) [symmetric] by (simp add: pf_process_one_def)
  then show ?case using Cons.hyps(2) [symmetric] by (simp add: pf_flush_def pf_process_one_def)
qed

lemma pf_flush_run: "pf_flush ok (filter_run P ops f)
   = filter_run P (ops @ map (\<lambda>_. (Work, ok)) (pf_queue (filter_run P ops f))) f"
proof -
  have "filter_step P (Work, ok) = pf_process_one ok" by (simp add: filter_step_def fun_eq_iff)
  then show ?thesis unfolding pf_flush_turns by (simp add: filter_run_def fold_map comp_def)
qed


section \<open>The gates are exact\<close>

lemma run_gates_result:
  "run_gates m gs ps fs = Some (ps', fs') \<Longrightarrow>
    fs' = fs @ map fst (filter (\<lambda>g. gate_holds m g = Some False) gs) \<and>
    ps' = ps @ map fst (filter (\<lambda>g. gate_holds m g = Some True) gs) \<and>
    (\<forall>g \<in> set gs. gate_holds m g \<noteq> None)"
proof (induction gs arbitrary: ps fs)
  case (Cons g gs)
  show ?case
  proof (cases "gate_holds m g")
    case (Some b)
    then show ?thesis
      using Cons.prems Cons.IH [of "ps @ [fst g]" fs] Cons.IH [of ps "fs @ [fst g]"]
      by (cases b) auto
  qed (use Cons.prems in simp)
qed simp

text \<open>Readiness is exact: when the evaluation returns, the data set is ready if and only if each
  of the five compared metrics meets its criterion, and the failed gates are exactly the others.  The
  number of users, the agreement of the analysts and the drift, which the table of criteria
  lists too, play no part.\<close>

theorem baseline_gates_exact:
  assumes "evaluate_baseline_trustworthiness m = Some r"
  shows "(is_ready_for_ml r \<longleftrightarrow> list_all (\<lambda>g. gate_holds m g = Some True) gate_table)
    \<and> failed_gates r = map fst (filter (\<lambda>g. gate_holds m g = Some False) gate_table)
    \<and> passed_gates r = map fst (filter (\<lambda>g. gate_holds m g = Some True) gate_table)"
proof -
  obtain ps fs where run: "run_gates m gate_table [] [] = Some (ps, fs)"
    and r: "r = \<lparr>is_ready_for_ml = (fs = []), passed_gates = ps, failed_gates = fs\<rparr>"
    using assms by (auto simp: evaluate_baseline_trustworthiness_def)
  have fs: "fs = map fst (filter (\<lambda>g. gate_holds m g = Some False) gate_table)"
    and ps: "ps = map fst (filter (\<lambda>g. gate_holds m g = Some True) gate_table)"
    and some: "\<forall>g \<in> set gate_table. gate_holds m g \<noteq> None"
    using run_gates_result [OF run] by auto
  have "fs = [] \<longleftrightarrow> (\<forall>g \<in> set gate_table. gate_holds m g \<noteq> Some False)"
    unfolding fs by (simp add: filter_empty_conv)
  also have "\<dots> \<longleftrightarrow> list_all (\<lambda>g. gate_holds m g = Some True) gate_table"
  proof -
    have "gate_holds m g \<noteq> Some False \<longleftrightarrow> gate_holds m g = Some True" if "g \<in> set gate_table" for g
      using some that by (cases "gate_holds m g") auto
    then show ?thesis unfolding list_all_iff by (rule ball_cong [OF refl])
  qed
  finally show ?thesis by (simp add: r fs ps)
qed

definition plain_event :: json where
  "plain_event = JObj [(''decision'', JStr ''ALLOW''), (''risk_score'', JFloat 5)]"

definition no_prims :: prims where
  "no_prims = \<lparr>hmac_hex = (\<lambda>k m. []), sha256_hex = id, float_repr = (\<lambda>_. []), container_str = (\<lambda>_. [])\<rparr>"


definition ready_metrics :: json where
  "ready_metrics = JObj [(''days_collected'', JInt 31), (''total_events'', JInt 100000),
     (''analyst_reviews'', JInt 500), (''false_positive_rate'', JFloat (1/100)),
     (''endpoint_coverage'', JFloat 1)]"

theorem baseline_gates_exact_witness:
  "is_ready_for_ml (the (evaluate_baseline_trustworthiness ready_metrics))"
proof -
  have "evaluate_baseline_trustworthiness ready_metrics
      = Some (the (evaluate_baseline_trustworthiness ready_metrics))" by code_simp
  from baseline_gates_exact [OF this] show ?thesis
    by (simp add: gate_table_def gate_holds_def ready_metrics_def jget_or_def json_num_def)
qed

end
