(* ===== verification/Security_Metrics.thy ===== *)
theory Security_Metrics
  imports Canary_Router Response_Agent
begin

text \<open>
  \<open>src/gateway/security_metrics.py\<close>: traffic counters and the means of detection and response
  times over the last incidents.  Instants are arguments; \<open>x or time.time()\<close> takes the clock
  also when the instant is 0.
\<close>

section \<open>State and operations\<close>

record incident_metric =
  im_incident :: string
  im_event :: time
  im_alert :: time
  im_containment :: "time option"
  im_category :: string
  im_automated :: bool

record metrics_tracker =
  incident_history :: "incident_metric list"
  max_history :: nat
  mt_total :: nat
  decision_counts :: "(string, nat) dict"

definition tracker_init :: "nat \<Rightarrow> metrics_tracker" where
  "tracker_init n = \<lparr>incident_history = [], max_history = n, mt_total = 0,
     decision_counts = [(''ALLOW'', 0), (''CHALLENGE'', 0), (''LIMIT'', 0), (''BLOCK'', 0), (''MITIGATED'', 0)]\<rparr>"

definition record_request_decision :: "string \<Rightarrow> metrics_tracker \<Rightarrow> metrics_tracker" where
  "record_request_decision d t =
     (let key = upper d
      in t\<lparr>mt_total := mt_total t + 1,
           decision_counts := dput key (dget_or 0 (decision_counts t) key + 1) (decision_counts t)\<rparr>)"

definition instant_or :: "time \<Rightarrow> time option \<Rightarrow> time option \<Rightarrow> time" where
  "instant_or now epoch stamp = (case epoch of
       Some x \<Rightarrow> x
     | None \<Rightarrow> (case stamp of Some x \<Rightarrow> if x = 0 then now else x | None \<Rightarrow> now))"

definition record_incident_lifecycle ::
  "time \<Rightarrow> string \<Rightarrow> time option \<Rightarrow> time option \<Rightarrow> time option \<Rightarrow> string \<Rightarrow> bool
     \<Rightarrow> time option \<Rightarrow> time option \<Rightarrow> time option \<Rightarrow> metrics_tracker \<Rightarrow> metrics_tracker" where
  "record_incident_lifecycle now incident ev_epoch al_epoch ct_epoch category automated ev al ct t =
     t\<lparr>incident_history := push_bounded (max_history t)
        \<lparr>im_incident = incident, im_event = instant_or now ev_epoch ev, im_alert = instant_or now al_epoch al,
         im_containment = (case ct_epoch of Some x \<Rightarrow> Some x | None \<Rightarrow> ct), im_category = category,
         im_automated = automated\<rparr> (incident_history t)\<rparr>"

definition time_to_detect :: "incident_metric \<Rightarrow> rat" where
  "time_to_detect i = max 0 (im_alert i - im_event i)"

definition time_to_respond :: "incident_metric \<Rightarrow> rat option" where
  "time_to_respond i = (case im_containment i of
       Some c \<Rightarrow> if c \<noteq> 0 \<and> im_alert i \<le> c then Some (c - im_alert i) else None
     | None \<Rightarrow> None)"

definition mean_or :: "rat \<Rightarrow> rat list \<Rightarrow> rat" where
  "mean_or z xs = (if xs = [] then z else sum_list xs / of_nat (length xs))"

record kpis =
  k_total_requests :: nat
  k_breakdown :: "(string, nat) dict"
  k_mitigation_pct :: rat
  k_incidents :: nat
  k_mttd :: rat
  k_mttr :: rat
  k_automated_pct :: rat

definition get_kpis :: "metrics_tracker \<Rightarrow> kpis" where
  "get_kpis t =
     (let h = incident_history t;
          auto_count = length (filter im_automated h);
          mitigated = dget_or 0 (decision_counts t) ''BLOCK'' + dget_or 0 (decision_counts t) ''MITIGATED'';
          efficiency = (if h \<noteq> [] then of_nat auto_count / of_nat (length h) else 1)
      in \<lparr>k_total_requests = mt_total t, k_breakdown = decision_counts t,
          k_mitigation_pct = py_round 2 (if 0 < mt_total t
             then of_nat mitigated / of_nat (mt_total t) * 100 else 0),
          k_incidents = length h,
          k_mttd = py_round 3 (mean_or 0 (map time_to_detect h)),
          k_mttr = py_round 3 (mean_or 0 (List.map_filter time_to_respond h)),
          k_automated_pct = py_round 1 (efficiency * 100)\<rparr>)"

section \<open>The counters add up\<close>

definition count_sum :: "(string, nat) dict \<Rightarrow> nat" where
  "count_sum d = sum_list (map snd d)"

definition tracker_inv :: "metrics_tracker \<Rightarrow> bool" where
  "tracker_inv t \<longleftrightarrow> wf_dict (decision_counts t) \<and> count_sum (decision_counts t) = mt_total t
     \<and> length (incident_history t) \<le> max_history t"

lemma count_sum_dput:
  "wf_dict d \<Longrightarrow> count_sum (dput k (dget_or 0 d k + 1) d) = count_sum d + 1"
proof (induction d)
  case (Cons kv d)
  obtain k' v' where kv: "kv = (k', v')" by (cases kv)
  show ?case
  proof (cases "k' = k")
    case True
    then show ?thesis by (simp add: kv count_sum_def dget_or_def)
  next
    case False
    with Cons have "count_sum (dput k (dget_or 0 d k + 1) d) = count_sum d + 1"
      by (simp add: wf_dict_def)
    with False show ?thesis by (simp add: kv count_sum_def dget_or_def)
  qed
qed (simp add: count_sum_def)

lemma tracker_inv_init: "tracker_inv (tracker_init n)"
  by (simp add: tracker_inv_def tracker_init_def wf_dict_def count_sum_def)

lemma tracker_inv_decision: "tracker_inv t \<Longrightarrow> tracker_inv (record_request_decision d t)"
  using count_sum_dput [of "decision_counts t" "upper d"]
  by (simp add: tracker_inv_def record_request_decision_def Let_def wf_dict_dput)

lemma tracker_inv_incident:
  "tracker_inv t \<Longrightarrow> tracker_inv (record_incident_lifecycle now i e a c cat au e' a' c' t)"
  by (simp add: tracker_inv_def record_incident_lifecycle_def push_bounded_def)

datatype metrics_event =
    Decided string
  | Incident time string "time option" "time option" "time option" string bool

definition metrics_step :: "metrics_event \<Rightarrow> metrics_tracker \<Rightarrow> metrics_tracker" where
  "metrics_step e t = (case e of
       Decided d \<Rightarrow> record_request_decision d t
     | Incident now i ev al ct cat au \<Rightarrow>
         record_incident_lifecycle now i None None None cat au ev al ct t)"

lemma tracker_inv_run: "tracker_inv (fold metrics_step es (tracker_init n))"
proof (induction es rule: rev_induct)
  case (snoc e es)
  then show ?case
    by (cases e) (simp_all add: metrics_step_def tracker_inv_decision tracker_inv_incident)
qed (simp add: tracker_inv_init)

lemma member_le_count_sum: "wf_dict d \<Longrightarrow> k \<noteq> k' \<Longrightarrow> dget_or 0 d k + dget_or 0 d k' \<le> count_sum d"
proof (induction d)
  case (Cons kv d)
  obtain j v where kv: "kv = (j, v)" by (cases kv)
  have wf: "wf_dict d" and nj: "dget d j = None"
    using Cons.prems(1) by (auto simp: wf_dict_def kv map_of_eq_None_iff)
  have one: "dget_or 0 d k \<le> count_sum d" "dget_or 0 d k' \<le> count_sum d"
    using Cons.IH [OF wf Cons.prems(2)] by linarith+
  show ?case
    using Cons.IH [OF wf Cons.prems(2)] one nj Cons.prems(2)
    by (cases "j = k"; cases "j = k'") (simp_all add: kv count_sum_def dget_or_def)
qed simp

lemma mean_nonneg: "\<forall>x \<in> set xs. 0 \<le> x \<Longrightarrow> 0 \<le> mean_or 0 xs"
  by (auto simp: mean_or_def intro!: divide_nonneg_nonneg sum_list_nonneg)

lemma py_round_nonneg: "0 \<le> x \<Longrightarrow> 0 \<le> py_round n x"
  using py_round_mono [of 0 x n] by simp

lemma py_round_pct: "0 \<le> x \<Longrightarrow> x \<le> 100 \<Longrightarrow> 0 \<le> py_round n x \<and> py_round n x \<le> 100"
  using py_round_between_ints [of 0 x 100 n] by simp

text \<open>The indicators are consistent in every state a run of decisions and incidents reaches: the counts
  per decision add up to the number of requests, the history never exceeds its bound, both
  percentages lie between 0 and 100 and the mean times are not negative.\<close>

theorem kpis_consistent:
  "let k = get_kpis (fold metrics_step es (tracker_init n))
   in sum_list (map snd (k_breakdown k)) = k_total_requests k \<and> k_incidents k \<le> n
    \<and> 0 \<le> k_mitigation_pct k \<and> k_mitigation_pct k \<le> 100
    \<and> 0 \<le> k_automated_pct k \<and> k_automated_pct k \<le> 100 \<and> 0 \<le> k_mttd k \<and> 0 \<le> k_mttr k"
proof -
  define k where "k = get_kpis (fold metrics_step es (tracker_init n))"
  let ?t = "fold metrics_step es (tracker_init n)"
  have inv: "tracker_inv ?t" by (rule tracker_inv_run)
  have mx: "max_history (metrics_step e t) = max_history t" for e t
    by (cases e) (simp_all add: metrics_step_def record_request_decision_def
        record_incident_lifecycle_def Let_def)
  have "max_history ?t = max_history (tracker_init n)"
    by (induction es rule: rev_induct) (simp_all add: mx)
  then have len: "length (incident_history ?t) \<le> n"
    using inv by (simp add: tracker_inv_def tracker_init_def)
  have two: "dget_or 0 (decision_counts ?t) ''BLOCK'' + dget_or 0 (decision_counts ?t) ''MITIGATED'' \<le> mt_total ?t"
    using inv member_le_count_sum [of "decision_counts ?t" "''BLOCK''" "''MITIGATED''"]
    by (simp add: tracker_inv_def)
  have ratio: "0 \<le> (of_nat a / of_nat b * 100 :: rat) \<and> (of_nat a / of_nat b * 100 :: rat) \<le> 100"
    if "a \<le> b" for a b :: nat
    using that by (cases "b = 0") (simp_all add: field_simps)
  have eff: "length (filter im_automated (incident_history ?t)) \<le> length (incident_history ?t)"
    by (rule length_filter_le)
  have mitigation: "0 \<le> k_mitigation_pct k \<and> k_mitigation_pct k \<le> 100"
    unfolding k_def get_kpis_def Let_def kpis.simps
    using ratio [OF two] by (intro py_round_pct) simp_all
  have automated: "0 \<le> k_automated_pct k \<and> k_automated_pct k \<le> 100"
    unfolding k_def get_kpis_def Let_def kpis.simps
    using ratio [OF eff] by (intro py_round_pct) simp_all
  have detect: "0 \<le> k_mttd k"
    unfolding k_def get_kpis_def Let_def kpis.simps
    by (intro py_round_nonneg mean_nonneg) (auto simp: time_to_detect_def)
  have respond: "0 \<le> k_mttr k"
    unfolding k_def get_kpis_def Let_def kpis.simps
    by (intro py_round_nonneg mean_nonneg)
       (auto simp: time_to_respond_def List.map_filter_def split: option.splits if_splits)
  have sums: "sum_list (map snd (k_breakdown k)) = k_total_requests k" "k_incidents k \<le> n"
    using inv len by (simp_all add: k_def get_kpis_def tracker_inv_def count_sum_def Let_def)
  show ?thesis
    unfolding k_def [symmetric] Let_def
    using sums mitigation automated detect respond by simp
qed

end
