(* ===== verification/SOC_Feedback.thy ===== *)
theory SOC_Feedback
  imports Json_Text
begin

text \<open>
  \<open>src/gateway/soc_feedback.py\<close>: the analysts' verdicts, their journal, the precision of the rules
  and the tuning recommendations.  The journal is the list of its decoded lines; a line that
  does not decode to a record ends the loading with a warning, and what was read before stays.  Generated
  identifiers and time stamps are arguments.
\<close>

section \<open>Records and journal\<close>

datatype feedback_tag = FALSE_POSITIVE | FALSE_NEGATIVE | CONFIRMED_ATTACK | TUNING_REQUEST

definition tag_value :: "feedback_tag \<Rightarrow> string" where
  "tag_value t = (case t of
       FALSE_POSITIVE \<Rightarrow> ''FALSE_POSITIVE'' | FALSE_NEGATIVE \<Rightarrow> ''FALSE_NEGATIVE''
     | CONFIRMED_ATTACK \<Rightarrow> ''CONFIRMED_ATTACK'' | TUNING_REQUEST \<Rightarrow> ''TUNING_REQUEST'')"

definition all_tags :: "feedback_tag list" where
  "all_tags = [FALSE_POSITIVE, FALSE_NEGATIVE, CONFIRMED_ATTACK, TUNING_REQUEST]"

definition tag_of :: "string \<Rightarrow> feedback_tag option" where
  "tag_of s = List.find (\<lambda>t. tag_value t = s) all_tags"

record feedback_record =
  fb_id :: string
  fb_timestamp :: string
  fb_analyst :: string
  fb_tag :: feedback_tag
  fb_request :: "string option"
  fb_alert :: "string option"
  fb_rule :: "string option"
  fb_notes :: string
  fb_target :: "string option"
  fb_action :: "string option"

definition json_opt :: "string option \<Rightarrow> json" where
  "json_opt x = (case x of None \<Rightarrow> JNull | Some s \<Rightarrow> JStr s)"

definition feedback_to_dict :: "feedback_record \<Rightarrow> json" where
  "feedback_to_dict r = JObj
     [(''feedback_id'', JStr (fb_id r)), (''timestamp'', JStr (fb_timestamp r)),
      (''analyst_id'', JStr (fb_analyst r)), (''tag'', JStr (tag_value (fb_tag r))),
      (''request_id'', json_opt (fb_request r)), (''alert_id'', json_opt (fb_alert r)),
      (''rule_id'', json_opt (fb_rule r)), (''notes'', JStr (fb_notes r)),
      (''target_entity'', json_opt (fb_target r)), (''recommended_action'', json_opt (fb_action r))]"

text \<open>Reading a line back: defaults for absent keys, \<open>None\<close> (a raised exception) for an unknown key or
  an unknown tag.  Lines with values of other types than the journal writes are outside the model and
  count as unreadable.\<close>

definition text_of :: "json option \<Rightarrow> string \<Rightarrow> string option" where
  "text_of j z = (case j of None \<Rightarrow> Some z | Some (JStr s) \<Rightarrow> Some s | _ \<Rightarrow> None)"

definition opt_of :: "json option \<Rightarrow> string option option" where
  "opt_of j = (case j of None \<Rightarrow> Some None | Some JNull \<Rightarrow> Some None | Some (JStr s) \<Rightarrow> Some (Some s) | _ \<Rightarrow> None)"

definition field_names :: "string list" where
  "field_names = [''feedback_id'', ''timestamp'', ''analyst_id'', ''tag'', ''request_id'', ''alert_id'',
     ''rule_id'', ''notes'', ''target_entity'', ''recommended_action'']"

definition feedback_of_dict :: "string \<Rightarrow> string \<Rightarrow> json \<Rightarrow> feedback_record option" where
  "feedback_of_dict new_id now j = (case j of
       JObj kvs \<Rightarrow>
         if \<not> list_all (\<lambda>(k, _). k \<in> set field_names) kvs then None
         else (case (text_of (jget j ''feedback_id'') new_id, text_of (jget j ''timestamp'') now,
                     text_of (jget j ''analyst_id'') ''soc_analyst'',
                     Option.bind (text_of (jget j ''tag'') ''CONFIRMED_ATTACK'') tag_of,
                     text_of (jget j ''notes'') [],
                     map opt_of (map (jget j) [''request_id'', ''alert_id'', ''rule_id'', ''target_entity'', ''recommended_action'']))
               of (Some i, Some ts, Some an, Some tg, Some nt, [Some rq, Some al, Some ru, Some ta, Some ac]) \<Rightarrow>
                 Some \<lparr>fb_id = i, fb_timestamp = ts, fb_analyst = an, fb_tag = tg, fb_request = rq, fb_alert = al,
                       fb_rule = ru, fb_notes = nt, fb_target = ta, fb_action = ac\<rparr>
               | _ \<Rightarrow> None)
     | _ \<Rightarrow> None)"

record feedback_engine =
  fe_records :: "feedback_record list"
  fe_journal :: "json list"

fun load_records :: "string \<Rightarrow> string \<Rightarrow> json list \<Rightarrow> feedback_record list" where
  "load_records new_id now [] = []"
| "load_records new_id now (j # js) = (case feedback_of_dict new_id now j of
       None \<Rightarrow> [] | Some r \<Rightarrow> r # load_records new_id now js)"

definition feedback_engine_init :: "string \<Rightarrow> string \<Rightarrow> json list \<Rightarrow> feedback_engine" where
  "feedback_engine_init new_id now journal =
     \<lparr>fe_records = load_records new_id now journal, fe_journal = journal\<rparr>"

text \<open>The record is kept in memory also when the journal cannot be written (\<open>ok\<close> false).\<close>

definition submit_feedback :: "bool \<Rightarrow> feedback_record \<Rightarrow> feedback_engine \<Rightarrow> feedback_engine" where
  "submit_feedback ok r e = e\<lparr>fe_records := fe_records e @ [r],
     fe_journal := (if ok then fe_journal e @ [feedback_to_dict r] else fe_journal e)\<rparr>"

section \<open>Precision of the rules\<close>

record rule_stats =
  st_tp :: nat
  st_fp :: nat
  st_fn :: nat
  st_total :: nat

definition no_stats :: rule_stats where
  "no_stats = \<lparr>st_tp = 0, st_fp = 0, st_fn = 0, st_total = 0\<rparr>"

definition bump_stats :: "feedback_tag \<Rightarrow> rule_stats \<Rightarrow> rule_stats" where
  "bump_stats t s =
     (let s1 = s\<lparr>st_total := st_total s + 1\<rparr>
      in case t of
        CONFIRMED_ATTACK \<Rightarrow> s1\<lparr>st_tp := st_tp s1 + 1\<rparr>
      | FALSE_POSITIVE \<Rightarrow> s1\<lparr>st_fp := st_fp s1 + 1\<rparr>
      | FALSE_NEGATIVE \<Rightarrow> s1\<lparr>st_fn := st_fn s1 + 1\<rparr>
      | TUNING_REQUEST \<Rightarrow> s1)"

fun collect_stats :: "feedback_record list \<Rightarrow> (string, rule_stats) dict \<Rightarrow> (string, rule_stats) dict" where
  "collect_stats [] d = d"
| "collect_stats (r # rs) d = collect_stats rs
     (if truthy_str (fb_rule r)
      then dput (the (fb_rule r)) (bump_stats (fb_tag r) (dget_or no_stats d (the (fb_rule r)))) d
      else d)"

definition precision_of :: "nat \<Rightarrow> nat \<Rightarrow> rat" where
  "precision_of tp fp = (if 0 < tp + fp then of_nat tp / of_nat (tp + fp) else 1)"

record rule_precision =
  rp_precision :: rat
  rp_fp :: nat
  rp_tp :: nat
  rp_total :: nat

record accuracy =
  ac_total :: nat
  ac_by_tag :: "(feedback_tag, nat) dict"
  ac_overall :: rat
  ac_rules :: "(string, rule_precision) dict"

definition count_tag :: "feedback_tag \<Rightarrow> feedback_record list \<Rightarrow> nat" where
  "count_tag t rs = length (filter (\<lambda>r. fb_tag r = t) rs)"

definition get_accuracy_metrics :: "feedback_engine \<Rightarrow> accuracy" where
  "get_accuracy_metrics e =
     (let rs = fe_records e
      in \<lparr>ac_total = length rs,
          ac_by_tag = map (\<lambda>t. (t, count_tag t rs)) all_tags,
          ac_overall = py_round 3 (precision_of (count_tag CONFIRMED_ATTACK rs) (count_tag FALSE_POSITIVE rs)),
          ac_rules = map (\<lambda>(k, s). (k, \<lparr>rp_precision = py_round 3 (precision_of (st_tp s) (st_fp s)),
              rp_fp = st_fp s, rp_tp = st_tp s, rp_total = st_total s\<rparr>)) (collect_stats rs [])\<rparr>)"

datatype tuning = THRESHOLD_INCREASE | WINDOW_TIGHTENING | RULE_SENSITIVITY_TUNE

definition tuning_for :: "string \<Rightarrow> tuning" where
  "tuning_for k = (if k = ''R006'' then THRESHOLD_INCREASE
     else if k = ''R002'' then WINDOW_TIGHTENING else RULE_SENSITIVITY_TUNE)"

record recommendation =
  rc_rule :: string
  rc_type :: tuning
  rc_precision :: rat
  rc_fp :: nat

definition generate_tuning_recommendations :: "feedback_engine \<Rightarrow> recommendation list" where
  "generate_tuning_recommendations e =
     map (\<lambda>(k, p). \<lparr>rc_rule = k, rc_type = tuning_for k, rc_precision = rp_precision p, rc_fp = rp_fp p\<rparr>)
       (filter (\<lambda>(k, p). 2 \<le> rp_fp p \<or> rp_precision p < 4/5) (ac_rules (get_accuracy_metrics e)))"

record labelled =
  lb_request :: string
  lb_label :: int
  lb_tag :: feedback_tag
  lb_rule :: "string option"
  lb_analyst :: string

definition export_labeled_events :: "feedback_engine \<Rightarrow> labelled list" where
  "export_labeled_events e =
     map (\<lambda>r. \<lparr>lb_request = the (fb_request r), lb_label = (if fb_tag r = CONFIRMED_ATTACK then 1 else 0),
                lb_tag = fb_tag r, lb_rule = fb_rule r, lb_analyst = fb_analyst r\<rparr>)
       (filter (\<lambda>r. truthy_str (fb_request r) \<and> fb_tag r \<in> {CONFIRMED_ATTACK, FALSE_POSITIVE}) (fe_records e))"

section \<open>The journal restores the engine\<close>

lemma tag_of_value [simp]: "tag_of (tag_value t) = Some t"
  by (cases t) (simp_all add: tag_of_def all_tags_def tag_value_def)

lemma opt_of_json_opt [simp]: "opt_of (Some (json_opt x)) = Some x"
  by (cases x) (simp_all add: opt_of_def json_opt_def)

lemma text_of_JStr [simp]: "text_of (Some (JStr s)) z = Some s"
  by (simp add: text_of_def)

lemma feedback_dict_roundtrip [simp]: "feedback_of_dict i now (feedback_to_dict r) = Some r"
proof -
  have keys: "list_all (\<lambda>(k, _). k \<in> set field_names) kvs"
    if "feedback_to_dict r = JObj kvs" for kvs
    using that by (auto simp: feedback_to_dict_def field_names_def)
  have get: "jget (feedback_to_dict r) ''feedback_id'' = Some (JStr (fb_id r))"
    "jget (feedback_to_dict r) ''timestamp'' = Some (JStr (fb_timestamp r))"
    "jget (feedback_to_dict r) ''analyst_id'' = Some (JStr (fb_analyst r))"
    "jget (feedback_to_dict r) ''tag'' = Some (JStr (tag_value (fb_tag r)))"
    "jget (feedback_to_dict r) ''notes'' = Some (JStr (fb_notes r))"
    "jget (feedback_to_dict r) ''request_id'' = Some (json_opt (fb_request r))"
    "jget (feedback_to_dict r) ''alert_id'' = Some (json_opt (fb_alert r))"
    "jget (feedback_to_dict r) ''rule_id'' = Some (json_opt (fb_rule r))"
    "jget (feedback_to_dict r) ''target_entity'' = Some (json_opt (fb_target r))"
    "jget (feedback_to_dict r) ''recommended_action'' = Some (json_opt (fb_action r))"
    by (simp_all add: feedback_to_dict_def)
  obtain kvs where kvs: "feedback_to_dict r = JObj kvs" by (simp add: feedback_to_dict_def)
  show ?thesis
    unfolding feedback_of_dict_def using keys [OF kvs] get
    by (simp add: kvs)
qed

definition submit_all :: "feedback_record list \<Rightarrow> feedback_engine \<Rightarrow> feedback_engine" where
  "submit_all rs e = fold (submit_feedback True) rs e"

lemma load_records_append:
  "length (load_records i now xs) = length xs \<Longrightarrow>
    load_records i now (xs @ ys) = load_records i now xs @ load_records i now ys"
  by (induction xs) (auto split: option.splits)

lemma load_records_map: "load_records i now (map feedback_to_dict rs) = rs"
  by (induction rs) simp_all

text \<open>C40: A restart loses no verdict: after any submissions that reached the disk, an engine started on the
  journal holds exactly the same records in the same order.\<close>

theorem journal_restores_engine:
  "feedback_engine_init i' now' (fe_journal (submit_all rs (feedback_engine_init i now [])))
    = submit_all rs (feedback_engine_init i now [])"
proof -
  have "fe_records (submit_all rs e) = fe_records e @ rs \<and>
      fe_journal (submit_all rs e) = fe_journal e @ map feedback_to_dict rs" for e
    by (induction rs arbitrary: e) (simp_all add: submit_all_def submit_feedback_def)
  then show ?thesis by (simp add: feedback_engine_init_def load_records_map)
qed

section \<open>Recommendations are exact\<close>

definition verdicts :: "feedback_tag \<Rightarrow> string \<Rightarrow> feedback_record list \<Rightarrow> nat" where
  "verdicts t k rs = length (filter (\<lambda>r. fb_rule r = Some k \<and> fb_tag r = t) rs)"

definition about_rule :: "string \<Rightarrow> feedback_record list \<Rightarrow> nat" where
  "about_rule k rs = length (filter (\<lambda>r. fb_rule r = Some k) rs)"

lemma collect_stats_wf: "wf_dict d \<Longrightarrow> wf_dict (collect_stats rs d)"
  by (induction rs arbitrary: d) (simp_all add: wf_dict_dput)

lemma collect_stats_counts:
  assumes "k \<noteq> []"
  shows "dget_or no_stats (collect_stats rs d) k =
    (let s = dget_or no_stats d k
     in \<lparr>st_tp = st_tp s + verdicts CONFIRMED_ATTACK k rs, st_fp = st_fp s + verdicts FALSE_POSITIVE k rs,
         st_fn = st_fn s + verdicts FALSE_NEGATIVE k rs, st_total = st_total s + about_rule k rs\<rparr>)"
proof (induction rs arbitrary: d)
  case (Cons r rs)
  show ?case
  proof (cases "fb_rule r = Some k")
    case True
    with assms Cons show ?thesis
      by (cases "fb_tag r") (simp_all add: verdicts_def about_rule_def bump_stats_def Let_def)
  next
    case False
    then have "dget_or no_stats (if truthy_str (fb_rule r)
        then dput (the (fb_rule r)) (bump_stats (fb_tag r) (dget_or no_stats d (the (fb_rule r)))) d
        else d) k = dget_or no_stats d k"
      by (cases "fb_rule r") auto
    with False Cons show ?thesis by (simp add: verdicts_def about_rule_def)
  qed
qed (simp add: verdicts_def about_rule_def Let_def)

lemma collect_stats_dom:
  "k \<in> set (map fst (collect_stats rs d)) \<longleftrightarrow> k \<in> set (map fst d) \<or> (k \<noteq> [] \<and> 0 < about_rule k rs)"
proof (induction rs arbitrary: d)
  case (Cons r rs)
  then show ?case
    by (cases "fb_rule r") (auto simp: about_rule_def dom_update truthy_str_def split: list.splits)
qed (simp add: about_rule_def)

text \<open>Rounding to three digits never moves the comparison with 0.8: with at most one false
  positive the precision is \<open>n / (n + 1)\<close>.\<close>

lemma precision_threshold:
  "2 \<le> fp \<or> py_round 3 (precision_of tp fp) < 4/5 \<longleftrightarrow> 2 \<le> fp \<or> (fp = 1 \<and> tp \<le> 3)"
proof (cases "2 \<le> fp")
  case False
  then consider "fp = 0" | "fp = 1" by linarith
  then show ?thesis
  proof cases
    case 1
    then have "precision_of tp fp = 1" by (simp add: precision_of_def)
    then show ?thesis using 1 py_round_of_int [of 3 1] by simp
  next
    case 2
    show ?thesis
    proof (cases "tp \<le> 3")
      case True
      then have "precision_of tp fp \<le> 3/4" using 2 by (simp add: precision_of_def field_simps)
      from py_round_mono [OF this, of 3] have "py_round 3 (precision_of tp fp) \<le> 3/4"
        by (simp add: py_round_def round_half_even_of_int [of 750, simplified])
      then show ?thesis using 2 True by simp
    next
      case big: False
      then have "4/5 \<le> precision_of tp fp" using 2 by (simp add: precision_of_def field_simps)
      from py_round_mono [OF this, of 3] have "4/5 \<le> py_round 3 (precision_of tp fp)"
        by (simp add: py_round_def round_half_even_of_int [of 800, simplified])
      then show ?thesis using 2 big by simp
    qed
  qed
qed simp

lemma precision_threshold_scaled:
  "(2 \<le> fp \<or> py_round 3 (precision_of tp fp) * 5 < 4) = (2 \<le> fp \<or> fp = Suc 0 \<and> tp \<le> 3)"
  using precision_threshold [of fp tp] by simp

text \<open>Tuning is recommended exactly where the verdicts call for it: a rule is in the list, and only
  once, if and only if it drew two false positives, or one with at most three confirmed
  attacks.\<close>

theorem recommendation_exact:
  "distinct (map rc_rule (generate_tuning_recommendations e))
   \<and> (k \<in> rc_rule ` set (generate_tuning_recommendations e) \<longleftrightarrow> k \<noteq> []
      \<and> (2 \<le> verdicts FALSE_POSITIVE k (fe_records e)
         \<or> (verdicts FALSE_POSITIVE k (fe_records e) = 1 \<and> verdicts CONFIRMED_ATTACK k (fe_records e) \<le> 3)))"
proof -
  let ?st = "collect_stats (fe_records e) []"
  have wf: "wf_dict ?st" by (rule collect_stats_wf) simp
  have rules: "generate_tuning_recommendations e =
      map (\<lambda>(k, s). \<lparr>rc_rule = k, rc_type = tuning_for k,
          rc_precision = py_round 3 (precision_of (st_tp s) (st_fp s)), rc_fp = st_fp s\<rparr>)
        (filter (\<lambda>(k, s). 2 \<le> st_fp s \<or> (st_fp s = 1 \<and> st_tp s \<le> 3)) ?st)"
    by (simp add: generate_tuning_recommendations_def get_accuracy_metrics_def Let_def filter_map
        o_def case_prod_unfold precision_threshold_scaled)
  have names: "map rc_rule (generate_tuning_recommendations e)
      = map fst (filter (\<lambda>(k, s). 2 \<le> st_fp s \<or> (st_fp s = 1 \<and> st_tp s \<le> 3)) ?st)"
    by (simp add: rules o_def case_prod_unfold)
  have dist: "distinct (map rc_rule (generate_tuning_recommendations e))"
    unfolding names using wf by (simp add: wf_dict_def distinct_map_filter)
  have "k \<in> rc_rule ` set (generate_tuning_recommendations e) \<longleftrightarrow>
      (\<exists>s. (k, s) \<in> set ?st \<and> (2 \<le> st_fp s \<or> (st_fp s = 1 \<and> st_tp s \<le> 3)))"
    by (subst set_map [symmetric], subst names) (force simp: image_iff)
  also have "\<dots> \<longleftrightarrow> (\<exists>s. dget ?st k = Some s \<and> (2 \<le> st_fp s \<or> (st_fp s = 1 \<and> st_tp s \<le> 3)))"
    using wf by (simp add: wf_dict_def)
  also have "\<dots> \<longleftrightarrow> k \<noteq> [] \<and> (2 \<le> verdicts FALSE_POSITIVE k (fe_records e)
      \<or> (verdicts FALSE_POSITIVE k (fe_records e) = 1 \<and> verdicts CONFIRMED_ATTACK k (fe_records e) \<le> 3))"
  proof (cases "k = []")
    case True
    then have "dget ?st k = None"
      using collect_stats_dom [of k "fe_records e" "[]"] by (simp add: map_of_eq_None_iff)
    then show ?thesis using True by simp
  next
    case False
    have counts: "dget_or no_stats ?st k =
        \<lparr>st_tp = verdicts CONFIRMED_ATTACK k (fe_records e), st_fp = verdicts FALSE_POSITIVE k (fe_records e),
         st_fn = verdicts FALSE_NEGATIVE k (fe_records e), st_total = about_rule k (fe_records e)\<rparr>"
      using collect_stats_counts [OF False, of "fe_records e" "[]"] by (simp add: no_stats_def Let_def)
    show ?thesis
    proof (cases "dget ?st k")
      case None
      then have "verdicts FALSE_POSITIVE k (fe_records e) = 0"
        using counts by (simp add: dget_or_def no_stats_def)
      then show ?thesis using None by simp
    next
      case (Some s)
      then show ?thesis using counts False by (simp add: dget_or_def)
    qed
  qed
  finally show ?thesis using dist by blast
qed

end
