(* ===== verification/Baselines.thy ===== *)
theory Baselines
  imports Json_Text "HOL-Library.Multiset"
begin

text \<open>
  \<open>src/gateway/baselines/baseline_engine.py\<close>: per-user and per-endpoint statistics of clean
  telemetry, and their readiness gates.  Time stamps are offset-aware, as the gateway
  writes them, hence comparable.  An input line is \<open>None\<close> where \<open>json.loads\<close> fails; the ISO time
  stamp parser is the parameter \<open>iso_of\<close> (instant and hour of day, \<open>None\<close> where it raises).  A
  \<open>None\<close> result of the build is an exception.  The medians and percentiles are numpy's, over
  exact rationals.
\<close>

section \<open>Order statistics\<close>

text \<open>\<open>np.median\<close> and \<open>np.percentile\<close> (linear interpolation) of a non-empty sample.\<close>

definition median :: "rat list \<Rightarrow> rat" where
  "median xs = (let s = sort xs; n = length xs in
     if odd n then s ! (n div 2) else (s ! (n div 2 - 1) + s ! (n div 2)) / 2)"

definition interpolate :: "rat list \<Rightarrow> rat \<Rightarrow> rat" where
  "interpolate s pos = (let i = nat \<lfloor>pos\<rfloor>; frac = pos - of_int \<lfloor>pos\<rfloor> in
     if frac = 0 then s ! i else s ! i + frac * (s ! Suc i - s ! i))"

definition percentile :: "rat \<Rightarrow> rat list \<Rightarrow> rat" where
  "percentile q xs = interpolate (sort xs) (of_nat (length xs - 1) * q / 100)"

section \<open>State\<close>

record baseline_stats =
  bl_user :: string
  bl_endpoint :: string
  bl_call_count :: nat
  bl_rate :: rat
  bl_rate_p95 :: rat
  bl_size_median :: int
  bl_size_p95 :: int
  bl_time_median :: rat
  bl_time_p95 :: rat
  bl_peak_hours :: "int list"
  bl_updated_at :: string
  bl_data_points :: nat

record baseline_engine =
  baselines :: "(string, baseline_stats) dict"
  events_processed :: nat
  users_seen :: "string list"
  endpoints_seen :: "string list"
  oldest_event :: "time option"
  newest_event :: "time option"

definition baseline_engine_init :: "(string, baseline_stats) dict \<Rightarrow> baseline_engine" where
  "baseline_engine_init loaded = \<lparr>baselines = loaded, events_processed = 0, users_seen = [],
     endpoints_seen = [], oldest_event = None, newest_event = None\<rparr>"

record samples =
  sm_sizes :: "int list"
  sm_times :: "rat list"
  sm_hours :: "int list"
  sm_stamps :: "time list"

definition no_samples :: samples where
  "no_samples = \<lparr>sm_sizes = [], sm_times = [], sm_hours = [], sm_stamps = []\<rparr>"

section \<open>Reading events\<close>

definition first_true :: "json \<Rightarrow> string list \<Rightarrow> json" where
  "first_true e ks = foldr (\<lambda>k r. json_or (jget_or JNull e k) r) ks (JStr ''unknown'')"

text \<open>\<open>event.get\<close> needs an object, and \<open>set.add\<close> a hashable user and endpoint.\<close>

definition hashable :: "json \<Rightarrow> bool" where
  "hashable j = (case j of JList _ \<Rightarrow> False | JObj _ \<Rightarrow> False | _ \<Rightarrow> True)"

definition hashable_event :: "json \<Rightarrow> bool" where
  "hashable_event e = (case e of
       JObj _ \<Rightarrow> hashable (first_true e [''principal_ref'', ''pseudonymized_user_id'', ''user_id''])
         \<and> hashable (first_true e [''path'', ''endpoint''])
     | _ \<Rightarrow> False)"

definition event_user :: "prims \<Rightarrow> json \<Rightarrow> string" where
  "event_user P e = py_str P (first_true e [''principal_ref'', ''pseudonymized_user_id'', ''user_id''])"

definition event_endpoint :: "prims \<Rightarrow> json \<Rightarrow> string" where
  "event_endpoint P e = py_str P (first_true e [''path'', ''endpoint''])"

text \<open>\<open>int(v)\<close>: truncation of numbers, the decimal text of strings.\<close>

definition py_int :: "json \<Rightarrow> int option" where
  "py_int j = (case j of
       JInt i \<Rightarrow> Some i
     | JBool b \<Rightarrow> Some (if b then 1 else 0)
     | JFloat r \<Rightarrow> Some (if 0 \<le> r then \<lfloor>r\<rfloor> else \<lceil>r\<rceil>)
     | JStr s \<Rightarrow> parse_int s
     | _ \<Rightarrow> None)"

definition request_size :: "prims \<Rightarrow> json \<Rightarrow> int option" where
  "request_size P e =
     (let v = jget_or (JInt 0) e ''request_size_bytes''
      in if truthy v then py_int v
         else Some (int (length (py_str P (jget_or (JStr []) e ''body'')))))"

definition response_time :: "json \<Rightarrow> rat option" where
  "response_time e = py_float (json_or (jget_or (JFloat 0) e ''latency_ms'')
     (jget_or (JFloat 0) e ''response_time_ms''))"

definition baseline_key :: "string \<Rightarrow> string \<Rightarrow> string" where
  "baseline_key user endpoint = user @ '':'' @ endpoint"

definition note_oldest :: "time \<Rightarrow> time option \<Rightarrow> time option" where
  "note_oldest t x = (case x of None \<Rightarrow> Some t | Some y \<Rightarrow> if t < y then Some t else x)"

definition note_newest :: "time \<Rightarrow> time option \<Rightarrow> time option" where
  "note_newest t x = (case x of None \<Rightarrow> Some t | Some y \<Rightarrow> if y < t then Some t else x)"

definition add_name :: "string \<Rightarrow> string list \<Rightarrow> string list" where
  "add_name x xs = (if x \<in> set xs then xs else xs @ [x])"

definition stamp_of_event :: "(string \<Rightarrow> (time \<times> int) option) \<Rightarrow> json \<Rightarrow> (time \<times> int) option" where
  "stamp_of_event iso_of e = (case jget_or JNull e ''timestamp'' of
       JStr (c # s) \<Rightarrow> iso_of (c # s) | _ \<Rightarrow> None)"

type_synonym sample_table = "(string, samples) dict"

definition ingest_event ::
  "prims \<Rightarrow> (string \<Rightarrow> (time \<times> int) option) \<Rightarrow> json \<Rightarrow> baseline_engine \<times> sample_table
     \<Rightarrow> (baseline_engine \<times> sample_table) option" where
  "ingest_event P iso_of e acc =
     (case acc of (b, d) \<Rightarrow>
       let user = event_user P e; endpoint = event_endpoint P e; k = baseline_key user endpoint;
           b1 = b\<lparr>events_processed := events_processed b + 1, users_seen := add_name user (users_seen b),
                  endpoints_seen := add_name endpoint (endpoints_seen b)\<rparr>;
           s = dget_or no_samples d k
       in case (hashable_event e, request_size P e, response_time e) of
          (True, Some sz, Some rt) \<Rightarrow>
            let s1 = s\<lparr>sm_sizes := sm_sizes s @ [sz], sm_times := sm_times s @ [rt]\<rparr>
            in (case stamp_of_event iso_of e of
                None \<Rightarrow> Some (b1, dput k s1 d)
              | Some (t, h) \<Rightarrow>
                  Some (b1\<lparr>oldest_event := note_oldest t (oldest_event b1),
                           newest_event := note_newest t (newest_event b1)\<rparr>,
                        dput k (s1\<lparr>sm_hours := sm_hours s1 @ [h], sm_stamps := sm_stamps s1 @ [t]\<rparr>) d))
        | _ \<Rightarrow> None)"

fun ingest_lines ::
  "prims \<Rightarrow> (string \<Rightarrow> (time \<times> int) option) \<Rightarrow> json option list \<Rightarrow> baseline_engine \<times> sample_table
     \<Rightarrow> (baseline_engine \<times> sample_table) option" where
  "ingest_lines P iso_of [] acc = Some acc"
| "ingest_lines P iso_of (None # ls) acc = ingest_lines P iso_of ls acc"
| "ingest_lines P iso_of (Some e # ls) acc = (case ingest_event P iso_of e acc of
       None \<Rightarrow> None | Some acc' \<Rightarrow> ingest_lines P iso_of ls acc')"

section \<open>Statistics\<close>

definition hourly_counts :: "time list \<Rightarrow> rat list" where
  "hourly_counts stamps =
     map (\<lambda>st. of_nat (length (filter (\<lambda>t. st \<le> t \<and> t < st + 3600) stamps))) (sort stamps)"

definition compute_call_rate :: "time list \<Rightarrow> rat \<times> rat" where
  "compute_call_rate stamps =
     (if length stamps < 2 then (1, 1)
      else (median (hourly_counts stamps), percentile 95 (hourly_counts stamps)))"

fun count_values :: "'a list \<Rightarrow> ('a, nat) dict \<Rightarrow> ('a, nat) dict" where
  "count_values [] d = d"
| "count_values (h # hs) d = count_values hs (dput h (dget_or 0 d h + 1) d)"

definition by_count :: "(int, nat) dict \<Rightarrow> (int, nat) dict" where
  "by_count d = sort_key (\<lambda>p. - int (snd p)) d"

definition compute_peak_hours :: "int list \<Rightarrow> int list" where
  "compute_peak_hours hs =
     (if hs = [] then [8..17] else sort (map fst (take 8 (by_count (count_values hs [])))))"

definition trunc_rat :: "rat \<Rightarrow> int" where
  "trunc_rat r = (if 0 \<le> r then \<lfloor>r\<rfloor> else \<lceil>r\<rceil>)"

definition split_key :: "string \<Rightarrow> string \<times> string" where
  "split_key k = (takeWhile (\<lambda>c. c \<noteq> CHR '':'') k, tl (dropWhile (\<lambda>c. c \<noteq> CHR '':'') k))"

definition stats_of :: "string \<Rightarrow> string \<Rightarrow> samples \<Rightarrow> baseline_stats" where
  "stats_of now k s =
     (let sizes = map of_int (sm_sizes s); rates = compute_call_rate (sm_stamps s)
      in \<lparr>bl_user = fst (split_key k), bl_endpoint = snd (split_key k),
          bl_call_count = length (sm_sizes s),
          bl_rate = py_round 2 (fst rates), bl_rate_p95 = py_round 2 (snd rates),
          bl_size_median = trunc_rat (median sizes), bl_size_p95 = trunc_rat (percentile 95 sizes),
          bl_time_median = py_round 2 (median (sm_times s)),
          bl_time_p95 = py_round 2 (percentile 95 (sm_times s)),
          bl_peak_hours = compute_peak_hours (sm_hours s), bl_updated_at = now,
          bl_data_points = length (sm_sizes s)\<rparr>)"

definition min_data_points :: nat where "min_data_points = 100"

fun install_baselines :: "string \<Rightarrow> nat \<Rightarrow> (string \<times> samples) list \<Rightarrow> baseline_engine \<Rightarrow> baseline_engine" where
  "install_baselines now n [] b = b"
| "install_baselines now n ((k, s) # ks) b = install_baselines now n ks
     (if length (sm_sizes s) < n then b else b\<lparr>baselines := dput k (stats_of now k s) (baselines b)\<rparr>)"

text \<open>\<open>build_baseline_from_clean_events\<close>; \<open>file\<close> is \<open>None\<close> when there is no such file.\<close>

definition build_baseline_from_clean_events ::
  "prims \<Rightarrow> (string \<Rightarrow> (time \<times> int) option) \<Rightarrow> string \<Rightarrow> json option list option \<Rightarrow> nat option
     \<Rightarrow> baseline_engine \<Rightarrow> baseline_engine option" where
  "build_baseline_from_clean_events P iso_of now file min_samples b =
     (let n = (case min_samples of Some k \<Rightarrow> k | None \<Rightarrow> min_data_points)
      in case file of
        None \<Rightarrow> Some b
      | Some ls \<Rightarrow> map_option (\<lambda>(b1, d). install_baselines now n d b1) (ingest_lines P iso_of ls (b, [])))"

definition get_baseline :: "string \<Rightarrow> string \<Rightarrow> baseline_engine \<Rightarrow> baseline_stats option" where
  "get_baseline user endpoint b = dget (baselines b) (baseline_key user endpoint)"

datatype blocker = VolumeGate | SpanGate rat | SpanHistory | EndpointGate rat | UserGate rat

definition coverage :: "nat \<Rightarrow> nat \<Rightarrow> rat" where
  "coverage covered total_count = of_nat covered / of_nat (max total_count 1)"

definition evaluate_trustworthiness_gates ::
  "nat \<Rightarrow> nat \<Rightarrow> nat option \<Rightarrow> baseline_engine \<Rightarrow> bool \<times> blocker list" where
  "evaluate_trustworthiness_gates n_endpoints n_users min_events b =
     (let min_ev = (case min_events of Some k \<Rightarrow> k | None \<Rightarrow> 100000);
          volume = (if events_processed b < min_ev then [VolumeGate] else []);
          span = (case (oldest_event b, newest_event b) of
              (Some o1, Some n1) \<Rightarrow> if (n1 - o1) / 86400 < 30 then [SpanGate ((n1 - o1) / 86400)] else []
            | _ \<Rightarrow> [SpanHistory]);
          ec = coverage (card (set (map (bl_endpoint o snd) (baselines b)))) n_endpoints;
          endpoints = (if ec < 19/20 then [EndpointGate ec] else []);
          uc = coverage (card (set (map (bl_user o snd) (baselines b)))) n_users;
          users = (if uc < 9/10 then [UserGate uc] else []);
          blockers = volume @ span @ endpoints @ users
      in (blockers = [], blockers))"

text \<open>Saving writes the dictionary, loading replaces it by the file's content when there is a file.\<close>

definition save_baselines :: "baseline_engine \<Rightarrow> (string, baseline_stats) dict" where
  "save_baselines b = baselines b"

definition load_baselines :: "(string, baseline_stats) dict option \<Rightarrow> baseline_engine \<Rightarrow> baseline_engine" where
  "load_baselines file b = (case file of None \<Rightarrow> b | Some d \<Rightarrow> b\<lparr>baselines := d\<rparr>)"

section \<open>The statistics are order statistics\<close>

lemma interpolate_between:
  assumes "sorted s" "0 \<le> pos" "pos \<le> of_nat (length s - 1)" "s \<noteq> []"
  shows "s ! nat \<lfloor>pos\<rfloor> \<le> interpolate s pos"
    and "interpolate s pos \<le> s ! nat \<lceil>pos\<rceil>"
    and "nat \<lceil>pos\<rceil> < length s"
proof -
  let ?f = "\<lfloor>pos\<rfloor>" and ?frac = "pos - of_int \<lfloor>pos\<rfloor>"
  have f0: "0 \<le> ?f" using assms(2) by simp
  have fr: "0 \<le> ?frac" "?frac < 1" by (simp_all add: floor_correct) linarith
  have "\<lceil>pos\<rceil> \<le> int (length s - 1)" using assms(3) by (simp add: ceiling_le_iff)
  then show c: "nat \<lceil>pos\<rceil> < length s" using assms(4) by (cases s) auto
  consider "?frac = 0" | "?frac \<noteq> 0" by blast
  then have "s ! nat ?f \<le> interpolate s pos \<and> interpolate s pos \<le> s ! nat \<lceil>pos\<rceil>"
  proof cases
    case 1
    then have "\<lceil>pos\<rceil> = ?f" by (metis ceiling_of_int eq_iff_diff_eq_0)
    with 1 show ?thesis by (simp add: interpolate_def Let_def)
  next
    case 2
    have ce: "\<lceil>pos\<rceil> = ?f + 1"
      using 2 fr by (simp add: ceiling_altdef)
    then have nx: "nat \<lceil>pos\<rceil> = Suc (nat ?f)" using f0 by (simp add: nat_add_distrib)
    have le: "s ! nat ?f \<le> s ! Suc (nat ?f)"
      using assms(1) c nx by (simp add: sorted_iff_nth_mono)
    have "0 \<le> ?frac * (s ! Suc (nat ?f) - s ! nat ?f)" using fr le by simp
    moreover have "?frac * (s ! Suc (nat ?f) - s ! nat ?f) \<le> 1 * (s ! Suc (nat ?f) - s ! nat ?f)"
      using fr le by (intro mult_right_mono) simp_all
    ultimately show ?thesis using 2 nx by (simp add: interpolate_def Let_def)
  qed
  then show "s ! nat ?f \<le> interpolate s pos" "interpolate s pos \<le> s ! nat \<lceil>pos\<rceil>" by auto
qed

lemma interpolate_mono:
  assumes "sorted s" "0 \<le> p" "p \<le> q" "q \<le> of_nat (length s - 1)" "s \<noteq> []"
  shows "interpolate s p \<le> interpolate s q"
proof (cases "\<lfloor>p\<rfloor> = \<lfloor>q\<rfloor>")
  case False
  then have lt: "\<lceil>p\<rceil> \<le> \<lfloor>q\<rfloor>"
    using floor_mono [OF assms(3)] by (simp add: ceiling_le_iff) (metis floor_less_iff le_less linorder_le_less_linear not_le)
  have c: "nat \<lceil>q\<rceil> < length s" using interpolate_between(3) [of s q] assms by simp
  have "nat \<lceil>p\<rceil> \<le> nat \<lfloor>q\<rfloor>" "nat \<lfloor>q\<rfloor> \<le> nat \<lceil>q\<rceil>"
    using lt by (simp_all add: nat_mono floor_le_ceiling)
  then have "s ! nat \<lceil>p\<rceil> \<le> s ! nat \<lfloor>q\<rfloor>"
    using assms(1) c by (simp add: sorted_iff_nth_mono)
  then show ?thesis
    using interpolate_between(2) [of s p] interpolate_between(1) [of s q] assms by linarith
next
  case True
  let ?i = "nat \<lfloor>q\<rfloor>" and ?a = "p - of_int \<lfloor>q\<rfloor>" and ?b = "q - of_int \<lfloor>q\<rfloor>"
  have ab: "0 \<le> ?a" "?a \<le> ?b" using assms(3) True by (metis diff_ge_0_iff_ge of_int_floor_le, simp)
  show ?thesis
  proof (cases "?b = 0")
    case zero: True
    with ab have "?a = 0" by simp
    with zero True show ?thesis by (simp add: interpolate_def Let_def)
  next
    case nz: False
    have "nat \<lceil>q\<rceil> < length s" using interpolate_between(3) [of s q] assms by simp
    moreover have "\<lceil>q\<rceil> = \<lfloor>q\<rfloor> + 1"
      using nz by (simp add: ceiling_altdef)
    ultimately have "Suc ?i < length s" using assms(2,3) by (simp add: nat_add_distrib)
    then have le: "s ! ?i \<le> s ! Suc ?i" using assms(1) by (simp add: sorted_iff_nth_mono)
    have "?a * (s ! Suc ?i - s ! ?i) \<le> ?b * (s ! Suc ?i - s ! ?i)"
      using ab le by (intro mult_right_mono) simp_all
    then show ?thesis using nz True by (auto simp: interpolate_def Let_def)
  qed
qed

lemma median_percentile: "xs \<noteq> [] \<Longrightarrow> median xs = percentile 50 xs"
proof -
  assume ne: "xs \<noteq> []"
  let ?n = "length xs" and ?pos = "of_nat (length xs - 1) * 50 / 100 :: rat"
  show ?thesis
  proof (cases "odd ?n")
    case True
    then obtain k where k: "?n = 2 * k + 1" by (elim oddE)
    then have "?pos = of_int (int k)" by simp
    then show ?thesis using k True by (simp add: median_def percentile_def interpolate_def Let_def)
  next
    case False
    then obtain k where k: "?n = 2 * k" by auto
    with ne obtain m where m: "k = Suc m" by (cases k) auto
    have pos: "?pos = of_nat m + 1/2" using k m by (simp add: field_simps)
    have fl: "\<lfloor>?pos\<rfloor> = int m" unfolding pos by (simp add: floor_unique)
    show ?thesis
      using k m False
      unfolding median_def percentile_def interpolate_def Let_def fl
      unfolding pos by (simp add: field_simps)
  qed
qed

lemma percentile_mono: "xs \<noteq> [] \<Longrightarrow> 0 \<le> q \<Longrightarrow> q \<le> r \<Longrightarrow> r \<le> 100 \<Longrightarrow> percentile q xs \<le> percentile r xs"
proof -
  assume ne: "xs \<noteq> []" and q: "0 \<le> q" "q \<le> r" "r \<le> 100"
  let ?m = "of_nat (length xs - 1) :: rat"
  have m: "0 \<le> ?m" by simp
  show ?thesis
    unfolding percentile_def
  proof (rule interpolate_mono)
    show "?m * q / 100 \<le> ?m * r / 100"
      using mult_left_mono [OF q(2) m] by (simp add: divide_right_mono)
    show "?m * r / 100 \<le> of_nat (length (sort xs) - 1)"
      using mult_left_mono [OF q(3) m] by simp
    show "sort xs \<noteq> []" using ne by (metis length_0_conv length_sort)
  qed (use q m in simp_all)
qed

lemma percentile_extremes:
  "xs \<noteq> [] \<Longrightarrow> percentile 0 xs = sort xs ! 0" "xs \<noteq> [] \<Longrightarrow> percentile 100 xs = sort xs ! (length xs - 1)"
proof -
  assume "xs \<noteq> []"
  show "percentile 0 xs = sort xs ! 0" by (simp add: percentile_def interpolate_def)
  have "of_nat (length xs - 1) * 100 / 100 = (of_int (int (length xs - 1)) :: rat)" by simp
  then show "percentile 100 xs = sort xs ! (length xs - 1)"
    unfolding percentile_def interpolate_def Let_def by (simp only: floor_of_int nat_int) simp
qed

text \<open>For a non-empty sample the median is the 50th percentile, lies below the 95th, and both lie between
  the smallest and the largest value of the sample.\<close>

theorem median_below_p95:
  assumes "xs \<noteq> []"
  shows "median xs = percentile 50 xs \<and> median xs \<le> percentile 95 xs
    \<and> (\<exists>lo \<in> set xs. \<exists>hi \<in> set xs. lo \<le> median xs \<and> percentile 95 xs \<le> hi)"
proof -
  have "sort xs ! 0 \<in> set (sort xs)" "sort xs ! (length xs - 1) \<in> set (sort xs)"
    using assms by (intro nth_mem; simp)+
  moreover have "sort xs ! 0 \<le> median xs" "percentile 95 xs \<le> sort xs ! (length xs - 1)"
    using percentile_mono [of xs 0 50] percentile_mono [of xs 95 100] percentile_extremes [of xs] assms
    by (simp_all add: median_percentile)
  ultimately show ?thesis
    using assms median_percentile percentile_mono [of xs 50 95] by auto
qed


lemma median_below_p95_witness: "median [3, 1, 2] = 2 \<and> median [3, 1, 2] \<le> percentile 95 [3, 1, 2]"
proof -
  have "median [3, 1, 2] = 2" by code_simp
  with median_below_p95 [of "[3, 1, 2]"] show ?thesis by simp
qed

section \<open>Built baselines are sound\<close>

definition table_ok :: "sample_table \<Rightarrow> bool" where
  "table_ok d = list_all (\<lambda>(k, s). sm_sizes s \<noteq> [] \<and> length (sm_times s) = length (sm_sizes s)) d"

lemma dget_all: "list_all P d \<Longrightarrow> dget d k = Some v \<Longrightarrow> P (k, v)"
  by (auto dest!: map_of_SomeD simp: list_all_iff)

lemma ingest_event_ok:
  assumes "ingest_event P iso_of e (b, d) = Some (b', d')" "table_ok d"
  shows "table_ok d' \<and> baselines b' = baselines b"
proof -
  let ?k = "baseline_key (event_user P e) (event_endpoint P e)"
  let ?s = "dget_or no_samples d ?k"
  have "length (sm_times ?s) = length (sm_sizes ?s)"
  proof (cases "dget d ?k")
    case None then show ?thesis by (simp add: dget_or_def no_samples_def)
  next
    case (Some v)
    with assms(2) show ?thesis
      using dget_all [of _ d ?k v] by (auto simp: table_ok_def dget_or_def)
  qed
  with assms show ?thesis
    by (auto simp: ingest_event_def Let_def table_ok_def intro!: list_all_dput
        split: bool.splits option.splits prod.splits)
qed

lemma ingest_lines_ok:
  "ingest_lines P iso_of ls (b, d) = Some (b', d') \<Longrightarrow> table_ok d \<Longrightarrow> table_ok d' \<and> baselines b' = baselines b"
proof (induction ls arbitrary: b d)
  case (Cons l ls)
  show ?case
  proof (cases l)
    case None with Cons show ?thesis by simp
  next
    case (Some e)
    with Cons.prems obtain b1 d1 where *: "ingest_event P iso_of e (b, d) = Some (b1, d1)"
      and "ingest_lines P iso_of ls (b1, d1) = Some (b', d')"
      by (auto split: option.splits)
    with Cons.IH [of b1 d1] ingest_event_ok [OF * Cons.prems(2)] show ?thesis by simp
  qed
qed simp

lemma count_values_pos: "list_all (\<lambda>p. 0 < snd p) d \<Longrightarrow> list_all (\<lambda>p. 0 < snd p) (count_values hs d)"
  by (induction hs arbitrary: d) (simp_all add: list_all_dput)

lemma compute_peak_hours_bounds:
  "sorted (compute_peak_hours hs)" "hs \<noteq> [] \<Longrightarrow> length (compute_peak_hours hs) \<le> 8"
  by (simp_all add: compute_peak_hours_def)

lemma trunc_rat_mono: "x \<le> y \<Longrightarrow> trunc_rat x \<le> trunc_rat y"
proof -
  assume *: "x \<le> y"
  consider "0 \<le> x" | "x < 0" "0 \<le> y" | "y < 0" using * by linarith
  then show ?thesis
  proof cases
    case 2
    then have "\<lceil>x\<rceil> \<le> 0" "0 \<le> \<lfloor>y\<rfloor>" by (simp_all add: ceiling_le_iff le_floor_iff)
    then have "\<lceil>x\<rceil> \<le> \<lfloor>y\<rfloor>" by linarith
    with 2 show ?thesis by (simp add: trunc_rat_def)
  qed (use * in \<open>simp_all add: trunc_rat_def floor_mono ceiling_mono\<close>)
qed

definition sound_stats :: "nat \<Rightarrow> baseline_stats \<Rightarrow> bool" where
  "sound_stats n s = (n \<le> bl_data_points s \<and> bl_call_count s = bl_data_points s
     \<and> bl_rate s \<le> bl_rate_p95 s \<and> bl_size_median s \<le> bl_size_p95 s \<and> bl_time_median s \<le> bl_time_p95 s
     \<and> sorted (bl_peak_hours s) \<and> length (bl_peak_hours s) \<le> 10)"

lemma median_le_p95: "xs \<noteq> [] \<Longrightarrow> median xs \<le> percentile 95 xs"
  using median_percentile percentile_mono [of xs 50 95] by auto

lemma stats_of_sound:
  assumes "sm_sizes s \<noteq> []" "length (sm_times s) = length (sm_sizes s)" "n \<le> length (sm_sizes s)"
  shows "sound_stats n (stats_of now k s)"
proof -
  have "sm_times s \<noteq> []" using assms(1,2) by auto
  moreover have "fst (compute_call_rate (sm_stamps s)) \<le> snd (compute_call_rate (sm_stamps s))"
  proof (cases "length (sm_stamps s) < 2")
    case False
    then have "length (hourly_counts (sm_stamps s)) \<noteq> 0" by (auto simp: hourly_counts_def)
    then have "hourly_counts (sm_stamps s) \<noteq> []" by auto
    with False show ?thesis by (simp add: compute_call_rate_def median_le_p95)
  qed (simp add: compute_call_rate_def)
  moreover have "length (compute_peak_hours (sm_hours s)) \<le> 10"
    using compute_peak_hours_bounds(2) [of "sm_hours s"] by (cases "sm_hours s") (auto simp: compute_peak_hours_def)
  ultimately show ?thesis
    using assms by (simp add: sound_stats_def stats_of_def Let_def py_round_mono trunc_rat_mono median_le_p95
      compute_peak_hours_bounds)
qed

lemma install_sound:
  "table_ok d \<Longrightarrow> list_all (\<lambda>p. sound_stats n (snd p)) (baselines b)
     \<Longrightarrow> list_all (\<lambda>p. sound_stats n (snd p)) (baselines (install_baselines now n d b))"
proof (induction d arbitrary: b)
  case (Cons p ks)
  obtain k s where p: "p = (k, s)" by (cases p)
  with Cons.prems(1) have s: "sm_sizes s \<noteq> []" "length (sm_times s) = length (sm_sizes s)" and ks: "table_ok ks"
    by (simp_all add: table_ok_def)
  show ?case
  proof (cases "length (sm_sizes s) < n")
    case False
    then have "list_all (\<lambda>p. sound_stats n (snd p)) (dput k (stats_of now k s) (baselines b))"
      using Cons.prems(2) s by (intro list_all_dput) (simp_all add: stats_of_sound)
    with False p show ?thesis by (simp add: Cons.IH ks)
  qed (simp add: p Cons.IH ks Cons.prems(2))
qed simp

text \<open>C35: Every baseline a build from nothing installs rests on at least the required number of samples, orders
  median and 95th percentile for rate, size and time, and lists its peak hours in order.\<close>

theorem built_baselines_sound:
  "case build_baseline_from_clean_events P iso_of now lines min_samples (baseline_engine_init []) of
     None \<Rightarrow> True
   | Some b \<Rightarrow> list_all (\<lambda>p. sound_stats (case min_samples of Some n \<Rightarrow> n | None \<Rightarrow> min_data_points) (snd p)) (baselines b)"
proof (cases lines)
  case None then show ?thesis by (simp add: build_baseline_from_clean_events_def baseline_engine_init_def)
next
  case (Some ls)
  show ?thesis
  proof (cases "ingest_lines P iso_of ls (baseline_engine_init [], [])")
    case None with Some show ?thesis by (simp add: build_baseline_from_clean_events_def)
  next
    case (Some r)
    obtain b1 d1 where r: "r = (b1, d1)" by (cases r)
    with Some have *: "table_ok d1" "baselines b1 = []"
      using ingest_lines_ok [of P iso_of ls "baseline_engine_init []" "[]" b1 d1]
      by (simp_all add: table_ok_def baseline_engine_init_def)
    with Some r \<open>lines = Some ls\<close> show ?thesis
      using install_sound [of d1 _ b1] by (simp add: build_baseline_from_clean_events_def)
  qed
qed

text \<open>The key of a pair is ambiguous: a user id with a colon (an IPv6 address) is cut at the first one, so
  the stored profile names another user and another endpoint.\<close>

theorem colon_user_misattributed:
  "split_key (baseline_key user endpoint) = (user, endpoint) \<longleftrightarrow> CHR '':'' \<notin> set user"
proof -
  have "CHR '':'' \<notin> set user \<Longrightarrow> split_key (baseline_key user endpoint) = (user, endpoint)"
    by (induction user) (auto simp: split_key_def baseline_key_def)
  moreover have "CHR '':'' \<notin> set (fst (split_key k))" for k
    by (auto simp: split_key_def dest: set_takeWhileD)
  ultimately show ?thesis by (metis fst_conv)
qed

end
