(* ===== verification/Anomaly_Detector.thy ===== *)
theory Anomaly_Detector
  imports Baselines
begin

text \<open>
  \<open>src/gateway/anomaly_detection/deterministic_anomaly_detector.py\<close>: a request against the baseline of
  its user and endpoint.  \<open>None\<close> is a raised exception (a value that is no number).  \<open>now_hour\<close> is the
  hour of the clock, the ISO time stamp parser the parameter \<open>iso_of\<close>.
\<close>

section \<open>Operations\<close>

datatype anomaly_reason =
    PayloadSize int int
  | Latency rat rat
  | Temporal json "int list"
  | Velocity rat rat

datatype anomaly_severity = SeverityLow | SeverityMedium | SeverityHigh

record anomaly_score =
  an_anomalous :: bool
  an_score :: rat
  an_reasons :: "anomaly_reason list"
  an_severity :: anomaly_severity

definition unremarkable :: anomaly_score where
  "unremarkable = \<lparr>an_anomalous = False, an_score = 0, an_reasons = [], an_severity = SeverityLow\<rparr>"

definition request_user :: "prims \<Rightarrow> json \<Rightarrow> string" where
  "request_user P e = py_str P (first_true e [''user_id'', ''principal_ref''])"

text \<open>The hour of the request: as given, else from its time stamp, else of the clock.\<close>

definition request_hour :: "(string \<Rightarrow> (time \<times> int) option) \<Rightarrow> int \<Rightarrow> json \<Rightarrow> json" where
  "request_hour iso_of now_hour e = (case jget_or JNull e ''request_hour'' of
       JNull \<Rightarrow> (case stamp_of_event iso_of e of Some (t, h) \<Rightarrow> JInt h | None \<Rightarrow> JInt now_hour)
     | h \<Rightarrow> h)"

definition hour_in :: "json \<Rightarrow> int list \<Rightarrow> bool" where
  "hour_in h hs = (case json_num h of Some q \<Rightarrow> q \<in> of_int ` set hs | None \<Rightarrow> False)"

text \<open>The four checks: the points they add and what they report.\<close>

definition size_check :: "int \<Rightarrow> baseline_stats \<Rightarrow> rat \<times> anomaly_reason list" where
  "size_check sz b = (if 0 < bl_size_p95 b \<and> bl_size_p95 b * 2 < sz then (25, [PayloadSize sz (bl_size_p95 b)]) else (0, []))"

definition latency_check :: "rat \<Rightarrow> baseline_stats \<Rightarrow> rat \<times> anomaly_reason list" where
  "latency_check rt b = (if 0 < bl_time_p95 b \<and> bl_time_p95 b * 3 < rt then (20, [Latency rt (bl_time_p95 b)]) else (0, []))"

definition hour_check :: "json \<Rightarrow> baseline_stats \<Rightarrow> rat \<times> anomaly_reason list" where
  "hour_check h b = (if bl_peak_hours b \<noteq> [] \<and> \<not> hour_in h (bl_peak_hours b)
     then (15, [Temporal h (bl_peak_hours b)]) else (0, []))"

definition rate_check :: "json \<Rightarrow> baseline_stats \<Rightarrow> (rat \<times> anomaly_reason list) option" where
  "rate_check r b = (if 0 < bl_rate_p95 b
     then map_option (\<lambda>q. if bl_rate_p95 b * (5/2) < q then (20, [Velocity q (bl_rate_p95 b)]) else (0, [])) (json_num r)
     else Some (0, []))"

definition grade :: "rat \<Rightarrow> anomaly_severity" where
  "grade s = (if s < 25 then SeverityLow else if s < 50 then SeverityMedium else SeverityHigh)"

definition scored_by :: "(rat \<times> anomaly_reason list) list \<Rightarrow> anomaly_score" where
  "scored_by cs = (let s = clamp 0 100 (sum_list (map fst cs)) in
     \<lparr>an_anomalous = 25 \<le> s, an_score = s, an_reasons = concat (map snd cs), an_severity = grade s\<rparr>)"

definition detect_anomalies ::
  "prims \<Rightarrow> (string \<Rightarrow> (time \<times> int) option) \<Rightarrow> int \<Rightarrow> baseline_engine \<Rightarrow> json \<Rightarrow> anomaly_score option" where
  "detect_anomalies P iso_of now_hour be e =
     (case (request_size P e, response_time e) of
        (Some sz, Some rt) \<Rightarrow>
          (case get_baseline (request_user P e) (event_endpoint P e) be of
             None \<Rightarrow> Some unremarkable
           | Some b \<Rightarrow>
             map_option (\<lambda>rc. scored_by [size_check sz b, latency_check rt b,
                 hour_check (request_hour iso_of now_hour e) b, rc])
               (rate_check (jget_or (JFloat 0) e ''current_rate_per_hour'') b))
      | _ \<Rightarrow> None)"

section \<open>What is anomalous\<close>

definition exceeds_size :: "int \<Rightarrow> baseline_stats \<Rightarrow> bool" where
  "exceeds_size sz b \<longleftrightarrow> 0 < bl_size_p95 b \<and> 2 * bl_size_p95 b < sz"

definition exceeds_latency :: "rat \<Rightarrow> baseline_stats \<Rightarrow> bool" where
  "exceeds_latency rt b \<longleftrightarrow> 0 < bl_time_p95 b \<and> 3 * bl_time_p95 b < rt"

definition off_hours :: "json \<Rightarrow> baseline_stats \<Rightarrow> bool" where
  "off_hours h b \<longleftrightarrow> bl_peak_hours b \<noteq> [] \<and> \<not> hour_in h (bl_peak_hours b)"

lemma check_points:
  "fst (size_check sz b) = (if exceeds_size sz b then 25 else 0)"
  "fst (latency_check rt b) = (if exceeds_latency rt b then 20 else 0)"
  "fst (hour_check h b) = (if off_hours h b then 15 else 0)"
  "rate_check r b = Some rc \<Longrightarrow> fst rc = (if snd rc \<noteq> [] then 20 else 0)"
  by (auto simp: size_check_def latency_check_def hour_check_def rate_check_def exceeds_size_def
      exceeds_latency_def off_hours_def mult.commute split: if_splits)

lemma scored_by_bounds: "0 \<le> an_score (scored_by cs) \<and> an_score (scored_by cs) \<le> 100"
  using clamp_bounds [of "0::rat" 100] by (simp add: scored_by_def Let_def)

text \<open>The request the gateway asks about (\<open>anomaly_request_data\<close> of \<open>app.py\<close>): it carries no rate.\<close>

definition anomaly_request :: "string \<Rightarrow> string \<Rightarrow> nat \<Rightarrow> rat \<Rightarrow> int \<Rightarrow> json" where
  "anomaly_request user path sz latency hour = JObj
     [(''user_id'', JStr user), (''path'', JStr path), (''request_size_bytes'', JInt (int sz)),
      (''latency_ms'', JFloat latency), (''request_hour'', JInt hour)]"

definition known :: "string \<Rightarrow> string" where
  "known s = (if s = [] then ''unknown'' else s)"

lemma anomaly_request_reads:
  "request_user P (anomaly_request u p sz lat hr) = known u"
  "event_endpoint P (anomaly_request u p sz lat hr) = known p"
  "request_size P (anomaly_request u p sz lat hr) = Some (int sz)"
  "response_time (anomaly_request u p sz lat hr) = Some lat"
  "request_hour iso_of now_hour (anomaly_request u p sz lat hr) = JInt hr"
  "jget_or (JFloat 0) (anomaly_request u p sz lat hr) ''current_rate_per_hour'' = JFloat 0"
  by (auto simp: request_user_def event_endpoint_def request_size_def response_time_def request_hour_def
      anomaly_request_def first_true_def json_or_def known_def py_int_def py_float_def json_num_def
      jget_or_def Let_def split: list.splits)

lemma rateless_check: "rate_check (JFloat 0) b = Some (0, [])"
  by (auto simp: rate_check_def json_num_def)

text \<open>The detector never fails on a request of the gateway.  Without a baseline it reports nothing; with
  one the score is 25, 20 and 15 points for an oversized body, a slow request and an unusual hour, so the
  request is anomalous exactly when its body is oversized or it is both slow and at an unusual hour, and of
  high severity only when all three hold.\<close>

theorem anomaly_exact:
  "detect_anomalies P iso_of now_hour be (anomaly_request u p sz lat hr) = Some
     (case get_baseline (known u) (known p) be of
        None \<Rightarrow> unremarkable
      | Some b \<Rightarrow>
          let big = exceeds_size (int sz) b; slow = exceeds_latency lat b; odd = off_hours (JInt hr) b in
          \<lparr>an_anomalous = (big \<or> slow \<and> odd),
           an_score = (if big then 25 else 0) + (if slow then 20 else 0) + (if odd then 15 else 0),
           an_reasons = (if big then [PayloadSize (int sz) (bl_size_p95 b)] else [])
             @ (if slow then [Latency lat (bl_time_p95 b)] else [])
             @ (if odd then [Temporal (JInt hr) (bl_peak_hours b)] else []),
           an_severity = (if big \<and> slow \<and> odd then SeverityHigh
             else if big \<or> slow \<and> odd then SeverityMedium else SeverityLow)\<rparr>)"
proof (cases "get_baseline (known u) (known p) be")
  case None
  then show ?thesis by (simp add: detect_anomalies_def anomaly_request_reads)
next
  case (Some b)
  have "size_check (int sz) b = (if exceeds_size (int sz) b then (25, [PayloadSize (int sz) (bl_size_p95 b)]) else (0, []))"
    "latency_check lat b = (if exceeds_latency lat b then (20, [Latency lat (bl_time_p95 b)]) else (0, []))"
    "hour_check (JInt hr) b = (if off_hours (JInt hr) b then (15, [Temporal (JInt hr) (bl_peak_hours b)]) else (0, []))"
    by (simp_all add: size_check_def latency_check_def hour_check_def exceeds_size_def exceeds_latency_def
        off_hours_def mult.commute)
  with Some show ?thesis
    by (simp add: detect_anomalies_def anomaly_request_reads rateless_check Let_def scored_by_def grade_def clamp_def)
qed

end
