(* ===== verification/Feature_Engineering.thy ===== *)
theory Feature_Engineering
  imports Anomaly_Detector
begin

text \<open>
  \<open>src/ml/feature_engineering.py\<close>: the sixteen numbers the models see.  The parameters are the binary
  logarithm \<open>lg\<close> and the ISO parser \<open>iso_of\<close> (instant, hour and weekday); \<open>now\<close> is the
  clock.  \<open>None\<close> is a raised exception.  Paths and methods are texts, quantities are numbers; a truthy
  value of another type counts as raising, a null path as the empty one.
\<close>

section \<open>Features\<close>

record features =
  request_count_1h :: int
  request_count_1d :: int
  unique_endpoints_1h :: int
  unique_endpoints_1d :: int
  request_size_deviation :: rat
  response_time_deviation :: rat
  hour_of_day :: int
  day_of_week :: int
  is_peak_hour :: bool
  endpoint_entropy :: rat
  api_sequence_pattern :: string
  time_between_requests :: rat
  account_age_days :: int
  past_incident_count :: int
  device_diversity :: int
  payload_size_bytes :: int
  method_is_mutation :: rat

definition feature_names :: "string list" where
  "feature_names = [''request_count_1h'', ''request_count_1d'', ''unique_endpoints_1h'',
     ''unique_endpoints_1d'', ''request_size_deviation'', ''response_time_deviation'', ''hour_of_day'',
     ''day_of_week'', ''is_peak_hour'', ''endpoint_entropy'', ''time_between_requests'',
     ''account_age_days'', ''past_incident_count'', ''device_diversity'', ''payload_size_bytes'',
     ''method_is_mutation'']"

definition to_vector :: "features \<Rightarrow> rat list" where
  "to_vector f = [of_int (request_count_1h f), of_int (request_count_1d f), of_int (unique_endpoints_1h f),
     of_int (unique_endpoints_1d f), request_size_deviation f, response_time_deviation f,
     of_int (hour_of_day f), of_int (day_of_week f), if is_peak_hour f then 1 else 0, endpoint_entropy f,
     time_between_requests f, of_int (account_age_days f), of_int (past_incident_count f),
     of_int (device_diversity f), of_int (payload_size_bytes f), method_is_mutation f]"

text \<open>Hour and weekday of an instant in UTC; the first of January 1970 was a Thursday.\<close>

definition utc_hour :: "time \<Rightarrow> int" where
  "utc_hour t = \<lfloor>t / 3600\<rfloor> mod 24"

definition utc_weekday :: "time \<Rightarrow> int" where
  "utc_weekday t = (\<lfloor>t / 86400\<rfloor> + 3) mod 7"

definition default_features :: "time \<Rightarrow> features" where
  "default_features now = \<lparr>request_count_1h = 1, request_count_1d = 1, unique_endpoints_1h = 1,
     unique_endpoints_1d = 1, request_size_deviation = 0, response_time_deviation = 0,
     hour_of_day = utc_hour now, day_of_week = utc_weekday now, is_peak_hour = True, endpoint_entropy = 0,
     api_sequence_pattern = ''root'', time_between_requests = 60, account_age_days = 365,
     past_incident_count = 0, device_diversity = 1, payload_size_bytes = 256, method_is_mutation = 0\<rparr>"

section \<open>Reading events\<close>

type_synonym stamp = "time \<times> int \<times> int"

definition parse_iso :: "(string \<Rightarrow> stamp option) \<Rightarrow> time \<Rightarrow> json \<Rightarrow> stamp" where
  "parse_iso iso_of now ts = (let clock = (now, utc_hour now, utc_weekday now) in
     case ts of JStr (c # s) \<Rightarrow> (case iso_of (c # s) of Some x \<Rightarrow> x | None \<Rightarrow> clock) | _ \<Rightarrow> clock)"

definition text_field :: "json \<Rightarrow> string \<Rightarrow> string option" where
  "text_field e k = (case jget_or (JStr []) e k of
       JStr s \<Rightarrow> Some s | v \<Rightarrow> if truthy v then None else Some [])"

definition first_of :: "json \<Rightarrow> string list \<Rightarrow> json \<Rightarrow> json" where
  "first_of e ks z = foldr (\<lambda>k r. json_or (jget_or JNull e k) r) ks z"

definition event_epoch :: "(string \<Rightarrow> stamp option) \<Rightarrow> time \<Rightarrow> json \<Rightarrow> time option" where
  "event_epoch iso_of now e = (case jget_or JNull e ''ts_epoch'' of
       JNull \<Rightarrow> Some (fst (parse_iso iso_of now (jget_or JNull e ''timestamp'')))
     | v \<Rightarrow> json_num v)"

definition device_of :: "prims \<Rightarrow> json \<Rightarrow> string option" where
  "device_of P e = (let ip = jget_or (JStr []) e ''client_ip''; ua = jget_or (JStr []) e ''user_agent'' in
     if truthy ip \<or> truthy ua then Some (py_str P ip @ '':'' @ py_str P ua) else None)"

definition add_some :: "string option \<Rightarrow> string list \<Rightarrow> string list" where
  "add_some x xs = (case x of None \<Rightarrow> xs | Some s \<Rightarrow> add_name s xs)"

definition nonempty :: "string \<Rightarrow> string option" where
  "nonempty s = (if s = [] then None else Some s)"

section \<open>Volume\<close>

record volume =
  v_1h :: nat
  v_1d :: nat
  v_eps_1h :: "string list"
  v_eps_1d :: "string list"
  v_devices :: "string list"
  v_deltas :: "time list"
  v_recent :: "string list"
  v_prev :: "time option"

definition no_volume :: volume where
  "no_volume = \<lparr>v_1h = 0, v_1d = 0, v_eps_1h = [], v_eps_1d = [], v_devices = [], v_deltas = [],
     v_recent = [], v_prev = None\<rparr>"

definition tally :: "bool \<Rightarrow> bool \<Rightarrow> string \<Rightarrow> string option \<Rightarrow> volume \<Rightarrow> volume" where
  "tally in_1h in_1d path device v = v\<lparr>
     v_1h := v_1h v + (if in_1h then 1 else 0), v_1d := v_1d v + (if in_1d then 1 else 0),
     v_eps_1h := (if in_1h then add_some (nonempty path) (v_eps_1h v) else v_eps_1h v),
     v_eps_1d := (if in_1d then add_some (nonempty path) (v_eps_1d v) else v_eps_1d v),
     v_devices := add_some device (v_devices v),
     v_recent := (if path = [] then v_recent v else v_recent v @ [path])\<rparr>"

definition age :: "time \<Rightarrow> time \<Rightarrow> rat" where
  "age now t = max 0 (now - t)"

fun scan_events ::
  "prims \<Rightarrow> (string \<Rightarrow> stamp option) \<Rightarrow> time \<Rightarrow> time \<Rightarrow> json list \<Rightarrow> volume \<Rightarrow> volume option" where
  "scan_events P iso_of now focus [] v = Some v"
| "scan_events P iso_of now focus (e # es) v =
     (case (is_obj e, event_epoch iso_of now e, text_field e ''path'') of
        (True, Some t, Some path) \<Rightarrow>
          scan_events P iso_of now focus es
            ((tally (age focus t \<le> 3600) (age focus t \<le> 86400) path (device_of P e) v)
              \<lparr>v_deltas := (case v_prev v of None \<Rightarrow> v_deltas v | Some p \<Rightarrow> v_deltas v @ [max 0 (t - p)]),
               v_prev := Some t\<rparr>)
      | _ \<Rightarrow> None)"

section \<open>Deviations, entropy and the vector\<close>

definition deviation :: "rat \<Rightarrow> rat \<Rightarrow> rat" where
  "deviation actual med = (if 0 < med then (actual - med) / med else 0)"

text \<open>What is reported when nothing is known of the pair.\<close>

definition unseen_deviations :: "rat \<Rightarrow> rat \<Rightarrow> rat \<times> rat" where
  "unseen_deviations sz rt = (if 4096 < sz then (sz - 512) / 512 else 0, if 100 < rt then (rt - 20) / 20 else 0)"

definition deviations ::
  "baseline_engine option \<Rightarrow> string \<Rightarrow> string \<Rightarrow> rat \<Rightarrow> rat \<Rightarrow> json \<Rightarrow> rat \<times> rat \<times> bool" where
  "deviations be user endpoint sz rt hour = (case be of
       None \<Rightarrow> (fst (unseen_deviations sz rt), snd (unseen_deviations sz rt), True)
     | Some b \<Rightarrow> (case get_baseline user endpoint b of
         None \<Rightarrow> (fst (unseen_deviations sz rt), snd (unseen_deviations sz rt), False)
       | Some s \<Rightarrow> (deviation sz (of_int (bl_size_median s)), deviation rt (bl_time_median s),
           bl_peak_hours s = [] \<or> hour_in hour (bl_peak_hours s))))"

definition compute_entropy :: "(rat \<Rightarrow> rat) \<Rightarrow> string list \<Rightarrow> rat" where
  "compute_entropy lg xs = (if length xs \<le> 1 then 0
     else - sum_list (map (\<lambda>(x, c). of_nat c / of_nat (length xs) * lg (of_nat c / of_nat (length xs)))
       (count_values xs [])))"

definition last_items :: "nat \<Rightarrow> 'a list \<Rightarrow> 'a list" where
  "last_items n xs = drop (length xs - n) xs"

definition mean_gap :: "time list \<Rightarrow> rat" where
  "mean_gap ds = (if ds = [] then 30 else sum_list ds / of_nat (length ds))"

text \<open>Instant, hour and weekday of the evaluated event.\<close>

definition focus_of :: "(string \<Rightarrow> stamp option) \<Rightarrow> time \<Rightarrow> json \<Rightarrow> (time \<times> json \<times> json) option" where
  "focus_of iso_of now e = (case jget_or JNull e ''ts_epoch'' of
       JNull \<Rightarrow> (case parse_iso iso_of now (jget_or JNull e ''timestamp'') of (t, h, d) \<Rightarrow>
         Some (t, jget_or (JInt h) e ''hour_of_day'', jget_or (JInt d) e ''day_of_week''))
     | v \<Rightarrow> map_option (\<lambda>t. (t,
         (case jget_or JNull e ''hour_of_day'' of JNull \<Rightarrow> JInt (utc_hour t) | h \<Rightarrow> h),
         (case jget_or JNull e ''day_of_week'' of JNull \<Rightarrow> JInt (utc_weekday t) | d \<Rightarrow> d))) (json_num v))"

definition add_current :: "prims \<Rightarrow> json option \<Rightarrow> json list \<Rightarrow> string \<Rightarrow> volume \<Rightarrow> volume" where
  "add_current P cur es path v = (case cur of
       Some e \<Rightarrow> if truthy e \<and> e \<notin> set es then tally True True path (device_of P e) v else v
     | None \<Rightarrow> v)"

definition mutating :: "string \<Rightarrow> bool" where
  "mutating m \<longleftrightarrow> m \<in> set [''POST'', ''PUT'', ''DELETE'', ''PATCH'']"

definition assemble ::
  "prims \<Rightarrow> (rat \<Rightarrow> rat) \<Rightarrow> baseline_engine option \<Rightarrow> json \<Rightarrow> json \<Rightarrow> json \<Rightarrow> string \<Rightarrow> volume \<Rightarrow> features option" where
  "assemble P lg be cur hour day path v =
     (let user = py_str P (first_of cur [''user_id'', ''principal_ref''] (JStr ''anonymous''))
      in case (json_num (first_of cur [''request_size_bytes'', ''payload_size_bytes''] (JInt 0)),
               json_num (first_of cur [''latency_ms'', ''response_time_ms''] (JFloat 0)),
               py_int hour, py_int day,
               py_int (json_or (jget_or JNull cur ''user_account_age_days'') (jget_or (JInt 365) cur ''account_age_days'')),
               py_int (json_or (jget_or JNull cur ''user_incident_count'') (jget_or (JInt 0) cur ''past_incident_count'')),
               jget_or (JStr ''GET'') cur ''method'')
         of (Some sz, Some rt, Some h, Some d, Some acc, Some inc, JStr meth) \<Rightarrow>
           let (size_dev, resp_dev, peak) = deviations be user path sz rt hour
           in Some \<lparr>request_count_1h = int (v_1h v), request_count_1d = int (v_1d v),
             unique_endpoints_1h = max 1 (int (length (v_eps_1h v))),
             unique_endpoints_1d = max 1 (int (length (v_eps_1d v))),
             request_size_deviation = py_round 4 size_dev, response_time_deviation = py_round 4 resp_dev,
             hour_of_day = h, day_of_week = d, is_peak_hour = peak,
             endpoint_entropy = py_round 4 (compute_entropy lg
               (if v_recent v = [] then [path] else last_items 20 (v_recent v))),
             api_sequence_pattern = (if v_recent v = [] then path else sep_by ''->'' (last_items 5 (v_recent v))),
             time_between_requests = py_round 2 (mean_gap (v_deltas v)),
             account_age_days = acc, past_incident_count = inc,
             device_diversity = max 1 (int (length (v_devices v))),
             payload_size_bytes = trunc_rat sz,
             method_is_mutation = (if mutating (upper meth) then 1 else 0)\<rparr>
         | _ \<Rightarrow> None)"

definition extract_features ::
  "prims \<Rightarrow> (string \<Rightarrow> stamp option) \<Rightarrow> (rat \<Rightarrow> rat) \<Rightarrow> time \<Rightarrow> json list \<Rightarrow> baseline_engine option
     \<Rightarrow> json option \<Rightarrow> features option" where
  "extract_features P iso_of lg now es be cur =
     (case (case cur of Some e \<Rightarrow> if truthy e then Some e else if es = [] then None else Some (last es)
            | None \<Rightarrow> if es = [] then None else Some (last es)) of
        None \<Rightarrow> Some (default_features now)
      | Some e \<Rightarrow>
          if \<not> is_obj e then None
          else (case (focus_of iso_of now e, text_field e ''path'') of
             (Some (t, h, d), Some path) \<Rightarrow>
               Option.bind (scan_events P iso_of now t es no_volume)
                 (\<lambda>v. assemble P lg be e h d path (add_current P cur es path v))
           | _ \<Rightarrow> None))"

section \<open>Consistency of the counts\<close>

definition volume_ok :: "nat \<Rightarrow> volume \<Rightarrow> bool" where
  "volume_ok n v \<longleftrightarrow> v_1h v \<le> v_1d v \<and> v_1d v \<le> n
     \<and> set (v_eps_1h v) \<subseteq> set (v_eps_1d v) \<and> distinct (v_eps_1h v) \<and> distinct (v_eps_1d v)
     \<and> length (v_eps_1d v) \<le> v_1d v \<and> length (v_devices v) \<le> n \<and> (\<forall>d \<in> set (v_deltas v). 0 \<le> d)"

lemma length_add_name: "length (add_name x xs) \<le> Suc (length xs)"
  by (simp add: add_name_def)

lemma add_some_facts:
  "length (add_some x xs) \<le> Suc (length xs)" "distinct xs \<Longrightarrow> distinct (add_some x xs)"
  "set (add_some x xs) = (case x of None \<Rightarrow> {} | Some s \<Rightarrow> {s}) \<union> set xs"
  by (auto simp: add_some_def add_name_def split: option.splits)

lemma tally_ok:
  assumes "volume_ok n v" "in_1h \<Longrightarrow> in_1d"
  shows "volume_ok (Suc n) (tally in_1h in_1d path device v)"
proof -
  have "length (add_some device (v_devices v)) \<le> Suc n"
    using assms(1) add_some_facts(1) [of device "v_devices v"] by (simp add: volume_ok_def)
  moreover have "length (v_eps_1d (tally in_1h in_1d path device v)) \<le> v_1d (tally in_1h in_1d path device v)"
    using assms add_some_facts(1) [of "nonempty path" "v_eps_1d v"] by (auto simp: tally_def volume_ok_def)
  ultimately show ?thesis
    using assms by (auto simp: volume_ok_def tally_def add_some_facts)
qed

lemma volume_ok_delta: "volume_ok n v \<Longrightarrow> \<forall>d \<in> set ds. 0 \<le> d \<Longrightarrow> volume_ok n (v\<lparr>v_deltas := ds, v_prev := p\<rparr>)"
  by (simp add: volume_ok_def)

lemma scan_events_ok:
  "scan_events P iso_of now focus es v = Some v' \<Longrightarrow> volume_ok n v \<Longrightarrow> volume_ok (n + length es) v'"
proof (induction es arbitrary: n v)
  case (Cons e es)
  from Cons.prems(1) obtain t path where
    r: "scan_events P iso_of now focus es
      ((tally (age focus t \<le> 3600) (age focus t \<le> 86400) path (device_of P e) v)
        \<lparr>v_deltas := (case v_prev v of None \<Rightarrow> v_deltas v | Some p \<Rightarrow> v_deltas v @ [max 0 (t - p)]),
         v_prev := Some t\<rparr>) = Some v'"
    by (auto split: bool.splits option.splits)
  have "volume_ok (Suc n) (tally (age focus t \<le> 3600) (age focus t \<le> 86400) path (device_of P e) v)"
    by (rule tally_ok [OF Cons.prems(2)]) simp
  moreover have "\<forall>d \<in> set (case v_prev v of None \<Rightarrow> v_deltas v | Some p \<Rightarrow> v_deltas v @ [max 0 (t - p)]). 0 \<le> d"
    using Cons.prems(2) by (auto simp: volume_ok_def split: option.splits)
  ultimately show ?case using Cons.IH [OF r volume_ok_delta [where n = "Suc n"]] by simp
qed simp

lemma add_current_ok: "volume_ok n v \<Longrightarrow> volume_ok (Suc n) (add_current P cur es path v)"
proof -
  assume v: "volume_ok n v"
  then have "volume_ok (Suc n) v" by (simp add: volume_ok_def)
  moreover have "volume_ok (Suc n) (tally True True path d v)" for d using tally_ok [OF v] by simp
  ultimately show ?thesis by (simp add: add_current_def split: option.split)
qed

lemma mean_gap_nonneg: "\<forall>d \<in> set ds. 0 \<le> d \<Longrightarrow> 0 \<le> py_round 2 (mean_gap ds)"
proof -
  assume "\<forall>d \<in> set ds. 0 \<le> d"
  then have "0 \<le> mean_gap ds" by (auto simp: mean_gap_def intro!: divide_nonneg_nonneg sum_list_nonneg)
  then show ?thesis using py_round_mono [of 0 "mean_gap ds" 2] by simp
qed

definition features_ok :: "nat \<Rightarrow> features \<Rightarrow> bool" where
  "features_ok n f \<longleftrightarrow> request_count_1h f \<le> request_count_1d f \<and> request_count_1d f \<le> int n
     \<and> 1 \<le> unique_endpoints_1h f \<and> unique_endpoints_1h f \<le> unique_endpoints_1d f
     \<and> unique_endpoints_1d f \<le> max 1 (request_count_1d f)
     \<and> 1 \<le> device_diversity f \<and> device_diversity f \<le> max 1 (int n) \<and> 0 \<le> time_between_requests f
     \<and> length (to_vector f) = length feature_names"

lemma vector_width: "length (to_vector f) = length feature_names"
  by (simp add: to_vector_def feature_names_def)

lemma assemble_ok:
  assumes "volume_ok n v" "assemble P lg be cur hour day path v = Some f"
  shows "features_ok n f"
proof -
  have "length (v_eps_1h v) \<le> length (v_eps_1d v)"
    using assms(1) by (auto simp: volume_ok_def intro!: card_mono dest!: distinct_card [symmetric])
  moreover have "request_count_1h f = int (v_1h v) \<and> request_count_1d f = int (v_1d v)
      \<and> unique_endpoints_1h f = max 1 (int (length (v_eps_1h v)))
      \<and> unique_endpoints_1d f = max 1 (int (length (v_eps_1d v)))
      \<and> device_diversity f = max 1 (int (length (v_devices v)))
      \<and> time_between_requests f = py_round 2 (mean_gap (v_deltas v))"
    using assms(2) by (auto simp: assemble_def Let_def split: option.splits json.splits prod.splits)
  ultimately show ?thesis
    using assms(1) mean_gap_nonneg [of "v_deltas v"]
    by (auto simp: features_ok_def vector_width volume_ok_def max_def)
qed

text \<open>Whatever the events, a feature vector has sixteen entries, the counts of the hour never exceed those
  of the day, those never the number of events looked at, and the distinct paths and devices lie between one
  and these counts.\<close>

theorem features_consistent:
  "case extract_features P iso_of lg now es be cur of
     None \<Rightarrow> True | Some f \<Rightarrow> features_ok (Suc (length es)) f"
proof -
  have *: "extract_features P iso_of lg now es be cur = Some f \<Longrightarrow> features_ok (Suc (length es)) f" for f
  proof -
    assume a: "extract_features P iso_of lg now es be cur = Some f"
    have "volume_ok 0 no_volume" by (simp add: volume_ok_def no_volume_def)
    then have v: "scan_events P iso_of now t es no_volume = Some v
        \<Longrightarrow> volume_ok (Suc (length es)) (add_current P cur es path v)" for t v path
      using scan_events_ok [of P iso_of now t es no_volume v 0] add_current_ok by auto
    have "f = default_features now \<or> (\<exists>t v e h d path. scan_events P iso_of now t es no_volume = Some v
        \<and> assemble P lg be e h d path (add_current P cur es path v) = Some f)"
      using a unfolding extract_features_def bind_eq_Some_conv
      by (auto simp: bind_eq_Some_conv split: option.splits if_splits prod.splits)
    moreover have "features_ok (Suc (length es)) (default_features now)"
      by (simp add: features_ok_def default_features_def vector_width)
    ultimately show ?thesis using v assemble_ok by blast
  qed
  then show ?thesis by (auto split: option.splits)
qed

end
