(* ===== verification/ML_Service.thy ===== *)
theory ML_Service
  imports Feature_Engineering
begin

text \<open>
  \<open>src/ml/model_service.py\<close>: the advisory scoring service.  A loaded model and scaler are values of
  arbitrary types \<open>'m\<close> and \<open>'c\<close>; scaling a vector and applying \<open>decision_function\<close> to it is the parameter
  \<open>infer\<close>, which returns \<open>None\<close> where scikit-learn raises.  Elapsed times are arguments.
\<close>

section \<open>State and loading\<close>

text \<open>A model file: absent, not loadable, or holding a value.\<close>

datatype 'a model_file = Absent | Unreadable | Holds 'a

record ('m, 'c) ml_service =
  ml_canary_pct :: rat
  ml_enabled :: bool
  ml_rolled_back :: bool
  ml_rollback_reason :: "string option"
  ml_rolled_back_at :: "time option"
  ml_model :: "'m option"
  ml_scaler :: "'c option"
  ml_metadata :: json
  total_inferences :: nat
  total_anomalies :: nat
  total_latency :: rat

definition load_models ::
  "'m model_file \<Rightarrow> 'c model_file \<Rightarrow> json model_file \<Rightarrow> ('m, 'c) ml_service \<Rightarrow> bool \<times> ('m, 'c) ml_service" where
  "load_models mf cf jf s =
     (case (mf, cf) of
        (Absent, _) \<Rightarrow> (False, s)
      | (_, Absent) \<Rightarrow> (False, s)
      | (Unreadable, _) \<Rightarrow> (False, s)
      | (Holds m, Unreadable) \<Rightarrow> (False, s\<lparr>ml_model := Some m\<rparr>)
      | (Holds m, Holds c) \<Rightarrow>
          let s1 = s\<lparr>ml_model := Some m, ml_scaler := Some c\<rparr>
          in (case jf of Absent \<Rightarrow> (True, s1) | Unreadable \<Rightarrow> (False, s1)
              | Holds j \<Rightarrow> (True, s1\<lparr>ml_metadata := j\<rparr>)))"

definition ml_service_init ::
  "'m model_file \<Rightarrow> 'c model_file \<Rightarrow> json model_file \<Rightarrow> rat \<Rightarrow> bool \<Rightarrow> ('m, 'c) ml_service" where
  "ml_service_init mf cf jf pct on = snd (load_models mf cf jf
     \<lparr>ml_canary_pct = pct, ml_enabled = on, ml_rolled_back = False, ml_rollback_reason = None,
      ml_rolled_back_at = None, ml_model = None, ml_scaler = None, ml_metadata = JObj [],
      total_inferences = 0, total_anomalies = 0, total_latency = 0\<rparr>)"

definition operational :: "('m, 'c) ml_service \<Rightarrow> bool" where
  "operational s \<longleftrightarrow> ml_enabled s \<and> \<not> ml_rolled_back s \<and> ml_model s \<noteq> None \<and> ml_scaler s \<noteq> None"

section \<open>Canary evaluation and scoring\<close>

definition request_bucket :: "prims \<Rightarrow> string \<Rightarrow> int" where
  "request_bucket P request_id =
     (case hex_digits 0 (take 8 (sha256_hex P request_id)) of Some v \<Rightarrow> v mod 10000 | None \<Rightarrow> 0)"

definition should_evaluate_ml :: "prims \<Rightarrow> string \<Rightarrow> rat option \<Rightarrow> ('m, 'c) ml_service \<Rightarrow> bool" where
  "should_evaluate_ml P request_id canary_pct s =
     (let pct = (case canary_pct of None \<Rightarrow> ml_canary_pct s | Some p \<Rightarrow> p)
      in if \<not> operational s then False
         else if pct \<le> 0 then False
         else if 100 \<le> pct then True
         else of_int (request_bucket P request_id) < pct * 100)"

datatype ml_reason =
    NotActive
  | RollbackActive "string option"
  | Outlier rat rat
  | SizeDeviation rat
  | OffPeak int
  | HighEntropy rat
  | InferenceError

record ml_result =
  ml_score :: rat
  ml_confidence :: rat
  ml_anomalous :: bool
  ml_advisory :: bool
  ml_latency :: rat
  ml_reasons :: "ml_reason list"

definition null_result :: "rat \<Rightarrow> ml_reason list \<Rightarrow> ml_result" where
  "null_result elapsed rs = \<lparr>ml_score = 0, ml_confidence = 0, ml_anomalous = False, ml_advisory = True,
     ml_latency = elapsed, ml_reasons = rs\<rparr>"

text \<open>The bounded score, the confidence and the verdict for a value of the decision function.\<close>

definition score_of :: "rat \<Rightarrow> rat" where
  "score_of dec = py_round 2 (min 100 (max 0 ((15/100 - dec) / (30/100) * 100)))"

definition confidence_of :: "rat \<Rightarrow> rat" where
  "confidence_of dec = py_round 2 (min 1 (max (20/100) (\<bar>dec\<bar> * (35/10))))"

definition anomalous_at :: "rat \<Rightarrow> bool" where
  "anomalous_at dec \<longleftrightarrow> dec < 0 \<or> 50 \<le> score_of dec"

definition outlier_reasons :: "features \<Rightarrow> rat \<Rightarrow> ml_reason list" where
  "outlier_reasons f dec = (if anomalous_at dec
     then [Outlier (score_of dec) (confidence_of dec)]
       @ (if 15/10 < request_size_deviation f then [SizeDeviation (request_size_deviation f)] else [])
       @ (if is_peak_hour f then [] else [OffPeak (hour_of_day f)])
       @ (if 25/10 < endpoint_entropy f then [HighEntropy (endpoint_entropy f)] else [])
     else [])"

definition score_request ::
  "('m \<Rightarrow> 'c \<Rightarrow> rat list \<Rightarrow> rat option) \<Rightarrow> rat \<Rightarrow> features \<Rightarrow> ('m, 'c) ml_service
     \<Rightarrow> ml_result \<times> ('m, 'c) ml_service" where
  "score_request infer elapsed f s =
     (case (operational s, ml_model s, ml_scaler s) of
        (True, Some m, Some c) \<Rightarrow>
          (case infer m c (to_vector f) of
             None \<Rightarrow> (null_result (py_round 3 elapsed) [InferenceError], s)
           | Some dec \<Rightarrow>
               (\<lparr>ml_score = score_of dec, ml_confidence = confidence_of dec, ml_anomalous = anomalous_at dec,
                 ml_advisory = True, ml_latency = py_round 3 elapsed, ml_reasons = outlier_reasons f dec\<rparr>,
                s\<lparr>total_inferences := total_inferences s + 1,
                  total_anomalies := total_anomalies s + (if anomalous_at dec then 1 else 0),
                  total_latency := total_latency s + elapsed\<rparr>))
      | _ \<Rightarrow> (null_result elapsed (NotActive # (if ml_rolled_back s then [RollbackActive (ml_rollback_reason s)] else [])), s))"

section \<open>Operator actions\<close>

definition ml_rollback :: "time \<Rightarrow> string \<Rightarrow> ('m, 'c) ml_service \<Rightarrow> ('m, 'c) ml_service" where
  "ml_rollback now reason s = s\<lparr>ml_rolled_back := True, ml_rollback_reason := Some reason, ml_rolled_back_at := Some now\<rparr>"

definition ml_recover :: "('m, 'c) ml_service \<Rightarrow> ('m, 'c) ml_service" where
  "ml_recover s = s\<lparr>ml_rolled_back := False, ml_rollback_reason := None, ml_rolled_back_at := None\<rparr>"

definition set_canary_percentage :: "rat \<Rightarrow> ('m, 'c) ml_service \<Rightarrow> ('m, 'c) ml_service" where
  "set_canary_percentage p s = s\<lparr>ml_canary_pct := max 0 (min 100 p)\<rparr>"

datatype ml_state = RolledBack | Healthy | Standby

record ml_health =
  mh_status :: ml_state
  mh_enabled :: bool
  mh_rolled_back :: bool
  mh_reason :: "string option"
  mh_canary :: rat
  mh_loaded :: bool
  mh_inferences :: nat
  mh_anomalies :: nat
  mh_avg_latency :: rat
  mh_metadata :: json

definition ml_get_health :: "('m, 'c) ml_service \<Rightarrow> ml_health" where
  "ml_get_health s = \<lparr>
     mh_status = (if ml_rolled_back s then RolledBack else if ml_model s \<noteq> None then Healthy else Standby),
     mh_enabled = ml_enabled s, mh_rolled_back = ml_rolled_back s, mh_reason = ml_rollback_reason s,
     mh_canary = ml_canary_pct s, mh_loaded = (ml_model s \<noteq> None), mh_inferences = total_inferences s,
     mh_anomalies = total_anomalies s,
     mh_avg_latency = py_round 3 (if 0 < total_inferences s then total_latency s / of_nat (total_inferences s) else 0),
     mh_metadata = ml_metadata s\<rparr>"

section \<open>Scores are bounded and advisory\<close>

lemma score_bounds: "0 \<le> score_of d \<and> score_of d \<le> 100"
  using py_round_between_ints [of 0 "min 100 (max 0 ((15/100 - d) / (30/100) * 100))" 100 2]
  by (simp add: score_of_def)

lemma confidence_bounds: "2/10 \<le> confidence_of d \<and> confidence_of d \<le> 1"
proof -
  let ?x = "min 1 (max (20/100) (\<bar>d\<bar> * (35/10))) :: rat"
  have "py_round 2 (2/10) = 2/10" by (simp add: py_round_def round_half_even_def Let_def)
  moreover have "py_round 2 (2/10) \<le> py_round 2 ?x" by (rule py_round_mono) simp
  moreover have "py_round 2 ?x \<le> py_round 2 1" by (rule py_round_mono) simp
  moreover have "py_round 2 1 = 1" using py_round_of_int [of 2 1] by simp
  ultimately show ?thesis by (simp add: confidence_of_def)
qed

lemma anomalous_iff_score: "anomalous_at d \<longleftrightarrow> 50 \<le> score_of d"
proof -
  have "d < 0 \<Longrightarrow> py_round 2 50 \<le> score_of d"
    unfolding score_of_def by (rule py_round_mono) simp
  then show ?thesis by (auto simp: anomalous_at_def)
qed

text \<open>Whatever the model computes, or if it fails, the score lies between 0 and 100 and the confidence
  between 0 and 1, the request counts as anomalous exactly when its score is at least 50, the result is
  marked advisory, and the counters stay consistent: never more anomalies than inferences.\<close>

theorem ml_result_consistent:
  "let (r, s') = score_request infer elapsed f s in
     0 \<le> ml_score r \<and> ml_score r \<le> 100 \<and> 0 \<le> ml_confidence r \<and> ml_confidence r \<le> 1
   \<and> (ml_anomalous r \<longleftrightarrow> 50 \<le> ml_score r) \<and> ml_advisory r
   \<and> total_anomalies s' + total_inferences s \<le> total_inferences s' + total_anomalies s
   \<and> ml_model s' = ml_model s \<and> ml_canary_pct s' = ml_canary_pct s \<and> ml_rolled_back s' = ml_rolled_back s"
proof -
  have "0 \<le> confidence_of d \<and> confidence_of d \<le> 1" for d using confidence_bounds [of d] by linarith
  then show ?thesis
    by (auto simp: score_request_def null_result_def score_bounds anomalous_iff_score
        split: bool.split option.split)
qed

text \<open>A rollback stops the scoring of every request at once, whatever share was configured, and recovering
  from it leaves the service as a recovery without it would.\<close>

theorem ml_rollback_halts:
  "\<not> should_evaluate_ml P request_id pct (ml_rollback now why s)
   \<and> score_request infer elapsed f (ml_rollback now why s)
       = (null_result elapsed [NotActive, RollbackActive (Some why)], ml_rollback now why s)
   \<and> ml_recover (ml_rollback now why s) = ml_recover s"
  by (simp add: should_evaluate_ml_def score_request_def operational_def ml_rollback_def ml_recover_def)

lemma request_bucket_range: "0 \<le> request_bucket P i \<and> request_bucket P i < 10000"
  by (simp add: request_bucket_def split: option.split)

text \<open>Raising the canary share never takes a request out of the scored ones; the share of scored requests is
  decided by the hash of the request id alone.\<close>

theorem ml_rollout_monotone:
  assumes "p \<le> q" and "should_evaluate_ml P request_id (Some p) s"
  shows "should_evaluate_ml P request_id (Some q) s"
  using assms by (auto simp: should_evaluate_ml_def Let_def split: if_splits)

lemma canary_share_exact:
  "0 < p \<Longrightarrow> p < 100 \<Longrightarrow> operational s \<Longrightarrow>
     should_evaluate_ml P i (Some p) s \<longleftrightarrow> of_int (request_bucket P i) < p * 100"
  by (simp add: should_evaluate_ml_def)

definition demo_ml :: "(unit, unit) ml_service" where
  "demo_ml = ml_service_init (Holds ()) (Holds ()) Absent 10 True"

definition demo_digest :: prims where
  "demo_digest = \<lparr>hmac_hex = (\<lambda>_ s. s), sha256_hex = (\<lambda>s. ''000001f4''), float_repr = (\<lambda>_. []),
     container_str = (\<lambda>_. [])\<rparr>"

lemma ml_rollout_monotone_witness: "should_evaluate_ml demo_digest ''r1'' (Some 50) demo_ml"
proof -
  have "should_evaluate_ml demo_digest ''r1'' (Some 10) demo_ml" by code_simp
  then show ?thesis using ml_rollout_monotone [of 10 50 demo_digest "''r1''" demo_ml] by simp
qed

end
