(* ===== verification/ML_Training.thy ===== *)
theory ML_Training
  imports ML_Service Sliding_Window
begin

text \<open>
  \<open>src/ml/train_models.py\<close> and \<open>src/ml/retraining_pipeline.py\<close>: building the training set, fitting and
  judging a model, the drift report, the promotion gates and the alert deduplicator.
  scikit-learn is a record of parameters (\<open>None\<close> where it raises): \<open>fit\<close> takes rows, contamination, number
  of trees and seed and returns the forest and the fitted scaler, \<open>predict\<close> the labels (1 or -1)
  of scaled rows.  The square sq_root and the generator of synthetic events are parameters.  The model directory is
  a dictionary from file names to stored values; arrays are lists of rows of equal length.  An exception ends the
  cycle, and with it the pipeline object, which the gateway creates anew for every cycle.
\<close>

section \<open>Training\<close>

record ('m, 'c) sklearn =
  sk_fit :: "rat list list \<Rightarrow> rat \<Rightarrow> nat \<Rightarrow> nat \<Rightarrow> ('m \<times> 'c) option"
  sk_predict :: "'m \<Rightarrow> 'c \<Rightarrow> rat list list \<Rightarrow> int list option"

datatype train_error = EmptyDataset | NotTrained | NothingToSave | EmptyDriftData | LibraryError

datatype ('m, 'c) stored = SModel 'm | SScaler 'c | SMeta json

record ('m, 'c) trainer =
  tr_dir :: "(string, ('m, 'c) stored) dict"
  tr_model :: "'m option"
  tr_scaler :: "'c option"
  tr_metadata :: json

definition trainer_init :: "(string, ('m, 'c) stored) dict \<Rightarrow> ('m, 'c) trainer" where
  "trainer_init dir = \<lparr>tr_dir = dir, tr_model = None, tr_scaler = None, tr_metadata = JObj []\<rparr>"

fun dataset_rows ::
  "(json list \<Rightarrow> json \<Rightarrow> features option) \<Rightarrow> json list \<Rightarrow> (json, json list) dict \<Rightarrow> rat list list option" where
  "dataset_rows ext [] h = Some []"
| "dataset_rows ext (e # es) h =
     (let uid = first_of e [''user_id'', ''principal_ref''] (JStr ''anonymous'');
          past = dget_or [] h uid @ [e]
      in if \<not> is_obj e \<or> \<not> hashable uid then None
         else (case ext past e of
             None \<Rightarrow> None
           | Some f \<Rightarrow> map_option ((#) (to_vector f)) (dataset_rows ext es (dput uid past h))))"

definition extract_dataset ::
  "prims \<Rightarrow> (string \<Rightarrow> stamp option) \<Rightarrow> (rat \<Rightarrow> rat) \<Rightarrow> time \<Rightarrow> baseline_engine option \<Rightarrow> json list
     \<Rightarrow> rat list list option" where
  "extract_dataset P iso_of lg now be es =
     dataset_rows (\<lambda>past e. extract_features P iso_of lg now past be (Some e)) es []"

definition train_metadata :: "string \<Rightarrow> rat list list \<Rightarrow> rat \<Rightarrow> nat \<Rightarrow> json" where
  "train_metadata stamp X contamination n = JObj
     [(''trained_at'', JStr stamp), (''sample_count'', JInt (int (length X))),
      (''feature_count'', JInt (int (length (hd X)))), (''feature_names'', JList (map JStr feature_names)),
      (''contamination'', JFloat contamination), (''n_estimators'', JInt (int n)),
      (''model_type'', JStr ''IsolationForest'')]"

definition train_isolation_forest ::
  "('m, 'c) sklearn \<Rightarrow> string \<Rightarrow> rat list list \<Rightarrow> rat \<Rightarrow> nat \<Rightarrow> nat \<Rightarrow> ('m, 'c) trainer
     \<Rightarrow> train_error + ('m \<times> 'c) \<times> ('m, 'c) trainer" where
  "train_isolation_forest K stamp X contamination n seed t =
     (if X = [] then Inl EmptyDataset
      else (case sk_fit K X contamination n seed of
          None \<Rightarrow> Inl LibraryError
        | Some (m, c) \<Rightarrow> Inr ((m, c), t\<lparr>tr_model := Some m, tr_scaler := Some c,
            tr_metadata := train_metadata stamp X contamination n\<rparr>)))"

record ml_metrics =
  false_positive_rate :: rat
  false_negative_rate :: rat
  normal_samples :: nat
  anomalous_samples :: nat

definition label_rate :: "int \<Rightarrow> int list \<Rightarrow> rat" where
  "label_rate l ps = (if ps = [] then 0 else of_nat (length (filter (\<lambda>p. p = l) ps)) / of_nat (length ps))"

definition evaluate_model ::
  "('m, 'c) sklearn \<Rightarrow> rat list list \<Rightarrow> rat list list \<Rightarrow> ('m, 'c) trainer \<Rightarrow> train_error + ml_metrics" where
  "evaluate_model K X_normal X_anomalous t =
     (case (tr_model t, tr_scaler t) of
        (Some m, Some c) \<Rightarrow>
          (case (sk_predict K m c X_normal, sk_predict K m c X_anomalous) of
             (Some ps, Some qs) \<Rightarrow> Inr \<lparr>false_positive_rate = py_round 4 (label_rate (-1) ps),
                 false_negative_rate = py_round 4 (label_rate 1 qs),
                 normal_samples = length ps, anomalous_samples = length qs\<rparr>
           | _ \<Rightarrow> Inl LibraryError)
      | _ \<Rightarrow> Inl NotTrained)"

definition model_name :: string where "model_name = ''isolation_forest.joblib''"
definition scaler_name :: string where "scaler_name = ''scaler.joblib''"
definition metadata_name :: string where "metadata_name = ''metadata.json''"

definition save_models :: "string \<Rightarrow> ('m, 'c) trainer \<Rightarrow> train_error + ('m, 'c) trainer" where
  "save_models prefix t =
     (let p = (if prefix = [] then [] else prefix @ ''_'')
      in case (tr_model t, tr_scaler t) of
         (Some m, Some c) \<Rightarrow> Inr (t\<lparr>tr_dir := dput (p @ metadata_name) (SMeta (tr_metadata t))
             (dput (p @ scaler_name) (SScaler c) (dput (p @ model_name) (SModel m) (tr_dir t)))\<rparr>)
       | _ \<Rightarrow> Inl NothingToSave)"

definition train_from_tier1_baseline ::
  "('m, 'c) sklearn \<Rightarrow> (json list \<Rightarrow> rat list list option) \<Rightarrow> (int \<Rightarrow> json list) \<Rightarrow> string
     \<Rightarrow> json option list option \<Rightarrow> rat \<Rightarrow> ('m, 'c) trainer \<Rightarrow> train_error + ('m, 'c) trainer" where
  "train_from_tier1_baseline K dataset synth stamp file contamination t =
     (let clean = (case file of None \<Rightarrow> [] | Some ls \<Rightarrow> List.map_filter id ls);
          es = (if length clean < 50 then clean @ synth (100 - int (length clean)) else clean)
      in case dataset es of
          None \<Rightarrow> Inl LibraryError
        | Some X \<Rightarrow> (case train_isolation_forest K stamp X contamination 50 42 t of
            Inl e \<Rightarrow> Inl e | Inr (_, t') \<Rightarrow> save_models [] t'))"

section \<open>Concept drift\<close>

record drift_report =
  drift_detected :: bool
  overall_drift :: rat
  drifted_features :: "string list"
  feature_deltas :: "(string \<times> rat) list"
  size_baseline :: nat
  size_current :: nat

definition mean_of :: "rat list \<Rightarrow> rat" where
  "mean_of xs = sum_list xs / of_nat (length xs)"

definition std_of :: "(rat \<Rightarrow> rat) \<Rightarrow> rat list \<Rightarrow> rat" where
  "std_of sq_root xs = sq_root (mean_of (map (\<lambda>x. (x - mean_of xs)\<^sup>2) xs))"

definition column :: "nat \<Rightarrow> rat list list \<Rightarrow> rat list" where
  "column j X = map (\<lambda>r. r ! j) X"

definition feature_name :: "nat \<Rightarrow> string" where
  "feature_name j = (if j < length feature_names then feature_names ! j else ''feature_'' @ str_int (int j))"

definition shift_of :: "(rat \<Rightarrow> rat) \<Rightarrow> rat list list \<Rightarrow> rat list list \<Rightarrow> nat \<Rightarrow> rat" where
  "shift_of sq_root B C j = \<bar>mean_of (column j C) - mean_of (column j B)\<bar> / (std_of sq_root (column j B) + 1 / 10 ^ 6)"

definition evaluate_drift ::
  "(rat \<Rightarrow> rat) \<Rightarrow> rat \<Rightarrow> rat \<Rightarrow> rat list list \<Rightarrow> rat list list \<Rightarrow> train_error + drift_report" where
  "evaluate_drift sq_root threshold feature_threshold B C =
     (if B = [] \<or> C = [] then Inl EmptyDriftData
      else let js = [0..<min (length (hd B)) (length (hd C))];
               deltas = map (\<lambda>j. (feature_name j, py_round 4 (shift_of sq_root B C j))) js;
               drifted = map feature_name (filter (\<lambda>j. feature_threshold \<le> shift_of sq_root B C j) js);
               overall_score = (if deltas = [] then 0 else mean_of (map snd deltas))
           in Inr \<lparr>drift_detected = (threshold \<le> overall_score \<or> 3 \<le> length drifted),
                   overall_drift = py_round 4 overall_score, drifted_features = drifted,
                   feature_deltas = deltas, size_baseline = length B, size_current = length C\<rparr>)"

section \<open>Retraining and promotion\<close>

record retraining_result =
  promotion_granted :: bool
  rr_fpr :: rat
  rr_fnr :: rat
  candidate_path :: "string option"
  rr_drift :: "drift_report option"

definition max_permitted_fpr :: rat where "max_permitted_fpr = 1/100"
definition max_permitted_fnr :: rat where "max_permitted_fnr = 5/100"

definition meta_entries :: "json \<Rightarrow> (string \<times> json) list" where
  "meta_entries j = (case j of JObj kvs \<Rightarrow> kvs | _ \<Rightarrow> [])"

definition candidate_meta :: "string \<Rightarrow> ml_metrics \<Rightarrow> json \<Rightarrow> json" where
  "candidate_meta stamp x meta = JObj (fold (\<lambda>(k, v). dput k v)
     [(''validation_fpr'', JFloat (false_positive_rate x)), (''validation_fnr'', JFloat (false_negative_rate x)),
      (''promotion_granted'', JBool True), (''promoted_at'', JStr stamp)] (meta_entries meta))"

definition store_candidate :: "string \<Rightarrow> 'm \<Rightarrow> 'c \<Rightarrow> ml_metrics \<Rightarrow> ('m, 'c) trainer \<Rightarrow> ('m, 'c) trainer" where
  "store_candidate stamp m c x t = t\<lparr>tr_dir :=
     dput ''candidate_metadata.json'' (SMeta (candidate_meta stamp x (tr_metadata t)))
       (dput ''candidate_scaler.pkl'' (SScaler c) (dput ''candidate_model.pkl'' (SModel m) (tr_dir t)))\<rparr>"

definition drift_check ::
  "(rat \<Rightarrow> rat) \<Rightarrow> rat list list option \<Rightarrow> rat list list \<Rightarrow> train_error + drift_report option" where
  "drift_check sq_root reference X = (case reference of
       None \<Rightarrow> Inr None
     | Some B \<Rightarrow> if B = [] then Inr None
         else (case evaluate_drift sq_root (25/100) (35/100) B X of Inl e \<Rightarrow> Inl e | Inr r \<Rightarrow> Inr (Some r)))"

definition run_retraining_cycle ::
  "('m, 'c) sklearn \<Rightarrow> (rat \<Rightarrow> rat) \<Rightarrow> string \<Rightarrow> rat option \<Rightarrow> rat list list \<Rightarrow> rat list list \<Rightarrow> rat list list
     \<Rightarrow> rat list list option \<Rightarrow> rat \<Rightarrow> ('m, 'c) trainer
     \<Rightarrow> train_error + retraining_result \<times> ('m, 'c) trainer" where
  "run_retraining_cycle K sq_root stamp max_fpr X V_normal V_anomalous reference contamination t =
     (case drift_check sq_root reference X of
        Inl e \<Rightarrow> Inl e
      | Inr drift \<Rightarrow>
          (case train_isolation_forest K stamp X contamination 50 42 t of
             Inl e \<Rightarrow> Inl e
           | Inr ((m, c), t1) \<Rightarrow>
               (case evaluate_model K V_normal V_anomalous t1 of
                  Inl e \<Rightarrow> Inl e
                | Inr x \<Rightarrow>
                    let fpr = false_positive_rate x; fnr = false_negative_rate x;
                        ok = (fpr \<le> (case max_fpr of Some q \<Rightarrow> q | None \<Rightarrow> max_permitted_fpr) \<and> fnr \<le> max_permitted_fnr)
                    in Inr (\<lparr>promotion_granted = ok, rr_fpr = fpr, rr_fnr = fnr,
                              candidate_path = (if ok then Some ''candidate_model.pkl'' else None),
                              rr_drift = drift\<rparr>,
                            if ok then store_candidate stamp m c x t1 else t1))))"

section \<open>Alert deduplication\<close>

record deduplicator =
  dd_window :: time
  dd_max :: nat
  dd_history :: "(string, time list) dict"

definition deduplicator_init :: "time \<Rightarrow> nat \<Rightarrow> deduplicator" where
  "deduplicator_init w n = \<lparr>dd_window = w, dd_max = n, dd_history = []\<rparr>"

definition alert_key :: "string \<Rightarrow> string \<Rightarrow> string" where
  "alert_key entity alert_type = alert_type @ '':'' @ entity"

definition dedup_hit :: "time \<Rightarrow> (string, time list) dict \<Rightarrow> string \<Rightarrow> time \<Rightarrow> (string, time list) dict" where
  "dedup_hit w h k now = dput k (filter (\<lambda>t. now - w < t) (dget_or [] h k) @ [now]) h"

definition should_alert :: "time \<Rightarrow> string \<Rightarrow> string \<Rightarrow> deduplicator \<Rightarrow> (bool \<times> nat) \<times> deduplicator" where
  "should_alert now entity alert_type d =
     (let k = alert_key entity alert_type; h = dedup_hit (dd_window d) (dd_history d) k now;
          n = length (dget_or [] h k)
      in (if n \<le> dd_max d then (True, 0) else (False, n - dd_max d), d\<lparr>dd_history := h\<rparr>))"

definition get_cluster_stats :: "deduplicator \<Rightarrow> nat \<times> string list" where
  "get_cluster_stats d = (length (dd_history d), map fst (dd_history d))"

definition dedup_reset :: "deduplicator \<Rightarrow> deduplicator" where
  "dedup_reset d = d\<lparr>dd_history := []\<rparr>"

section \<open>The promotion gates\<close>

lemma dput_other_file:
  "k \<noteq> ''candidate_model.pkl'' \<Longrightarrow> k \<noteq> ''candidate_scaler.pkl'' \<Longrightarrow> k \<noteq> ''candidate_metadata.json''
     \<Longrightarrow> dget (tr_dir (store_candidate stamp m c x t)) k = dget (tr_dir t) k"
  by (simp add: store_candidate_def)

lemma training_keeps_dir:
  "train_isolation_forest K stamp X con n seed t = Inr (mc, t') \<Longrightarrow>
     tr_dir t' = tr_dir t \<and> tr_model t' = Some (fst mc) \<and> tr_scaler t' = Some (snd mc)"
  by (auto simp: train_isolation_forest_def split: if_splits option.splits)

lemma cycle_cases:
  assumes "run_retraining_cycle K sq stamp max_fpr X V_normal V_anomalous reference con t = Inr (r, t')"
  obtains m c t1 x where "train_isolation_forest K stamp X con 50 42 t = Inr ((m, c), t1)"
    and "evaluate_model K V_normal V_anomalous t1 = Inr x"
    and "rr_fpr r = false_positive_rate x" "rr_fnr r = false_negative_rate x"
    and "promotion_granted r \<longleftrightarrow> false_positive_rate x \<le> (case max_fpr of Some q \<Rightarrow> q | None \<Rightarrow> max_permitted_fpr)
           \<and> false_negative_rate x \<le> max_permitted_fnr"
    and "t' = (if promotion_granted r then store_candidate stamp m c x t1 else t1)"
  using assms by (auto simp: run_retraining_cycle_def Let_def split: sum.splits prod.splits)

text \<open>The files the scoring service reads.\<close>

definition stored_file :: "(('m, 'c) stored \<Rightarrow> 'a option) \<Rightarrow> (string, ('m, 'c) stored) dict \<Rightarrow> string \<Rightarrow> 'a model_file" where
  "stored_file get dir name = (case dget dir name of
       None \<Rightarrow> Absent | Some v \<Rightarrow> (case get v of Some x \<Rightarrow> Holds x | None \<Rightarrow> Unreadable))"

definition service_from :: "(string, ('m, 'c) stored) dict \<Rightarrow> rat \<Rightarrow> bool \<Rightarrow> ('m, 'c) ml_service" where
  "service_from dir pct on = ml_service_init
     (stored_file (\<lambda>v. case v of SModel m \<Rightarrow> Some m | _ \<Rightarrow> None) dir model_name)
     (stored_file (\<lambda>v. case v of SScaler c \<Rightarrow> Some c | _ \<Rightarrow> None) dir scaler_name)
     (stored_file (\<lambda>v. case v of SMeta j \<Rightarrow> Some j | _ \<Rightarrow> None) dir metadata_name) pct on"

text \<open>C34: A cycle that completes promotes exactly when both rounded error rates lie within their limits; and
  promoted or not, a scoring service started from the model directory is the one it would have been before
  the cycle, because the candidate is stored under names the service never reads.\<close>

theorem promotion_gates_exact:
  "case run_retraining_cycle K sq stamp max_fpr X V_normal V_anomalous reference con t of
     Inl e \<Rightarrow> True
   | Inr (r, t') \<Rightarrow>
       (promotion_granted r \<longleftrightarrow> rr_fpr r \<le> (case max_fpr of Some q \<Rightarrow> q | None \<Rightarrow> 1/100) \<and> rr_fnr r \<le> 5/100)
     \<and> service_from (tr_dir t') pct on = service_from (tr_dir t) pct on"
proof -
  have "(promotion_granted r \<longleftrightarrow> rr_fpr r \<le> (case max_fpr of Some q \<Rightarrow> q | None \<Rightarrow> 1/100) \<and> rr_fnr r \<le> 5/100)
      \<and> service_from (tr_dir t') pct on = service_from (tr_dir t) pct on"
    if *: "run_retraining_cycle K sq stamp max_fpr X V_normal V_anomalous reference con t = Inr (r, t')" for r t'
  proof -
    from * obtain m c t1 x where c: "train_isolation_forest K stamp X con 50 42 t = Inr ((m, c), t1)"
      "rr_fpr r = false_positive_rate x" "rr_fnr r = false_negative_rate x"
      "promotion_granted r \<longleftrightarrow> false_positive_rate x \<le> (case max_fpr of Some q \<Rightarrow> q | None \<Rightarrow> max_permitted_fpr)
         \<and> false_negative_rate x \<le> max_permitted_fnr"
      "t' = (if promotion_granted r then store_candidate stamp m c x t1 else t1)"
      by (rule cycle_cases)
    have "dget (tr_dir t') k = dget (tr_dir t) k" if "k \<in> {model_name, scaler_name, metadata_name}" for k
      using that c(5) training_keeps_dir [OF c(1)]
      by (auto simp: dput_other_file model_name_def scaler_name_def metadata_name_def)
    then have "service_from (tr_dir t') pct on = service_from (tr_dir t) pct on"
      by (simp add: service_from_def stored_file_def)
    with c show ?thesis by (simp add: max_permitted_fpr_def max_permitted_fnr_def split: option.splits)
  qed
  then show ?thesis by (auto split: sum.splits)
qed

text \<open>The drift report is advice only: with a reference data set the cycle either fails before training,
  because there is nothing to compare, or grants and stores exactly what it would without one.\<close>

theorem drift_never_gates:
  "let outcome = \<lambda>reference. map_sum id (map_prod promotion_granted id)
       (run_retraining_cycle K sq stamp max_fpr X V_normal V_anomalous reference con t)
   in outcome reference = Inl EmptyDriftData \<or> outcome reference = outcome None"
proof -
  have "drift_check sq reference X = Inl EmptyDriftData \<or> (\<exists>d. drift_check sq reference X = Inr d)"
    by (simp add: drift_check_def evaluate_drift_def Let_def split: option.split)
  then show ?thesis
    by (auto simp: run_retraining_cycle_def drift_check_def [of _ None] Let_def split: sum.split)
qed

text \<open>Saving without prefix is what deploys: a service started from the directory afterwards holds the
  trained model, its scaler and its metadata.\<close>

theorem save_then_load:
  "case save_models [] t of
     Inl e \<Rightarrow> tr_model t = None \<or> tr_scaler t = None
   | Inr t' \<Rightarrow> (let s = service_from (tr_dir t') pct on in
       ml_model s = tr_model t \<and> ml_scaler s = tr_scaler t \<and> ml_metadata s = tr_metadata t)"
proof (cases "tr_model t")
  case (Some m)
  then show ?thesis
    by (cases "tr_scaler t")
       (simp_all add: save_models_def Let_def service_from_def stored_file_def ml_service_init_def
         load_models_def model_name_def scaler_name_def metadata_name_def)
qed (simp add: save_models_def)

section \<open>The deduplicator\<close>

interpretation dedup: sliding_log "dedup_hit w" "dget_or []" w for w
  by unfold_locales (simp_all add: dedup_hit_def)

text \<open>A call: entity, type and time.\<close>

type_synonym alert_call = "string \<times> string \<times> time"

definition alert_run :: "alert_call list \<Rightarrow> deduplicator \<Rightarrow> deduplicator" where
  "alert_run cs d = fold (\<lambda>(e, a, t) d. snd (should_alert t e a d)) cs d"

definition call_hits :: "alert_call list \<Rightarrow> (string \<times> time) list" where
  "call_hits cs = map (\<lambda>(e, a, t). (alert_key e a, t)) cs"

lemma alert_run_history:
  "dd_history (alert_run cs d) = run_hits (dedup_hit (dd_window d)) (dd_history d) (call_hits cs)
   \<and> dd_window (alert_run cs d) = dd_window d \<and> dd_max (alert_run cs d) = dd_max d"
  by (induction cs rule: rev_induct) (auto simp: alert_run_def call_hits_def should_alert_def Let_def)

text \<open>An alert is forwarded exactly when fewer than the permitted number of calls with its key, forwarded or
  suppressed, fell into the trailing window; otherwise the number of suppressed ones is reported.\<close>

theorem alert_forwarded_exactly:
  assumes "\<forall>(e, a, t) \<in> set cs. t \<le> now"
  shows "fst (should_alert now entity kind (alert_run cs (deduplicator_init w n)))
    = (let k = length (filter (\<lambda>t. now - w < t) (hit_times (alert_key entity kind) (call_hits cs)))
       in (k < n, Suc k - n))"
proof -
  let ?d = "alert_run cs (deduplicator_init w n)" and ?k = "alert_key entity kind"
  have h: "dd_history ?d = run_hits (dedup_hit w) [] (call_hits cs)" "dd_window ?d = w" "dd_max ?d = n"
    using alert_run_history [of cs "deduplicator_init w n"] by (simp_all add: deduplicator_init_def)
  have "\<forall>x \<in> set (call_hits cs). snd x \<le> now" using assms by (auto simp: call_hits_def)
  then have "length (dget_or [] (dedup_hit w (run_hits (dedup_hit w) [] (call_hits cs)) ?k now) ?k)
      = Suc (length (filter (\<lambda>t. now - w < t) (hit_times ?k (call_hits cs))))"
    using dedup.count_after_hit [of "call_hits cs" now "[]" ?k w] by simp
  with h show ?thesis by (simp add: should_alert_def Let_def Suc_le_eq)
qed

lemma alert_forwarded_exactly_witness:
  "fst (should_alert 100 ''u'' ''A'' (alert_run [(''u'', ''A'', 10), (''u'', ''A'', 70), (''v'', ''A'', 80)]
     (deduplicator_init 60 1))) = (False, 1)"
  using alert_forwarded_exactly [of "[(''u'', ''A'', 10), (''u'', ''A'', 70), (''v'', ''A'', 80)]" 100 "''u''" "''A''" 60 1]
  by (simp add: call_hits_def hit_times_def alert_key_def)

text \<open>Suppressed calls count towards the window: of an alert that recurs every \<open>d\<close> seconds, with more than the
  permitted number per window, only the first ones are ever forwarded, however long it goes on.\<close>

lemma steady_hits:
  "hit_times (alert_key e a) (call_hits (map (\<lambda>i. (e, a, t0 + of_nat i * d)) is)) = map (\<lambda>i. t0 + of_nat i * d) is"
  by (induction "is") (simp_all add: call_hits_def hit_times_def)

theorem recurring_alert_starves:
  assumes "0 < d" and "of_nat n * d < w"
  shows "fst (fst (should_alert (t0 + of_nat i * d) e a
      (alert_run (map (\<lambda>j. (e, a, t0 + of_nat j * d)) [0..<i]) (deduplicator_init w n)))) \<longleftrightarrow> i < n"
proof -
  let ?now = "t0 + of_nat i * d" and ?P = "\<lambda>j. t0 + of_nat i * d - w < t0 + of_nat j * d"
  have le: "\<forall>(e', a', t) \<in> set (map (\<lambda>j. (e, a, t0 + of_nat j * d)) [0..<i]). t \<le> ?now"
    using assms(1) by (auto intro!: mult_right_mono)
  have "length (filter (\<lambda>t. ?now - w < t) (hit_times (alert_key e a) (call_hits (map (\<lambda>j. (e, a, t0 + of_nat j * d)) [0..<i]))))
      = card {j. j < i \<and> ?P j}" (is "?len = _")
  proof -
    have "{k. k < i \<and> ?P ([0..<i] ! k)} = {j. j < i \<and> ?P j}" by auto
    then show ?thesis by (simp add: steady_hits filter_map comp_def length_filter_conv_card)
  qed
  moreover have "(card {j. j < i \<and> ?P j} < n) = (i < n)"
  proof (cases "i < n")
    case True
    have "card {j. j < i \<and> ?P j} \<le> card {..<i}" by (rule card_mono) auto
    with True show ?thesis by simp
  next
    case False
    have "{i - n..<i} \<subseteq> {j. j < i \<and> ?P j}"
    proof
      fix j assume j: "j \<in> {i - n..<i}"
      then have "i \<le> n + j" by auto
      then have "of_nat i \<le> (of_nat n + of_nat j :: rat)" by (metis of_nat_add of_nat_le_iff)
      then have "of_nat i - of_nat j \<le> (of_nat n :: rat)" by simp
      then have "(of_nat i - of_nat j) * d \<le> of_nat n * d" using assms(1) by (intro mult_right_mono) simp_all
      then show "j \<in> {j. j < i \<and> ?P j}" using j assms(2) by (simp add: left_diff_distrib)
    qed
    then have "n \<le> card {j. j < i \<and> ?P j}"
      using card_mono [of "{j. j < i \<and> ?P j}" "{i - n..<i}"] False by simp
    with False show ?thesis by simp
  qed
  ultimately show ?thesis
    using alert_forwarded_exactly [OF le, of e a w n] by (simp add: Let_def)
qed

lemma recurring_alert_starves_witness:
  "\<not> fst (fst (should_alert (0 + of_nat 500 * 10) ''u'' ''A''
     (alert_run (map (\<lambda>j. (''u'', ''A'', 0 + of_nat j * 10)) [0..<500]) (deduplicator_init 60 3))))"
  using recurring_alert_starves [of 10 3 60 0 500 "''u''" "''A''"] by simp

end
