(* ===== verification/Schemas.thy ===== *)
theory Schemas
  imports Json_Text
begin

text \<open>
  \<open>src/gateway/schemas.py\<close>: the three request models.  Pydantic is third-party code: how it turns a JSON
  value into a text, a number or a list is the record \<open>coercions\<close> (\<open>None\<close> where it reports a type
  error).  The constraints of the fields and the validators are modelled; an error carries the field and
  what is wrong with it.
\<close>

section \<open>Validation\<close>

record coercions =
  to_text :: "json \<Rightarrow> string option"
  to_number :: "json \<Rightarrow> pynum option"
  to_items :: "json \<Rightarrow> json list option"

datatype field_error =
    NotAnObject
  | Missing string
  | WrongType string
  | WrongLength string
  | OutOfRange string
  | InvalidCharacters
  | InvalidItem

definition require :: "json \<Rightarrow> string \<Rightarrow> field_error + json" where
  "require j k = (case jget j k of Some v \<Rightarrow> Inr v | None \<Rightarrow> Inl (Missing k))"

definition text_within :: "coercions \<Rightarrow> string \<Rightarrow> nat \<Rightarrow> nat \<Rightarrow> json \<Rightarrow> field_error + string" where
  "text_within C k lo hi v = (case to_text C v of
       None \<Rightarrow> Inl (WrongType k)
     | Some s \<Rightarrow> if lo \<le> length s \<and> length s \<le> hi then Inr s else Inl (WrongLength k))"

definition and_check :: "'e + 'a \<Rightarrow> ('a \<Rightarrow> 'e + 'b) \<Rightarrow> 'e + 'b" where
  "and_check x f = (case x of Inl e \<Rightarrow> Inl e | Inr v \<Rightarrow> f v)"

definition guard :: "bool \<Rightarrow> 'e \<Rightarrow> 'e + unit" where
  "guard ok e = (if ok then Inr () else Inl e)"

definition typed :: "'e \<Rightarrow> 'a option \<Rightarrow> 'e + 'a" where
  "typed e x = (case x of None \<Rightarrow> Inl e | Some v \<Rightarrow> Inr v)"

text \<open>\<open>re.match(r"^[a-zA-Z0-9_\-\.]+$", v)\<close>: the dollar also matches before a final newline.\<close>

definition username_char :: "char \<Rightarrow> bool" where
  "username_char c \<longleftrightarrow> (let n = (of_char c :: nat) in
     48 \<le> n \<and> n \<le> 57 \<or> 65 \<le> n \<and> n \<le> 90 \<or> 97 \<le> n \<and> n \<le> 122 \<or> n = 95 \<or> n = 45 \<or> n = 46)"

definition username_matches :: "string \<Rightarrow> bool" where
  "username_matches v \<longleftrightarrow>
     (let body = (if v \<noteq> [] \<and> last v = CHR 0x0A then butlast v else v)
      in body \<noteq> [] \<and> list_all username_char body)"

record login_data =
  username :: string
  password :: string

text \<open>Pydantic collects the errors of all fields; the model keeps the first one, which decides between
  acceptance and refusal as well.\<close>

definition login_schema :: "coercions \<Rightarrow> json \<Rightarrow> field_error + login_data" where
  "login_schema C j =
     (if \<not> is_obj j then Inl NotAnObject
      else and_check (require j ''username'') (\<lambda>u.
        and_check (text_within C ''username'' 3 50 u) (\<lambda>user.
        and_check (guard (username_matches user) InvalidCharacters) (\<lambda>_.
        and_check (require j ''password'') (\<lambda>p.
        and_check (text_within C ''password'' 6 128 p) (\<lambda>pass.
          Inr \<lparr>username = user, password = pass\<rparr>))))))"

record order_data =
  customer_id :: string
  items :: "string list"
  total_amount :: pynum

fun all_texts :: "coercions \<Rightarrow> json list \<Rightarrow> field_error + string list" where
  "all_texts C [] = Inr []"
| "all_texts C (v # vs) = (case to_text C v of
       None \<Rightarrow> Inl (WrongType ''items'')
     | Some s \<Rightarrow> and_check (all_texts C vs) (\<lambda>ss. Inr (s # ss)))"

definition item_ok :: "string \<Rightarrow> bool" where
  "item_ok s \<longleftrightarrow> strip s \<noteq> [] \<and> length s \<le> 120"

definition in_price_range :: "pynum \<Rightarrow> bool" where
  "in_price_range x = (case x of FNum q \<Rightarrow> 0 < q \<and> q < 10000000 | _ \<Rightarrow> False)"

definition order_schema :: "coercions \<Rightarrow> json \<Rightarrow> field_error + order_data" where
  "order_schema C j =
     (if \<not> is_obj j then Inl NotAnObject
      else and_check (require j ''customer_id'') (\<lambda>c.
        and_check (text_within C ''customer_id'' 3 64 c) (\<lambda>cust.
        and_check (require j ''items'') (\<lambda>is.
        and_check (typed (WrongType ''items'') (to_items C is)) (\<lambda>vs.
        and_check (all_texts C vs) (\<lambda>its.
        and_check (guard (1 \<le> length its \<and> length its \<le> 50) (WrongLength ''items'')) (\<lambda>_.
        and_check (guard (list_all item_ok its) InvalidItem) (\<lambda>_.
        and_check (require j ''total_amount'') (\<lambda>t.
        and_check (typed (WrongType ''total_amount'') (to_number C t)) (\<lambda>amount.
        and_check (guard (in_price_range amount) (OutOfRange ''total_amount'')) (\<lambda>_.
          Inr \<lparr>customer_id = cust, items = its, total_amount = amount\<rparr>)))))))))))"

record user_update =
  email :: "string option"
  phone :: "string option"

definition optional_text :: "coercions \<Rightarrow> string \<Rightarrow> nat \<Rightarrow> json \<Rightarrow> field_error + string option" where
  "optional_text C k hi j = (case jget_or JNull j k of
       JNull \<Rightarrow> Inr None
     | v \<Rightarrow> and_check (text_within C k 0 hi v) (\<lambda>s. Inr (Some s)))"

definition user_update_schema :: "coercions \<Rightarrow> json \<Rightarrow> field_error + user_update" where
  "user_update_schema C j =
     (if \<not> is_obj j then Inl NotAnObject
      else and_check (optional_text C ''email'' 120 j) (\<lambda>e.
        and_check (optional_text C ''phone'' 30 j) (\<lambda>p. Inr \<lparr>email = e, phone = p\<rparr>)))"

section \<open>What the schemas accept\<close>

lemma and_check_Inr: "and_check x f = Inr y \<longleftrightarrow> (\<exists>v. x = Inr v \<and> f v = Inr y)"
  by (simp add: and_check_def split: sum.split)

lemma check_simps:
  "require j k = Inr v \<longleftrightarrow> jget j k = Some v"
  "text_within C k lo hi v = Inr s \<longleftrightarrow> to_text C v = Some s \<and> lo \<le> length s \<and> length s \<le> hi"
  "guard ok e = Inr u \<longleftrightarrow> ok" "typed e x = Inr a \<longleftrightarrow> x = Some a"
  by (auto simp: require_def text_within_def guard_def typed_def split: option.splits)

lemma all_texts_Inr: "all_texts C vs = Inr ss \<longleftrightarrow> map (to_text C) vs = map Some ss"
  by (induction vs arbitrary: ss) (auto simp: and_check_Inr split: option.splits)

text \<open>An order passes exactly when its customer has 3 to 64 characters, it names 1 to 50 items, each of them
  not blank and of at most 120 characters, and its amount is a number strictly between 0 and ten
  million; neither infinity nor not-a-number passes.\<close>

theorem order_schema_exact:
  "order_schema C j = Inr d \<longleftrightarrow>
     is_obj j \<and> (\<exists>c is t vs q. jget j ''customer_id'' = Some c \<and> jget j ''items'' = Some is
       \<and> jget j ''total_amount'' = Some t
       \<and> to_text C c = Some (customer_id d) \<and> 3 \<le> length (customer_id d) \<and> length (customer_id d) \<le> 64
       \<and> to_items C is = Some vs \<and> map (to_text C) vs = map Some (items d)
       \<and> 1 \<le> length (items d) \<and> length (items d) \<le> 50 \<and> list_all item_ok (items d)
       \<and> to_number C t = Some (FNum q) \<and> total_amount d = FNum q \<and> 0 < q \<and> q < 10000000)"
proof -
  have range: "in_price_range x \<longleftrightarrow> (\<exists>q. x = FNum q \<and> 0 < q \<and> q < 10000000)" for x
    by (simp add: in_price_range_def split: pynum.split)
  show ?thesis
    by (cases d) (auto simp: order_schema_def and_check_Inr check_simps all_texts_Inr range)
qed

text \<open>A login passes exactly with a name of 3 to 50 permitted characters and a password of 6 to 128; but
  a final newline of the name is let through as well.\<close>

theorem login_schema_exact:
  "login_schema C j = Inr d \<longleftrightarrow>
     is_obj j \<and> (\<exists>u p. jget j ''username'' = Some u \<and> jget j ''password'' = Some p
       \<and> to_text C u = Some (username d) \<and> 3 \<le> length (username d) \<and> length (username d) \<le> 50
       \<and> (\<exists>name. name \<noteq> [] \<and> list_all username_char name \<and> username d \<in> {name, name @ [CHR 0x0A]})
       \<and> to_text C p = Some (password d) \<and> 6 \<le> length (password d) \<and> length (password d) \<le> 128)"
proof -
  have *: "username_matches v \<longleftrightarrow> (\<exists>name. name \<noteq> [] \<and> list_all username_char name \<and> v \<in> {name, name @ [CHR 0x0A]})" for v
  proof (cases v rule: rev_cases)
    case (snoc w c)
    have "\<not> username_char (CHR 0x0A)" by (simp add: username_char_def)
    then show ?thesis using snoc by (auto simp: username_matches_def Let_def)
  qed (simp add: username_matches_def)
  show ?thesis
    by (cases d) (auto simp: login_schema_def and_check_Inr check_simps *)
qed

end
