(* ===== verification/Gateway_State.thy ===== *)
theory Gateway_State
  imports State_Store Replay_Guard Rate_Limiter Credential_Defense Circuit_Breaker Canary_Router
    Orchestrator Audit_Chain Rules_Engine Auth_Engine Route_Allowlist Waf Redaction Telemetry
    Security_Metrics SOC_Feedback ML_Training Schemas Risk_Engine
begin

text \<open>
  \<open>src/gateway/app.py\<close>, first part: the state of the gateway process, requests and answers, the
  client's address and the audit event.

  The module's singletons are the fields of the record \<open>gateway\<close>.  The mitigation engine exists once: the
  orchestrator holds a reference to it, and it holds the shared state store, which the replay guard
  uses too; the field \<open>gw_engine\<close> is that one object, lent to the orchestrator for a call.  \<open>gw_sent\<close> records
  the requests sent upstream, in order.  The model directory is \<open>gw_models\<close>.  What is not under
  \<open>src/\<close> is the record \<open>env\<close>; what a single request
  draws from the clock, the file system, the random generator and the network is the record \<open>world\<close>.
\<close>

section \<open>Requests and answers\<close>

text \<open>Header names are lower case, as Starlette delivers them.\<close>

record http_request =
  hr_method :: string
  hr_path :: string
  hr_query :: string
  hr_url :: string
  hr_headers :: "(string, string) dict"
  hr_peer :: "string option"
  hr_body :: string

record response =
  rs_status :: int
  rs_headers :: "(string, string) dict"
  rs_content :: json

definition header :: "http_request \<Rightarrow> string \<Rightarrow> string option" where
  "header rq name = dget (hr_headers rq) name"

text \<open>An exception that leaves the middleware.\<close>

definition server_error :: response where
  "server_error = \<lparr>rs_status = 500, rs_headers = [], rs_content = JStr ''Internal Server Error''\<rparr>"

text \<open>What the upstream client does with a request.\<close>

datatype outcome =
    Answered int "(string, string) dict" string
  | LoopClosed
  | RuntimeFailed
  | Failed

record sent =
  st_method :: string
  st_url :: string
  st_headers :: "(string, string) dict"
  st_content :: string

section \<open>Environment\<close>

datatype gw_reason =
    Oversized int int
  | CredReason cred_reason
  | WafReason waf_reason
  | ReplayReason replay_reason
  | AuthReason auth_reason
  | BolaReason
  | RuleReason rule_reason
  | AnomalyReason anomaly_reason
  | RateReason int

record ('s, 'r, 'm, 'c) env =
  en_cfg :: gateway_config
  en_prims :: prims
  en_salt :: string
  en_store :: "('s, hentry) store_ops"
  en_rate :: "'r rate_api"
  en_jwt :: "string \<Rightarrow> string \<Rightarrow> string \<Rightarrow> jwt_outcome"
  en_auth :: auth_engine
  en_catalogue :: catalogue
  en_rules_file :: config_file
  en_coerce :: coercions
  en_loads :: "string \<Rightarrow> json option"
  en_decode :: "string \<Rightarrow> string"
  en_infer :: "'m \<Rightarrow> 'c \<Rightarrow> rat list \<Rightarrow> rat option"
  en_sklearn :: "('m, 'c) sklearn"
  en_root :: "rat \<Rightarrow> rat"
  en_samples :: "rat list list \<times> rat list list \<times> rat list list"
  en_lg :: "rat \<Rightarrow> rat"
  en_iso :: "string \<Rightarrow> stamp option"
  en_internal :: "ip_addr \<Rightarrow> bool"
  en_set_order :: "string set \<Rightarrow> string list"
  en_subnet6 :: "128 word \<Rightarrow> string option \<Rightarrow> string"
  en_md5_32 :: "string \<Rightarrow> nat"
  en_reason :: "gw_reason \<Rightarrow> string"
  en_field_error :: "field_error \<Rightarrow> string"
  en_backend :: string

record world =
  w_now :: time
  w_later :: time
  w_uuid :: string
  w_stamp :: string
  w_elapsed :: rat
  w_proxy_ms :: rat
  w_random :: rat
  w_agents :: draws
  w_telemetry_ok :: bool
  w_worker_first :: bool
  w_quarantine_ok :: bool
  w_agents_ok :: bool
  w_chain_ok :: bool
  w_upstream :: outcome
  w_retry :: outcome

section \<open>The gateway\<close>

record ('s, 'r, 'm, 'c) gateway =
  gw_engine :: "'s mitigation_engine"
  gw_orch :: "'s orchestrator"
  gw_credentials :: credential_defense
  gw_rules :: rules_engine
  gw_baselines :: baseline_engine
  gw_ml :: "('m, 'c) ml_service"
  gw_models :: "(string, ('m, 'c) stored) dict"
  gw_recent :: "(string, json list) dict"
  gw_rate :: "'r rate_limiter"
  gw_breaker :: breaker
  gw_router :: router
  gw_pipeline :: pipeline
  gw_filter :: poison_filter
  gw_metrics :: metrics_tracker
  gw_chain :: audit_chain
  gw_feedback :: feedback_engine
  gw_sent :: "sent list"

text \<open>The import of the module: the singletons, built from the files and settings that \<open>startup\<close> holds.
  \<open>su_pct\<close> is the canary percentage of the configuration, a finite number; \<open>su_secret\<close> the signing secret.
  The state store is passed in, connected or not.\<close>

record ('m, 'c) startup =
  su_now :: time
  su_id :: string
  su_stamp :: string
  su_secret :: string
  su_pct :: rat
  su_audit :: "line list option"
  su_journal :: "json list"
  su_baselines :: "(string, baseline_stats) dict"
  su_model :: "'m model_file"
  su_scaler :: "'c model_file"
  su_metadata :: "json model_file"
  su_models :: "(string, ('m, 'c) stored) dict"

definition gateway_init ::
  "('s, 'r, 'm, 'c) env \<Rightarrow> 's \<Rightarrow> ('m, 'c) startup \<Rightarrow> ('s, 'r, 'm, 'c) gateway" where
  "gateway_init E s u = \<lparr>gw_engine = mitigation_init s, gw_orch = orchestrator_init True None,
     gw_credentials = credential_defense_init, gw_rules = rules_engine_init (en_rules_file E),
     gw_baselines = baseline_engine_init (su_baselines u),
     gw_ml = ml_service_init (su_model u) (su_scaler u) (su_metadata u) (su_pct u)
       (Gateway_Config.ml_enabled (en_cfg E)),
     gw_models = su_models u, gw_recent = [], gw_rate = rate_limiter_init,
     gw_breaker = breaker_init 5 10 2 (su_now u), gw_router = router_init DISABLED,
     gw_pipeline = pipeline_init 10000, gw_filter = filter_init 10000, gw_metrics = tracker_init 1000,
     gw_chain = chain_init (su_secret u) (su_audit u),
     gw_feedback = feedback_engine_init (su_id u) (su_stamp u) (su_journal u), gw_sent = []\<rparr>"

section \<open>The client's address\<close>

definition forwarded_hops :: "string \<Rightarrow> string list" where
  "forwarded_hops xff = filter (\<lambda>h. h \<noteq> []) (map strip (split_on CHR '','' xff))"

definition get_verified_client_ip :: "gateway_config \<Rightarrow> http_request \<Rightarrow> string" where
  "get_verified_client_ip cfg rq =
     (let peer = (case hr_peer rq of Some h \<Rightarrow> h | None \<Rightarrow> ''127.0.0.1'')
      in if is_trusted_proxy cfg peer
         then (case header rq ''x-forwarded-for'' of
             None \<Rightarrow> peer
           | Some xff \<Rightarrow> (case forwarded_hops xff of [] \<Rightarrow> peer | h # _ \<Rightarrow> h))
         else peer)"

section \<open>The audit event\<close>

definition decision_name :: "decision \<Rightarrow> string" where
  "decision_name d = (case d of ALLOW \<Rightarrow> ''ALLOW'' | decision.LIMIT \<Rightarrow> ''LIMIT''
     | CHALLENGE \<Rightarrow> ''CHALLENGE'' | BLOCK \<Rightarrow> ''BLOCK'')"

definition components_json :: "risk_components \<Rightarrow> json" where
  "components_json c = JObj
     [(''threat'', JFloat (c_threat c)), (''sensitivity'', JFloat (c_sensitivity c)),
      (''user_trust'', JFloat (c_user_trust c)), (''context'', JFloat (c_context c)),
      (''waf_severity'', JFloat (c_waf_severity c)), (''rule_severity'', JFloat (c_rule_severity c)),
      (''anomaly_score'', JFloat (c_anomaly_score c)), (''auth_anomaly'', JFloat (c_auth_anomaly c)),
      (''rate_severity'', JFloat (c_rate_severity c))]"

text \<open>What a call of \<open>emit_audit_event\<close> passes on beyond the request and the score; the defaults of its
  optional arguments are \<open>plain_facts\<close>.\<close>

record audit_facts =
  af_decision :: decision
  af_latency :: rat
  af_ip :: string
  af_principal :: string
  af_fired :: "string list"
  af_anomaly :: rat
  af_anomaly_reasons :: "anomaly_reason list"
  af_ml_score :: rat
  af_ml_confidence :: rat
  af_ml_anomalous :: bool

definition plain_facts :: "decision \<Rightarrow> rat \<Rightarrow> string \<Rightarrow> audit_facts" where
  "plain_facts d latency ip = \<lparr>af_decision = d, af_latency = latency, af_ip = ip, af_principal = [],
     af_fired = [], af_anomaly = 0, af_anomaly_reasons = [], af_ml_score = 0, af_ml_confidence = 0,
     af_ml_anomalous = False\<rparr>"

definition user_agent :: "http_request \<Rightarrow> string" where
  "user_agent rq = (case header rq ''user-agent'' of Some a \<Rightarrow> a | None \<Rightarrow> ''unknown'')"

definition audit_event ::
  "('s, 'r, 'm, 'c) env \<Rightarrow> world \<Rightarrow> http_request \<Rightarrow> string \<Rightarrow> gw_reason risk_score \<Rightarrow> audit_facts \<Rightarrow> json" where
  "audit_event E W rq rid risk f =
     (let pseudonym = pseudonymize_identifier (en_prims E) (en_salt E) in JObj
       [(''timestamp'', JStr (w_stamp W)),
        (''request_id'', JStr rid),
        (''principal_ref'', JStr (pseudonym (if af_principal f = [] then af_ip f else af_principal f))),
        (''client_ip'', JStr (pseudonym (af_ip f))),
        (''client_subnet'', JStr (mask_ip (en_subnet6 E) (af_ip f))),
        (''method'', JStr (hr_method rq)),
        (''path'', JStr (hr_path rq)),
        (''decision'', JStr (decision_name (af_decision f))),
        (''risk_score'', JFloat (overall risk)),
        (''components'', components_json (components risk)),
        (''fired_rules'', JList (map JStr (af_fired f))),
        (''anomaly_score'', JFloat (py_round 2 (af_anomaly f))),
        (''anomaly_reasons'', JList (map (\<lambda>r. JStr (en_reason E (AnomalyReason r))) (af_anomaly_reasons f))),
        (''ml_score'', JFloat (py_round 2 (af_ml_score f))),
        (''ml_confidence'', JFloat (py_round 2 (af_ml_confidence f))),
        (''ml_anomalous'', JBool (af_ml_anomalous f)),
        (''ml_advisory'', JBool True),
        (''reasons'', JList (map (\<lambda>r. JStr (en_reason E r)) (rs_reasons risk))),
        (''latency_ms'', JFloat (py_round 2 (af_latency f))),
        (''user_agent'', JStr (user_agent rq))])"

text \<open>An event as the agents read it.\<close>

definition get_text :: "json \<Rightarrow> string \<Rightarrow> string option" where
  "get_text e k = (case jget e k of Some (JStr s) \<Rightarrow> Some s | _ \<Rightarrow> None)"

definition get_int :: "json \<Rightarrow> string \<Rightarrow> int option" where
  "get_int e k = (case jget e k of Some (JInt i) \<Rightarrow> Some i | _ \<Rightarrow> None)"

definition get_num :: "json \<Rightarrow> string \<Rightarrow> rat option" where
  "get_num e k = Option.bind (jget e k) json_num"

definition get_texts :: "json \<Rightarrow> string \<Rightarrow> string list option" where
  "get_texts e k = (case jget e k of
       Some (JList xs) \<Rightarrow> Some (List.map_filter (\<lambda>x. case x of JStr s \<Rightarrow> Some s | _ \<Rightarrow> None) xs) | _ \<Rightarrow> None)"

definition event_of :: "json \<Rightarrow> event" where
  "event_of e = \<lparr>ev_request_id = get_text e ''request_id'', ev_principal_ref = get_text e ''principal_ref'',
     ev_client_ip = get_text e ''client_ip'', ev_user_agent = get_text e ''user_agent'',
     ev_method = get_text e ''method'', ev_path = get_text e ''path'', ev_decision = get_text e ''decision'',
     ev_status_code = get_int e ''status_code'', ev_risk_score = get_num e ''risk_score'',
     ev_fired_rules = get_texts e ''fired_rules'', ev_ml_score = get_num e ''ml_score'',
     ev_timestamp = get_text e ''timestamp'', ev_current_role = get_text e ''current_role'',
     ev_role = get_text e ''role'', ev_account_age_days = get_int e ''user_account_age_days'',
     ev_incident_count = get_int e ''user_incident_count'', ev_waf_severity = get_num e ''waf_severity'',
     ev_auth_anomaly = get_num e ''auth_anomaly''\<rparr>"

section \<open>Emitting it\<close>

definition action_value :: "action_type \<Rightarrow> string" where
  "action_value t = (case t of
       RATE_LIMIT \<Rightarrow> ''rate_limit'' | CHALLENGE_MFA \<Rightarrow> ''challenge_mfa'' | REVOKE_SESSION \<Rightarrow> ''revoke_session''
     | QUARANTINE_IP_TEMP \<Rightarrow> ''quarantine_ip_temp'' | SUSPEND_ACCOUNT \<Rightarrow> ''suspend_account''
     | BLOCK_CIDR_ORGANIZATION \<Rightarrow> ''block_cidr_organization'' | ROLLBACK_DATA \<Rightarrow> ''rollback_data''
     | CHANGE_PRIVILEGES \<Rightarrow> ''change_privileges'')"

definition plan_category :: "response_plan \<Rightarrow> response_agent \<Rightarrow> string" where
  "plan_category plan ra = (case plan_actions plan of
       [] \<Rightarrow> ''UNKNOWN''
     | i # _ \<Rightarrow> (case dget (actions_registry ra) i of Some a \<Rightarrow> action_value (action_type a) | None \<Rightarrow> ''UNKNOWN''))"

text \<open>The orchestrator working on the gateway's own mitigation engine.\<close>

definition lend_engine :: "('s, 'r, 'm, 'c) gateway \<Rightarrow> 's orchestrator" where
  "lend_engine g = (gw_orch g)\<lparr>mitigation := Some (gw_engine g)\<rparr>"

definition return_engine :: "'s orchestrator \<Rightarrow> ('s, 'r, 'm, 'c) gateway \<Rightarrow> ('s, 'r, 'm, 'c) gateway" where
  "return_engine orch g = g\<lparr>gw_orch := orch\<lparr>mitigation := None\<rparr>,
     gw_engine := (case mitigation orch of Some e \<Rightarrow> e | None \<Rightarrow> gw_engine g)\<rparr>"

definition run_agents ::
  "('s, 'r, 'm, 'c) env \<Rightarrow> world \<Rightarrow> json \<Rightarrow> audit_facts \<Rightarrow> ('s, 'r, 'm, 'c) gateway \<Rightarrow> ('s, 'r, 'm, 'c) gateway" where
  "run_agents E W e f g =
     (let hist = map event_of (dget_or [] (gw_recent g) (if af_principal f = [] then af_ip f else af_principal f));
          (plan, orch) = process_security_event (en_store E) (en_cfg E) (en_internal E) (en_set_order E)
             (w_agents_ok W) (w_agents W) (event_of e) (Some hist) (lend_engine g);
          g1 = return_engine orch g
      in case plan of
          None \<Rightarrow> g1
        | Some p \<Rightarrow>
            let auto = (auto_executed_actions p \<noteq> [])
            in g1\<lparr>gw_metrics := record_incident_lifecycle (w_now W) (plan_incident_id p) None None None
                 (plan_category p (response orch)) auto
                 (Some (w_now W - af_latency f / 1000)) (Some (w_now W))
                 (if auto then Some (w_now W) else None) (gw_metrics g1)\<rparr>)"

text \<open>The telemetry queue holds a reference to the dict that the quarantine routing extends afterwards: its
  worker writes the extended one unless it was faster (\<open>w_worker_first\<close>) or the full queue
  had the event written at once.  \<open>None\<close> is an exception of the classification, raised before the later
  steps.\<close>

definition emit_event :: "world \<Rightarrow> json \<Rightarrow> json \<Rightarrow> pipeline \<Rightarrow> pipeline" where
  "emit_event W e e' p = emit (w_telemetry_ok W)
     (if w_worker_first W \<or> queue_full (pl_max p) (pl_queue p) then e else e') p"

definition seal_event :: "('s, 'r, 'm, 'c) env \<Rightarrow> world \<Rightarrow> json \<Rightarrow> audit_chain \<Rightarrow> audit_chain" where
  "seal_event E W e c = (case append_event (en_prims E) (w_chain_ok W) (w_stamp W) e c of
       Some (b, c') \<Rightarrow> c' | None \<Rightarrow> c)"

definition emit_audit_event ::
  "('s, 'r, 'm, 'c) env \<Rightarrow> world \<Rightarrow> http_request \<Rightarrow> string \<Rightarrow> gw_reason risk_score \<Rightarrow> audit_facts
     \<Rightarrow> ('s, 'r, 'm, 'c) gateway \<Rightarrow> ('s, 'r, 'm, 'c) gateway option" where
  "emit_audit_event E W rq rid risk f g =
     (let e = sanitize_telemetry (en_prims E) (en_salt E) (audit_event E W rq rid risk f)
      in map_option (\<lambda>(tier, e', filt).
          let g1 = g\<lparr>gw_pipeline := emit_event W e e' (gw_pipeline g), gw_filter := filt,
                 gw_metrics := record_request_decision (decision_name (af_decision f)) (gw_metrics g)\<rparr>;
              g2 = (if 30 \<le> overall risk \<or> af_fired f \<noteq> [] \<or> af_ml_anomalous f
                    then run_agents E W e' f g1 else g1)
          in g2\<lparr>gw_chain := seal_event E W e' (gw_chain g2)\<rparr>)
        (process_event (en_prims E) (w_quarantine_ok W) e (gw_filter g)))"

end
