(* ===== verification/Gateway_Pipeline.thy ===== *)
theory Gateway_Pipeline
  imports Gateway_State
begin

text \<open>
  \<open>src/gateway/app.py\<close>, second part: \<open>security_pipeline_middleware\<close>.  The middleware is a chain of stages in
  the order of the code.  A stage answers the request (\<open>Stop\<close>) or passes the local variables on (\<open>Next\<close>);
  both carry the gateway as it is by then.  The clock is read once for the stages before
  forwarding (\<open>w_now\<close>) and once after the upstream call (\<open>w_later\<close>).
\<close>

section \<open>Stages\<close>

datatype ('a, 'g) flow = Stop response 'g | Next 'a 'g

definition and_next :: "('a, 'g) flow \<Rightarrow> ('a \<Rightarrow> 'g \<Rightarrow> ('b, 'g) flow) \<Rightarrow> ('b, 'g) flow" where
  "and_next x f = (case x of Stop r g \<Rightarrow> Stop r g | Next a g \<Rightarrow> f a g)"

lemma and_next_assoc: "and_next (and_next x f) h = and_next x (\<lambda>a g. and_next (f a g) h)"
  by (cases x) (simp_all add: and_next_def)

text \<open>The local variables of the middleware.\<close>

record locals =
  lv_id :: string
  lv_ip :: string
  lv_reasons :: "gw_reason list"
  lv_text :: string
  lv_payload :: "json option"
  lv_waf :: rat
  lv_rule :: "route_rule option"
  lv_exempt :: bool
  lv_claims :: "json option"
  lv_principal :: string
  lv_auth_anomaly :: rat
  lv_trust :: rat
  lv_body :: json
  lv_rule_severity :: int
  lv_fired :: "string list"
  lv_anomaly :: Anomaly_Detector.anomaly_score
  lv_ml_score :: rat
  lv_ml_confidence :: rat
  lv_ml_anomalous :: bool
  lv_count :: int
  lv_rate :: int

definition request_id_of :: "world \<Rightarrow> http_request \<Rightarrow> string" where
  "request_id_of W rq = (case header rq ''x-request-id'' of Some (c # s) \<Rightarrow> c # s | _ \<Rightarrow> w_uuid W)"

definition locals_init :: "('s, 'r, 'm, 'c) env \<Rightarrow> world \<Rightarrow> http_request \<Rightarrow> locals" where
  "locals_init E W rq = \<lparr>lv_id = request_id_of W rq, lv_ip = get_verified_client_ip (en_cfg E) rq,
     lv_reasons = [], lv_text = [], lv_payload = None, lv_waf = 0, lv_rule = None, lv_exempt = False,
     lv_claims = None, lv_principal = [], lv_auth_anomaly = 0, lv_trust = 1, lv_body = JObj [],
     lv_rule_severity = 0, lv_fired = [], lv_anomaly = unremarkable, lv_ml_score = 0,
     lv_ml_confidence = 0, lv_ml_anomalous = False, lv_count = 0, lv_rate = 0\<rparr>"

text \<open>The JSON answer of a refused request.\<close>

definition refusal :: "string \<Rightarrow> int \<Rightarrow> (string \<times> string) list \<Rightarrow> string \<Rightarrow> json \<Rightarrow> (string \<times> json) list \<Rightarrow> response" where
  "refusal rid status hs err msg extra = \<lparr>rs_status = status,
     rs_headers = fold (\<lambda>(k, v). dput k v) hs [(''X-Request-ID'', rid)],
     rs_content = JObj ([(''error'', JStr err), (''request_id'', JStr rid), (''message'', msg)] @ extra)\<rparr>"

definition reasons_json :: "('s, 'r, 'm, 'c) env \<Rightarrow> gw_reason list \<Rightarrow> json" where
  "reasons_json E rs = JList (map (\<lambda>r. JStr (en_reason E r)) rs)"

definition risk_text :: "('s, 'r, 'm, 'c) env \<Rightarrow> gw_reason risk_score \<Rightarrow> string" where
  "risk_text E risk = float_repr (en_prims E) (overall risk)"

text \<open>Emit the event of a refusal and answer; an exception of the emission ends in an internal error.\<close>

definition audit_and_stop ::
  "('s, 'r, 'm, 'c) env \<Rightarrow> world \<Rightarrow> http_request \<Rightarrow> locals \<Rightarrow> gw_reason risk_score \<Rightarrow> decision
     \<Rightarrow> response \<Rightarrow> ('s, 'r, 'm, 'c) gateway \<Rightarrow> (locals, ('s, 'r, 'm, 'c) gateway) flow" where
  "audit_and_stop E W rq lv risk d rsp g =
     (case emit_audit_event E W rq (lv_id lv) risk (plain_facts d (w_elapsed W) (lv_ip lv)) g of
        None \<Rightarrow> Stop server_error g | Some g' \<Rightarrow> Stop rsp g')"

section \<open>Active mitigations\<close>

definition auth_header :: "http_request \<Rightarrow> string" where
  "auth_header rq = (case header rq ''authorization'' of Some h \<Rightarrow> h | None \<Rightarrow> [])"

definition mitigated_response :: "string \<Rightarrow> mitigation_decision \<Rightarrow> response" where
  "mitigated_response rid d = refusal rid (md_status d) ((''X-Decision'', ''BLOCK'') # md_headers d)
     (if md_status d = 403 then ''Access Denied'' else if md_status d = 429 then ''Too Many Requests''
      else ''Unauthorized'')
     (JStr (md_reason d)) [(''mitigation_action'', JStr (upper (action_value (md_action d))))]"

definition check_mitigation ::
  "('s, 'r, 'm, 'c) env \<Rightarrow> world \<Rightarrow> http_request \<Rightarrow> string option \<Rightarrow> locals \<Rightarrow> ('s, 'r, 'm, 'c) gateway
     \<Rightarrow> (locals, ('s, 'r, 'm, 'c) gateway) flow" where
  "check_mitigation E W rq who lv g =
     (case evaluate_request (en_store E) (w_now W) (lv_ip lv) who (Some (auth_header rq)) (gw_engine g) of
        (Inl err, e) \<Rightarrow> Stop server_error (g\<lparr>gw_engine := e\<rparr>)
      | (Inr None, e) \<Rightarrow> Next lv (g\<lparr>gw_engine := e\<rparr>)
      | (Inr (Some d), e) \<Rightarrow> Stop (mitigated_response (lv_id lv) d) (g\<lparr>gw_engine := e\<rparr>))"

definition stage_mitigation ::
  "('s, 'r, 'm, 'c) env \<Rightarrow> world \<Rightarrow> http_request \<Rightarrow> locals \<Rightarrow> ('s, 'r, 'm, 'c) gateway
     \<Rightarrow> (locals, ('s, 'r, 'm, 'c) gateway) flow" where
  "stage_mitigation E W rq lv g = check_mitigation E W rq None lv g"

section \<open>Size, body and lockout\<close>

definition stage_size ::
  "('s, 'r, 'm, 'c) env \<Rightarrow> world \<Rightarrow> http_request \<Rightarrow> locals \<Rightarrow> ('s, 'r, 'm, 'c) gateway
     \<Rightarrow> (locals, ('s, 'r, 'm, 'c) gateway) flow" where
  "stage_size E W rq lv g =
     (case Option.bind (header rq ''content-length'') parse_int of
        None \<Rightarrow> Next lv g
      | Some n \<Rightarrow>
          if max_body_bytes (en_cfg E) < n
          then audit_and_stop E W rq lv
             (calculate_risk (risk_defaults\<lparr>Risk_Engine.waf_severity := 85, Risk_Engine.rate_severity := 30,
                 risk_path := hr_path rq\<rparr>) [Oversized n (max_body_bytes (en_cfg E))]) BLOCK
             (refusal (lv_id lv) 413 [(''X-Decision'', ''BLOCK'')] ''Payload Too Large''
                (JStr ''Request exceeds maximum permitted size'') []) g
          else Next lv g)"

definition stage_body ::
  "('s, 'r, 'm, 'c) env \<Rightarrow> http_request \<Rightarrow> locals \<Rightarrow> locals" where
  "stage_body E rq lv =
     (let text = (if hr_body rq = [] then [] else en_decode E (hr_body rq))
      in lv\<lparr>lv_text := text, lv_payload := (if text = [] then None else en_loads E text)\<rparr>)"

definition stage_lockout ::
  "('s, 'r, 'm, 'c) env \<Rightarrow> world \<Rightarrow> http_request \<Rightarrow> locals \<Rightarrow> ('s, 'r, 'm, 'c) gateway
     \<Rightarrow> (locals, ('s, 'r, 'm, 'c) gateway) flow" where
  "stage_lockout E W rq lv g =
     (case check_status (w_now W) (lv_ip lv) [] (gw_credentials g) of
        ((locked, threat, why), cd) \<Rightarrow>
          let g1 = g\<lparr>gw_credentials := cd\<rparr>; lv1 = lv\<lparr>lv_waf := of_int threat\<rparr>
          in if locked
             then (let reasons = lv_reasons lv @ map CredReason why;
                       risk = calculate_risk (risk_defaults\<lparr>Risk_Engine.waf_severity := of_int threat,
                          Risk_Engine.rate_severity := 80, risk_path := hr_path rq\<rparr>) reasons
                   in audit_and_stop E W rq lv1 risk BLOCK
                     (refusal (lv_id lv) 403 [(''X-Decision'', ''BLOCK''), (''X-Risk-Score'', risk_text E risk)]
                        ''Forbidden'' (JStr ''Access temporarily locked due to repeated authentication failures'')
                        [(''reasons'', reasons_json E reasons)]) g1)
             else Next lv1 g1)"

section \<open>Web application firewall\<close>

definition absorb_verdict :: "waf_result \<Rightarrow> locals \<Rightarrow> locals" where
  "absorb_verdict v lv = (case v of (attack, why, sc) \<Rightarrow>
     if attack then lv\<lparr>lv_waf := max (lv_waf lv) (of_int sc), lv_reasons := lv_reasons lv @ map WafReason why\<rparr>
     else lv)"

definition no_attack :: waf_result where
  "no_attack = (False, [], 0)"

definition policy_refusal ::
  "('s, 'r, 'm, 'c) env \<Rightarrow> string \<Rightarrow> gw_reason risk_score \<Rightarrow> response" where
  "policy_refusal E rid risk = refusal rid 403 [(''X-Decision'', ''BLOCK''), (''X-Risk-Score'', risk_text E risk)]
     ''Forbidden'' (JStr ''Request blocked by ERP Security Gateway policy'')
     [(''risk_score'', JFloat (overall risk)), (''reasons'', reasons_json E (rs_reasons risk))]"

definition stage_waf ::
  "('s, 'r, 'm, 'c) env \<Rightarrow> world \<Rightarrow> http_request \<Rightarrow> locals \<Rightarrow> ('s, 'r, 'm, 'c) gateway
     \<Rightarrow> (locals, ('s, 'r, 'm, 'c) gateway) flow" where
  "stage_waf E W rq lv g =
     (let url = inspect_content (en_loads E) (hr_url rq);
          body = (if lv_text lv = [] then no_attack else inspect_content (en_loads E) (lv_text lv));
          payload = (case lv_payload lv of
              Some j \<Rightarrow> if truthy j then inspect_payload j else no_attack | None \<Rightarrow> no_attack);
          lv1 = absorb_verdict payload (absorb_verdict body (absorb_verdict url lv))
      in if fst url \<or> fst body \<or> fst payload
         then (let risk = calculate_risk (risk_defaults\<lparr>Risk_Engine.waf_severity := lv_waf lv1,
                    risk_path := hr_path rq\<rparr>) (lv_reasons lv1)
               in audit_and_stop E W rq lv1 risk BLOCK (policy_refusal E (lv_id lv) risk) g)
         else Next lv1 g)"

section \<open>Routes and schemas\<close>

definition route_reason :: "route_verdict \<Rightarrow> string \<Rightarrow> string \<Rightarrow> string" where
  "route_reason v path meth =
     (if \<not> path_known v then ''Endpoint '' @ in_quotes path @ '' is not registered in API catalog''
      else if \<not> method_allowed v
      then ''HTTP method '' @ in_quotes meth @ '' not permitted on endpoint '' @ in_quotes path
      else ''Route validated'')"

definition stage_route ::
  "('s, 'r, 'm, 'c) env \<Rightarrow> http_request \<Rightarrow> locals \<Rightarrow> ('s, 'r, 'm, 'c) gateway
     \<Rightarrow> (locals, ('s, 'r, 'm, 'c) gateway) flow" where
  "stage_route E rq lv g =
     (let v = validate_route (en_catalogue E) (hr_path rq) (hr_method rq)
      in if \<not> path_known v
         then Stop (refusal (lv_id lv) 404 [(''X-Decision'', ''BLOCK'')] ''Not Found'' (JStr (route_reason v (hr_path rq) (hr_method rq))) []) g
         else if \<not> method_allowed v
         then Stop (refusal (lv_id lv) 405 [(''X-Decision'', ''BLOCK'')] ''Method Not Allowed'' (JStr (route_reason v (hr_path rq) (hr_method rq))) []) g
         else Next (lv\<lparr>lv_rule := matching_rule v\<rparr>) g)"

definition schema_verdict :: "('s, 'r, 'm, 'c) env \<Rightarrow> string \<Rightarrow> json \<Rightarrow> field_error option" where
  "schema_verdict E path j =
     (if path = ''/api/auth/login'' then (case login_schema (en_coerce E) j of Inl e \<Rightarrow> Some e | Inr _ \<Rightarrow> None)
      else if path = ''/api/orders'' then (case order_schema (en_coerce E) j of Inl e \<Rightarrow> Some e | Inr _ \<Rightarrow> None)
      else None)"

definition stage_schema ::
  "('s, 'r, 'm, 'c) env \<Rightarrow> http_request \<Rightarrow> locals \<Rightarrow> ('s, 'r, 'm, 'c) gateway
     \<Rightarrow> (locals, ('s, 'r, 'm, 'c) gateway) flow" where
  "stage_schema E rq lv g =
     (if hr_method rq \<in> {''POST'', ''PUT''} \<and> lv_text lv \<noteq> []
      then (case en_loads E (lv_text lv) of
          None \<Rightarrow> Stop (refusal (lv_id lv) 400 [(''X-Decision'', ''BLOCK'')] ''Bad Request''
                     (JStr ''Malformed JSON in request body'') []) g
        | Some j \<Rightarrow> (case schema_verdict E (hr_path rq) j of
              Some e \<Rightarrow> Stop (refusal (lv_id lv) 422 [(''X-Decision'', ''BLOCK'')] ''Unprocessable Entity''
                     (JStr (''Schema validation failed: '' @ en_field_error E e)) []) g
            | None \<Rightarrow> Next lv g))
      else Next lv g)"

section \<open>Freshness\<close>

definition mutating_methods :: "string list" where
  "mutating_methods = [''POST'', ''PUT'', ''DELETE'', ''PATCH'']"

definition freshness_exempt :: "string \<Rightarrow> bool" where
  "freshness_exempt path \<longleftrightarrow>
     path \<in> {''/api/auth/login'', ''/health'', ''/health/live'', ''/health/ready''}
     \<or> startswith path ''/api/compliance'' \<or> startswith path ''/api/canary''
     \<or> startswith path ''/api/agents'' \<or> startswith path ''/api/soc''"

definition time_header :: "http_request \<Rightarrow> string option" where
  "time_header rq = str_or (header rq ''x-timestamp'') (header rq ''date'')"

definition stage_replay ::
  "('s, 'r, 'm, 'c) env \<Rightarrow> world \<Rightarrow> http_request \<Rightarrow> locals \<Rightarrow> ('s, 'r, 'm, 'c) gateway
     \<Rightarrow> (locals, ('s, 'r, 'm, 'c) gateway) flow" where
  "stage_replay E W rq lv g =
     (if hr_method rq \<notin> set mutating_methods then Next lv g
      else let nonce = header rq ''x-nonce''; idem = header rq ''idempotency-key''; ts = time_header rq in
        if \<not> freshness_exempt (hr_path rq) \<and> \<not> (truthy_str nonce \<or> truthy_str idem \<or> truthy_str ts)
        then Stop (refusal (lv_id lv) 400 [(''X-Decision'', ''BLOCK'')] ''Bad Request''
               (JStr ''State-mutating request requires freshness verification (X-Nonce, Idempotency-Key, or X-Timestamp)'') []) g
        else (case validate_request (op_set_nonce_nx (en_store E)) 300 (w_now W) nonce idem ts (store (gw_engine g)) of
          ((replayed, threat, why), st) \<Rightarrow>
            let g1 = g\<lparr>gw_engine := (gw_engine g)\<lparr>store := st\<rparr>\<rparr>
            in if replayed
               then (let reasons = lv_reasons lv @ map ReplayReason why;
                         waf = max (lv_waf lv) (of_int threat);
                         risk = calculate_risk (risk_defaults\<lparr>Risk_Engine.waf_severity := waf,
                            Risk_Engine.rate_severity := 50, risk_path := hr_path rq\<rparr>) reasons
                     in audit_and_stop E W rq lv risk BLOCK
                       (refusal (lv_id lv) 403 [(''X-Decision'', ''BLOCK''), (''X-Risk-Score'', risk_text E risk)]
                          ''Forbidden'' (JStr ''Replay attack detected or timestamp outside valid window'')
                          [(''reasons'', reasons_json E reasons)]) g1)
               else Next lv g1))"

section \<open>Authentication and authorisation\<close>

definition auth_exempt :: "string \<Rightarrow> route_rule option \<Rightarrow> bool" where
  "auth_exempt path r \<longleftrightarrow> (case r of Some x \<Rightarrow> \<not> auth_required x | None \<Rightarrow> False)
     \<or> path \<in> {''/health'', ''/api/auth/login''}"

definition stage_auth ::
  "('s, 'r, 'm, 'c) env \<Rightarrow> world \<Rightarrow> http_request \<Rightarrow> locals \<Rightarrow> ('s, 'r, 'm, 'c) gateway
     \<Rightarrow> (locals, ('s, 'r, 'm, 'c) gateway) flow" where
  "stage_auth E W rq lv g =
     (if auth_exempt (hr_path rq) (lv_rule lv)
      then Next (lv\<lparr>lv_exempt := True, lv_auth_anomaly := 0, lv_trust := 85/100\<rparr>) g
      else let v = decode_and_verify (en_jwt E) (en_cfg E) (en_auth E) (Some (auth_header rq))
        in if \<not> is_valid v
           then (let why = en_reason E (AuthReason (auth_reason v));
                     reasons = lv_reasons lv @ [AuthReason (auth_reason v)];
                     risk = calculate_risk (risk_defaults\<lparr>Risk_Engine.waf_severity := lv_waf lv,
                        Risk_Engine.auth_anomaly := anomaly v, risk_path := hr_path rq\<rparr>) reasons
                 in audit_and_stop E W rq lv risk CHALLENGE
                   (refusal (lv_id lv) 401 [(''X-Decision'', ''CHALLENGE''),
                        (''WWW-Authenticate'', ''Bearer error='' @ [CHR 0x22] @ ''invalid_token'' @ [CHR 0x22]
                           @ '', error_description='' @ [CHR 0x22] @ why @ [CHR 0x22])]
                      ''Unauthorized'' (JStr why)
                      [(''reasons'', reasons_json E reasons), (''risk_score'', JFloat (overall risk))]) g)
           else let lv1 = lv\<lparr>lv_claims := claims v, lv_auth_anomaly := anomaly v, lv_trust := trust v,
                      lv_principal := py_str (en_prims E) (jget_or (JStr []) (case claims v of Some c \<Rightarrow> c | None \<Rightarrow> JNull) ''sub'')\<rparr>
                in check_mitigation E W rq (Some (lv_principal lv1)) lv1 g)"

definition object_body :: "('s, 'r, 'm, 'c) env \<Rightarrow> string \<Rightarrow> json" where
  "object_body E text =
     (let t = strip text
      in if startswith t ''{'' \<or> startswith t ''[''
         then (case en_loads E text of Some j \<Rightarrow> j | None \<Rightarrow> JObj []) else JObj [])"

text \<open>The claims count when the path needs authentication and they are not empty.\<close>

definition checked_claims :: "locals \<Rightarrow> json option" where
  "checked_claims lv = (case lv_claims lv of
       Some c \<Rightarrow> if \<not> lv_exempt lv \<and> truthy c then Some c else None | None \<Rightarrow> None)"

definition stage_authorise ::
  "('s, 'r, 'm, 'c) env \<Rightarrow> http_request \<Rightarrow> locals \<Rightarrow> ('s, 'r, 'm, 'c) gateway
     \<Rightarrow> (locals, ('s, 'r, 'm, 'c) gateway) flow" where
  "stage_authorise E rq lv g =
     (let lv1 = lv\<lparr>lv_body := object_body E (lv_text lv)\<rparr>
      in case checked_claims lv1 of
          None \<Rightarrow> Next lv1 g
        | Some c \<Rightarrow>
            (case check_bola_idor (en_prims E) (hr_path rq) (Some c) (hr_method rq) (Some (lv_body lv1)) of
               None \<Rightarrow> Stop server_error g
             | Some True \<Rightarrow> Next lv1 g
             | Some False \<Rightarrow> Next (lv1\<lparr>lv_reasons := lv_reasons lv1 @ [BolaReason],
                                      lv_waf := max (lv_waf lv1) 95\<rparr>) g))"

section \<open>Rules, anomalies and rate\<close>

definition user_key :: "locals \<Rightarrow> string" where
  "user_key lv = (if lv_principal lv = [] then lv_ip lv else lv_principal lv)"

definition rule_data :: "('s, 'r, 'm, 'c) env \<Rightarrow> http_request \<Rightarrow> locals \<Rightarrow> rule_request" where
  "rule_data E rq lv = \<lparr>rq_path = hr_path rq, rq_method = hr_method rq, rq_body = lv_body lv,
     rq_user_id = Some (user_key lv), rq_client_ip = Some (lv_ip lv),
     rq_current_role = Some (case checked_claims lv of
        Some c \<Rightarrow> py_str (en_prims E) (jget_or (JStr []) c ''role'') | None \<Rightarrow> []),
     rq_is_authenticated = (\<not> lv_exempt lv \<and> lv_principal lv \<noteq> [])\<rparr>"

definition stage_rules ::
  "('s, 'r, 'm, 'c) env \<Rightarrow> world \<Rightarrow> http_request \<Rightarrow> locals \<Rightarrow> ('s, 'r, 'm, 'c) gateway
     \<Rightarrow> (locals, ('s, 'r, 'm, 'c) gateway) flow" where
  "stage_rules E W rq lv g =
     (case evaluate (en_prims E) (en_rules_file E) (w_now W) (rule_data E rq lv) (gw_rules g) of
        ((sev, fired), re) \<Rightarrow>
          Next (lv\<lparr>lv_rule_severity := sev, lv_fired := fired,
                 lv_reasons := lv_reasons lv @ (if fired = [] then [] else map RuleReason (fired_reasons re))\<rparr>)
               (g\<lparr>gw_rules := re\<rparr>))"

definition stage_anomaly ::
  "('s, 'r, 'm, 'c) env \<Rightarrow> world \<Rightarrow> http_request \<Rightarrow> locals \<Rightarrow> ('s, 'r, 'm, 'c) gateway
     \<Rightarrow> (locals, ('s, 'r, 'm, 'c) gateway) flow" where
  "stage_anomaly E W rq lv g =
     (case detect_anomalies (en_prims E) (\<lambda>s. map_option (\<lambda>(t, h, d). (t, h)) (en_iso E s))
             (utc_hour (w_now W)) (gw_baselines g)
             (anomaly_request (user_key lv) (hr_path rq) (length (hr_body rq)) (w_elapsed W) (utc_hour (w_now W))) of
        None \<Rightarrow> Stop server_error g
      | Some a \<Rightarrow> Next (lv\<lparr>lv_anomaly := a,
            lv_reasons := lv_reasons lv @ (if an_anomalous a then map AnomalyReason (an_reasons a) else [])\<rparr>) g)"

definition event_record :: "world \<Rightarrow> http_request \<Rightarrow> locals \<Rightarrow> json" where
  "event_record W rq lv = JObj
     [(''timestamp'', JStr (w_stamp W)), (''ts_epoch'', JFloat (w_now W)),
      (''hour_of_day'', JInt (utc_hour (w_now W))), (''day_of_week'', JInt (utc_weekday (w_now W))),
      (''user_id'', JStr (user_key lv)), (''principal_ref'', JStr (user_key lv)), (''path'', JStr (hr_path rq)),
      (''method'', JStr (hr_method rq)), (''client_ip'', JStr (lv_ip lv)),
      (''user_agent'', JStr (user_agent rq)), (''request_size_bytes'', JInt (int (length (hr_body rq)))),
      (''latency_ms'', JFloat (w_elapsed W))]"

definition stage_ml ::
  "('s, 'r, 'm, 'c) env \<Rightarrow> world \<Rightarrow> http_request \<Rightarrow> locals \<Rightarrow> ('s, 'r, 'm, 'c) gateway
     \<Rightarrow> (locals, ('s, 'r, 'm, 'c) gateway) flow" where
  "stage_ml E W rq lv g =
     (let e = event_record W rq lv;
          events = push_bounded 50 e (dget_or [] (gw_recent g) (user_key lv));
          g1 = g\<lparr>gw_recent := dput (user_key lv) events (gw_recent g)\<rparr>
      in if should_evaluate_ml (en_prims E) (lv_id lv) None (gw_ml g)
         then (case extract_features (en_prims E) (en_iso E) (en_lg E) (w_now W) events (Some (gw_baselines g)) (Some e) of
             None \<Rightarrow> Stop server_error g1
           | Some f \<Rightarrow> (case score_request (en_infer E) (w_elapsed W) f (gw_ml g) of
               (r, ml) \<Rightarrow> Next (lv\<lparr>lv_ml_score := ml_score r, lv_ml_confidence := ml_confidence r,
                                 lv_ml_anomalous := ml_anomalous r\<rparr>) (g1\<lparr>gw_ml := ml\<rparr>)))
         else Next lv g1)"

definition stage_rate ::
  "('s, 'r, 'm, 'c) env \<Rightarrow> world \<Rightarrow> http_request \<Rightarrow> locals \<Rightarrow> ('s, 'r, 'm, 'c) gateway
     \<Rightarrow> (locals, ('s, 'r, 'm, 'c) gateway) flow" where
  "stage_rate E W rq lv g =
     (case check_rate (en_rate E) (w_now W) (lv_ip lv) (gw_rate g) of
        ((n, sev), rl) \<Rightarrow>
          Next (lv\<lparr>lv_count := n, lv_rate := sev,
                 lv_reasons := lv_reasons lv @ (if 50 < sev then [RateReason n] else [])\<rparr>) (g\<lparr>gw_rate := rl\<rparr>))"

section \<open>The decision\<close>

definition risk_input :: "http_request \<Rightarrow> locals \<Rightarrow> risk_in" where
  "risk_input rq lv = risk_defaults\<lparr>Risk_Engine.waf_severity := lv_waf lv,
     Risk_Engine.auth_anomaly := lv_auth_anomaly lv, Risk_Engine.rate_severity := of_int (lv_rate lv),
     risk_path := hr_path rq, user_trust := lv_trust lv, Risk_Engine.rule_severity := of_int (lv_rule_severity lv),
     Risk_Engine.anomaly_score := an_score (lv_anomaly lv)\<rparr>"

definition decision_facts :: "world \<Rightarrow> locals \<Rightarrow> decision \<Rightarrow> audit_facts" where
  "decision_facts W lv d = \<lparr>af_decision = d, af_latency = w_elapsed W, af_ip = lv_ip lv,
     af_principal = lv_principal lv, af_fired = lv_fired lv, af_anomaly = an_score (lv_anomaly lv),
     af_anomaly_reasons = an_reasons (lv_anomaly lv), af_ml_score = lv_ml_score lv,
     af_ml_confidence = lv_ml_confidence lv, af_ml_anomalous = lv_ml_anomalous lv\<rparr>"

definition challenge_refusal :: "('s, 'r, 'm, 'c) env \<Rightarrow> string \<Rightarrow> gw_reason risk_score \<Rightarrow> response" where
  "challenge_refusal E rid risk = refusal rid 401
     [(''X-Decision'', ''CHALLENGE''), (''X-Risk-Score'', risk_text E risk),
      (''WWW-Authenticate'', ''Bearer error='' @ [CHR 0x22] @ ''invalid_token'' @ [CHR 0x22])]
     ''Unauthorized'' (JStr ''Authentication required or invalid credentials'')
     [(''reasons'', reasons_json E (rs_reasons risk))]"

definition stage_decide ::
  "('s, 'r, 'm, 'c) env \<Rightarrow> world \<Rightarrow> http_request \<Rightarrow> locals \<Rightarrow> ('s, 'r, 'm, 'c) gateway
     \<Rightarrow> (locals \<times> gw_reason risk_score, ('s, 'r, 'm, 'c) gateway) flow" where
  "stage_decide E W rq lv g =
     (let risk = calculate_risk (risk_input rq lv) (lv_reasons lv); d = rs_decision risk
      in case emit_audit_event E W rq (lv_id lv) risk (decision_facts W lv d) g of
          None \<Rightarrow> Stop server_error g
        | Some g' \<Rightarrow>
            if d = BLOCK then Stop (policy_refusal E (lv_id lv) risk) g'
            else if d = CHALLENGE then Stop (challenge_refusal E (lv_id lv) risk) g'
            else if 1000 < lv_count lv
            then Stop (refusal (lv_id lv) 429 [(''Retry-After'', ''60'')] ''Too Many Requests''
                   (JStr ''Rate limit exceeded'') []) g'
            else Next (lv, risk) g')"

section \<open>Forwarding\<close>

definition stage_breaker ::
  "world \<Rightarrow> locals \<times> gw_reason risk_score \<Rightarrow> ('s, 'r, 'm, 'c) gateway
     \<Rightarrow> (locals \<times> gw_reason risk_score, ('s, 'r, 'm, 'c) gateway) flow" where
  "stage_breaker W x g =
     (case allow_request (w_now W) (gw_breaker g) of
        (ok, b) \<Rightarrow>
          if ok then Next x (g\<lparr>gw_breaker := b\<rparr>)
          else Stop (refusal (lv_id (fst x)) 503 [(''Retry-After'', ''10'')] ''Service Unavailable''
                 (JStr ''Upstream ERP service temporarily isolated by circuit breaker protection'') [])
               (g\<lparr>gw_breaker := b\<rparr>))"

definition upstream_url :: "string \<Rightarrow> http_request \<Rightarrow> string" where
  "upstream_url backend rq = backend @ hr_path rq @ (if hr_query rq = [] then [] else ''?'' @ hr_query rq)"

definition transport_headers :: "string list" where
  "transport_headers = [''host'', ''content-length'', ''transfer-encoding'', ''accept-encoding'']"

text \<open>The dict is keyed by exact name: what the client sent under a lower case name stays in it beside
  the gateway's own entries.\<close>

definition forward_headers ::
  "('s, 'r, 'm, 'c) env \<Rightarrow> http_request \<Rightarrow> string \<Rightarrow> gw_reason risk_score \<Rightarrow> (string, string) dict" where
  "forward_headers E rq rid risk =
     fold ddel transport_headers
       (dput ''X-Risk-Score'' (risk_text E risk) (dput ''X-Decision'' (decision_name (rs_decision risk))
         (dput ''X-Request-ID'' rid (hr_headers rq))))"

definition route_name :: "bool \<Rightarrow> string" where
  "route_name is_canary = (if is_canary then ''canary'' else ''stable'')"

text \<open>Header names of a Starlette response are case-insensitive: the gateway's entries replace those of the
  upstream answer.\<close>

definition relayed :: "('s, 'r, 'm, 'c) env \<Rightarrow> string \<Rightarrow> gw_reason risk_score \<Rightarrow> bool
     \<Rightarrow> int \<Rightarrow> (string, string) dict \<Rightarrow> string \<Rightarrow> response" where
  "relayed E rid risk is_canary status hs content = \<lparr>rs_status = status,
     rs_headers = dput ''x-gateway-route'' (route_name is_canary) (dput ''x-risk-score'' (risk_text E risk)
       (dput ''x-decision'' (decision_name (rs_decision risk)) (dput ''x-request-id'' rid
         (fold ddel [''content-encoding'', ''content-length'', ''transfer-encoding'', ''connection''] hs)))),
     rs_content = JStr content\<rparr>"

definition bad_gateway :: "string \<Rightarrow> bool \<Rightarrow> response" where
  "bad_gateway rid is_canary = refusal rid 502 [(''X-Gateway-Route'', route_name is_canary)] ''Bad Gateway''
     (JStr ''Security gateway was unable to communicate with backend ERP service'') []"

definition record_answer ::
  "world \<Rightarrow> http_request \<Rightarrow> bool \<Rightarrow> int \<Rightarrow> ('s, 'r, 'm, 'c) gateway \<Rightarrow> ('s, 'r, 'm, 'c) gateway" where
  "record_answer W rq is_canary status g =
     g\<lparr>gw_breaker := record_success (w_later W) (gw_breaker g),
       gw_router := record_metric (w_later W) is_canary (w_proxy_ms W) status (Some (hr_path rq)) (hr_method rq)
         (gw_router g)\<rparr>"

definition record_breakdown ::
  "world \<Rightarrow> http_request \<Rightarrow> bool \<Rightarrow> ('s, 'r, 'm, 'c) gateway \<Rightarrow> ('s, 'r, 'm, 'c) gateway" where
  "record_breakdown W rq is_canary g =
     g\<lparr>gw_breaker := cb_record_failure (w_later W) (gw_breaker g),
       gw_router := record_metric (w_later W) is_canary (w_proxy_ms W) 502 (Some (hr_path rq)) (hr_method rq)
         (gw_router g)\<rparr>"

text \<open>The user name of a login body; the schema has refused other types by then.\<close>

definition login_name :: "('s, 'r, 'm, 'c) env \<Rightarrow> string \<Rightarrow> string" where
  "login_name E text = (case en_loads E text of
       Some j \<Rightarrow> (case jget_or (JStr []) j ''username'' of JStr u \<Rightarrow> u | _ \<Rightarrow> []) | None \<Rightarrow> [])"

definition note_login_failure ::
  "('s, 'r, 'm, 'c) env \<Rightarrow> world \<Rightarrow> http_request \<Rightarrow> locals \<Rightarrow> int \<Rightarrow> ('s, 'r, 'm, 'c) gateway
     \<Rightarrow> ('s, 'r, 'm, 'c) gateway" where
  "note_login_failure E W rq lv status g =
     (if hr_path rq = ''/api/auth/login'' \<and> status = 401
      then g\<lparr>gw_credentials := record_failure (w_later W) (lv_ip lv) (login_name E (lv_text lv)) (gw_credentials g)\<rparr>
      else g)"

definition forward ::
  "('s, 'r, 'm, 'c) env \<Rightarrow> world \<Rightarrow> http_request \<Rightarrow> locals \<times> gw_reason risk_score \<Rightarrow> ('s, 'r, 'm, 'c) gateway
     \<Rightarrow> response \<times> ('s, 'r, 'm, 'c) gateway" where
  "forward E W rq x g =
     (case x of (lv, risk) \<Rightarrow>
       let hs = forward_headers E rq (lv_id lv) risk;
           canary = should_route_to_canary (en_md5_32 E) (w_random W) (Some (lv_principal lv)) (Some (lv_ip lv)) hs (gw_router g);
           msg = \<lparr>st_method = hr_method rq, st_url = upstream_url (en_backend E) rq,
                  st_headers = dput ''X-Gateway-Route'' (route_name canary) hs, st_content = hr_body rq\<rparr>;
           g1 = g\<lparr>gw_sent := gw_sent g @ [msg]\<rparr>
       in case w_upstream W of
           Answered status rhs content \<Rightarrow>
             (relayed E (lv_id lv) risk canary status rhs content,
              note_login_failure E W rq lv status (record_answer W rq canary status g1))
         | LoopClosed \<Rightarrow>
             (let g2 = g1\<lparr>gw_sent := gw_sent g1 @ [msg]\<rparr>
              in case w_retry W of
                  Answered status rhs content \<Rightarrow>
                    (relayed E (lv_id lv) risk canary status rhs content, record_answer W rq canary status g2)
                | _ \<Rightarrow> (server_error, g2))
         | RuntimeFailed \<Rightarrow> (bad_gateway (lv_id lv) canary, record_breakdown W rq canary g1)
         | Failed \<Rightarrow> (bad_gateway (lv_id lv) canary, record_breakdown W rq canary g1))"

section \<open>The middleware\<close>

definition managed_paths :: "string list" where
  "managed_paths = [''/docs'', ''/openapi.json'', ''/redoc'', ''/health'', ''/health/live'', ''/health/ready'',
     ''/api/ml/health'', ''/api/ml/rollback'', ''/api/ml/recover'', ''/api/mitigations/status'',
     ''/api/ml/retrain'', ''/api/metrics/security'', ''/api/ha/status'', ''/api/compliance/report'',
     ''/api/compliance/verify-chain'', ''/api/canary/status'', ''/api/canary/promote'', ''/api/canary/rollback'']"

definition managed_prefixes :: "string list" where
  "managed_prefixes = [''/api/agents'', ''/api/soc'', ''/api/metrics'', ''/api/compliance'', ''/api/ha'', ''/api/canary'']"

definition bypasses :: "string \<Rightarrow> bool" where
  "bypasses path \<longleftrightarrow> path \<in> set managed_paths \<or> list_ex (startswith path) managed_prefixes"

definition inspect_request ::
  "('s, 'r, 'm, 'c) env \<Rightarrow> world \<Rightarrow> http_request \<Rightarrow> ('s, 'r, 'm, 'c) gateway
     \<Rightarrow> (locals, ('s, 'r, 'm, 'c) gateway) flow" where
  "inspect_request E W rq g =
     and_next (stage_mitigation E W rq (locals_init E W rq) g) (\<lambda>lv g.
     and_next (stage_size E W rq lv g) (\<lambda>lv g.
     and_next (stage_lockout E W rq (stage_body E rq lv) g) (\<lambda>lv g.
     and_next (stage_waf E W rq lv g) (\<lambda>lv g.
     and_next (stage_route E rq lv g) (\<lambda>lv g.
     stage_schema E rq lv g)))))"

definition judge_request ::
  "('s, 'r, 'm, 'c) env \<Rightarrow> world \<Rightarrow> http_request \<Rightarrow> locals \<Rightarrow> ('s, 'r, 'm, 'c) gateway
     \<Rightarrow> (locals \<times> gw_reason risk_score, ('s, 'r, 'm, 'c) gateway) flow" where
  "judge_request E W rq lv g =
     and_next (stage_replay E W rq lv g) (\<lambda>lv g.
     and_next (stage_auth E W rq lv g) (\<lambda>lv g.
     and_next (stage_authorise E rq lv g) (\<lambda>lv g.
     and_next (stage_rules E W rq lv g) (\<lambda>lv g.
     and_next (stage_anomaly E W rq lv g) (\<lambda>lv g.
     and_next (stage_ml E W rq lv g) (\<lambda>lv g.
     and_next (stage_rate E W rq lv g) (\<lambda>lv g.
     and_next (stage_decide E W rq lv g) (\<lambda>x g. stage_breaker W x g))))))))"

definition security_pipeline ::
  "('s, 'r, 'm, 'c) env \<Rightarrow> world \<Rightarrow> http_request \<Rightarrow> ('s, 'r, 'm, 'c) gateway
     \<Rightarrow> response \<times> ('s, 'r, 'm, 'c) gateway" where
  "security_pipeline E W rq g =
     (case and_next (inspect_request E W rq g) (\<lambda>lv g. judge_request E W rq lv g) of
        Stop rsp g' \<Rightarrow> (rsp, g')
      | Next x g' \<Rightarrow> forward E W rq x g')"

text \<open>Management requests go to their endpoint, the argument \<open>call_next\<close>, instead.\<close>

definition middleware ::
  "('s, 'r, 'm, 'c) env \<Rightarrow> world
     \<Rightarrow> (http_request \<Rightarrow> ('s, 'r, 'm, 'c) gateway \<Rightarrow> response \<times> ('s, 'r, 'm, 'c) gateway)
     \<Rightarrow> http_request \<Rightarrow> ('s, 'r, 'm, 'c) gateway \<Rightarrow> response \<times> ('s, 'r, 'm, 'c) gateway" where
  "middleware E W call_next rq g =
     (if bypasses (hr_path rq)
      then (case call_next rq g of
          (rsp, g') \<Rightarrow> (rsp\<lparr>rs_headers := dput ''x-request-id'' (request_id_of W rq) (rs_headers rsp)\<rparr>, g'))
      else security_pipeline E W rq g)"

end
