(* ===== verification/Gateway_Api.thy ===== *)
theory Gateway_Api
  imports Gateway_Pipeline
begin

text \<open>
  \<open>src/gateway/app.py\<close>, third part: the management endpoints.  FastAPI decodes a request into a call of a
  handler with its parameters, and encodes what the handler returns; a call is a value of
  \<open>api_call\<close>, an answer a status and a value of \<open>api_body\<close>.  \<open>Crash\<close> is an exception that leaves the
  handler.  Payloads of the feedback endpoint have texts or nothing under their keys.
\<close>

section \<open>Calls and answers\<close>

record feedback_payload =
  fp_tag :: "string option"
  fp_analyst :: "string option"
  fp_request :: "string option"
  fp_alert :: "string option"
  fp_rule :: "string option"
  fp_notes :: "string option"
  fp_target :: "string option"
  fp_action :: "string option"

datatype api_call =
    Health
  | Liveness
  | Readiness
  | MlHealth
  | MlRollback string
  | MlRecover
  | AgentsStatus
  | AgentsAlerts int
  | AgentsIncident string
  | AgentsPending
  | AgentsApprove string string
  | AgentsReject string string string
  | AgentsRevoke string string
  | MitigationsStatus
  | SubmitFeedback feedback_payload
  | GetFeedback
  | TuningRecommendations
  | MlRetrain
  | SecurityKpis
  | ComplianceReport
  | VerifyChain
  | HaStatus
  | CanaryStatus
  | CanaryPromote "json option"
  | CanaryRollback "json option"

datatype api_body =
    Alive
  | ReadyBody readiness
  | MlHealthBody ml_health
  | RolledBackBody string
  | RecoveredBody ml_health
  | AgentsBody orch_status
  | AlertsBody "security_alert list"
  | IncidentBody investigation_report
  | ActionsBody "agent_action list"
  | ActionBody agent_action
  | MitigationsBody mitigation_status
  | FeedbackBody feedback_record
  | FeedbackHistory accuracy "feedback_record list"
  | TuningBody "recommendation list"
  | RetrainBody retraining_result
  | KpisBody kpis
  | ComplianceBody compliance_report
  | ChainBody "bool \<times> nat \<times> failure option"
  | HaBody cb_status
  | CanaryBody canary_status
  | ErrorBody string
  | Crash

section \<open>Handlers\<close>

definition ml_status_text :: "ml_state \<Rightarrow> string" where
  "ml_status_text s = (case s of RolledBack \<Rightarrow> ''rolled_back'' | Healthy \<Rightarrow> ''healthy'' | Standby \<Rightarrow> ''standby'')"

definition health_readiness :: "world \<Rightarrow> ('s, 'r, 'm, 'c) gateway \<Rightarrow> int \<times> api_body" where
  "health_readiness W g =
     (case evaluate_readiness (w_now W) (gw_breaker g) (Some (length (rules (gw_rules g))))
             (Some (ml_status_text (mh_status (ml_get_health (gw_ml g)))))
             (Some (total_mitigations_enforced (mitigation_get_status (gw_engine g)))) True of
        (ready, details) \<Rightarrow> (if ready then 200 else 503, ReadyBody details))"

text \<open>An analyst operation: the error of an unknown action is 404, of a wrong status 400.\<close>

definition agents_outcome ::
  "agent_error + agent_action \<times> 's orchestrator \<Rightarrow> ('s, 'r, 'm, 'c) gateway
     \<Rightarrow> (int \<times> api_body) \<times> ('s, 'r, 'm, 'c) gateway" where
  "agents_outcome res g =
     (case res of
        Inl (KeyError i) \<Rightarrow> ((404, ErrorBody ''Action not found''), g)
      | Inl (ValueError i st) \<Rightarrow> ((400, ErrorBody i), g)
      | Inr (a, orch) \<Rightarrow> ((200, ActionBody a), return_engine orch g))"

definition agents_approve_action ::
  "('s, 'r, 'm, 'c) env \<Rightarrow> world \<Rightarrow> string \<Rightarrow> string \<Rightarrow> ('s, 'r, 'm, 'c) gateway
     \<Rightarrow> (int \<times> api_body) \<times> ('s, 'r, 'm, 'c) gateway" where
  "agents_approve_action E W aid analyst g = agents_outcome
     (orch_approve (en_store E) (en_cfg E) (w_agents_ok W) (w_now W) aid analyst (lend_engine g)) g"

definition agents_reject_action ::
  "world \<Rightarrow> string \<Rightarrow> string \<Rightarrow> string \<Rightarrow> ('s, 'r, 'm, 'c) gateway
     \<Rightarrow> (int \<times> api_body) \<times> ('s, 'r, 'm, 'c) gateway" where
  "agents_reject_action W aid analyst reason g =
     agents_outcome (orch_reject (w_agents_ok W) (w_now W) aid analyst reason (lend_engine g)) g"

definition agents_revoke_action ::
  "('s, 'r, 'm, 'c) env \<Rightarrow> world \<Rightarrow> string \<Rightarrow> string \<Rightarrow> ('s, 'r, 'm, 'c) gateway
     \<Rightarrow> (int \<times> api_body) \<times> ('s, 'r, 'm, 'c) gateway" where
  "agents_revoke_action E W aid analyst g = agents_outcome
     (orch_revoke (en_store E) (w_agents_ok W) (w_now W) aid (Some analyst) (lend_engine g)) g"

definition submit_soc_feedback ::
  "world \<Rightarrow> feedback_payload \<Rightarrow> ('s, 'r, 'm, 'c) gateway \<Rightarrow> (int \<times> api_body) \<times> ('s, 'r, 'm, 'c) gateway" where
  "submit_soc_feedback W p g =
     (let tag_text = upper (case fp_tag p of Some t \<Rightarrow> t | None \<Rightarrow> ''CONFIRMED_ATTACK'')
      in case tag_of tag_text of
          None \<Rightarrow> ((400, ErrorBody (''Invalid tag: '' @ tag_text)), g)
        | Some t \<Rightarrow>
            let r = \<lparr>fb_id = ''fb-'' @ w_uuid W, fb_timestamp = w_stamp W,
                  fb_analyst = (case fp_analyst p of Some a \<Rightarrow> a | None \<Rightarrow> ''soc_analyst''), fb_tag = t,
                  fb_request = fp_request p, fb_alert = fp_alert p, fb_rule = fp_rule p,
                  fb_notes = (case fp_notes p of Some n \<Rightarrow> n | None \<Rightarrow> []), fb_target = fp_target p,
                  fb_action = fp_action p\<rparr>
            in ((200, FeedbackBody r), g\<lparr>gw_feedback := submit_feedback (w_agents_ok W) r (gw_feedback g)\<rparr>))"

definition trigger_ml_retraining ::
  "('s, 'r, 'm, 'c) env \<Rightarrow> world \<Rightarrow> ('s, 'r, 'm, 'c) gateway \<Rightarrow> (int \<times> api_body) \<times> ('s, 'r, 'm, 'c) gateway" where
  "trigger_ml_retraining E W g =
     (case en_samples E of (train, normal, anomalous) \<Rightarrow>
       (case run_retraining_cycle (en_sklearn E) (en_root E) (w_stamp W) None train normal anomalous (Some normal)
               (1/1000) (trainer_init (gw_models g)) of
          Inl e \<Rightarrow> ((500, Crash), g)
        | Inr (r, t) \<Rightarrow> ((200, RetrainBody r), g\<lparr>gw_models := tr_dir t\<rparr>)))"

definition stage_names :: "(Canary_Router.stage \<times> string \<times> string) list" where
  "stage_names = [(DISABLED, ''DISABLED'', ''DISABLED''), (CANARY_1, ''CANARY_1%'', ''CANARY_1''),
     (CANARY_10, ''CANARY_10%'', ''CANARY_10''), (CANARY_50, ''CANARY_50%'', ''CANARY_50''),
     (FULL_ROLLOUT, ''100%'', ''FULL_ROLLOUT''), (ROLLED_BACK, ''ROLLED_BACK'', ''ROLLED_BACK'')]"

definition find_stage :: "string \<Rightarrow> Canary_Router.stage option" where
  "find_stage s = map_option fst (List.find (\<lambda>(t, v, n). v = s \<or> n = s) stage_names)"

text \<open>\<open>k in data\<close> on a decoded body; \<open>None\<close> where it raises.\<close>

definition key_in :: "string \<Rightarrow> json \<Rightarrow> bool option" where
  "key_in k data = (case data of
       JObj kvs \<Rightarrow> Some (k \<in> fst ` set kvs)
     | JList xs \<Rightarrow> Some (JStr k \<in> set xs)
     | JStr s \<Rightarrow> Some (contains_sub s k)
     | _ \<Rightarrow> None)"

definition canary_answer ::
  "router \<Rightarrow> ('s, 'r, 'm, 'c) gateway \<Rightarrow> (int \<times> api_body) \<times> ('s, 'r, 'm, 'c) gateway" where
  "canary_answer r g = ((200, CanaryBody (canary_get_status r)), g\<lparr>gw_router := r\<rparr>)"

definition promote_canary ::
  "json option \<Rightarrow> ('s, 'r, 'm, 'c) gateway \<Rightarrow> (int \<times> api_body) \<times> ('s, 'r, 'm, 'c) gateway" where
  "promote_canary body g =
     (case body of
        None \<Rightarrow> ((500, Crash), g)
      | Some data \<Rightarrow>
          (case key_in ''stage'' data of
             None \<Rightarrow> ((500, Crash), g)
           | Some True \<Rightarrow>
               (case jget data ''stage'' of
                  Some (JStr s) \<Rightarrow>
                    (case find_stage (strip s) of
                       None \<Rightarrow> ((400, ErrorBody (''Invalid stage: '' @ strip s)), g)
                     | Some t \<Rightarrow> canary_answer (promote t (gw_router g)) g)
                | _ \<Rightarrow> ((500, Crash), g))
           | Some False \<Rightarrow>
               (if key_in ''weight'' data = Some True
                then (case Option.bind (jget data ''weight'') py_float of
                        Some w \<Rightarrow> canary_answer (set_weight w (gw_router g)) g
                      | None \<Rightarrow> ((500, Crash), g))
                else ((400, ErrorBody ''Must provide stage or weight''), g))))"

definition rollback_text :: "('s, 'r, 'm, 'c) env \<Rightarrow> json option \<Rightarrow> string" where
  "rollback_text E body = (case body of
       Some (JObj kvs) \<Rightarrow> py_str (en_prims E) (jget_or (JStr ''Manual operator rollback'') (JObj kvs) ''reason'')
     | _ \<Rightarrow> ''Manual operator rollback'')"

definition api_step ::
  "('s, 'r, 'm, 'c) env \<Rightarrow> world \<Rightarrow> api_call \<Rightarrow> ('s, 'r, 'm, 'c) gateway
     \<Rightarrow> (int \<times> api_body) \<times> ('s, 'r, 'm, 'c) gateway" where
  "api_step E W call g = (case call of
       Health \<Rightarrow> ((200, Alive), g)
     | Liveness \<Rightarrow> ((200, Alive), g)
     | Readiness \<Rightarrow> (health_readiness W g, g)
     | MlHealth \<Rightarrow> ((200, MlHealthBody (ml_get_health (gw_ml g))), g)
     | MlRollback why \<Rightarrow> ((200, RolledBackBody why), g\<lparr>gw_ml := ml_rollback (w_now W) why (gw_ml g)\<rparr>)
     | MlRecover \<Rightarrow> (let ml = ml_recover (gw_ml g) in ((200, RecoveredBody (ml_get_health ml)), g\<lparr>gw_ml := ml\<rparr>))
     | AgentsStatus \<Rightarrow> ((200, AgentsBody (orch_get_status (gw_orch g))), g)
     | AgentsAlerts n \<Rightarrow> ((200, AlertsBody (get_alerts n (gw_orch g))), g)
     | AgentsIncident i \<Rightarrow> ((case get_incident i (gw_orch g) of
           None \<Rightarrow> (404, ErrorBody ''Incident not found'') | Some r \<Rightarrow> (200, IncidentBody r)), g)
     | AgentsPending \<Rightarrow> ((200, ActionsBody (get_pending_actions (gw_orch g))), g)
     | AgentsApprove aid analyst \<Rightarrow> agents_approve_action E W aid analyst g
     | AgentsReject aid analyst why \<Rightarrow> agents_reject_action W aid analyst why g
     | AgentsRevoke aid analyst \<Rightarrow> agents_revoke_action E W aid analyst g
     | MitigationsStatus \<Rightarrow> ((200, MitigationsBody (mitigation_get_status (gw_engine g))), g)
     | SubmitFeedback p \<Rightarrow> submit_soc_feedback W p g
     | GetFeedback \<Rightarrow> ((200, FeedbackHistory (get_accuracy_metrics (gw_feedback g))
           (let rs = fe_records (gw_feedback g) in drop (length rs - 50) rs)), g)
     | TuningRecommendations \<Rightarrow> ((200, TuningBody (generate_tuning_recommendations (gw_feedback g))), g)
     | MlRetrain \<Rightarrow> trigger_ml_retraining E W g
     | SecurityKpis \<Rightarrow> ((200, KpisBody (get_kpis (gw_metrics g))), g)
     | ComplianceReport \<Rightarrow> ((case generate_full_compliance_report (en_prims E) (gw_chain g) of
           Inl e \<Rightarrow> (500, Crash) | Inr r \<Rightarrow> (200, ComplianceBody r)), g)
     | VerifyChain \<Rightarrow> ((case verify_chain (en_prims E) (gw_chain g) of
           Inl e \<Rightarrow> (500, Crash) | Inr v \<Rightarrow> (200, ChainBody v)), g)
     | HaStatus \<Rightarrow> ((200, HaBody (cb_get_status (w_now W) (gw_breaker g))), g)
     | CanaryStatus \<Rightarrow> ((200, CanaryBody (canary_get_status (gw_router g))), g)
     | CanaryPromote body \<Rightarrow> promote_canary body g
     | CanaryRollback body \<Rightarrow> canary_answer (rollback (w_now W) (Manual (rollback_text E body)) (gw_router g)) g)"

end
