(* ===== verification/Gateway_Laws.thy ===== *)
theory Gateway_Laws
  imports Gateway_Api
begin

text \<open>
  What the gateway's theorems share: the algebra of flows, the totality of \<open>emit_audit_event\<close>, and the
  locale \<open>stage_invariant\<close>, whose parameters are a predicate on gateways and one on the circumstances of a request
  (its clock, which writes succeed), such that under these circumstances the elementary state
  changes of the middleware preserve the former; its lemmas say that then every stage does, and
  its extensions that the middleware and every run of requests and management calls do.
\<close>

section \<open>Flows\<close>

named_theorems stage_defs \<open>the stages and the parts they share\<close>

lemmas [stage_defs] = stage_mitigation_def check_mitigation_def stage_size_def stage_lockout_def
  stage_waf_def stage_route_def stage_schema_def stage_replay_def stage_auth_def stage_authorise_def
  stage_rules_def stage_anomaly_def stage_ml_def stage_rate_def stage_decide_def stage_breaker_def
  audit_and_stop_def

definition flow_inv :: "('g \<Rightarrow> bool) \<Rightarrow> ('a, 'g) flow \<Rightarrow> bool" where
  "flow_inv I x \<longleftrightarrow> (case x of Stop r g \<Rightarrow> I g | Next a g \<Rightarrow> I g)"

lemma flow_inv_simps [simp]: "flow_inv I (Stop r g) = I g" "flow_inv I (Next a g) = I g"
  by (simp_all add: flow_inv_def)

lemma flow_inv_and_next:
  assumes "flow_inv I x" "\<And>a g. x = Next a g \<Longrightarrow> I g \<Longrightarrow> flow_inv I (f a g)"
  shows "flow_inv I (and_next x f)"
  using assms by (cases x) (simp_all add: and_next_def)

lemma and_next_Next: "and_next x f = Next b g' \<longleftrightarrow> (\<exists>a g. x = Next a g \<and> f a g = Next b g')"
  by (cases x) (simp_all add: and_next_def)

lemma and_next_simps [simp]: "and_next (Next a g) f = f a g" "and_next (Stop r g) f = Stop r g"
  by (simp_all add: and_next_def)

section \<open>Emission never fails\<close>

lemma event_keys_open:
  "map hidden_key [''timestamp'', ''request_id'', ''principal_ref'', ''client_subnet'', ''method'', ''path'',
     ''decision'', ''risk_score'', ''components'', ''fired_rules'', ''anomaly_score'', ''anomaly_reasons'',
     ''ml_score'', ''ml_confidence'', ''ml_anomalous'', ''ml_advisory'', ''reasons'', ''latency_ms'', ''user_agent'']
   = replicate 19 False"
  "map hidden_key [''threat'', ''sensitivity'', ''user_trust'', ''context'', ''waf_severity'', ''rule_severity'',
     ''anomaly_score'', ''auth_anomaly'', ''rate_severity''] = replicate 9 False"
  "hidden_key ''client_ip''" "ip_key ''client_ip''"
  by code_simp+

lemma event_key_facts [simp]:
  "\<not> hidden_key ''timestamp''" "\<not> hidden_key ''request_id''" "\<not> hidden_key ''principal_ref''"
  "\<not> hidden_key ''client_subnet''" "\<not> hidden_key ''method''" "\<not> hidden_key ''path''"
  "\<not> hidden_key ''decision''" "\<not> hidden_key ''risk_score''" "\<not> hidden_key ''components''"
  "\<not> hidden_key ''fired_rules''" "\<not> hidden_key ''anomaly_score''" "\<not> hidden_key ''anomaly_reasons''"
  "\<not> hidden_key ''ml_score''" "\<not> hidden_key ''ml_confidence''" "\<not> hidden_key ''ml_anomalous''"
  "\<not> hidden_key ''ml_advisory''" "\<not> hidden_key ''reasons''" "\<not> hidden_key ''latency_ms''"
  "\<not> hidden_key ''user_agent''" "\<not> hidden_key ''threat''" "\<not> hidden_key ''sensitivity''"
  "\<not> hidden_key ''user_trust''" "\<not> hidden_key ''context''" "\<not> hidden_key ''waf_severity''"
  "\<not> hidden_key ''rule_severity''" "\<not> hidden_key ''auth_anomaly''" "\<not> hidden_key ''rate_severity''"
  "hidden_key ''client_ip''" "ip_key ''client_ip''"
  using event_keys_open by (simp_all add: numeral_eq_Suc)

abbreviation clean_event where
  "clean_event E W rq rid risk f \<equiv> sanitize_telemetry (en_prims E) (en_salt E) (audit_event E W rq rid risk f)"

lemma clean_event_fields:
  "jget (clean_event E W rq rid risk f) ''risk_score'' = Some (JFloat (overall risk))"
  "jget (clean_event E W rq rid risk f) ''principal_ref'' = Some (JStr (scrub_text
     (pseudonymize_identifier (en_prims E) (en_salt E) (if af_principal f = [] then af_ip f else af_principal f))))"
  "jget (clean_event E W rq rid risk f) ''client_ip'' = Some (JStr
     (pseudonymize_identifier (en_prims E) (en_salt E) (pseudonymize_identifier (en_prims E) (en_salt E) (af_ip f))))"
  "jget (clean_event E W rq rid risk f) ''components'' = Some (components_json (components risk))"
  "\<exists>xs. jget (clean_event E W rq rid risk f) ''fired_rules'' = Some (JList xs)"
  "jget (clean_event E W rq rid risk f) ''user_account_age_days'' = None"
  "jget (clean_event E W rq rid risk f) ''user_incident_count'' = None"
  "\<exists>kvs. clean_event E W rq rid risk f = JObj kvs"
  by (simp_all add: audit_event_def Let_def components_json_def)

text \<open>Whatever request and scores an event reports, the quarantine filter can classify it: no audit event is
  lost to an exception.\<close>

lemma classify_emitted: "\<exists>t. classify_event P (clean_event E W rq rid risk f) = Some t"
proof -
  let ?e = "clean_event E W rq rid risk f"
  note fl = clean_event_fields [of E W rq rid risk f]
  obtain xs where xs: "jget ?e ''fired_rules'' = Some (JList xs)" using fl(5) by blast
  have "\<exists>s. signals_of P ?e = Some s \<and> sg_age s = JInt 30 \<and> sg_incidents s = JInt 0"
    by (simp add: signals_of_def jget_or_def fl(1,4,6,7) xs components_json_def component_def py_float_def
        json_num_def json_len_def json_or_def)
  then obtain s where s: "signals_of P ?e = Some s" "sg_age s = JInt 30" "sg_incidents s = JInt 0" by blast
  then show ?thesis
    by (simp add: classify_event_def tier_of_def json_lt_def json_gt_def json_num_def or_raise_def
        split: bool.split)
qed

lemma emission_total: "\<exists>g'. emit_audit_event E W rq rid risk f g = Some g'"
  using classify_emitted [of "en_prims E" E W rq rid risk f]
  by (auto simp: emit_audit_event_def process_event_def Let_def)

lemma audit_and_stop_answer: "audit_and_stop E W rq lv risk d rsp g = Stop r g' \<Longrightarrow> r = rsp"
  using emission_total [of E W rq "lv_id lv" risk "plain_facts d (w_elapsed W) (lv_ip lv)" g]
  by (auto simp: audit_and_stop_def)

section \<open>What emission changes\<close>

lemma return_engine_fields [simp]:
  "gw_engine (return_engine orch g) = (case mitigation orch of Some e \<Rightarrow> e | None \<Rightarrow> gw_engine g)"
  "gw_orch (return_engine orch g) = orch\<lparr>mitigation := None\<rparr>"
  "gw_sent (return_engine orch g) = gw_sent g" "gw_router (return_engine orch g) = gw_router g"
  "gw_breaker (return_engine orch g) = gw_breaker g" "gw_recent (return_engine orch g) = gw_recent g"
  "gw_metrics (return_engine orch g) = gw_metrics g" "gw_chain (return_engine orch g) = gw_chain g"
  "gw_credentials (return_engine orch g) = gw_credentials g"
  "gw_pipeline (return_engine orch g) = gw_pipeline g" "gw_filter (return_engine orch g) = gw_filter g"
  by (simp_all add: return_engine_def)

lemma run_agents_frame [simp]:
  "gw_sent (run_agents E W e f g) = gw_sent g" "gw_router (run_agents E W e f g) = gw_router g"
  "gw_breaker (run_agents E W e f g) = gw_breaker g" "gw_recent (run_agents E W e f g) = gw_recent g"
  "gw_chain (run_agents E W e f g) = gw_chain g" "gw_pipeline (run_agents E W e f g) = gw_pipeline g"
  "gw_filter (run_agents E W e f g) = gw_filter g"
  "gw_credentials (run_agents E W e f g) = gw_credentials g"
  "mt_total (gw_metrics (run_agents E W e f g)) = mt_total (gw_metrics g)"
  "decision_counts (gw_metrics (run_agents E W e f g)) = decision_counts (gw_metrics g)"
  by (simp_all add: run_agents_def record_incident_lifecycle_def Let_def split: prod.split option.split)

text \<open>What \<open>emit_audit_event\<close> does, with its two events named.\<close>

abbreviation routed where
  "routed E W f e e' filt g \<equiv> g\<lparr>gw_pipeline := emit_event W e e' (gw_pipeline g), gw_filter := filt,
     gw_metrics := record_request_decision (decision_name (af_decision f)) (gw_metrics g)\<rparr>"

lemma emit_cases:
  assumes "emit_audit_event E W rq rid risk f g = Some g'"
  obtains t e' filt where
    "process_event (en_prims E) (w_quarantine_ok W) (clean_event E W rq rid risk f) (gw_filter g) = Some (t, e', filt)"
    "g' = (if 30 \<le> overall risk \<or> af_fired f \<noteq> [] \<or> af_ml_anomalous f
       then run_agents E W e' f (routed E W f (clean_event E W rq rid risk f) e' filt g)
       else routed E W f (clean_event E W rq rid risk f) e' filt g)\<lparr>gw_chain := seal_event E W e' (gw_chain g)\<rparr>"
proof -
  obtain x where x: "process_event (en_prims E) (w_quarantine_ok W) (clean_event E W rq rid risk f) (gw_filter g) = Some x"
    using assms unfolding emit_audit_event_def Let_def map_option_eq_Some by blast
  show ?thesis
    by (rule that [of "fst x" "fst (snd x)" "snd (snd x)"])
      (use assms x in \<open>auto simp: emit_audit_event_def Let_def split: prod.splits\<close>)
qed

lemma emit_frame:
  assumes "emit_audit_event E W rq rid risk f g = Some g'"
  shows "gw_sent g' = gw_sent g" "gw_router g' = gw_router g" "gw_breaker g' = gw_breaker g"
    "gw_recent g' = gw_recent g" "gw_credentials g' = gw_credentials g"
  using assms by (auto simp: emit_audit_event_def Let_def)

lemma stamped_field:
  "k \<notin> {''tier'', ''quarantined'', ''quarantine_reasons''} \<Longrightarrow> jget (stamped t (JObj kvs)) k = jget (JObj kvs) k"
  by (auto simp: stamped_def Let_def jput_def update_conv' split: tier.split)

section \<open>Invariants of the middleware\<close>

lemma validate_request_store:
  "validate_request set_nx n now a b c st = (v, st') \<Longrightarrow> st' = st \<or> (\<exists>k r. set_nx now k n st = (r, st'))"
  by (auto simp: validate_request_def Let_def split: option.splits if_splits prod.splits bool.splits)

locale stage_invariant =
  fixes E :: "('s, 'r, 'm, 'c) env" and I :: "('s, 'r, 'm, 'c) gateway \<Rightarrow> bool" and T :: "world \<Rightarrow> bool"
  assumes engine_step: "I g \<Longrightarrow> T W \<Longrightarrow> evaluate_request (en_store E) (w_now W) ip who tok (gw_engine g) = (r, e)
      \<Longrightarrow> I (g\<lparr>gw_engine := e\<rparr>)"
    and nonce_step: "I g \<Longrightarrow> T W \<Longrightarrow> op_set_nonce_nx (en_store E) (w_now W) k n (store (gw_engine g)) = (b, st)
      \<Longrightarrow> I (g\<lparr>gw_engine := (gw_engine g)\<lparr>store := st\<rparr>\<rparr>)"
    and emit_step: "I g \<Longrightarrow> T W \<Longrightarrow> emit_audit_event E W rq rid risk f g = Some g' \<Longrightarrow> I g'"
    and credentials_step: "I g \<Longrightarrow> T W \<Longrightarrow> check_status (w_now W) ip [] (gw_credentials g) = (v, cd)
      \<Longrightarrow> I (g\<lparr>gw_credentials := cd\<rparr>)"
    and rules_step: "I g \<Longrightarrow> I (g\<lparr>gw_rules := re\<rparr>)"
    and recent_step: "I g \<Longrightarrow> I (g\<lparr>gw_recent := dput (user_key lv)
      (push_bounded 50 (event_record W rq lv) (dget_or [] (gw_recent g) (user_key lv))) (gw_recent g)\<rparr>)"
    and ml_step: "I g \<Longrightarrow> I (g\<lparr>gw_ml := ml\<rparr>)"
    and rate_step: "I g \<Longrightarrow> I (g\<lparr>gw_rate := rl\<rparr>)"
    and breaker_step: "I g \<Longrightarrow> I (g\<lparr>gw_breaker := cb\<rparr>)"
begin

lemma inv_audit_and_stop: "I g \<Longrightarrow> T W \<Longrightarrow> flow_inv I (audit_and_stop E W rq lv risk d rsp g)"
  using emit_step by (auto simp: audit_and_stop_def split: option.split)

lemma inv_check_mitigation: "I g \<Longrightarrow> T W \<Longrightarrow> flow_inv I (check_mitigation E W rq who lv g)"
  using engine_step by (auto simp: check_mitigation_def split: prod.split sum.split option.split)

lemma inv_pure_stages:
  assumes "I g"
  shows "flow_inv I (stage_route E rq lv g)" "flow_inv I (stage_schema E rq lv g)"
    "flow_inv I (stage_authorise E rq lv g)"
  using assms
  by (auto simp: stage_route_def stage_schema_def stage_authorise_def Let_def split: option.split bool.split)

lemma inv_stages:
  assumes "I g" "T W"
  shows "flow_inv I (stage_mitigation E W rq lv g)" "flow_inv I (stage_size E W rq lv g)"
    "flow_inv I (stage_lockout E W rq lv g)" "flow_inv I (stage_waf E W rq lv g)"
    "flow_inv I (stage_auth E W rq lv g)" "flow_inv I (stage_rules E W rq lv g)"
    "flow_inv I (stage_anomaly E W rq lv g)" "flow_inv I (stage_ml E W rq lv g)"
    "flow_inv I (stage_rate E W rq lv g)" "flow_inv I (stage_decide E W rq lv g)"
    "flow_inv I (stage_breaker W x g)"
  using assms
  by (auto simp: stage_mitigation_def stage_size_def stage_lockout_def stage_waf_def
      stage_auth_def stage_rules_def stage_anomaly_def stage_ml_def
      stage_rate_def stage_decide_def stage_breaker_def Let_def
      intro!: inv_check_mitigation inv_audit_and_stop credentials_step rules_step ml_step rate_step
        breaker_step recent_step dest: emit_step split: option.split prod.split bool.split)

lemma inv_stage_replay:
  assumes "I g" "T W"
  shows "flow_inv I (stage_replay E W rq lv g)"
proof -
  have "I (g\<lparr>gw_engine := (gw_engine g)\<lparr>store := st\<rparr>\<rparr>)"
    if "validate_request (op_set_nonce_nx (en_store E)) 300 (w_now W) (header rq ''x-nonce'')
      (header rq ''idempotency-key'') (time_header rq) (store (gw_engine g)) = (v, st)" for v st
    using validate_request_store [OF that] nonce_step [OF assms] assms(1) by auto
  then show ?thesis
    using assms by (auto simp: stage_replay_def Let_def intro!: inv_audit_and_stop split: prod.split)
qed

lemma inv_inspect: "I g \<Longrightarrow> T W \<Longrightarrow> flow_inv I (inspect_request E W rq g)"
  unfolding inspect_request_def by (intro flow_inv_and_next inv_stages inv_pure_stages)

lemma inv_judge: "I g \<Longrightarrow> T W \<Longrightarrow> flow_inv I (judge_request E W rq lv g)"
  unfolding judge_request_def by (intro flow_inv_and_next inv_stages inv_pure_stages inv_stage_replay)

lemma inv_guards: "I g \<Longrightarrow> T W \<Longrightarrow> flow_inv I (and_next (inspect_request E W rq g) (judge_request E W rq))"
  by (intro flow_inv_and_next inv_inspect inv_judge)

end

text \<open>When forwarding preserves the predicate as well, so does the whole pipeline, and every run of
  requests.\<close>

locale pipeline_invariant = stage_invariant +
  assumes router_step: "I g \<Longrightarrow> I (g\<lparr>gw_router := ro\<rparr>)"
    and sent_step: "I g \<Longrightarrow> I (g\<lparr>gw_sent := ms\<rparr>)"
    and failure_step: "I g \<Longrightarrow> T W \<Longrightarrow> I (g\<lparr>gw_credentials := record_failure (w_later W) ip user (gw_credentials g)\<rparr>)"
begin

lemma inv_note: "I g \<Longrightarrow> T W \<Longrightarrow> I (note_login_failure E W rq lv status g)"
  by (simp add: note_login_failure_def failure_step)

lemma inv_record:
  "I g \<Longrightarrow> I (record_answer W rq canary status g)" "I g \<Longrightarrow> I (record_breakdown W rq canary g)"
  unfolding record_answer_def record_breakdown_def by (intro router_step breaker_step; assumption)+

lemma inv_forward: "I g \<Longrightarrow> T W \<Longrightarrow> I (snd (forward E W rq x g))"
  by (cases x) (auto simp: forward_def Let_def intro!: inv_note inv_record sent_step split: outcome.split)

lemma inv_pipeline: "I g \<Longrightarrow> T W \<Longrightarrow> I (snd (security_pipeline E W rq g))"
  using inv_guards [of g W rq] inv_forward
  by (cases "and_next (inspect_request E W rq g) (judge_request E W rq)") (simp_all add: security_pipeline_def)

end

definition serve ::
  "('s, 'r, 'm, 'c) env \<Rightarrow> (world \<times> http_request) list \<Rightarrow> ('s, 'r, 'm, 'c) gateway \<Rightarrow> ('s, 'r, 'm, 'c) gateway" where
  "serve E rqs g = fold (\<lambda>(W, rq) g. snd (security_pipeline E W rq g)) rqs g"

context pipeline_invariant begin

lemma inv_serve: "I g \<Longrightarrow> \<forall>(W, rq) \<in> set rqs. T W \<Longrightarrow> I (serve E rqs g)"
  by (induction rqs arbitrary: g) (auto simp: serve_def inv_pipeline)

end

text \<open>A run of the whole process: client requests and management calls in any order.\<close>

datatype gateway_op = Serve world http_request | Manage world api_call

fun op_world :: "gateway_op \<Rightarrow> world" where
  "op_world (Serve W rq) = W"
| "op_world (Manage W call) = W"

fun gateway_step ::
  "('s, 'r, 'm, 'c) env \<Rightarrow> gateway_op \<Rightarrow> ('s, 'r, 'm, 'c) gateway \<Rightarrow> ('s, 'r, 'm, 'c) gateway" where
  "gateway_step E (Serve W rq) g = snd (security_pipeline E W rq g)"
| "gateway_step E (Manage W call) g = snd (api_step E W call g)"

definition gateway_run ::
  "('s, 'r, 'm, 'c) env \<Rightarrow> gateway_op list \<Rightarrow> ('s, 'r, 'm, 'c) gateway \<Rightarrow> ('s, 'r, 'm, 'c) gateway" where
  "gateway_run E ops g = fold (gateway_step E) ops g"

lemma gateway_run_simps [simp]:
  "gateway_run E [] g = g"
  "gateway_run E (x # ops) g = gateway_run E ops (gateway_step E x g)"
  by (simp_all add: gateway_run_def)

locale process_invariant = pipeline_invariant +
  assumes manage_step: "I g \<Longrightarrow> T W \<Longrightarrow> I (snd (api_step E W call g))"
begin

lemma inv_step: "I g \<Longrightarrow> T (op_world x) \<Longrightarrow> I (gateway_step E x g)"
  by (cases x) (simp_all add: inv_pipeline manage_step)

lemma inv_run: "I g \<Longrightarrow> \<forall>x \<in> set ops. T (op_world x) \<Longrightarrow> I (gateway_run E ops g)"
  by (induction ops arbitrary: g) (simp_all add: inv_step)

end

text \<open>Which parts of the state the management endpoints can change.\<close>

lemma api_frame:
  "(\<exists>aid who. call = AgentsApprove aid who) \<or> (\<exists>aid who why. call = AgentsReject aid who why)
   \<or> (\<exists>aid who. call = AgentsRevoke aid who)
   \<or> gw_engine (snd (api_step E W call g)) = gw_engine g \<and> gw_orch (snd (api_step E W call g)) = gw_orch g"
  by (cases call)
    (auto simp: api_step_def Let_def submit_soc_feedback_def trigger_ml_retraining_def promote_canary_def
      canary_answer_def split: option.split sum.split prod.split bool.split json.split)

end
