(* ===== verification/Gateway_Demo.thy ===== *)
theory Gateway_Demo
  imports Gateway_Laws
begin

text \<open>
  A concrete gateway process, on which the theorems about the gateway are instantiated.
\<close>

text \<open>An environment and a startup to apply the theorems to: no Redis, the shipped defaults, a decoder that
  knows no JSON, an upstream that answers.\<close>

definition demo_env :: "((unit, hentry) dist_store, unit, unit, unit) env" where
  "demo_env = \<lparr>en_cfg = default_config, en_prims = plain_prims, en_salt = ''s'', en_store = dist_ops no_redis,
     en_rate = \<lparr>rl_connect = (\<lambda>_. None), rl_incr = (\<lambda>_ _ _. None)\<rparr>, en_jwt = (\<lambda>_ _ _. Claims alice),
     en_auth = dev_engine, en_catalogue = builtin_routes, en_rules_file = config_file.Missing,
     en_coerce = \<lparr>to_text = (\<lambda>j. case j of JStr s \<Rightarrow> Some s | _ \<Rightarrow> None), to_number = (\<lambda>_. None), to_items = (\<lambda>_. None)\<rparr>,
     en_loads = (\<lambda>_. None), en_decode = id, en_infer = (\<lambda>_ _ _. Some 0),
     en_sklearn = \<lparr>sk_fit = (\<lambda>_ _ _ _. None), sk_predict = (\<lambda>_ _ _. None)\<rparr>, en_root = id, en_samples = ([], [], []),
     en_lg = id, en_iso = (\<lambda>_. None), en_internal = (\<lambda>_. False), en_set_order = (\<lambda>_. []),
     en_subnet6 = (\<lambda>_ _. []), en_md5_32 = (\<lambda>_. 0), en_reason = (\<lambda>_. ''reason''), en_field_error = (\<lambda>_. ''error''),
     en_backend = ''http://erp''\<rparr>"

definition demo_world :: world where
  "demo_world = \<lparr>w_now = 1000, w_later = 1001, w_uuid = ''u1'', w_stamp = ''t1'', w_elapsed = 2, w_proxy_ms = 5,
     w_random = 0, w_agents = demo_draws, w_telemetry_ok = True, w_worker_first = False, w_quarantine_ok = True,
     w_agents_ok = True, w_chain_ok = True, w_upstream = Answered 200 [] ''[]'', w_retry = Failed\<rparr>"

definition demo_startup :: "(unit, unit) startup" where
  "demo_startup = \<lparr>su_now = 0, su_id = ''i'', su_stamp = ''t0'', su_secret = ''k'', su_pct = 100, su_audit = None,
     su_journal = [], su_baselines = [], su_model = Absent, su_scaler = Absent, su_metadata = Absent, su_models = []\<rparr>"

definition demo_gateway :: "((unit, hentry) dist_store, unit, unit, unit) gateway" where
  "demo_gateway = gateway_init demo_env (dist_init None) demo_startup"

text \<open>A login attempt that carries an SQL injection.\<close>

definition demo_attack :: http_request where
  "demo_attack = \<lparr>hr_method = ''POST'', hr_path = ''/api/auth/login'', hr_query = [], hr_url = ''/api/auth/login'',
     hr_headers = [], hr_peer = Some ''203.0.113.7'', hr_body = ''x union select y''\<rparr>"

text \<open>The same process with a throttle against that client in force.\<close>

definition throttled_gateway :: "((unit, hentry) dist_store, unit, unit, unit) gateway" where
  "throttled_gateway = demo_gateway\<lparr>gw_engine := standalone_engine\<lparr>dynamic_rate_limits :=
     [(''203.0.113.7'', \<lparr>rl_limit = 5, rl_window_seconds = 60, rl_until = 2000, rl_action_id = ''a''\<rparr>)]\<rparr>\<rparr>"

text \<open>A write that is dated the standard way, and a read whose forwarding header was chosen by the client.\<close>

definition dated_order :: http_request where
  "dated_order = demo_attack\<lparr>hr_path := ''/api/orders'', hr_headers := [(''date'', ''Wed, 21 Oct 2015 07:28:00 GMT''),
     (''x-nonce'', ''n1'')]\<rparr>"

definition spoofed_read :: http_request where
  "spoofed_read = demo_attack\<lparr>hr_method := ''GET'', hr_peer := Some ''10.0.0.9'',
     hr_headers := [(''x-forwarded-for'', ''1.2.3.4,203.0.113.7'')]\<rparr>"

lemma demo_client: "get_verified_client_ip default_config demo_attack = ''203.0.113.7''"
proof -
  have "\<not> is_trusted_proxy default_config ''203.0.113.7''" by code_simp
  then show ?thesis by (simp add: get_verified_client_ip_def demo_attack_def)
qed

end
