(* ===== verification/Gateway_Safety.thy ===== *)
theory Gateway_Safety
  imports Gateway_Demo
begin

text \<open>
  Properties of the gateway process as a whole that hold for every request: the interpretations of the
  locales of \<open>Gateway_Laws\<close> on concrete predicates, and what they give.

  The first part is about the containment chain: detection raises an alert on an audit event, the
  response agent plans actions against the alert's target, the mitigation engine stops
  requests.  The events name clients by pseudonyms, the engine is asked about raw addresses.
\<close>

section \<open>Suspensions\<close>

lemma stages_keep_suspensions:
  "suspended_accounts (snd (stage_suspended ops now pref e)) = suspended_accounts e"
  "suspended_accounts (snd (stage_quarantine ops now ip pref e)) = suspended_accounts e"
  "suspended_accounts (snd (stage_token ops now tok e)) = suspended_accounts e"
  "suspended_accounts (snd (stage_revoked now pref e)) = suspended_accounts e"
  "suspended_accounts (snd (stage_mfa now pref e)) = suspended_accounts e"
  "suspended_accounts (snd (Mitigation_Engine.stage_rate now ip pref e)) = suspended_accounts e"
  by (simp_all add: stage_suspended_def stage_quarantine_def stage_token_def stage_revoked_def
      stage_mfa_def Mitigation_Engine.stage_rate_def check_quarantine_def Let_def
      split: option.splits prod.splits hentry.splits)

lemma and_then_keeps:
  "p (snd r) = p e \<Longrightarrow> (\<And>x. p (snd (f x)) = p x) \<Longrightarrow> p (snd (and_then r f)) = p e"
  by (cases r) (auto simp: and_then_def split: sum.splits option.splits)

lemma evaluate_keeps_suspensions:
  "suspended_accounts (snd (evaluate_request ops now ip pref tok e)) = suspended_accounts e"
  unfolding evaluate_request_def by (intro and_then_keeps stages_keep_suspensions)

text \<open>The orchestrator that \<open>run_agents\<close> leaves behind.\<close>

lemma run_agents_orchestrator:
  obtains plan orch hist where
    "process_security_event (en_store E) (en_cfg E) (en_internal E) (en_set_order E) (w_agents_ok W) (w_agents W)
       (event_of e) hist (lend_engine g) = (plan, orch)"
    "gw_engine (run_agents E W e f g) = (case mitigation orch of Some m \<Rightarrow> m | None \<Rightarrow> gw_engine g)"
    "response (gw_orch (run_agents E W e f g)) = response orch"
proof -
  let ?hist = "map event_of (dget_or [] (gw_recent g) (if af_principal f = [] then af_ip f else af_principal f))"
  obtain plan orch where "process_security_event (en_store E) (en_cfg E) (en_internal E) (en_set_order E)
      (w_agents_ok W) (w_agents W) (event_of e) (Some ?hist) (lend_engine g) = (plan, orch)"
    by fastforce
  then show ?thesis
    using that by (auto simp: run_agents_def Let_def split: option.split)
qed

lemma run_agents_suspensions:
  "suspended_accounts (gw_engine (run_agents E W e f g)) = suspended_accounts (gw_engine g)"
proof -
  obtain plan orch hist where p: "process_security_event (en_store E) (en_cfg E) (en_internal E)
      (en_set_order E) (w_agents_ok W) (w_agents W) (event_of e) hist (lend_engine g) = (plan, orch)"
    and e: "gw_engine (run_agents E W e f g) = (case mitigation orch of Some m \<Rightarrow> m | None \<Rightarrow> gw_engine g)"
    by (rule run_agents_orchestrator)
  have "mitigation (lend_engine g) = Some (gw_engine g)" by (simp add: lend_engine_def)
  from process_keeps_suspensions [OF this p] e show ?thesis by auto
qed

lemma emit_suspensions:
  assumes "emit_audit_event E W rq rid risk f g = Some g'"
  shows "suspended_accounts (gw_engine g') = suspended_accounts (gw_engine g)"
  using assms by (auto simp: emit_audit_event_def Let_def run_agents_suspensions)

interpretation suspensions: pipeline_invariant E "\<lambda>g. suspended_accounts (gw_engine g) = S" "\<lambda>_. True" for E S
  by unfold_locales
    (auto simp: emit_suspensions dest: arg_cong [where f = "\<lambda>x. suspended_accounts (snd x)"]
      simp: evaluate_keeps_suspensions)

text \<open>C14: Requests alone never suspend an account.  Whatever clients send, in whatever order, through
  the detection, investigation and response agents that their audit events set in motion, the table of
  suspended accounts stays what it was: only an analyst's call can change it.\<close>

theorem requests_never_suspend:
  "suspended_accounts (gw_engine (serve E rqs g)) = suspended_accounts (gw_engine g)"
  by (rule suspensions.inv_serve) auto

section \<open>Containment\<close>

text \<open>What the agents know a client by: the scrubbed pseudonym of its address or principal.\<close>

definition opaque_target :: "string \<Rightarrow> bool" where
  "opaque_target t \<longleftrightarrow> t \<in> {''anon'', ''unknown''} \<or> (t \<noteq> [] \<and> hd t \<in> {CHR ''p'', CHR ''[''})"

definition opaque_action :: "action_type \<Rightarrow> string \<Rightarrow> bool" where
  "opaque_action ty t \<longleftrightarrow> ty \<noteq> REVOKE_SESSION \<and> opaque_target t"

lemma sub_from_head:
  "rep \<noteq> [] \<Longrightarrow> i < length s \<Longrightarrow> sub_from (Suc n) p rep s i \<noteq> [] \<and> hd (sub_from (Suc n) p rep s i) \<in> {hd rep, s ! i}"
  by (auto split: option.split)

lemma sub_pat_head:
  assumes "rep \<noteq> []" "s \<noteq> []"
  shows "sub_pat p rep s \<noteq> [] \<and> hd (sub_pat p rep s) \<in> {hd rep, hd s}"
proof -
  obtain n where "length s = Suc n" using assms(2) by (cases s) auto
  moreover have "s ! 0 = hd s" using assms(2) by (simp add: hd_conv_nth)
  ultimately show ?thesis
    using sub_from_head [OF assms(1), of 0 s n p] assms(2) by (simp add: sub_pat_def del: sub_from.simps)
qed

lemma scrub_head:
  assumes "s \<noteq> []"
  shows "scrub_text s \<noteq> [] \<and> hd (scrub_text s) \<in> {CHR ''['', hd s}"
  using sub_pat_head [of "''[REDACTED_EMAIL]''" s email_pat] assms
    sub_pat_head [of "''[REDACTED_CARD]''" "sub_pat email_pat ''[REDACTED_EMAIL]'' s" card_pat]
  by (auto simp: scrub_text_def)

lemma scrub_pseudonym: "opaque_target (scrub_text (pseudonymize_identifier P salt s))"
proof (cases "s = []")
  case True
  have "scrub_text ''anon'' = ''anon''" by code_simp
  then show ?thesis using True by (simp add: pseudonymize_identifier_def opaque_target_def)
next
  case False
  then show ?thesis
    using scrub_head [of "''p-'' @ take 16 (hmac_hex P salt s)"]
    by (auto simp: pseudonymize_identifier_def opaque_target_def)
qed

lemma emitted_entity:
  assumes "process_event P ok (clean_event E W rq rid risk f) filt = Some (t, e', filt')"
  shows "opaque_target (entity_key (event_of e'))"
proof -
  let ?e = "clean_event E W rq rid risk f"
  obtain kvs where e: "?e = JObj kvs" using clean_event_fields(8) by blast
  have "e' = stamped t ?e" using assms by (auto simp: process_event_def Let_def)
  then have "jget e' ''principal_ref'' = jget ?e ''principal_ref''" using stamped_field e by simp
  then obtain u where "jget e' ''principal_ref'' = Some (JStr u)" "opaque_target u"
    using scrub_pseudonym clean_event_fields(2) by metis
  moreover from this have "u \<noteq> []" by (auto simp: opaque_target_def)
  ultimately show ?thesis
    by (cases u) (auto simp: event_of_def get_text_def entity_key_def str_or_def)
qed

text \<open>The invariant: every registered action and every action behind the engine's tables has such a
  target.\<close>

definition blind :: "gateway_config \<Rightarrow> (unit, hentry) dist_store mitigation_engine \<Rightarrow> bool" where
  "blind cfg m \<longleftrightarrow> (\<exists>L. standalone_mitigation.mit_inv cfg L m
     \<and> (\<forall>(t, a) \<in> L. opaque_action (action_type a) (target_entity a)))"

definition blind_gateway ::
  "((unit, hentry) dist_store, 'r, 'm, 'c) env \<Rightarrow> ((unit, hentry) dist_store, 'r, 'm, 'c) gateway \<Rightarrow> bool" where
  "blind_gateway E g \<longleftrightarrow> (en_store E = dist_ops no_redis
     \<longrightarrow> blind (en_cfg E) (gw_engine g) \<and> registry_all opaque_action (response (gw_orch g)))"

lemma try_apply_blind:
  "blind cfg m \<Longrightarrow> opaque_action (action_type a) (target_entity a) \<Longrightarrow> blind cfg (try_apply (dist_ops no_redis) cfg now a m)"
  using standalone_mitigation.apply_action_inv
  by (fastforce simp: blind_def try_apply_def split: sum.splits)

lemma fold_try_apply_blind:
  "blind cfg m \<Longrightarrow> \<forall>a \<in> set acts. opaque_action (action_type a) (target_entity a)
   \<Longrightarrow> blind cfg (fold (try_apply (dist_ops no_redis) cfg now) acts m)"
  by (induction acts arbitrary: m) (auto simp: try_apply_blind)

lemma evaluate_blind:
  assumes "blind cfg m"
  shows "blind cfg (snd (evaluate_request (dist_ops no_redis) now ip pref tok m))"
  using assms standalone_mitigation.evaluate_request_ok
  unfolding blind_def standalone_mitigation.stage_ok_def by metis

lemma nonce_views:
  assumes "standalone d"
  shows "dist_hview (snd (set_nonce_nx no_redis now k n d)) = dist_hview d"
    "dist_sview (snd (set_nonce_nx no_redis now k n d)) = dist_sview d"
  using assms by (auto simp: fun_eq_iff dist_hview_def dist_sview_def set_nonce_nx_standalone
      mem_set_nonce_nx_def mem_get_hash_entry_def mem_is_member_def Let_def)

lemma nonce_blind:
  assumes "blind cfg m"
  shows "blind cfg (m\<lparr>store := snd (op_set_nonce_nx (dist_ops no_redis) now k n (store m))\<rparr>)"
proof -
  obtain L where L: "standalone_mitigation.mit_inv cfg L m" "\<forall>(t, a) \<in> L. opaque_action (action_type a) (target_entity a)"
    using assms by (auto simp: blind_def)
  have "standalone_mitigation.mit_inv cfg L (m\<lparr>store := snd (op_set_nonce_nx (dist_ops no_redis) now k n (store m))\<rparr>)"
    using L(1) by (simp add: standalone_mitigation.mit_inv_def dist_ops_def set_nonce_nx_standalone nonce_views)
  then show ?thesis using L(2) by (auto simp: blind_def)
qed

lemma process_blind:
  assumes p: "process_security_event (dist_ops no_redis) cfg internal order ok dr e history orch = (r, orch')"
    and m: "mitigation orch = Some m" "blind cfg m"
    and e: "opaque_target (entity_key e)"
  shows "\<exists>m'. mitigation orch' = Some m' \<and> blind cfg m'"
proof -
  have "opaque_action (action_type a) (target_entity a)"
    if "formulate_response_plan fr au now lt al inc ag = (plan, ra)" "a \<in> set (auto_actions plan ra)"
      "alert_target al = entity_key e" for fr au now lt al inc ag plan ra a
    using auto_actions_proposed [OF that(1,2)] proposed_target e that(3)
    by (auto simp: opaque_action_def)
  then show ?thesis
    using process_mitigation [OF m(1) p] m(2) fold_try_apply_blind by metis
qed

lemma flush_registry [simp]: "registry_all P (response (flush_audit_records ok orch)) = registry_all P (response orch)"
  by (simp add: registry_all_def)

lemma process_registry:
  assumes p: "process_security_event ops cfg internal order ok dr e history orch = (r, orch')"
    and reg: "registry_all opaque_action (response orch)" and e: "opaque_target (entity_key e)"
  shows "registry_all opaque_action (response orch')"
proof (cases "orch_enabled orch")
  case True
  obtain x det where x: "analyze_event (dr_alert dr) (dr_audit dr 0) (dr_now dr) (dr_latency dr 0) e
      history (detection orch) = (x, det)"
    by (cases "analyze_event (dr_alert dr) (dr_audit dr 0) (dr_now dr) (dr_latency dr 0) e history
        (detection orch)") auto
  show ?thesis
  proof (cases x)
    case None
    then show ?thesis using p True x reg by (auto simp: process_security_event_def)
  next
    case (Some al)
    have al: "alert_target al = entity_key e"
      using x Some by (auto simp: analyze_event_def alert_of_def Let_def split: if_splits option.splits)
    obtain plan ra inc where f: "formulate_response_plan (dr_action dr) (dr_audit dr 3) (dr_now dr)
        (dr_latency dr 3) al inc (response orch) = (plan, ra)"
      and "registry_all opaque_action (response orch') = registry_all opaque_action ra"
      using p True x Some by (auto simp: process_security_event_def Let_def split: prod.splits)
    then show ?thesis
      using formulate_registry_all [OF f reg] e al by (simp add: opaque_action_def)
  qed
qed (use p reg in \<open>auto simp: process_security_event_def\<close>)

lemma run_agents_blind:
  assumes "blind_gateway E g" "opaque_target (entity_key (event_of e))"
  shows "blind_gateway E (run_agents E W e f g)"
proof -
  obtain plan orch hist where p: "process_security_event (en_store E) (en_cfg E) (en_internal E)
      (en_set_order E) (w_agents_ok W) (w_agents W) (event_of e) hist (lend_engine g) = (plan, orch)"
    and e: "gw_engine (run_agents E W e f g) = (case mitigation orch of Some m \<Rightarrow> m | None \<Rightarrow> gw_engine g)"
    and r: "response (gw_orch (run_agents E W e f g)) = response orch"
    by (rule run_agents_orchestrator)
  have l: "mitigation (lend_engine g) = Some (gw_engine g)" "response (lend_engine g) = response (gw_orch g)"
    by (simp_all add: lend_engine_def)
  show ?thesis
    using assms process_blind [OF _ l(1), of "en_cfg E"] process_registry [OF p] p e r l(2)
    by (fastforce simp: blind_gateway_def)
qed

lemma emit_blind:
  assumes "blind_gateway E g" "emit_audit_event E W rq rid risk f g = Some g'"
  shows "blind_gateway E g'"
proof -
  obtain t e' filt where pe: "process_event (en_prims E) (w_quarantine_ok W)
      (clean_event E W rq rid risk f) (gw_filter g) = Some (t, e', filt)"
    and g': "g' = (if 30 \<le> overall risk \<or> af_fired f \<noteq> [] \<or> af_ml_anomalous f
       then run_agents E W e' f (routed E W f (clean_event E W rq rid risk f) e' filt g)
       else routed E W f (clean_event E W rq rid risk f) e' filt g)\<lparr>gw_chain := seal_event E W e' (gw_chain g)\<rparr>"
    by (rule emit_cases [OF assms(2)])
  let ?g1 = "routed E W f (clean_event E W rq rid risk f) e' filt g"
  have "blind_gateway E ?g1" using assms(1) by (simp add: blind_gateway_def)
  moreover from this have "blind_gateway E (run_agents E W e' f ?g1)"
    by (rule run_agents_blind [OF _ emitted_entity [OF pe]])
  ultimately show ?thesis by (simp add: g' blind_gateway_def)
qed

interpretation blindness: pipeline_invariant E "blind_gateway E" "\<lambda>_. True" for E
proof
  show "blind_gateway E (g\<lparr>gw_engine := e\<rparr>)"
    if "blind_gateway E g" "evaluate_request (en_store E) (w_now W) ip who tok (gw_engine g) = (r, e)"
    for g W ip who tok r e
    using that evaluate_blind [of "en_cfg E" "gw_engine g" "w_now W" ip who tok] by (auto simp: blind_gateway_def)
  show "blind_gateway E (g\<lparr>gw_engine := (gw_engine g)\<lparr>store := st\<rparr>\<rparr>)"
    if "blind_gateway E g" "op_set_nonce_nx (en_store E) (w_now W) k n (store (gw_engine g)) = (b, st)"
    for g W k n b st
    using that nonce_blind [of "en_cfg E" "gw_engine g" "w_now W" k n] by (auto simp: blind_gateway_def)
  show "blind_gateway E g'"
    if "blind_gateway E g" "emit_audit_event E W rq rid risk f g = Some g'" for g W rq rid risk f g'
    by (rule emit_blind [OF that])
qed (simp_all add: blind_gateway_def)

text \<open>Analysts act on registered actions only.\<close>

lemma rollback_blind: "blind cfg m \<Longrightarrow> blind cfg (snd (rollback_action (dist_ops no_redis) now aid m))"
  using standalone_mitigation.rollback_action_inv unfolding blind_def by metis

lemma agents_outcome_blind:
  assumes "blind_gateway E g"
    and "\<And>a orch. en_store E = dist_ops no_redis \<Longrightarrow> res = Inr (a, orch) \<Longrightarrow>
      (\<exists>m. mitigation orch = Some m \<and> blind (en_cfg E) m) \<and> registry_all opaque_action (response orch)"
  shows "blind_gateway E (snd (agents_outcome res g))"
  using assms
  by (fastforce simp: agents_outcome_def blind_gateway_def split: sum.split agent_error.split)

lemma analysts_blind:
  assumes g: "blind_gateway E g"
  shows "blind_gateway E (snd (agents_approve_action E W aid who g))"
    "blind_gateway E (snd (agents_reject_action W aid who why g))"
    "blind_gateway E (snd (agents_revoke_action E W aid who g))"
proof -
  have l: "mitigation (lend_engine g) = Some (gw_engine g)" "response (lend_engine g) = response (gw_orch g)"
    by (simp_all add: lend_engine_def)
  show "blind_gateway E (snd (agents_approve_action E W aid who g))"
    unfolding agents_approve_action_def
    by (rule agents_outcome_blind [OF g])
      (use g l in \<open>auto simp: orch_approve_def blind_gateway_def try_apply_blind Let_def split: sum.splits if_splits
          dest: analyst_registry_all\<close>)
  show "blind_gateway E (snd (agents_reject_action W aid who why g))"
    unfolding agents_reject_action_def
    by (rule agents_outcome_blind [OF g])
      (use g l in \<open>auto simp: orch_reject_def blind_gateway_def split: sum.splits dest: analyst_registry_all\<close>)
  show "blind_gateway E (snd (agents_revoke_action E W aid who g))"
    unfolding agents_revoke_action_def
    by (rule agents_outcome_blind [OF g])
      (use g l in \<open>auto simp: orch_revoke_def blind_gateway_def rollback_blind split: sum.splits
          dest: analyst_registry_all\<close>)
qed

lemma api_blind:
  assumes "blind_gateway E g"
  shows "blind_gateway E (snd (api_step E W call g))"
  using api_frame [of call E W g]
proof (elim disjE exE conjE)
  assume "gw_engine (snd (api_step E W call g)) = gw_engine g" "gw_orch (snd (api_step E W call g)) = gw_orch g"
  then show ?thesis using assms by (simp add: blind_gateway_def)
qed (use assms in \<open>simp_all add: api_step_def analysts_blind\<close>)

interpretation blindness: process_invariant E "blind_gateway E" "\<lambda>_. True" for E
  by unfold_locales (rule api_blind)

text \<open>C15: Containment never stops the client that caused it.  In a single-node deployment start the
  process and let any requests and any management calls happen, attacks, alerts, automatic
  plans and analyst approvals included.  A client whose address and principal do not begin with
  \<open>p\<close> or \<open>[\<close> and are not the placeholders is let through by the mitigation engine at every time: the plans
  target the pseudonyms that the audit events carry, the engine is asked about raw names.\<close>

theorem containment_misses:
  assumes "en_store E = dist_ops no_redis" "\<not> opaque_target ip" "case who of Some p \<Rightarrow> \<not> opaque_target p | None \<Rightarrow> True"
  shows "fst (evaluate_request (en_store E) now ip who tok
    (gw_engine (gateway_run E ops (gateway_init E (dist_init None) u)))) = Inr None"
proof -
  let ?g = "gateway_run E ops (gateway_init E (dist_init None) u)"
  have "blind_gateway E (gateway_init E (dist_init None) u)"
    using standalone_engine_inv
    by (auto simp: blind_gateway_def blind_def registry_all_def gateway_init_def standalone_engine_def
        orchestrator_init_def response_agent_init_def)
  then have "blind (en_cfg E) (gw_engine ?g)"
    using blindness.inv_run assms(1) by (auto simp: blind_gateway_def)
  then obtain L where L: "standalone_mitigation.mit_inv (en_cfg E) L (gw_engine ?g)"
    and o: "\<forall>(t, a) \<in> L. opaque_action (action_type a) (target_entity a)"
    by (auto simp: blind_def)
  obtain ans where ans: "fst (evaluate_request (en_store E) now ip who tok (gw_engine ?g)) = Inr ans"
    and why: "\<And>d. ans = Some d \<Longrightarrow> \<exists>t a. (t, a) \<in> L \<and> justified (en_cfg E) now ip who tok d t a"
    using standalone_mitigation.evaluate_request_ok [OF L, of now ip who tok] assms(1)
    by (auto simp: standalone_mitigation.stage_ok_def answer_ok_def)
  have "\<not> justified (en_cfg E) now ip who tok d t a" if "(t, a) \<in> L" for d t a
    using o assms(2,3) that by (auto simp: justified_def opaque_action_def split: action_type.splits)
  then show ?thesis using ans why by (cases ans) auto
qed

section \<open>Instance\<close>

theorem containment_misses_witness:
  "fst (evaluate_request (en_store demo_env) 1000 ''203.0.113.7'' (Some ''alice'') None
     (gw_engine (gateway_run demo_env (replicate 9 (Serve demo_world demo_attack))
        (gateway_init demo_env (dist_init None) demo_startup)))) = Inr None"
  by (rule containment_misses) (simp_all add: demo_env_def opaque_target_def)

end
