(* ===== verification/Gateway_Clearance.thy ===== *)
theory Gateway_Clearance
  imports Gateway_Laws
begin

text \<open>
  What reaches the ERP backend.  \<open>cleared\<close> states, over the request and the gateway's state at its arrival,
  everything the middleware promises to have checked; the main theorem says that nothing else is sent upstream.
  The lemmas invert the stages: what must hold for a stage to let a request pass, and what the
  stage leaves alone.
\<close>

section \<open>Clearance\<close>

definition client_of :: "('s, 'r, 'm, 'c) env \<Rightarrow> http_request \<Rightarrow> string" where
  "client_of E rq = get_verified_client_ip (en_cfg E) rq"

definition unmitigated ::
  "('s, 'r, 'm, 'c) env \<Rightarrow> world \<Rightarrow> http_request \<Rightarrow> string option \<Rightarrow> 's mitigation_engine \<Rightarrow> bool" where
  "unmitigated E W rq who m \<longleftrightarrow>
     fst (evaluate_request (en_store E) (w_now W) (client_of E rq) who (Some (auth_header rq)) m) = Inr None"

definition after_mitigation ::
  "('s, 'r, 'm, 'c) env \<Rightarrow> world \<Rightarrow> http_request \<Rightarrow> 's mitigation_engine \<Rightarrow> 's mitigation_engine" where
  "after_mitigation E W rq m =
     snd (evaluate_request (en_store E) (w_now W) (client_of E rq) None (Some (auth_header rq)) m)"

definition body_text :: "('s, 'r, 'm, 'c) env \<Rightarrow> http_request \<Rightarrow> string" where
  "body_text E rq = (if hr_body rq = [] then [] else en_decode E (hr_body rq))"

definition size_ok :: "('s, 'r, 'm, 'c) env \<Rightarrow> http_request \<Rightarrow> bool" where
  "size_ok E rq \<longleftrightarrow> (case Option.bind (header rq ''content-length'') parse_int of
     None \<Rightarrow> True | Some n \<Rightarrow> n \<le> max_body_bytes (en_cfg E))"

definition waf_clean :: "('s, 'r, 'm, 'c) env \<Rightarrow> http_request \<Rightarrow> bool" where
  "waf_clean E rq \<longleftrightarrow> \<not> fst (inspect_content (en_loads E) (hr_url rq))
     \<and> (body_text E rq = [] \<or> \<not> fst (inspect_content (en_loads E) (body_text E rq)))
     \<and> (case if body_text E rq = [] then None else en_loads E (body_text E rq) of
          Some j \<Rightarrow> \<not> truthy j \<or> \<not> fst (inspect_payload j) | None \<Rightarrow> True)"

definition well_formed_body :: "('s, 'r, 'm, 'c) env \<Rightarrow> http_request \<Rightarrow> bool" where
  "well_formed_body E rq \<longleftrightarrow> hr_method rq \<notin> {''POST'', ''PUT''} \<or> body_text E rq = []
     \<or> (case en_loads E (body_text E rq) of Some j \<Rightarrow> schema_verdict E (hr_path rq) j = None | None \<Rightarrow> False)"

definition route_of :: "('s, 'r, 'm, 'c) env \<Rightarrow> http_request \<Rightarrow> route_verdict" where
  "route_of E rq = validate_route (en_catalogue E) (hr_path rq) (hr_method rq)"

text \<open>The replay guard's answer, and the engine after it.\<close>

definition freshness ::
  "('s, 'r, 'm, 'c) env \<Rightarrow> world \<Rightarrow> http_request \<Rightarrow> 's mitigation_engine \<Rightarrow> bool \<times> 's mitigation_engine" where
  "freshness E W rq m =
     (if hr_method rq \<notin> set mutating_methods then (True, m)
      else if \<not> freshness_exempt (hr_path rq)
         \<and> \<not> (truthy_str (header rq ''x-nonce'') \<or> truthy_str (header rq ''idempotency-key'') \<or> truthy_str (time_header rq))
      then (False, m)
      else case validate_request (op_set_nonce_nx (en_store E)) 300 (w_now W) (header rq ''x-nonce'')
             (header rq ''idempotency-key'') (time_header rq) (store m) of
          ((replayed, _, _), st) \<Rightarrow> (\<not> replayed, m\<lparr>store := st\<rparr>))"

definition verdict_on :: "('s, 'r, 'm, 'c) env \<Rightarrow> http_request \<Rightarrow> auth_result" where
  "verdict_on E rq = decode_and_verify (en_jwt E) (en_cfg E) (en_auth E) (Some (auth_header rq))"

definition principal_of :: "('s, 'r, 'm, 'c) env \<Rightarrow> http_request \<Rightarrow> string" where
  "principal_of E rq = py_str (en_prims E)
     (jget_or (JStr []) (case claims (verdict_on E rq) of Some c \<Rightarrow> c | None \<Rightarrow> JNull) ''sub'')"

text \<open>The request needs no token, or has one that verifies, whose principal is under no mitigation and
  who owns the object that the path or the body names.\<close>

definition identified ::
  "('s, 'r, 'm, 'c) env \<Rightarrow> world \<Rightarrow> http_request \<Rightarrow> 's mitigation_engine \<Rightarrow> bool" where
  "identified E W rq m \<longleftrightarrow> auth_exempt (hr_path rq) (matching_rule (route_of E rq))
     \<or> (is_valid (verdict_on E rq) \<and> unmitigated E W rq (Some (principal_of E rq)) m
        \<and> (case claims (verdict_on E rq) of
             Some c \<Rightarrow> \<not> truthy c \<or> check_bola_idor (en_prims E) (hr_path rq) (Some c) (hr_method rq)
               (Some (object_body E (body_text E rq))) = Some True
           | None \<Rightarrow> True))"

definition cleared ::
  "('s, 'r, 'm, 'c) env \<Rightarrow> world \<Rightarrow> http_request \<Rightarrow> ('s, 'r, 'm, 'c) gateway \<Rightarrow> bool" where
  "cleared E W rq g \<longleftrightarrow>
     unmitigated E W rq None (gw_engine g) \<and> size_ok E rq
     \<and> \<not> fst (fst (check_status (w_now W) (client_of E rq) [] (gw_credentials g)))
     \<and> waf_clean E rq \<and> path_known (route_of E rq) \<and> method_allowed (route_of E rq) \<and> well_formed_body E rq
     \<and> (case freshness E W rq (after_mitigation E W rq (gw_engine g)) of (ok, m) \<Rightarrow> ok \<and> identified E W rq m)
     \<and> fst (allow_request (w_now W) (gw_breaker g))"

section \<open>Inverting the first stages\<close>

lemma audit_and_stop_stops [simp]: "audit_and_stop E W rq lv risk d rsp g \<noteq> Next a g'"
  by (simp add: audit_and_stop_def split: option.split)

lemma check_mitigation_Next:
  "check_mitigation E W rq who lv g = Next lv' g' \<longleftrightarrow>
     fst (evaluate_request (en_store E) (w_now W) (lv_ip lv) who (Some (auth_header rq)) (gw_engine g)) = Inr None
     \<and> lv' = lv \<and> g' = g\<lparr>gw_engine := snd (evaluate_request (en_store E) (w_now W) (lv_ip lv) who
         (Some (auth_header rq)) (gw_engine g))\<rparr>"
  by (auto simp: check_mitigation_def split: prod.splits sum.splits option.splits)

lemma stage_size_Next: "stage_size E W rq lv g = Next lv' g' \<longleftrightarrow> size_ok E rq \<and> lv' = lv \<and> g' = g"
  by (auto simp: stage_size_def size_ok_def split: option.splits)

lemma stage_lockout_Next:
  "stage_lockout E W rq lv g = Next lv' g' \<longleftrightarrow>
     (\<exists>threat why cd. check_status (w_now W) (lv_ip lv) [] (gw_credentials g) = ((False, threat, why), cd)
       \<and> lv' = lv\<lparr>lv_waf := of_int threat\<rparr> \<and> g' = g\<lparr>gw_credentials := cd\<rparr>)"
  by (auto simp: stage_lockout_def Let_def split: prod.splits bool.splits)

lemma absorb_clean: "\<not> fst v \<Longrightarrow> absorb_verdict v lv = lv"
  by (auto simp: absorb_verdict_def split: prod.splits)

lemma stage_waf_Next:
  assumes "lv_text lv = body_text E rq" "lv_payload lv = (if lv_text lv = [] then None else en_loads E (lv_text lv))"
  shows "stage_waf E W rq lv g = Next lv' g' \<longleftrightarrow> waf_clean E rq \<and> lv' = lv \<and> g' = g"
proof -
  have c: "\<not> fst no_attack" by (simp add: no_attack_def)
  show ?thesis
    using assms c
    by (auto simp: stage_waf_def waf_clean_def absorb_clean Let_def split: option.splits if_splits)
qed

lemma stage_route_Next:
  "stage_route E rq lv g = Next lv' g' \<longleftrightarrow> path_known (route_of E rq) \<and> method_allowed (route_of E rq)
     \<and> lv' = lv\<lparr>lv_rule := matching_rule (route_of E rq)\<rparr> \<and> g' = g"
  by (auto simp: stage_route_def route_of_def Let_def)

lemma stage_schema_Next:
  assumes "lv_text lv = body_text E rq"
  shows "stage_schema E rq lv g = Next lv' g' \<longleftrightarrow> well_formed_body E rq \<and> lv' = lv \<and> g' = g"
  using assms by (auto simp: stage_schema_def well_formed_body_def split: option.splits)

text \<open>The local variables that the first stages hand on.\<close>

definition inspected ::
  "('s, 'r, 'm, 'c) env \<Rightarrow> http_request \<Rightarrow> locals \<Rightarrow> bool" where
  "inspected E rq lv \<longleftrightarrow> lv_ip lv = client_of E rq \<and> lv_text lv = body_text E rq
     \<and> lv_rule lv = matching_rule (route_of E rq) \<and> lv_claims lv = None \<and> \<not> lv_exempt lv"

lemma inspect_request_Next:
  assumes "inspect_request E W rq g = Next lv g'"
  shows "unmitigated E W rq None (gw_engine g)" "size_ok E rq"
    "\<not> fst (fst (check_status (w_now W) (client_of E rq) [] (gw_credentials g)))"
    "waf_clean E rq" "path_known (route_of E rq)" "method_allowed (route_of E rq)" "well_formed_body E rq"
    "inspected E rq lv" "gw_engine g' = after_mitigation E W rq (gw_engine g)" "gw_breaker g' = gw_breaker g"
    "lv_id lv = request_id_of W rq"
proof -
  let ?lv = "locals_init E W rq"
  have ip: "lv_ip ?lv = client_of E rq" by (simp add: locals_init_def client_of_def)
  obtain g1 where s1: "check_mitigation E W rq None ?lv g = Next ?lv g1"
    and s2: "size_ok E rq"
    and r: "and_next (stage_lockout E W rq (stage_body E rq ?lv) g1) (\<lambda>lv g.
        and_next (stage_waf E W rq lv g) (\<lambda>lv g. and_next (stage_route E rq lv g) (\<lambda>lv g.
        stage_schema E rq lv g))) = Next lv g'"
    using assms by (auto simp: inspect_request_def and_next_Next stage_mitigation_def check_mitigation_Next
        stage_size_Next)
  obtain threat why cd where s3: "check_status (w_now W) (client_of E rq) [] (gw_credentials g1) = ((False, threat, why), cd)"
    and r2: "and_next (stage_waf E W rq ((stage_body E rq ?lv)\<lparr>lv_waf := of_int threat\<rparr>) (g1\<lparr>gw_credentials := cd\<rparr>))
      (\<lambda>lv g. and_next (stage_route E rq lv g) (\<lambda>lv g. stage_schema E rq lv g)) = Next lv g'"
    using r ip by (auto simp: and_next_Next stage_lockout_Next stage_body_def Let_def)
  let ?lv2 = "(stage_body E rq ?lv)\<lparr>lv_waf := of_int threat\<rparr>"
  have b: "lv_text ?lv2 = body_text E rq"
    "lv_payload ?lv2 = (if lv_text ?lv2 = [] then None else en_loads E (lv_text ?lv2))"
    by (simp_all add: stage_body_def body_text_def Let_def)
  have s4: "waf_clean E rq" "path_known (route_of E rq)" "method_allowed (route_of E rq)" "well_formed_body E rq"
    and lv: "lv = ?lv2\<lparr>lv_rule := matching_rule (route_of E rq)\<rparr>" and g': "g' = g1\<lparr>gw_credentials := cd\<rparr>"
    using r2 b by (auto simp: and_next_Next stage_waf_Next [OF b] stage_route_Next stage_schema_Next)
  show "unmitigated E W rq None (gw_engine g)" "size_ok E rq"
    "\<not> fst (fst (check_status (w_now W) (client_of E rq) [] (gw_credentials g)))"
    "waf_clean E rq" "path_known (route_of E rq)" "method_allowed (route_of E rq)" "well_formed_body E rq"
    "inspected E rq lv" "gw_engine g' = after_mitigation E W rq (gw_engine g)" "gw_breaker g' = gw_breaker g"
    "lv_id lv = request_id_of W rq"
    using s1 s2 s3 s4 b ip by (simp_all add: check_mitigation_Next unmitigated_def after_mitigation_def lv g'
        inspected_def stage_body_def locals_init_def Let_def)
qed

section \<open>Inverting the later stages\<close>

lemma stage_replay_Next:
  "stage_replay E W rq lv g = Next lv' g' \<longleftrightarrow> fst (freshness E W rq (gw_engine g)) \<and> lv' = lv
     \<and> g' = g\<lparr>gw_engine := snd (freshness E W rq (gw_engine g))\<rparr>"
  by (auto simp: stage_replay_def freshness_def Let_def split: prod.splits)

text \<open>What authentication establishes for the authorisation that follows.\<close>

lemma stage_auth_Next:
  assumes "stage_auth E W rq lv g = Next lv' g'" "inspected E rq lv"
  shows "lv_text lv' = body_text E rq" "gw_breaker g' = gw_breaker g"
    "auth_exempt (hr_path rq) (matching_rule (route_of E rq)) \<and> checked_claims lv' = None
     \<or> is_valid (verdict_on E rq) \<and> unmitigated E W rq (Some (principal_of E rq)) (gw_engine g)
       \<and> lv_claims lv' = claims (verdict_on E rq) \<and> \<not> lv_exempt lv'"
  using assms
  by (auto simp: stage_auth_def inspected_def checked_claims_def verdict_on_def principal_of_def unmitigated_def
      check_mitigation_Next Let_def split: if_splits option.splits)

lemma stage_authorise_Next:
  assumes "stage_authorise E rq lv g = Next lv' g'" "lv_text lv = body_text E rq"
  shows "g' = g"
    "case checked_claims lv of None \<Rightarrow> True
     | Some c \<Rightarrow> check_bola_idor (en_prims E) (hr_path rq) (Some c) (hr_method rq)
         (Some (object_body E (body_text E rq))) = Some True \<or> 95 \<le> lv_waf lv'"
  using assms by (auto simp: stage_authorise_def checked_claims_def Let_def split: option.splits bool.splits if_splits)

lemma scoring_stages_Next:
  "stage_rules E W rq lv g = Next lv' g' \<Longrightarrow> lv_waf lv' = lv_waf lv \<and> gw_breaker g' = gw_breaker g"
  "stage_anomaly E W rq lv g = Next lv' g' \<Longrightarrow> lv_waf lv' = lv_waf lv \<and> gw_breaker g' = gw_breaker g"
  "stage_ml E W rq lv g = Next lv' g' \<Longrightarrow> lv_waf lv' = lv_waf lv \<and> gw_breaker g' = gw_breaker g"
  "stage_rate E W rq lv g = Next lv' g' \<Longrightarrow> lv_waf lv' = lv_waf lv \<and> gw_breaker g' = gw_breaker g"
  by (auto simp: stage_rules_def stage_anomaly_def stage_ml_def stage_rate_def Let_def
      split: option.splits prod.splits if_splits)

lemma severe_blocks: "80 \<le> Risk_Engine.waf_severity i \<Longrightarrow> decide (overall_score i) = BLOCK"
proof -
  assume "80 \<le> Risk_Engine.waf_severity i"
  then have "of_int 85 \<le> hard_bounds i (weighted i)" by (auto simp: hard_bounds_def)
  from overall_ge_int [OF this] show ?thesis by (simp add: decide_BLOCK_iff)
qed

lemma stage_decide_Next:
  assumes "stage_decide E W rq lv g = Next x g'"
  shows "lv_waf lv < 80" "fst x = lv" "rs_decision (snd x) \<in> {ALLOW, decision.LIMIT}" "lv_count lv \<le> 1000"
proof -
  obtain risk where r: "risk = calculate_risk (risk_input rq lv) (lv_reasons lv)" "x = (lv, risk)"
    "rs_decision risk \<notin> {BLOCK, CHALLENGE}" "lv_count lv \<le> 1000"
    using assms by (auto simp: stage_decide_def Let_def split: option.splits if_splits)
  show "lv_waf lv < 80"
    using r severe_blocks [of "risk_input rq lv"] by (auto simp: risk_input_def not_less [symmetric])
  show "fst x = lv" "lv_count lv \<le> 1000" "rs_decision (snd x) \<in> {ALLOW, decision.LIMIT}"
    using r by (cases "rs_decision risk"; simp)+
qed

lemma stage_decide_breaker: "stage_decide E W rq lv g = Next x g' \<Longrightarrow> gw_breaker g' = gw_breaker g"
  by (auto simp: stage_decide_def Let_def dest: emit_frame split: option.splits if_splits)

lemma stage_breaker_Next: "stage_breaker W x g = Next x' g' \<Longrightarrow> fst (allow_request (w_now W) (gw_breaker g)) \<and> x' = x"
  by (auto simp: stage_breaker_def split: prod.splits if_splits)

lemma judge_stages_id:
  "stage_auth E W rq lv g = Next lv' g' \<Longrightarrow> lv_id lv' = lv_id lv"
  "stage_authorise E rq lv g = Next lv' g' \<Longrightarrow> lv_id lv' = lv_id lv"
  "stage_rules E W rq lv g = Next lv' g' \<Longrightarrow> lv_id lv' = lv_id lv"
  "stage_anomaly E W rq lv g = Next lv' g' \<Longrightarrow> lv_id lv' = lv_id lv"
  "stage_ml E W rq lv g = Next lv' g' \<Longrightarrow> lv_id lv' = lv_id lv"
  "Gateway_Pipeline.stage_rate E W rq lv g = Next lv' g' \<Longrightarrow> lv_id lv' = lv_id lv"
  by (auto simp: stage_auth_def check_mitigation_Next stage_authorise_def stage_rules_def stage_anomaly_def
      stage_ml_def Gateway_Pipeline.stage_rate_def Let_def split: option.splits prod.splits if_splits bool.splits)

lemma judge_request_Next:
  assumes "judge_request E W rq lv g = Next x g'" "inspected E rq lv"
  shows "case freshness E W rq (gw_engine g) of (ok, m) \<Rightarrow> ok \<and> identified E W rq m"
    "fst (allow_request (w_now W) (gw_breaker g))"
    "rs_decision (snd x) \<in> {ALLOW, decision.LIMIT}" "lv_count (fst x) \<le> 1000" "lv_id (fst x) = lv_id lv"
proof -
  obtain ok m where fr: "freshness E W rq (gw_engine g) = (ok, m)" by fastforce
  obtain lv1 g1 lv2 g2 lv3 g3 lv4 g4 lv5 g5 lv6 g6 y g7 where
    a: "ok" and s1: "stage_auth E W rq lv (g\<lparr>gw_engine := m\<rparr>) = Next lv1 g1"
    and s2: "stage_authorise E rq lv1 g1 = Next lv2 g2" and s3: "stage_rules E W rq lv2 g2 = Next lv3 g3"
    and s4: "stage_anomaly E W rq lv3 g3 = Next lv4 g4" and s5: "stage_ml E W rq lv4 g4 = Next lv5 g5"
    and s6: "stage_rate E W rq lv5 g5 = Next lv6 g6" and s7: "stage_decide E W rq lv6 g6 = Next y g7"
    and s8: "stage_breaker W y g7 = Next x g'"
    using assms(1) fr unfolding judge_request_def and_next_Next stage_replay_Next by auto
  note auth = stage_auth_Next [OF s1 assms(2)]
  note authz = stage_authorise_Next [OF s2 auth(1)]
  note scored = scoring_stages_Next(1) [OF s3] scoring_stages_Next(2) [OF s4] scoring_stages_Next(3) [OF s5]
    scoring_stages_Next(4) [OF s6]
  note dec = stage_decide_Next [OF s7]
  have waf: "lv_waf lv2 < 80" using scored dec(1) by simp
  then show "case freshness E W rq (gw_engine g) of (ok, m) \<Rightarrow> ok \<and> identified E W rq m"
    using a auth(3) authz(2) fr
    by (auto simp: identified_def checked_claims_def split: option.splits if_splits)
  show "fst (allow_request (w_now W) (gw_breaker g))"
    using stage_breaker_Next [OF s8] stage_decide_breaker [OF s7] scored authz(1) auth(2) by simp
  show "rs_decision (snd x) \<in> {ALLOW, decision.LIMIT}" "lv_count (fst x) \<le> 1000" "lv_id (fst x) = lv_id lv"
    using stage_breaker_Next [OF s8] dec judge_stages_id(1) [OF s1] judge_stages_id(2) [OF s2]
      judge_stages_id(3) [OF s3] judge_stages_id(4) [OF s4] judge_stages_id(5) [OF s5] judge_stages_id(6) [OF s6]
    by auto
qed

section \<open>Nothing else is forwarded\<close>

interpretation upstream: stage_invariant E "\<lambda>g. gw_sent g = ms \<and> gw_router g = ro" "\<lambda>_. True" for E ms ro
  by unfold_locales (auto simp: emit_frame)

text \<open>The message that goes upstream: the client's method, path, query and body, with the gateway's verdict.\<close>

definition relays :: "('s, 'r, 'm, 'c) env \<Rightarrow> world \<Rightarrow> http_request \<Rightarrow> sent \<Rightarrow> bool" where
  "relays E W rq m \<longleftrightarrow> st_method m = hr_method rq \<and> st_content m = hr_body rq
     \<and> st_url m = upstream_url (en_backend E) rq
     \<and> dget (st_headers m) ''X-Request-ID'' = Some (request_id_of W rq)
     \<and> dget (st_headers m) ''X-Decision'' \<in> {Some ''ALLOW'', Some ''LIMIT''}"

lemma forward_sent:
  assumes "rs_decision (snd x) \<in> {ALLOW, decision.LIMIT}" "lv_id (fst x) = request_id_of W rq"
  shows "\<exists>n m. n \<in> {1, 2} \<and> relays E W rq m
    \<and> gw_sent (snd (forward E W rq x g)) = gw_sent g @ replicate n m"
proof -
  obtain lv risk where x: "x = (lv, risk)" by (cases x)
  let ?hs = "forward_headers E rq (lv_id lv) risk"
  let ?m = "\<lparr>st_method = hr_method rq, st_url = upstream_url (en_backend E) rq,
    st_headers = dput ''X-Gateway-Route'' (route_name (should_route_to_canary (en_md5_32 E) (w_random W)
      (Some (lv_principal lv)) (Some (lv_ip lv)) ?hs (gw_router g))) ?hs, st_content = hr_body rq\<rparr>"
  have "relays E W rq ?m"
    using assms x by (auto simp: relays_def forward_headers_def transport_headers_def update_conv'
        delete_conv' decision_name_def)
  moreover have "gw_sent (snd (forward E W rq x g)) = gw_sent g @ replicate 1 ?m
      \<or> gw_sent (snd (forward E W rq x g)) = gw_sent g @ replicate 2 ?m"
    by (simp add: forward_def x Let_def record_answer_def record_breakdown_def note_login_failure_def
        numeral_2_eq_2 split: outcome.split)
  ultimately show ?thesis by blast
qed

lemma forwarded_cleared:
  "case security_pipeline E W rq g of (rsp, g') \<Rightarrow> gw_sent g' = gw_sent g
     \<or> (cleared E W rq g \<and> (\<exists>n m. n \<in> {1, 2} \<and> relays E W rq m \<and> gw_sent g' = gw_sent g @ replicate n m))"
proof (cases "and_next (inspect_request E W rq g) (\<lambda>lv g. judge_request E W rq lv g)")
  case (Stop r g1)
  then show ?thesis
    using upstream.inv_guards [of g "gw_sent g" "gw_router g" E W rq] by (simp add: security_pipeline_def)
next
  case (Next x g2)
  then obtain lv g1 where i: "inspect_request E W rq g = Next lv g1" and j: "judge_request E W rq lv g1 = Next x g2"
    by (auto simp: and_next_Next)
  note ins = inspect_request_Next [OF i]
  note jud = judge_request_Next [OF j ins(8)]
  have "cleared E W rq g" using ins jud by (simp add: cleared_def)
  moreover have "gw_sent g2 = gw_sent g"
    using upstream.inv_guards [of g "gw_sent g" "gw_router g" E W rq] Next by simp
  moreover have "lv_id (fst x) = request_id_of W rq" using jud(5) ins(11) by simp
  ultimately show ?thesis
    using forward_sent [OF jud(3), of W rq E g2] Next by (auto simp: security_pipeline_def split: prod.split)
qed

text \<open>Only cleared requests reach the ERP backend.  For every request in every state of the gateway: either
  nothing is sent upstream, or the request was cleared, that is, no mitigation is active against its address
  or principal, its declared size is within the limit, its address is not locked out, no attack pattern matches
  its URL or body, its path and method are registered, its body meets the schema, it is fresh, it
  carries a valid token for objects its holder owns unless the route is public, and the circuit breaker
  lets calls through; and then one message or, after a closed event loop, the same message twice is
  sent, with the decision ALLOW or LIMIT in its headers.\<close>

theorem upstream_only_cleared:
  "case security_pipeline E W rq g of (rsp, g') \<Rightarrow> gw_sent g' = gw_sent g
     \<or> (cleared E W rq g \<and> (\<exists>n m. n \<in> {1, 2} \<and> relays E W rq m \<and> gw_sent g' = gw_sent g @ replicate n m))"
  by (rule forwarded_cleared)

end
