(* ===== verification/Gateway_Audit.thy ===== *)
theory Gateway_Audit
  imports Gateway_Clearance Gateway_Demo
begin

text \<open>
  What the gateway records of the requests it serves: every forwarded request is in the security metrics,
  the telemetry queue and the audit chain exactly once; refusals by an active mitigation are in none of them.
  Also the stages' behaviour on some boundary inputs: a standard \<open>Date\<close> header, forwarded addresses.
\<close>

section \<open>Traces of a request\<close>

text \<open>What \<open>emit_audit_event\<close> writes: the counters, the telemetry queue and the chain.\<close>

definition recorded ::
  "('s, 'r, 'm, 'c) env \<Rightarrow> world \<Rightarrow> string \<Rightarrow> json \<Rightarrow> json
     \<Rightarrow> ('s, 'r, 'm, 'c) gateway \<Rightarrow> ('s, 'r, 'm, 'c) gateway \<Rightarrow> bool" where
  "recorded E W d e e' g g' \<longleftrightarrow> mt_total (gw_metrics g') = mt_total (gw_metrics g) + 1
     \<and> decision_counts (gw_metrics g') = decision_counts (record_request_decision d (gw_metrics g))
     \<and> gw_pipeline g' = emit_event W e e' (gw_pipeline g) \<and> gw_chain g' = seal_event E W e' (gw_chain g)"

lemma emit_recorded:
  assumes "emit_audit_event E W rq rid risk f g = Some g'"
  shows "\<exists>t. recorded E W (decision_name (af_decision f)) (clean_event E W rq rid risk f)
    (stamped t (clean_event E W rq rid risk f)) g g'"
proof -
  obtain t e' filt where pe: "process_event (en_prims E) (w_quarantine_ok W) (clean_event E W rq rid risk f)
      (gw_filter g) = Some (t, e', filt)"
    and g': "g' = (if 30 \<le> overall risk \<or> af_fired f \<noteq> [] \<or> af_ml_anomalous f
       then run_agents E W e' f (routed E W f (clean_event E W rq rid risk f) e' filt g)
       else routed E W f (clean_event E W rq rid risk f) e' filt g)\<lparr>gw_chain := seal_event E W e' (gw_chain g)\<rparr>"
    by (rule emit_cases [OF assms])
  have "e' = stamped t (clean_event E W rq rid risk f)" using pe by (auto simp: process_event_def Let_def)
  then show ?thesis by (auto simp: g' recorded_def record_request_decision_def Let_def)
qed

abbreviation traces where
  "traces g \<equiv> (gw_metrics g, gw_pipeline g, gw_chain g)"

lemma early_stages_silent:
  "check_mitigation E W rq who lv g = Next lv' g' \<Longrightarrow> traces g' = traces g"
  "stage_size E W rq lv g = Next lv' g' \<Longrightarrow> traces g' = traces g"
  "stage_lockout E W rq lv g = Next lv' g' \<Longrightarrow> traces g' = traces g"
  "stage_waf E W rq lv g = Next lv' g' \<Longrightarrow> traces g' = traces g"
  "stage_route E rq lv g = Next lv' g' \<Longrightarrow> traces g' = traces g"
  "stage_schema E rq lv g = Next lv' g' \<Longrightarrow> traces g' = traces g"
  by (auto simp: check_mitigation_Next stage_size_Next stage_lockout_Next stage_waf_def stage_route_Next
      stage_schema_def Let_def split: if_splits option.splits)

lemma late_stages_silent:
  "stage_replay E W rq lv g = Next lv' g' \<Longrightarrow> traces g' = traces g"
  "stage_auth E W rq lv g = Next lv' g' \<Longrightarrow> traces g' = traces g"
  "stage_authorise E rq lv g = Next lv' g' \<Longrightarrow> traces g' = traces g"
  "stage_rules E W rq lv g = Next lv' g' \<Longrightarrow> traces g' = traces g"
  "stage_anomaly E W rq lv g = Next lv' g' \<Longrightarrow> traces g' = traces g"
  "stage_ml E W rq lv g = Next lv' g' \<Longrightarrow> traces g' = traces g"
  "Gateway_Pipeline.stage_rate E W rq lv g = Next lv' g' \<Longrightarrow> traces g' = traces g"
  "stage_breaker W x g = Next x' g' \<Longrightarrow> traces g' = traces g"
  by (auto simp: stage_replay_Next stage_auth_def check_mitigation_Next stage_authorise_def stage_rules_def
      stage_anomaly_def stage_ml_def Gateway_Pipeline.stage_rate_def stage_breaker_def Let_def
      split: if_splits option.splits prod.splits bool.splits)

lemma forward_silent: "traces (snd (forward E W rq x g)) = traces g"
  by (simp add: forward_def Let_def record_answer_def record_breakdown_def note_login_failure_def
      split: outcome.split prod.split)

lemma inspect_silent: "inspect_request E W rq g = Next lv g' \<Longrightarrow> traces g' = traces g"
  unfolding inspect_request_def and_next_Next stage_mitigation_def
  by (elim exE conjE) (simp add: early_stages_silent)

text \<open>The event of a decision, as far as a reader relies on it.\<close>

definition reports :: "http_request \<Rightarrow> string \<Rightarrow> string \<Rightarrow> json \<Rightarrow> bool" where
  "reports rq rid d e \<longleftrightarrow> jget e ''decision'' = Some (JStr d) \<and> jget e ''request_id'' = Some (JStr (scrub_text rid))
     \<and> jget e ''path'' = Some (JStr (scrub_text (hr_path rq)))
     \<and> jget e ''method'' = Some (JStr (scrub_text (hr_method rq)))"

lemma scrub_decision: "scrub_text (decision_name d) = decision_name d"
proof -
  have "scrub_text ''ALLOW'' = ''ALLOW''" "scrub_text ''LIMIT'' = ''LIMIT''"
    "scrub_text ''CHALLENGE'' = ''CHALLENGE''" "scrub_text ''BLOCK'' = ''BLOCK''"
    by code_simp+
  then show ?thesis by (cases d) (simp_all add: decision_name_def)
qed

lemma stamped_reports: "reports rq rid (decision_name (af_decision f)) (stamped t (clean_event E W rq rid risk f))"
proof -
  obtain kvs where e: "clean_event E W rq rid risk f = JObj kvs" using clean_event_fields(8) by blast
  have "jget (stamped t (clean_event E W rq rid risk f)) k = jget (clean_event E W rq rid risk f) k"
    if "k \<in> {''decision'', ''request_id'', ''path'', ''method''}" for k
    unfolding e using that by (intro stamped_field) auto
  then show ?thesis
    by (simp add: reports_def) (simp add: audit_event_def Let_def scrub_decision)
qed

lemma decide_recorded:
  assumes "stage_decide E W rq lv g = Next x g'"
  shows "\<exists>e e'. recorded E W (decision_name (rs_decision (snd x))) e e' g g'
    \<and> reports rq (lv_id lv) (decision_name (rs_decision (snd x))) e'"
proof -
  let ?risk = "calculate_risk (risk_input rq lv) (lv_reasons lv)"
  let ?f = "decision_facts W lv (rs_decision ?risk)"
  have "emit_audit_event E W rq (lv_id lv) ?risk ?f g = Some g'" and x: "snd x = ?risk"
    using assms by (auto simp: stage_decide_def Let_def split: option.splits if_splits)
  moreover have "af_decision ?f = rs_decision ?risk" by (simp add: decision_facts_def)
  ultimately show ?thesis using emit_recorded stamped_reports by metis
qed

lemma recorded_cong:
  "recorded E W d e e' g1 g2 \<Longrightarrow> traces g1 = traces g \<Longrightarrow> traces g3 = traces g2 \<Longrightarrow> recorded E W d e e' g g3"
  by (auto simp: recorded_def)

lemma judge_recorded:
  assumes "judge_request E W rq lv g = Next x g'" "inspected E rq lv"
  shows "\<exists>d e e'. d \<in> {''ALLOW'', ''LIMIT''} \<and> recorded E W d e e' g g' \<and> reports rq (lv_id lv) d e'"
proof -
  obtain lv0 g0 lv1 g1 lv2 g2 lv3 g3 lv4 g4 lv5 g5 lv6 g6 y g7 where
    s0: "stage_replay E W rq lv g = Next lv0 g0" and s1: "stage_auth E W rq lv0 g0 = Next lv1 g1"
    and s2: "stage_authorise E rq lv1 g1 = Next lv2 g2" and s3: "stage_rules E W rq lv2 g2 = Next lv3 g3"
    and s4: "stage_anomaly E W rq lv3 g3 = Next lv4 g4" and s5: "stage_ml E W rq lv4 g4 = Next lv5 g5"
    and s6: "Gateway_Pipeline.stage_rate E W rq lv5 g5 = Next lv6 g6" and s7: "stage_decide E W rq lv6 g6 = Next y g7"
    and s8: "stage_breaker W y g7 = Next x g'"
    using assms(1) unfolding judge_request_def and_next_Next by auto
  obtain e e' where r: "recorded E W (decision_name (rs_decision (snd y))) e e' g6 g7"
    "reports rq (lv_id lv6) (decision_name (rs_decision (snd y))) e'"
    using decide_recorded [OF s7] by blast
  have "lv_id lv6 = lv_id lv"
    using s0 judge_stages_id(1) [OF s1] judge_stages_id(2) [OF s2] judge_stages_id(3) [OF s3]
      judge_stages_id(4) [OF s4] judge_stages_id(5) [OF s5] judge_stages_id(6) [OF s6]
    by (simp add: stage_replay_Next)
  moreover have "traces g6 = traces g" "traces g' = traces g7"
    using late_stages_silent(1) [OF s0] late_stages_silent(2) [OF s1] late_stages_silent(3) [OF s2]
      late_stages_silent(4) [OF s3] late_stages_silent(5) [OF s4] late_stages_silent(6) [OF s5]
      late_stages_silent(7) [OF s6] late_stages_silent(8) [OF s8] by simp_all
  moreover have "decision_name (rs_decision (snd y)) \<in> {''ALLOW'', ''LIMIT''}"
    using stage_decide_Next(3) [OF s7] by (auto simp: decision_name_def)
  ultimately show ?thesis using r by (auto simp: recorded_def)
qed


section \<open>Refusals without a trace\<close>

text \<open>A request that an active mitigation refuses leaves no trace: of the gateway's state only the mitigation
  engine's own tables can change.  It is in no counter, in no telemetry event and in no block of the chain, so the
  category MITIGATED of the metrics is never used.\<close>

theorem mitigated_unrecorded:
  assumes "\<not> unmitigated E W rq None (gw_engine g)"
  shows "case security_pipeline E W rq g of (rsp, g') \<Rightarrow>
    g' = g\<lparr>gw_engine := after_mitigation E W rq (gw_engine g)\<rparr>
    \<and> (rsp = server_error \<or> (\<exists>d. rsp = mitigated_response (request_id_of W rq) d))"
proof -
  obtain r e where ev: "evaluate_request (en_store E) (w_now W) (client_of E rq) None (Some (auth_header rq)) (gw_engine g) = (r, e)"
    by fastforce
  have "client_of E rq = get_verified_client_ip (en_cfg E) rq" by (simp add: client_of_def)
  then show ?thesis
    using assms ev
    by (cases r) (auto simp: security_pipeline_def inspect_request_def stage_mitigation_def check_mitigation_def
        locals_init_def unmitigated_def after_mitigation_def split: option.splits)
qed

section \<open>Boundary inputs\<close>

text \<open>A client that dates its requests with the standard \<open>Date\<close> header cannot change anything: a POST, PUT,
  DELETE or PATCH, logins included, that carries a \<open>Date\<close> that is no number, with no \<open>X-Timestamp\<close> of its
  own, is never forwarded, even with a nonce; the replay guard reads the date as a malformed timestamp.\<close>

theorem date_header_refused:
  assumes "hr_method rq \<in> set mutating_methods" "header rq ''x-timestamp'' = None"
    and "header rq ''date'' = Some d" "d \<noteq> []" "parse_float d = None"
  shows "gw_sent (snd (security_pipeline E W rq g)) = gw_sent g"
proof -
  have "time_header rq = Some d" using assms(2,3) by (simp add: time_header_def str_or_def)
  then have "\<not> fst (freshness E W rq m)" for m
    using assms by (simp add: freshness_def validate_request_def check_timestamp_def)
  then have "\<not> cleared E W rq g" unfolding cleared_def by (simp add: case_prod_beta)
  then show ?thesis using forwarded_cleared [where E = E and W = W and rq = rq and g = g] by (auto split: prod.splits)
qed

lemma split_on_first: "c \<notin> set a \<Longrightarrow> split_on c (a @ c # r) = a # split_on c r"
  by (induction a) auto

text \<open>Behind a trusted proxy a client chooses the address it is judged by, whatever the proxy appends to the
  header: the first hop is taken, so every text without a comma and surrounding blanks can be made
  the client's address; lockouts, quarantines and rate limits per address are evaded by changing it.\<close>

theorem forwarded_for_believed:
  assumes "hr_peer rq = Some p" "is_trusted_proxy cfg p"
    and "a \<noteq> []" "CHR '','' \<notin> set a" "strip a = a"
    and "header rq ''x-forwarded-for'' = Some (a @ CHR '','' # appended)"
  shows "get_verified_client_ip cfg rq = a"
  using assms by (simp add: get_verified_client_ip_def forwarded_hops_def split_on_first)

text \<open>A peer that is no trusted proxy cannot choose its address: no header changes it.\<close>

theorem untrusted_peer_cannot_spoof:
  assumes "hr_peer rq = Some p" "\<not> is_trusted_proxy cfg p"
  shows "get_verified_client_ip cfg (rq\<lparr>hr_headers := hs\<rparr>) = p"
  using assms by (simp add: get_verified_client_ip_def)

section \<open>Management\<close>

text \<open>The readiness probe, which the load balancer polls, answers 200 exactly when rules are loaded and the machine
  learning service has its model and is not rolled back; otherwise 503.  So rolling the advisory service
  back, or starting without model files, takes the whole node out of service; an open circuit breaker does not.\<close>

theorem readiness_exact:
  "fst (fst (api_step E W Readiness g)) =
     (if rules (gw_rules g) \<noteq> [] \<and> \<not> ml_rolled_back (gw_ml g) \<and> ml_model (gw_ml g) \<noteq> None then 200 else 503)"
  by (auto simp: api_step_def health_readiness_def ml_get_health_def ml_status_text_def
      evaluate_readiness_def Let_def)

section \<open>Instances\<close>

lemma throttled_client:
  "\<not> unmitigated demo_env demo_world demo_attack None (gw_engine throttled_gateway)"
  using throttle_stops_every_request [of "gw_engine throttled_gateway" "''203.0.113.7''" _ 1000]
  by (simp add: unmitigated_def client_of_def demo_env_def demo_world_def throttled_gateway_def demo_client)

theorem mitigated_unrecorded_witness:
  "case security_pipeline demo_env demo_world demo_attack throttled_gateway of (rsp, g') \<Rightarrow>
    g' = throttled_gateway\<lparr>gw_engine := after_mitigation demo_env demo_world demo_attack (gw_engine throttled_gateway)\<rparr>
    \<and> (rsp = server_error \<or> (\<exists>d. rsp = mitigated_response (request_id_of demo_world demo_attack) d))"
  by (rule mitigated_unrecorded [OF throttled_client])

theorem date_header_refused_witness:
  "gw_sent (snd (security_pipeline demo_env demo_world dated_order demo_gateway)) = gw_sent demo_gateway"
proof (rule date_header_refused [where d = "''Wed, 21 Oct 2015 07:28:00 GMT''"])
  show "parse_float ''Wed, 21 Oct 2015 07:28:00 GMT'' = None" by code_simp
qed (simp_all add: dated_order_def demo_attack_def mutating_methods_def header_def)

theorem forwarded_for_believed_witness: "get_verified_client_ip default_config spoofed_read = ''1.2.3.4''"
proof (rule forwarded_for_believed [where p = "''10.0.0.9''" and appended = "''203.0.113.7''"])
  show "is_trusted_proxy default_config ''10.0.0.9''" "strip ''1.2.3.4'' = ''1.2.3.4''" by code_simp+
qed (simp_all add: spoofed_read_def header_def)

theorem untrusted_peer_cannot_spoof_witness:
  "get_verified_client_ip default_config (demo_attack\<lparr>hr_headers := [(''x-forwarded-for'', ''1.2.3.4'')]\<rparr>) = ''203.0.113.7''"
proof (rule untrusted_peer_cannot_spoof)
  show "\<not> is_trusted_proxy default_config ''203.0.113.7''" by code_simp
qed (simp add: demo_attack_def)

end
