(* ===== verification/Gateway_Advisory.thy ===== *)
theory Gateway_Advisory
  imports Gateway_Laws
begin

text \<open>
  The machine learning service is advisory: what its model answers changes neither the response to a request nor
  what is sent upstream.  Two runs of the middleware that differ in the inference function only
  are compared stage by stage.
\<close>

section \<open>The middleware before and after the inference\<close>

definition before_ml ::
  "('s, 'r, 'm, 'c) env \<Rightarrow> world \<Rightarrow> http_request \<Rightarrow> ('s, 'r, 'm, 'c) gateway \<Rightarrow> (locals, ('s, 'r, 'm, 'c) gateway) flow" where
  "before_ml E W rq g =
     and_next (inspect_request E W rq g) (\<lambda>lv g.
     and_next (stage_replay E W rq lv g) (\<lambda>lv g.
     and_next (stage_auth E W rq lv g) (\<lambda>lv g.
     and_next (stage_authorise E rq lv g) (\<lambda>lv g.
     and_next (stage_rules E W rq lv g) (\<lambda>lv g. stage_anomaly E W rq lv g)))))"

definition concluded ::
  "('s, 'r, 'm, 'c) env \<Rightarrow> world \<Rightarrow> http_request \<Rightarrow> (locals \<times> gw_reason risk_score, ('s, 'r, 'm, 'c) gateway) flow
     \<Rightarrow> response \<times> ('s, 'r, 'm, 'c) gateway" where
  "concluded E W rq x = (case x of Stop rsp g \<Rightarrow> (rsp, g) | Next x g \<Rightarrow> forward E W rq x g)"

definition after_ml ::
  "('s, 'r, 'm, 'c) env \<Rightarrow> world \<Rightarrow> http_request \<Rightarrow> locals \<Rightarrow> ('s, 'r, 'm, 'c) gateway
     \<Rightarrow> (locals \<times> gw_reason risk_score, ('s, 'r, 'm, 'c) gateway) flow" where
  "after_ml E W rq lv g =
     and_next (Gateway_Pipeline.stage_rate E W rq lv g) (\<lambda>lv g.
     and_next (stage_decide E W rq lv g) (\<lambda>x g. stage_breaker W x g))"

lemma pipeline_split:
  "security_pipeline E W rq g =
     concluded E W rq (and_next (before_ml E W rq g) (\<lambda>lv g. and_next (stage_ml E W rq lv g) (\<lambda>lv g. after_ml E W rq lv g)))"
  by (simp add: security_pipeline_def concluded_def before_ml_def after_ml_def judge_request_def and_next_assoc)

section \<open>Who reads the inference function\<close>

lemma emit_infer: "emit_audit_event (E\<lparr>en_infer := mlf\<rparr>) = emit_audit_event E"
  by (simp add: fun_eq_iff emit_audit_event_def run_agents_def audit_event_def seal_event_def Let_def
      cong del: option.case_cong_weak prod.case_cong_weak sum.case_cong_weak outcome.case_cong_weak if_weak_cong)

lemma refusals_infer:
  "reasons_json (E\<lparr>en_infer := mlf\<rparr>) = reasons_json E" "risk_text (E\<lparr>en_infer := mlf\<rparr>) = risk_text E"
  "policy_refusal (E\<lparr>en_infer := mlf\<rparr>) = policy_refusal E"
  "challenge_refusal (E\<lparr>en_infer := mlf\<rparr>) = challenge_refusal E"
  by (simp_all add: fun_eq_iff reasons_json_def risk_text_def policy_refusal_def challenge_refusal_def)

lemma stages_infer:
  "stage_mitigation (E\<lparr>en_infer := mlf\<rparr>) = stage_mitigation E"
  "check_mitigation (E\<lparr>en_infer := mlf\<rparr>) = check_mitigation E"
  "audit_and_stop (E\<lparr>en_infer := mlf\<rparr>) = audit_and_stop E"
  "stage_body (E\<lparr>en_infer := mlf\<rparr>) = stage_body E"
  "locals_init (E\<lparr>en_infer := mlf\<rparr>) = locals_init E"
  "stage_route (E\<lparr>en_infer := mlf\<rparr>) = stage_route E"
  "stage_schema (E\<lparr>en_infer := mlf\<rparr>) = stage_schema E"
  "object_body (E\<lparr>en_infer := mlf\<rparr>) = object_body E"
  "rule_data (E\<lparr>en_infer := mlf\<rparr>) = rule_data E"
  "stage_anomaly (E\<lparr>en_infer := mlf\<rparr>) = stage_anomaly E"
  "Gateway_Pipeline.stage_rate (E\<lparr>en_infer := mlf\<rparr>) = Gateway_Pipeline.stage_rate E"
  "stage_decide (E\<lparr>en_infer := mlf\<rparr>) = stage_decide E"
  "forward (E\<lparr>en_infer := mlf\<rparr>) = forward E"
  by (simp_all add: fun_eq_iff stage_mitigation_def check_mitigation_def audit_and_stop_def stage_body_def
      locals_init_def stage_route_def stage_schema_def schema_verdict_def object_body_def rule_data_def
      stage_anomaly_def Gateway_Pipeline.stage_rate_def stage_decide_def forward_def forward_headers_def relayed_def
      note_login_failure_def login_name_def emit_infer refusals_infer Let_def
      cong del: option.case_cong_weak prod.case_cong_weak sum.case_cong_weak outcome.case_cong_weak if_weak_cong)

lemma composed_stages_infer:
  "stage_size (E\<lparr>en_infer := mlf\<rparr>) = stage_size E"
  "stage_lockout (E\<lparr>en_infer := mlf\<rparr>) = stage_lockout E"
  "stage_waf (E\<lparr>en_infer := mlf\<rparr>) = stage_waf E"
  "stage_replay (E\<lparr>en_infer := mlf\<rparr>) = stage_replay E"
  "stage_auth (E\<lparr>en_infer := mlf\<rparr>) = stage_auth E"
  "stage_authorise (E\<lparr>en_infer := mlf\<rparr>) = stage_authorise E"
  "stage_rules (E\<lparr>en_infer := mlf\<rparr>) = stage_rules E"
  by (simp_all add: fun_eq_iff stage_size_def stage_lockout_def stage_waf_def stage_replay_def stage_auth_def
      stage_authorise_def stage_rules_def stages_infer refusals_infer Let_def
      cong del: option.case_cong_weak prod.case_cong_weak sum.case_cong_weak outcome.case_cong_weak if_weak_cong)

lemma before_ml_infer: "before_ml (E\<lparr>en_infer := mlf\<rparr>) W rq g = before_ml E W rq g"
  by (simp add: before_ml_def inspect_request_def stages_infer composed_stages_infer)

section \<open>Two runs\<close>

text \<open>Two flows that stop with the same answer or go on with related values, in related states.\<close>

fun flow_rel :: "('a \<Rightarrow> 'b \<Rightarrow> bool) \<Rightarrow> ('g \<Rightarrow> 'g \<Rightarrow> bool) \<Rightarrow> ('a, 'g) flow \<Rightarrow> ('b, 'g) flow \<Rightarrow> bool" where
  "flow_rel R F (Stop r g) (Stop r' g') \<longleftrightarrow> r = r' \<and> F g g'"
| "flow_rel R F (Next a g) (Next b g') \<longleftrightarrow> R a b \<and> F g g'"
| "flow_rel R F _ _ \<longleftrightarrow> False"

lemma flow_rel_and_next:
  assumes "flow_rel R F x y" "\<And>g g'. F g g' \<Longrightarrow> F' g g'"
    and "\<And>a b g g'. R a b \<Longrightarrow> F g g' \<Longrightarrow> flow_rel S F' (f a g) (h b g')"
  shows "flow_rel S F' (and_next x f) (and_next y h)"
  using assms by (cases x; cases y) auto

lemma flow_rel_refl: "(\<And>a. R a a) \<Longrightarrow> (\<And>g. F g g) \<Longrightarrow> flow_rel R F x x"
  by (cases x) auto

text \<open>Local variables that differ in what the service said; gateways that differ in the service; gateways that
  agree on everything a client or the backend can see of the current request.\<close>

definition same_but_ml :: "locals \<Rightarrow> locals \<Rightarrow> bool" where
  "same_but_ml lv lv' \<longleftrightarrow> (\<exists>s c b. lv' = lv\<lparr>lv_ml_score := s, lv_ml_confidence := c, lv_ml_anomalous := b\<rparr>)"

definition other_service :: "('s, 'r, 'm, 'c) gateway \<Rightarrow> ('s, 'r, 'm, 'c) gateway \<Rightarrow> bool" where
  "other_service g g' \<longleftrightarrow> (\<exists>m. g' = g\<lparr>gw_ml := m\<rparr>)"

definition same_front :: "('s, 'r, 'm, 'c) gateway \<Rightarrow> ('s, 'r, 'm, 'c) gateway \<Rightarrow> bool" where
  "same_front g g' \<longleftrightarrow> gw_sent g = gw_sent g' \<and> gw_router g = gw_router g' \<and> gw_breaker g = gw_breaker g'
     \<and> gw_credentials g = gw_credentials g'"

lemma other_service_refl: "other_service g g"
  unfolding other_service_def by (rule exI [of _ "gw_ml g"]) simp

lemma same_but_ml_refl: "same_but_ml lv lv"
  unfolding same_but_ml_def
  by (rule exI [of _ "lv_ml_score lv"], rule exI [of _ "lv_ml_confidence lv"], rule exI [of _ "lv_ml_anomalous lv"]) simp

lemma other_service_front: "other_service g g' \<Longrightarrow> same_front g g'"
  by (auto simp: other_service_def same_front_def)

lemma differing_services:
  "other_service (h\<lparr>gw_ml := a\<rparr>) (h\<lparr>gw_ml := b\<rparr>)"
  "same_but_ml (lv\<lparr>lv_ml_score := s, lv_ml_confidence := c, lv_ml_anomalous := t\<rparr>)
     (lv\<lparr>lv_ml_score := s', lv_ml_confidence := c', lv_ml_anomalous := t'\<rparr>)"
  unfolding other_service_def same_but_ml_def
  by (rule exI [of _ b], simp)
    (rule exI [of _ s'], rule exI [of _ c'], rule exI [of _ t'], simp)

lemma stage_ml_two:
  "flow_rel same_but_ml other_service (stage_ml E W rq lv g) (stage_ml (E\<lparr>en_infer := mlf\<rparr>) W rq lv g)"
proof -
  let ?e = "event_record W rq lv"
  let ?evs = "push_bounded 50 ?e (dget_or [] (gw_recent g) (user_key lv))"
  show ?thesis
  proof (cases "should_evaluate_ml (en_prims E) (lv_id lv) None (gw_ml g)")
    case False
    then show ?thesis by (simp add: stage_ml_def Let_def other_service_refl same_but_ml_refl)
  next
    case True
    show ?thesis
    proof (cases "extract_features (en_prims E) (en_iso E) (en_lg E) (w_now W) ?evs (Some (gw_baselines g)) (Some ?e)")
      case None
      then show ?thesis using True by (simp add: stage_ml_def Let_def other_service_refl)
    next
      case (Some f)
      obtain r1 m1 r2 m2 where
        "score_request (en_infer E) (w_elapsed W) f (gw_ml g) = (r1, m1)"
        "score_request mlf (w_elapsed W) f (gw_ml g) = (r2, m2)"
        by fastforce
      then show ?thesis using True Some by (simp add: stage_ml_def Let_def differing_services)
    qed
  qed
qed

lemma same_but_ml_fields:
  assumes "same_but_ml lv lv'"
  shows "lv_id lv' = lv_id lv" "lv_ip lv' = lv_ip lv" "lv_principal lv' = lv_principal lv" "lv_text lv' = lv_text lv"
    "lv_count lv' = lv_count lv" "lv_reasons lv' = lv_reasons lv" "risk_input rq lv' = risk_input rq lv"
  using assms by (auto simp: same_but_ml_def risk_input_def)

lemma stage_rate_two:
  assumes "same_but_ml lv lv'" "other_service g g'"
  shows "flow_rel same_but_ml other_service (Gateway_Pipeline.stage_rate E W rq lv g)
    (Gateway_Pipeline.stage_rate E W rq lv' g')"
proof -
  obtain s c t m where lv': "lv' = lv\<lparr>lv_ml_score := s, lv_ml_confidence := c, lv_ml_anomalous := t\<rparr>"
    and g': "g' = g\<lparr>gw_ml := m\<rparr>"
    using assms unfolding same_but_ml_def other_service_def by blast
  obtain n sev rl where r: "check_rate (en_rate E) (w_now W) (lv_ip lv) (gw_rate g) = ((n, sev), rl)"
    by (metis prod.collapse)
  let ?lv1 = "lv\<lparr>lv_count := n, lv_rate := sev, lv_reasons := lv_reasons lv @ (if 50 < sev then [RateReason n] else [])\<rparr>"
  have "Gateway_Pipeline.stage_rate E W rq lv g = Next ?lv1 (g\<lparr>gw_rate := rl\<rparr>)"
    using r by (simp add: Gateway_Pipeline.stage_rate_def)
  moreover have "Gateway_Pipeline.stage_rate E W rq lv' g'
      = Next (?lv1\<lparr>lv_ml_score := s, lv_ml_confidence := c, lv_ml_anomalous := t\<rparr>) (g\<lparr>gw_rate := rl, gw_ml := m\<rparr>)"
    using r by (simp add: Gateway_Pipeline.stage_rate_def lv' g')
  moreover have "same_but_ml ?lv1 (?lv1\<lparr>lv_ml_score := s, lv_ml_confidence := c, lv_ml_anomalous := t\<rparr>)"
    unfolding same_but_ml_def by (intro exI) (rule refl)
  moreover have "other_service (g\<lparr>gw_rate := rl\<rparr>) (g\<lparr>gw_rate := rl, gw_ml := m\<rparr>)"
    unfolding other_service_def by (intro exI) (rule refl)
  ultimately show ?thesis by (simp only: flow_rel.simps)
qed

abbreviation same_judgement where
  "same_judgement x y \<equiv> same_but_ml (fst x) (fst y) \<and> snd x = snd y"

lemma stage_decide_two:
  assumes l: "same_but_ml lv lv'" and g: "other_service g g'"
  shows "flow_rel same_judgement same_front (stage_decide E W rq lv g) (stage_decide E W rq lv' g')"
proof -
  let ?risk = "calculate_risk (risk_input rq lv) (lv_reasons lv)"
  obtain g1 where g1: "emit_audit_event E W rq (lv_id lv) ?risk (decision_facts W lv (rs_decision ?risk)) g = Some g1"
    using emission_total by blast
  obtain g2 where g2: "emit_audit_event E W rq (lv_id lv) ?risk (decision_facts W lv' (rs_decision ?risk)) g' = Some g2"
    using emission_total by blast
  have "same_front g1 g2"
    using emit_frame [OF g1] emit_frame [OF g2] g by (auto simp: same_front_def other_service_def)
  then show ?thesis
    unfolding stage_decide_def Let_def same_but_ml_fields [OF l] g1 g2 option.case
    using l by simp
qed

lemma stage_breaker_two:
  assumes "same_judgement x y" "same_front g g'"
  shows "flow_rel same_judgement same_front (stage_breaker W x g) (stage_breaker W y g')"
  using assms same_but_ml_fields(1) [of "fst x" "fst y"]
  by (auto simp: stage_breaker_def same_front_def split: prod.split)

lemma forward_two:
  assumes "same_judgement x y" "same_front g g'"
  shows "fst (forward E W rq y g') = fst (forward E W rq x g)
    \<and> same_front (snd (forward E W rq x g)) (snd (forward E W rq y g'))"
proof -
  obtain lv lv' risk where x: "x = (lv, risk)" "y = (lv', risk)" and l: "same_but_ml lv lv'"
    using assms(1) by (cases x; cases y) auto
  show ?thesis
    using assms(2) same_but_ml_fields [OF l]
    by (simp add: forward_def x same_front_def record_answer_def record_breakdown_def note_login_failure_def Let_def
        split: outcome.split)
qed

lemma after_ml_two:
  assumes "same_but_ml lv lv'" "other_service g g'"
  shows "flow_rel same_judgement same_front (after_ml E W rq lv g) (after_ml E W rq lv' g')"
  unfolding after_ml_def
  by (rule flow_rel_and_next [OF stage_rate_two [OF assms] other_service_front])
    (assumption, rule flow_rel_and_next [OF stage_decide_two], assumption+, rule stage_breaker_two)

lemma concluded_two:
  assumes "flow_rel same_judgement same_front x y"
  shows "fst (concluded E W rq x) = fst (concluded E W rq y) \<and> same_front (snd (concluded E W rq x)) (snd (concluded E W rq y))"
  using assms forward_two [of _ _ _ _ E W rq] by (cases x; cases y) (auto simp: concluded_def)

text \<open>C4: The model is advisory.  Replace the inference by any other function, one that calls every request an
  anomaly or one that fails: the client gets the same answer, the same messages go to the ERP backend, and the
  circuit breaker, the canary router and the login failure counters end in the same state.\<close>

theorem model_is_advisory:
  "case (security_pipeline E W rq g, security_pipeline (E\<lparr>en_infer := mlf\<rparr>) W rq g) of
     ((rsp1, g1), (rsp2, g2)) \<Rightarrow> rsp1 = rsp2 \<and> same_front g1 g2"
proof -
  have c: "concluded (E\<lparr>en_infer := mlf\<rparr>) W rq x = concluded E W rq x"
    "after_ml (E\<lparr>en_infer := mlf\<rparr>) W rq = after_ml E W rq" for x
    by (simp_all add: fun_eq_iff concluded_def after_ml_def stages_infer cong: flow.case_cong)
  have "flow_rel same_judgement same_front
      (and_next (before_ml E W rq g) (\<lambda>lv g. and_next (stage_ml E W rq lv g) (\<lambda>lv g. after_ml E W rq lv g)))
      (and_next (before_ml E W rq g) (\<lambda>lv g. and_next (stage_ml (E\<lparr>en_infer := mlf\<rparr>) W rq lv g) (\<lambda>lv g. after_ml E W rq lv g)))"
    by (rule flow_rel_and_next [where R = "(=)" and F = "(=)"])
      (auto simp: same_front_def intro!: flow_rel_refl flow_rel_and_next [OF stage_ml_two] after_ml_two
        dest: other_service_front)
  from concluded_two [OF this, of E W rq] show ?thesis
    unfolding pipeline_split before_ml_infer by (simp add: c case_prod_beta)
qed

end
