(* ===== verification/Fake_Erp.thy ===== *)
theory Fake_Erp
  imports Auth_Engine
begin

text \<open>
  \<open>backend/fake_erp.py\<close>: the staging ERP that the gateway protects in the demonstration deployment.  Its state is
  the table of orders; users and inventory are constants.  FastAPI's decoding of a request into parameters
  is left out; PyJWT's \<open>encode\<close> is a parameter.  A handler answers a status and a value of \<open>erp_answer\<close>.

  The second half puts the gateway's ownership check in front of it.
\<close>

section \<open>Data\<close>

record erp_order =
  eo_id :: int
  eo_customer :: string
  eo_items :: "string list"
  eo_total :: rat
  eo_status :: string

record erp_user =
  eu_id :: int
  eu_name :: string
  eu_role :: string
  eu_email :: string

record erp_stock =
  es_sku :: string
  es_name :: string
  es_quantity :: int
  es_warehouse :: string

type_synonym erp = "(int, erp_order) dict"

definition erp_orders :: erp where
  "erp_orders =
     [(101, \<lparr>eo_id = 101, eo_customer = ''cust-882'', eo_items = [''Industrial Widget A'', ''Bearing Assembly''],
         eo_total = 142050/100, eo_status = ''shipped''\<rparr>),
      (102, \<lparr>eo_id = 102, eo_customer = ''cust-941'', eo_items = [''Hydraulic Pump v2''],
         eo_total = 5890, eo_status = ''processing''\<rparr>)]"

definition erp_users :: "(int, erp_user) dict" where
  "erp_users =
     [(1, \<lparr>eu_id = 1, eu_name = ''admin'', eu_role = ''admin'', eu_email = ''admin@erp.internal''\<rparr>),
      (2, \<lparr>eu_id = 2, eu_name = ''sales_john'', eu_role = ''sales'', eu_email = ''john.doe@erp.internal''\<rparr>)]"

definition erp_inventory :: "erp_stock list" where
  "erp_inventory =
     [\<lparr>es_sku = ''SKU-9901'', es_name = ''Industrial Widget A'', es_quantity = 420, es_warehouse = ''East-1''\<rparr>,
      \<lparr>es_sku = ''SKU-9902'', es_name = ''Bearing Assembly'', es_quantity = 1850, es_warehouse = ''Central-2''\<rparr>,
      \<lparr>es_sku = ''SKU-9903'', es_name = ''Hydraulic Pump v2'', es_quantity = 34, es_warehouse = ''West-1''\<rparr>]"

datatype erp_answer =
    Token string
  | OrderList "erp_order list" nat "string option"
  | OneOrder erp_order "string option"
  | CreatedOrder erp_order "string option"
  | OneUser erp_user "string option"
  | Stock "erp_stock list" nat "string option"
  | Detail string

section \<open>Handlers\<close>

definition mock_claims :: "string \<Rightarrow> string \<Rightarrow> time \<Rightarrow> json" where
  "mock_claims sub role now = JObj [(''sub'', JStr sub), (''role'', JStr role), (''roles'', JList [JStr role]),
     (''exp'', JInt (\<lfloor>now\<rfloor> + 3600)), (''iat'', JInt \<lfloor>now\<rfloor>)]"

definition make_mock_jwt ::
  "(json \<Rightarrow> string \<Rightarrow> string \<Rightarrow> string) \<Rightarrow> gateway_config \<Rightarrow> time \<Rightarrow> string \<Rightarrow> string \<Rightarrow> config_error + string" where
  "make_mock_jwt jwt_encode cfg now sub role =
     (case jwt_secret_key cfg of Inl e \<Rightarrow> Inl e
      | Inr key \<Rightarrow> Inr (jwt_encode (mock_claims sub role now) key (jwt_algorithm cfg)))"

definition erp_login ::
  "(json \<Rightarrow> string \<Rightarrow> string \<Rightarrow> string) \<Rightarrow> gateway_config \<Rightarrow> time \<Rightarrow> string \<Rightarrow> string \<Rightarrow> int \<times> erp_answer" where
  "erp_login jwt_encode cfg now username password =
     (if username \<in> {''admin'', ''sales_john''} \<and> password = ''password123''
      then (case make_mock_jwt jwt_encode cfg now username (if username = ''admin'' then ''admin'' else ''sales'') of
          Inl e \<Rightarrow> (500, Detail ''Internal Server Error'') | Inr t \<Rightarrow> (200, Token t))
      else (401, Detail ''Invalid username or password''))"

definition get_orders :: "string option \<Rightarrow> erp \<Rightarrow> int \<times> erp_answer" where
  "get_orders rid os = (200, OrderList (map snd os) (length os) rid)"

definition get_order_by_id :: "int \<Rightarrow> string option \<Rightarrow> erp \<Rightarrow> int \<times> erp_answer" where
  "get_order_by_id i rid os = (case dget os i of
     None \<Rightarrow> (404, Detail ''Order not found'') | Some r \<Rightarrow> (200, OneOrder r rid))"

definition next_order_id :: "erp \<Rightarrow> int" where
  "next_order_id os = (case map fst os of [] \<Rightarrow> 100 | k # ks \<Rightarrow> fold max ks k + 1)"

definition create_order ::
  "string \<Rightarrow> string list \<Rightarrow> rat \<Rightarrow> string option \<Rightarrow> erp \<Rightarrow> (int \<times> erp_answer) \<times> erp" where
  "create_order customer items amount rid os =
     (let r = \<lparr>eo_id = next_order_id os, eo_customer = customer, eo_items = items, eo_total = amount,
                eo_status = ''created''\<rparr>
      in ((200, CreatedOrder r rid), dput (next_order_id os) r os))"

definition get_user :: "int \<Rightarrow> string option \<Rightarrow> int \<times> erp_answer" where
  "get_user i rid = (case dget erp_users i of
     None \<Rightarrow> (404, Detail ''User not found'') | Some u \<Rightarrow> (200, OneUser u rid))"

definition get_inventory :: "string option \<Rightarrow> int \<times> erp_answer" where
  "get_inventory rid = (200, Stock erp_inventory (length erp_inventory) rid)"

section \<open>Order numbers\<close>

lemma fold_max_start: "k \<le> fold max ks (k :: int)"
proof (induction ks arbitrary: k)
  case (Cons x ks)
  have "k \<le> max x k" by simp
  also have "\<dots> \<le> fold max ks (max x k)" by (rule Cons.IH)
  finally show ?case by simp
qed simp

lemma fold_max_member: "x \<in> set ks \<Longrightarrow> x \<le> fold max ks (k :: int)"
proof (induction ks arbitrary: k)
  case (Cons y ks)
  show ?case
  proof (cases "x = y")
    case True
    have "x \<le> max y k" using True by simp
    also have "\<dots> \<le> fold max ks (max y k)" by (rule fold_max_start)
    finally show ?thesis by simp
  next
    case False
    then show ?thesis using Cons by simp
  qed
qed simp

lemma next_order_id_new: "i \<in> fst ` set os \<Longrightarrow> i < next_order_id os"
  using fold_max_start [of "fst (hd os)" "map fst (tl os)"] fold_max_member [of i "map fst (tl os)" "fst (hd os)"]
  by (cases os) (auto simp: next_order_id_def)

text \<open>A created order can be fetched again as it was placed, under a number that no order had before, and
  placing it leaves every other order as it was.\<close>

theorem created_order_found:
  "case create_order customer items amount rid os of (answer, os') \<Rightarrow>
     dget os (next_order_id os) = None
     \<and> get_order_by_id (next_order_id os) rid' os' = (200, OneOrder \<lparr>eo_id = next_order_id os, eo_customer = customer,
         eo_items = items, eo_total = amount, eo_status = ''created''\<rparr> rid')
     \<and> map_of os' = (map_of os)(next_order_id os \<mapsto> \<lparr>eo_id = next_order_id os, eo_customer = customer,
         eo_items = items, eo_total = amount, eo_status = ''created''\<rparr>)"
proof -
  have "dget os (next_order_id os) = None"
    using next_order_id_new [of "next_order_id os" os] by (auto simp: map_of_eq_None_iff)
  then show ?thesis by (simp add: create_order_def get_order_by_id_def Let_def update_conv')
qed

section \<open>Behind the gateway\<close>

text \<open>A run of accepted orders.\<close>

definition place_all :: "(string \<times> string list \<times> rat) list \<Rightarrow> erp \<Rightarrow> erp" where
  "place_all xs os = fold (\<lambda>(c, its, a) os. snd (create_order c its a None os)) xs os"

lemma next_order_id_grows: "next_order_id os \<le> next_order_id (snd (create_order c its a rid os))"
proof -
  have "next_order_id os \<in> fst ` set (dput (next_order_id os) r os)" for r
    by (simp add: dom_update)
  then have "next_order_id os < next_order_id (dput (next_order_id os) r os)" for r
    by (rule next_order_id_new)
  then show ?thesis by (simp add: create_order_def Let_def less_imp_le)
qed

lemma place_all_grows: "next_order_id os \<le> next_order_id (place_all xs os)"
proof (induction xs arbitrary: os)
  case (Cons x xs)
  obtain c its a where x: "x = (c, its, a)" by (cases x)
  show ?case
    using next_order_id_grows [of os c its a None] Cons.IH [of "snd (create_order c its a None os)"]
    by (simp add: place_all_def x)
qed (simp add: place_all_def)

text \<open>Decimal numerals, read back.\<close>

definition numeral_value :: "string \<Rightarrow> nat" where
  "numeral_value s = foldl (\<lambda>a c. a * 10 + (of_char c - 48)) 0 s"

lemma str_nat_value: "numeral_value (str_nat n) = n \<and> CHR ''/'' \<notin> set (str_nat n)"
proof (induction n rule: str_nat.induct)
  case (1 n)
  have v: "(of_char (char_of (48 + d :: nat)) :: nat) = 48 + d" if "d < 10" for d
    using that by simp
  have d: "(of_char (char_of (48 + d :: nat)) :: nat) = 48 + d" "char_of (48 + d :: nat) \<noteq> CHR ''/''" if "d < 10" for d
    using v [OF that] arg_cong [of "char_of (48 + d :: nat)" "CHR ''/''" "of_char :: char \<Rightarrow> nat"]
    by (auto simp del: of_char_of)
  show ?case
  proof (cases "n < 10")
    case True
    then show ?thesis using d [of n] by (subst (1 2) str_nat.simps) (auto simp: numeral_value_def)
  next
    case False
    have m: "n mod 10 < 10" by simp
    show ?thesis
      using 1 [OF False] d [OF m] False by (subst (1 2) str_nat.simps) (auto simp: numeral_value_def)
  qed
qed

lemma order_path_parts: "path_parts (''/api/orders/'' @ str_nat n) = [''api'', ''orders'', str_nat n]"
proof -
  have "split_on CHR ''/'' s = [s]" if "CHR ''/'' \<notin> set s" for s
    using that by (induction s) auto
  then have "split_on CHR ''/'' (str_nat n) = [str_nat n]" using str_nat_value by blast
  moreover have "str_nat n \<noteq> []" using str_nat_value [of n] by (subst str_nat.simps) auto
  ultimately show ?thesis by (simp add: path_parts_def)
qed

text \<open>The orders placed through the gateway are open to every account.  Whatever orders the ERP has accepted since
  it started, the number the next one gets is not in the gateway's table of owners, so the object-level check
  lets any authenticated caller read, change or delete it, whoever placed it.\<close>

theorem created_orders_unguarded:
  assumes "c_roles (caller_of P cl) = JList rs"
  shows "check_bola_idor P (''/api/orders/'' @ str_int (next_order_id (place_all xs erp_orders))) (Some cl) meth body
    = Some True"
proof -
  let ?n = "next_order_id (place_all xs erp_orders)"
  have "next_order_id erp_orders = 103" by (simp add: next_order_id_def erp_orders_def)
  then have n: "103 \<le> ?n" using place_all_grows [of erp_orders xs] by simp
  then have s: "str_int ?n = str_nat (nat ?n)" by (simp add: str_int_def)
  have "numeral_value ''101'' = 101" "numeral_value ''102'' = 102" by code_simp+
  then have "str_nat (nat ?n) \<notin> {''101'', ''102''}"
    using str_nat_value [of "nat ?n"] n by auto
  then have "dget order_ownership (str_nat (nat ?n)) = None" by (simp add: order_ownership_def)
  then show ?thesis
    using assms order_path_parts [of "nat ?n"]
    by (auto simp: check_bola_idor_def check_order_def Let_def any_staff_def or_raise_def s startswith_def
        split: bool.splits)
qed

text \<open>A token from the ERP's login is accepted by the gateway, with the account's name and role as claims, when
  both are configured alike.  The hypotheses are what PyJWT documents: a token decodes, under the key and
  algorithm it was encoded with, to its unexpired payload, and is a text without surrounding blanks.\<close>

theorem login_token_accepted:
  assumes "erp_login je cfg now username password = (200, Token tok)"
    and "\<And>role key alg. unexpired now (mock_claims username role now) \<Longrightarrow>
      jd (je (mock_claims username role now) key alg) key alg = Claims (mock_claims username role now)"
    and "\<And>c key alg. je c key alg \<noteq> [] \<and> strip (je c key alg) = je c key alg"
  shows "let v = decode_and_verify jd cfg \<lparr>ae_secret = None, ae_algorithm = None\<rparr> (Some (''Bearer '' @ tok))
    in is_valid v \<and> claims v = Some (mock_claims username (if username = ''admin'' then ''admin'' else ''sales'') now)
       \<and> (username = ''admin'' \<or> username = ''sales_john'') \<and> password = ''password123''"
proof -
  let ?role = "if username = ''admin'' then ''admin'' else ''sales''"
  obtain key where key: "jwt_secret_key cfg = Inr key" "tok = je (mock_claims username ?role now) key (jwt_algorithm cfg)"
    and u: "username = ''admin'' \<or> username = ''sales_john''" "password = ''password123''"
    using assms(1) by (auto simp: erp_login_def make_mock_jwt_def split: sum.splits if_splits)
  have "now < of_int (\<lfloor>now\<rfloor> + 3600)" by linarith
  then have "unexpired now (mock_claims username ?role now)" by (simp add: unexpired_def mock_claims_def)
  then have "jd tok key (jwt_algorithm cfg) = Claims (mock_claims username ?role now)"
    using assms(2) key(2) by blast
  moreover have "bearer_token (''Bearer '' @ tok) = tok" "tok \<noteq> []"
    using assms(3) by (simp_all add: bearer_token_def key(2))
  ultimately show ?thesis
    using key(1) u by (simp add: decode_and_verify_def judge_token_def startswith_def ae_key_def ae_alg_def Let_def)
qed

theorem created_orders_unguarded_witness:
  "check_bola_idor plain_prims (''/api/orders/'' @ str_int (next_order_id (place_all [(''cust-941'', [''Pump''], 10)] erp_orders)))
     (Some alice) ''DELETE'' None = Some True"
  by (rule created_orders_unguarded [of _ _ "[JStr ''user'']"]) (simp add: alice_caller)

definition demo_encode :: "json \<Rightarrow> string \<Rightarrow> string \<Rightarrow> string" where
  "demo_encode c k a = CHR ''<'' # (case jget c ''role'' of Some (JStr r) \<Rightarrow> r | _ \<Rightarrow> []) @ ''>''"

definition demo_decode :: "string \<Rightarrow> string \<Rightarrow> string \<Rightarrow> jwt_outcome" where
  "demo_decode t k a = Claims (mock_claims ''sales_john'' (butlast (tl t)) 5)"

theorem login_token_accepted_witness:
  "is_valid (decode_and_verify demo_decode default_config \<lparr>ae_secret = None, ae_algorithm = None\<rparr>
     (Some (''Bearer '' @ ''<sales>'')))"
proof -
  have l: "erp_login demo_encode default_config 5 ''sales_john'' ''password123'' = (200, Token ''<sales>'')"
    by code_simp
  have "strip (demo_encode c k a) = demo_encode c k a \<and> demo_encode c k a \<noteq> []" for c k a
    by (simp add: demo_encode_def strip_def py_space_def)
  then show ?thesis
    using login_token_accepted [OF l, of demo_decode]
    by (simp add: demo_encode_def demo_decode_def mock_claims_def Let_def)
qed

end
