(* ===== verification/Store_Frame.thy ===== *)
theory Store_Frame
  imports Orchestrator
begin

text \<open>
  What the mitigation engine and the agents may do to the shared state store: everything but touch a nonce.
  The locale \<open>store_predicate\<close> follows a predicate on stores through every operation of the engine
  and through the orchestrator; it is interpreted on the store without Redis.
\<close>

section \<open>What the engine leaves alone\<close>

text \<open>A predicate on stores that no operation on sets and hashes can falsify.\<close>

locale store_predicate =
  fixes ops :: "('s, hentry) store_ops" and Q :: "'s \<Rightarrow> bool"
  assumes keep_add: "Q st \<Longrightarrow> Q (op_add_to_set ops now k m st)"
    and keep_remove: "Q st \<Longrightarrow> Q (snd (op_remove_from_set ops now k m st))"
    and keep_member: "Q st \<Longrightarrow> Q (snd (op_is_member ops now k m st))"
    and keep_set: "Q st \<Longrightarrow> Q (op_set_hash_entry ops now k m v ttl st)"
    and keep_get: "Q st \<Longrightarrow> Q (snd (op_get_hash_entry ops now k m st))"
    and keep_delete: "Q st \<Longrightarrow> Q (snd (op_delete_hash_entry ops now k m st))"
begin

lemmas keep = keep_add keep_remove keep_member keep_set keep_get keep_delete

lemma keep_pairs:
  "Q st \<Longrightarrow> op_is_member ops now k m st = (b, st') \<Longrightarrow> Q st'"
  "Q st \<Longrightarrow> op_get_hash_entry ops now k m st = (x, st') \<Longrightarrow> Q st'"
  using keep_member [of st now k m] keep_get [of st now k m] by simp_all

lemma keep_and_then: "Q (store (snd r)) \<Longrightarrow> (\<And>e. Q (store e) \<Longrightarrow> Q (store (snd (f e)))) \<Longrightarrow> Q (store (snd (and_then r f)))"
  by (cases r) (auto simp: and_then_def split: sum.splits option.splits)

lemma keep_shared: "Q st \<Longrightarrow> shared_quarantine ops now cs st = (x, st') \<Longrightarrow> Q st'"
  by (induction cs arbitrary: st) (auto dest: keep_pairs split: if_splits prod.splits option.splits)

lemma keep_check: "Q (store e) \<Longrightarrow> Q (store (snd (check_quarantine ops now key q e)))"
  by (simp add: check_quarantine_def keep_delete)

lemma keep_stages:
  assumes Q: "Q (store e)"
  shows "Q (store (snd (stage_suspended ops now who e)))" "Q (store (snd (stage_quarantine ops now ip who e)))"
    "Q (store (snd (stage_token ops now tok e)))" "Q (store (snd (stage_revoked now who e)))"
    "Q (store (snd (stage_mfa now who e)))" "Q (store (snd (Mitigation_Engine.stage_rate now ip who e)))"
proof -
  show "Q (store (snd (stage_suspended ops now who e)))"
    using keep_pairs(2) [OF Q] Q by (auto simp: stage_suspended_def Let_def split: option.split prod.split)
  show "Q (store (snd (stage_quarantine ops now ip who e)))"
    using keep_shared [OF Q] Q keep_check
    by (auto simp: stage_quarantine_def simp del: shared_quarantine.simps split: option.split prod.split hentry.split)
  show "Q (store (snd (stage_token ops now tok e)))"
    using keep_pairs(1) [OF Q] Q by (auto simp: stage_token_def Let_def split: prod.split)
  show "Q (store (snd (stage_revoked now who e)))" "Q (store (snd (stage_mfa now who e)))"
    "Q (store (snd (Mitigation_Engine.stage_rate now ip who e)))"
    using Q by (simp_all add: stage_revoked_def stage_mfa_def Mitigation_Engine.stage_rate_def Let_def
        split: option.split prod.split)
qed

lemma keep_evaluate: "Q (store e) \<Longrightarrow> Q (store (snd (evaluate_request ops now ip who tok e)))"
  unfolding evaluate_request_def by (intro keep_and_then keep_stages)

lemma keep_apply: "Q (store e) \<Longrightarrow> apply_action ops cfg now a e = Inr (r, e') \<Longrightarrow> Q (store e')"
  by (auto simp: apply_action_def install_def register_mitigation_def Let_def keep
      split: if_splits action_type.splits)

lemma keep_rollback: "Q (store e) \<Longrightarrow> Q (store (snd (rollback_action ops now aid e)))"
  by (auto simp: rollback_action_def Let_def keep split: option.split action_type.split)

lemma keep_try_apply: "Q (store e) \<Longrightarrow> Q (store (try_apply ops cfg now a e))"
  using keep_apply by (fastforce simp: try_apply_def split: sum.splits)

lemma keep_fold: "Q (store e) \<Longrightarrow> Q (store (fold (try_apply ops cfg now) acts e))"
  by (induction acts arbitrary: e) (simp_all add: keep_try_apply)

lemma keep_process:
  assumes "process_security_event ops cfg internal order ok dr ev history orch = (r, orch')"
    and "mitigation orch = Some m" "Q (store m)"
  shows "\<exists>m'. mitigation orch' = Some m' \<and> Q (store m')"
  using process_mitigation [OF assms(2,1)] keep_fold [OF assms(3)] assms(3) by auto

end

text \<open>Without Redis: the store stays detached, and a nonce that is held until \<open>t\<close> stays held.\<close>

interpretation detached: store_predicate "dist_ops no_redis" standalone
  by unfold_locales (simp_all add: dist_ops_def standalone_laws)

interpretation held: store_predicate "dist_ops no_redis"
    "\<lambda>st. standalone st \<and> mem_nonce_live (fallback st) k t" for k t
  by unfold_locales (auto simp: dist_ops_def standalone_laws mem_nonce_live_def)

end
