(* ===== verification/Gateway_Replay.thy ===== *)
theory Gateway_Replay
  imports Store_Frame Gateway_Clearance Gateway_Demo
begin

text \<open>
  Replay protection of the gateway process as a whole, in a single-node deployment.  The replay guard and the
  mitigation engine share one state store; the locale \<open>guarded_store\<close> lifts what \<open>Store_Frame\<close> says of
  the engine to the process, and its interpretations follow a recorded nonce through runs of requests and
  management calls.
\<close>

section \<open>The process\<close>

text \<open>With such a predicate, a gateway keeps it if the guard keeps it when it records a nonce under
  circumstances that satisfy \<open>T\<close>.\<close>

locale guarded_store = store_predicate "en_store E" Q
  for E :: "('s, 'r, 'm, 'c) env" and Q +
  fixes T :: "world \<Rightarrow> bool"
  assumes keep_nonce: "Q st \<Longrightarrow> T W \<Longrightarrow> op_set_nonce_nx (en_store E) (w_now W) k n st = (b, st') \<Longrightarrow> Q st'"
begin

lemma keep_agents:
  assumes "Q (store (gw_engine g))"
  shows "Q (store (gw_engine (run_agents E W e f g)))"
proof -
  let ?hist = "map event_of (dget_or [] (gw_recent g) (if af_principal f = [] then af_ip f else af_principal f))"
  obtain plan orch where p: "process_security_event (en_store E) (en_cfg E) (en_internal E) (en_set_order E)
      (w_agents_ok W) (w_agents W) (event_of e) (Some ?hist) (lend_engine g) = (plan, orch)"
    by fastforce
  have "mitigation (lend_engine g) = Some (gw_engine g)" by (simp add: lend_engine_def)
  from keep_process [OF p this assms] obtain m' where "mitigation orch = Some m'" "Q (store m')" by blast
  then show ?thesis using p by (auto simp: run_agents_def Let_def split: option.split)
qed

lemma keep_analysts:
  assumes "Q (store (gw_engine g))"
  shows "Q (store (gw_engine (snd (agents_approve_action E W aid who g))))"
    "Q (store (gw_engine (snd (agents_reject_action W aid who why g))))"
    "Q (store (gw_engine (snd (agents_revoke_action E W aid who g))))"
  using assms keep_try_apply keep_rollback
  by (auto simp: agents_approve_action_def agents_reject_action_def agents_revoke_action_def agents_outcome_def
      orch_approve_def orch_reject_def orch_revoke_def lend_engine_def Let_def
      split: sum.splits agent_error.splits option.splits if_splits)

sublocale process_invariant E "\<lambda>g. Q (store (gw_engine g))" T
proof
  show "Q (store (gw_engine (g\<lparr>gw_engine := e\<rparr>)))"
    if "Q (store (gw_engine g))" "evaluate_request (en_store E) (w_now W) ip who tok (gw_engine g) = (r, e)"
    for g W ip who tok r e
    using keep_evaluate [OF that(1), of "w_now W" ip who tok] that(2) by simp
  show "Q (store (gw_engine g'))"
    if "Q (store (gw_engine g))" "emit_audit_event E W rq rid risk f g = Some g'" for g W rq rid risk f g'
    using that keep_agents by (auto simp: emit_audit_event_def Let_def)
  show "Q (store (gw_engine (snd (api_step E W call g))))" if "Q (store (gw_engine g))" for g W call
    using api_frame [of call E W g] that
    by (elim disjE exE conjE) (simp_all add: api_step_def keep_analysts)
qed (auto dest: keep_nonce)

end

abbreviation single_node where
  "single_node E \<equiv> en_store E = dist_ops no_redis"

lemma nonce_keeps:
  assumes "standalone st" "op_set_nonce_nx (dist_ops no_redis) now k' n st = (b, st')"
  shows "standalone st'" "now \<le> t \<Longrightarrow> mem_nonce_live (fallback st) k t \<Longrightarrow> mem_nonce_live (fallback st') k t"
  using assms set_nonce_nx_standalone [OF assms(1), of now k' n]
    standalone_nonces.live_preserved [of st k t now k' n]
  by (simp_all add: dist_ops_def)

interpretation detaching: guarded_store E "\<lambda>st. single_node E \<longrightarrow> standalone st" "\<lambda>_. True" for E
  by unfold_locales (auto simp: detached.keep dest: nonce_keeps)

interpretation holding: guarded_store E "\<lambda>st. single_node E \<longrightarrow> standalone st \<and> mem_nonce_live (fallback st) k t"
    "\<lambda>W. w_now W \<le> t" for E k t
  by unfold_locales (auto simp: held.keep dest: nonce_keeps)

section \<open>A forwarded write is not forwarded again\<close>

text \<open>The guard's verdict on a write.\<close>

lemma nonce_op [simp]: "op_set_nonce_nx (dist_ops api) = set_nonce_nx api"
  by (simp add: dist_ops_def)

abbreviation guard_verdict where
  "guard_verdict E W rq m \<equiv> validate_request (op_set_nonce_nx (en_store E)) 300 (w_now W) (header rq ''x-nonce'')
     (header rq ''idempotency-key'') (time_header rq) (store m)"

lemma fresh_write:
  assumes "hr_method rq \<in> set mutating_methods" "fst (freshness E W rq m)"
  shows "\<not> is_replay (guard_verdict E W rq m)"
    "snd (freshness E W rq m) = m\<lparr>store := snd (guard_verdict E W rq m)\<rparr>"
  using assms by (auto simp: freshness_def is_replay_def split: if_splits prod.splits)

lemma replayed_write_stops:
  assumes "hr_method rq \<in> set mutating_methods"
    "is_replay (guard_verdict E W rq (after_mitigation E W rq (gw_engine g)))"
  shows "gw_sent (snd (security_pipeline E W rq g)) = gw_sent g"
proof -
  have "\<not> fst (freshness E W rq (after_mitigation E W rq (gw_engine g)))"
    using fresh_write(1) [OF assms(1)] assms(2) by blast
  then show ?thesis
    using forwarded_cleared [where E = E and W = W and rq = rq and g = g]
    by (auto simp: cleared_def split: prod.splits)
qed

text \<open>Once a write with a nonce was forwarded, its nonce is held for the 300 seconds of the window.\<close>

lemma forwarded_nonce_held:
  assumes "single_node E" "standalone (store (gw_engine g))"
    and wr: "hr_method rq \<in> set mutating_methods"
      "request_key (header rq ''x-nonce'') (header rq ''idempotency-key'') = Some k"
    and sent: "gw_sent (snd (security_pipeline E W rq g)) \<noteq> gw_sent g"
    and t: "w_now W \<le> t" "t \<le> w_now W + 300"
  shows "mem_nonce_live (fallback (store (gw_engine (snd (security_pipeline E W rq g))))) k t"
proof -
  let ?Q = "\<lambda>g. single_node E \<longrightarrow> standalone (store (gw_engine g)) \<and> mem_nonce_live (fallback (store (gw_engine g))) k t"
  obtain x g3 where g3: "and_next (inspect_request E W rq g) (judge_request E W rq) = Next x g3"
    using sent upstream.inv_guards [of g "gw_sent g" "gw_router g" E W rq]
    by (cases "and_next (inspect_request E W rq g) (judge_request E W rq)") (auto simp: security_pipeline_def)
  then obtain lv g1 where g1: "inspect_request E W rq g = Next lv g1" "judge_request E W rq lv g1 = Next x g3"
    by (auto simp: and_next_Next)
  then obtain lv' g2 where g2: "stage_replay E W rq lv g1 = Next lv' g2"
    and rest: "and_next (stage_auth E W rq lv' g2) (\<lambda>lv g. and_next (stage_authorise E rq lv g) (\<lambda>lv g.
       and_next (stage_rules E W rq lv g) (\<lambda>lv g. and_next (stage_anomaly E W rq lv g) (\<lambda>lv g.
       and_next (stage_ml E W rq lv g) (\<lambda>lv g. and_next (Gateway_Pipeline.stage_rate E W rq lv g) (\<lambda>lv g.
       and_next (stage_decide E W rq lv g) (stage_breaker W))))))) = Next x g3"
    unfolding judge_request_def and_next_Next [of "stage_replay E W rq lv g1"] by blast
  have "standalone (store (gw_engine g1))"
    using detaching.inv_inspect [of E g W rq] assms(1,2) g1(1) by simp
  moreover have "fst (freshness E W rq (gw_engine g1))" "g2 = g1\<lparr>gw_engine := snd (freshness E W rq (gw_engine g1))\<rparr>"
    using g2 by (simp_all add: stage_replay_Next)
  moreover from this(1) have "\<not> is_replay (guard_verdict E W rq (gw_engine g1))"
      "snd (freshness E W rq (gw_engine g1)) = (gw_engine g1)\<lparr>store := snd (guard_verdict E W rq (gw_engine g1))\<rparr>"
    by (rule fresh_write [OF wr(1)])+
  ultimately have "?Q g2"
    using assms(1) t(2) standalone_nonces.accepted_is_live [OF _ wr(2), of "store (gw_engine g1)"]
    by (simp add: standalone_nonces.validate_inv)
  then have "flow_inv ?Q (Next x g3)"
    unfolding rest [symmetric] by (intro flow_inv_and_next holding.inv_stages holding.inv_pure_stages t(1))
  then have "?Q (snd (forward E W rq x g3))"
    using holding.inv_forward t(1) by simp
  then show ?thesis using g3 assms(1) by (simp add: security_pipeline_def)
qed

lemma held_nonce_stops:
  assumes "single_node E" "standalone (store (gw_engine g))"
    and "mem_nonce_live (fallback (store (gw_engine g))) k (w_now W)"
    and wr: "hr_method rq \<in> set mutating_methods"
      "request_key (header rq ''x-nonce'') (header rq ''idempotency-key'') = Some k"
  shows "gw_sent (snd (security_pipeline E W rq g)) = gw_sent g"
proof -
  let ?m = "after_mitigation E W rq (gw_engine g)"
  have "standalone (store ?m) \<and> mem_nonce_live (fallback (store ?m)) k (w_now W)"
    using held.keep_evaluate [of "gw_engine g" k "w_now W"] assms(1-3) by (simp add: after_mitigation_def)
  then have "is_replay (guard_verdict E W rq ?m)"
    using wr(2) assms(1) by (cases "check_timestamp 300 (w_now W) (time_header rq)")
      (simp_all add: validate_request_keyed validate_request_stale standalone_nonces.set_nx_result
        is_replay_def [of "((_, _, _), _)"])
  then show ?thesis by (rule replayed_write_stops [OF wr(1)])
qed

lemma stale_stops:
  assumes "hr_method rq \<in> set mutating_methods" "check_timestamp 300 (w_now W) (time_header rq) \<noteq> None"
  shows "gw_sent (snd (security_pipeline E W rq g)) = gw_sent g"
  by (rule replayed_write_stops [OF assms(1) validate_request_stale(1) [OF assms(2)]])

text \<open>C3: No write reaches the ERP backend twice.  Start a single-node process and let anything happen.
  Suppose it forwards a write that carries a nonce (or an idempotency key) and a numeric time stamp not ahead
  of the gateway's clock.  Then, whatever requests and management calls come in
  between, nothing that carries the same key and the same time stamp is forwarded at any later time, whoever
  sends it, to whatever path.\<close>

theorem no_write_forwarded_twice:
  assumes "en_store E = dist_ops no_redis"
    and g: "g = gateway_run E before (gateway_init E (dist_init None) u)"
    and first: "gw_sent (snd (security_pipeline E W rq g)) \<noteq> gw_sent g"
    and message: "hr_method rq \<in> set mutating_methods" "hr_method rq' \<in> set mutating_methods"
      "request_key (header rq ''x-nonce'') (header rq ''idempotency-key'') = Some k"
      "request_key (header rq' ''x-nonce'') (header rq' ''idempotency-key'') = Some k"
      "time_header rq = Some s" "time_header rq' = Some s"
    and stamp: "parse_float s = Some (FNum ts)" "ts \<le> w_now W"
    and clock: "\<forall>x \<in> set between. w_now (op_world x) \<le> w_now W'" "w_now W \<le> w_now W'"
  shows "let g' = gateway_run E (Serve W rq # between) g
         in gw_sent (snd (security_pipeline E W' rq' g')) = gw_sent g'"
proof (cases "w_now W' \<le> w_now W + 300")
  case True
  let ?g1 = "gateway_step E (Serve W rq) g" and ?g' = "gateway_run E (Serve W rq # between) g"
  have s: "standalone (store (gw_engine g))"
    using detaching.inv_run [of E "gateway_init E (dist_init None) u" before] assms(1) g
    by (simp add: gateway_init_def mitigation_init_def standalone_init)
  have s1: "standalone (store (gw_engine ?g1))"
    using detaching.inv_step [of E g "Serve W rq"] assms(1) s by simp
  have "mem_nonce_live (fallback (store (gw_engine ?g1))) k (w_now W')"
    using forwarded_nonce_held [OF assms(1) s message(1,3) first clock(2) True] by simp
  then have "standalone (store (gw_engine ?g')) \<and> mem_nonce_live (fallback (store (gw_engine ?g'))) k (w_now W')"
    using holding.inv_run [of E ?g1 k "w_now W'" between] s1 assms(1) clock(1) by simp
  then show ?thesis
    using held_nonce_stops [OF assms(1) _ _ message(2,4)] by (simp add: Let_def)
next
  case False
  have "s \<noteq> []" using stamp(1) by (auto simp: parse_float_def split_sign_def strip_def
        parse_udecimal_def lower_def)
  then have "check_timestamp 300 (w_now W') (time_header rq') \<noteq> None"
    using fresh_finite_timestamp [OF stamp(1), of 300 "w_now W'"] False stamp(2) message(6) by simp
  then show ?thesis using stale_stops [OF message(2)] by (simp add: Let_def)
qed

end
