(* ===== verification/Gateway_Lockout.thy ===== *)
theory Gateway_Lockout
  imports Gateway_Clearance Gateway_Demo
begin

text \<open>
  The lockout of the gateway process as a whole: how the failures that the credential defence counts
  for an address come about, and when the address is locked out.
\<close>

section \<open>The failures of an address\<close>

definition recent_failures :: "time \<Rightarrow> string \<Rightarrow> credential_defense \<Rightarrow> time list" where
  "recent_failures now c cd = recent (now - 300) (dget_or [] (ip_failures cd) c)"

definition shipped_limits :: "credential_defense \<Rightarrow> bool" where
  "shipped_limits cd \<longleftrightarrow> cd_window cd = 300 \<and> failure_threshold cd = 5"

lemma check_keeps_recent:
  assumes "shipped_limits cd" "now \<le> b" "check_status now ip [] cd = (v, cd')"
  shows "shipped_limits cd' \<and> recent_failures b c cd' = recent_failures b c cd"
  using assms by (auto simp: shipped_limits_def recent_failures_def check_status_ip_only Let_def recent_recent)

lemma failure_adds_recent:
  "shipped_limits (record_failure t ip u cd) = shipped_limits cd"
  "recent_failures b c (record_failure t ip u cd) = recent_failures b c cd @ (if ip = c then recent (b - 300) [t] else [])"
  by (simp_all add: shipped_limits_def recent_failures_def record_failure_def Let_def)

lemma lockout_verdict:
  "shipped_limits cd \<Longrightarrow> fst (fst (check_status now ip [] cd)) \<longleftrightarrow> 5 \<le> length (recent_failures now ip cd)"
  by (simp add: shipped_limits_def recent_failures_def check_status_ip_only Let_def)

text \<open>Until it forwards, the middleware adds no failure and forgets none that is still recent.\<close>

interpretation counting: stage_invariant E
    "\<lambda>g. shipped_limits (gw_credentials g) \<and> recent_failures b c (gw_credentials g) = ts" "\<lambda>W. w_now W \<le> b" for E b c ts
  by unfold_locales (auto simp: emit_frame dest: check_keeps_recent)

section \<open>Failures in runs\<close>

text \<open>A rejected login: it was forwarded, and the ERP answered 401 at the first attempt.\<close>

definition rejected_login ::
  "('s, 'r, 'm, 'c) env \<Rightarrow> world \<Rightarrow> http_request \<Rightarrow> ('s, 'r, 'm, 'c) gateway \<Rightarrow> bool" where
  "rejected_login E W rq g \<longleftrightarrow> hr_path rq = ''/api/auth/login''
     \<and> (case w_upstream W of Answered status hs content \<Rightarrow> status = 401 | _ \<Rightarrow> False)
     \<and> gw_sent (snd (security_pipeline E W rq g)) \<noteq> gw_sent g"

fun login_failures ::
  "('s, 'r, 'm, 'c) env \<Rightarrow> string \<Rightarrow> gateway_op list \<Rightarrow> ('s, 'r, 'm, 'c) gateway \<Rightarrow> time list" where
  "login_failures E c [] g = []"
| "login_failures E c (Serve W rq # ops) g =
     (if client_of E rq = c \<and> rejected_login E W rq g then [w_later W] else [])
     @ login_failures E c ops (gateway_step E (Serve W rq) g)"
| "login_failures E c (Manage W call # ops) g = login_failures E c ops (gateway_step E (Manage W call) g)"

lemma forward_credentials:
  "gw_credentials (snd (forward E W rq (lv, risk) g)) =
     (if hr_path rq = ''/api/auth/login'' \<and> (case w_upstream W of Answered s hs x \<Rightarrow> s = 401 | _ \<Rightarrow> False)
      then record_failure (w_later W) (lv_ip lv) (login_name E (lv_text lv)) (gw_credentials g)
      else gw_credentials g)"
  by (simp add: forward_def Let_def note_login_failure_def record_answer_def record_breakdown_def split: outcome.split)

lemma manage_credentials: "gw_credentials (snd (api_step E W call g)) = gw_credentials g"
  by (cases call)
    (auto simp: api_step_def Let_def submit_soc_feedback_def trigger_ml_retraining_def promote_canary_def
      canary_answer_def agents_approve_action_def agents_reject_action_def agents_revoke_action_def
      agents_outcome_def split: option.split sum.split prod.split bool.split json.split agent_error.split)

text \<open>The stages that score a request do not change the address it is accounted to.\<close>

lemma judge_stages_ip:
  "stage_replay E W rq lv g = Next lv' g' \<Longrightarrow> lv_ip lv' = lv_ip lv"
  "stage_auth E W rq lv g = Next lv' g' \<Longrightarrow> lv_ip lv' = lv_ip lv"
  "stage_authorise E rq lv g = Next lv' g' \<Longrightarrow> lv_ip lv' = lv_ip lv"
  "stage_rules E W rq lv g = Next lv' g' \<Longrightarrow> lv_ip lv' = lv_ip lv"
  "stage_anomaly E W rq lv g = Next lv' g' \<Longrightarrow> lv_ip lv' = lv_ip lv"
  "stage_ml E W rq lv g = Next lv' g' \<Longrightarrow> lv_ip lv' = lv_ip lv"
  "Gateway_Pipeline.stage_rate E W rq lv g = Next lv' g' \<Longrightarrow> lv_ip lv' = lv_ip lv"
  "stage_decide E W rq lv g = Next x g' \<Longrightarrow> lv_ip (fst x) = lv_ip lv"
  "stage_breaker W x g = Next y g' \<Longrightarrow> y = x"
  by (auto simp: stage_replay_Next stage_auth_def stage_authorise_def stage_rules_def stage_anomaly_def
      stage_ml_def Gateway_Pipeline.stage_rate_def stage_decide_def stage_breaker_def check_mitigation_Next Let_def
      split: option.splits prod.splits if_splits bool.splits)

lemma judge_ip:
  assumes "judge_request E W rq lv g = Next x g'"
  shows "lv_ip (fst x) = lv_ip lv"
  using assms unfolding judge_request_def and_next_Next by (elim exE conjE) (metis judge_stages_ip)

lemma pipeline_failures:
  assumes "shipped_limits (gw_credentials g)" "w_now W \<le> b"
  shows "shipped_limits (gw_credentials (snd (security_pipeline E W rq g)))
    \<and> recent_failures b c (gw_credentials (snd (security_pipeline E W rq g))) = recent_failures b c (gw_credentials g)
       @ (if client_of E rq = c \<and> rejected_login E W rq g then recent (b - 300) [w_later W] else [])"
proof (cases "and_next (inspect_request E W rq g) (judge_request E W rq)")
  case (Stop r g1)
  then show ?thesis
    using counting.inv_guards [of g b c "recent_failures b c (gw_credentials g)" W E rq] assms
      upstream.inv_guards [of g "gw_sent g" "gw_router g" E W rq]
    by (simp add: security_pipeline_def rejected_login_def)
next
  case (Next x g2)
  then obtain lv g1 where i: "inspect_request E W rq g = Next lv g1" and j: "judge_request E W rq lv g1 = Next x g2"
    by (auto simp: and_next_Next)
  have ip: "lv_ip (fst x) = client_of E rq"
    using judge_ip [OF j] inspect_request_Next(8) [OF i] by (simp add: inspected_def)
  have c: "shipped_limits (gw_credentials g2) \<and> recent_failures b c (gw_credentials g2) = recent_failures b c (gw_credentials g)"
    using counting.inv_guards [of g b c "recent_failures b c (gw_credentials g)" W E rq] assms Next by simp
  have s: "gw_sent (snd (forward E W rq x g2)) \<noteq> gw_sent g"
    using judge_request_Next(3) [OF j inspect_request_Next(8) [OF i]]
      forward_sent [of x W rq E g2] judge_request_Next(5) [OF j inspect_request_Next(8) [OF i]]
      inspect_request_Next(11) [OF i]
      upstream.inv_guards [of g "gw_sent g" "gw_router g" E W rq] Next by auto
  show ?thesis
    using c s ip Next by (cases x)
      (simp add: security_pipeline_def rejected_login_def forward_credentials failure_adds_recent)
qed

lemma run_failures:
  assumes "shipped_limits (gw_credentials g)" "\<forall>x \<in> set ops. w_now (op_world x) \<le> b"
  shows "shipped_limits (gw_credentials (gateway_run E ops g))
    \<and> recent_failures b c (gw_credentials (gateway_run E ops g))
      = recent_failures b c (gw_credentials g) @ recent (b - 300) (login_failures E c ops g)"
  using assms
proof (induction ops arbitrary: g)
  case (Cons x ops)
  show ?case
  proof (cases x)
    case (Serve W rq)
    then show ?thesis
      using Cons.IH [of "gateway_step E x g"] Cons.prems pipeline_failures [of g W b E rq c] by simp
  next
    case (Manage W call)
    then show ?thesis
      using Cons.IH [of "gateway_step E x g"] Cons.prems by (simp add: manage_credentials)
  qed
qed simp

lemma stage_lockout_stops:
  "case stage_lockout E W rq lv g of
     Stop r g' \<Rightarrow> fst (fst (check_status (w_now W) (lv_ip lv) [] (gw_credentials g))) \<and> rs_status r = 403
   | Next lv' g' \<Rightarrow> \<not> fst (fst (check_status (w_now W) (lv_ip lv) [] (gw_credentials g)))"
proof -
  obtain locked threat why cd where c: "check_status (w_now W) (lv_ip lv) [] (gw_credentials g) = ((locked, threat, why), cd)"
    by (metis prod.exhaust)
  show ?thesis
    by (auto simp: stage_lockout_def c refusal_def Let_def dest!: audit_and_stop_answer split: flow.split)
qed

text \<open>C6: The lockout is exact for the process as a whole.  Start the gateway and let any requests and
  management calls happen, none of them later than \<open>W\<close>.  Then the lockout stage stops a
  request of a client, with status 403, if and only if the ERP has rejected at least five forwarded logins from that
  client's address in the last 300 seconds; and while it does, nothing of the client is sent upstream.\<close>

theorem lockout_end_to_end:
  assumes "\<forall>x \<in> set ops. w_now (op_world x) \<le> w_now W"
  shows "let g0 = gateway_init E s u; g = gateway_run E ops g0; lv = stage_body E rq (locals_init E W rq);
             n = length (filter (\<lambda>t. w_now W - 300 < t) (login_failures E (client_of E rq) ops g0))
         in (case stage_lockout E W rq lv g of Stop r g' \<Rightarrow> 5 \<le> n \<and> rs_status r = 403 | Next lv' g' \<Rightarrow> n < 5)
          \<and> (gw_sent (snd (security_pipeline E W rq g)) = gw_sent g \<or> n < 5)"
proof -
  let ?start = "gateway_init E s u"
  let ?g = "gateway_run E ops ?start" and ?c = "client_of E rq"
  let ?n = "length (filter (\<lambda>t. w_now W - 300 < t) (login_failures E ?c ops ?start))"
  have "shipped_limits (gw_credentials ?start)" "recent_failures (w_now W) ?c (gw_credentials ?start) = []"
    by (simp_all add: gateway_init_def credential_defense_init_def shipped_limits_def recent_failures_def)
  then have g: "shipped_limits (gw_credentials ?g)" "length (recent_failures (w_now W) ?c (gw_credentials ?g)) = ?n"
    using run_failures [OF _ assms, of ?start E ?c] by (simp_all add: recent_def)
  have v: "fst (fst (check_status (w_now W) ?c [] (gw_credentials ?g))) \<longleftrightarrow> 5 \<le> ?n"
    using lockout_verdict [OF g(1), of "w_now W" ?c] g(2) by simp
  have "lv_ip (stage_body E rq (locals_init E W rq)) = ?c"
    by (simp add: stage_body_def locals_init_def client_of_def Let_def)
  then have "case stage_lockout E W rq (stage_body E rq (locals_init E W rq)) ?g of
      Stop r g' \<Rightarrow> 5 \<le> ?n \<and> rs_status r = 403 | Next lv' g' \<Rightarrow> ?n < 5"
    using v stage_lockout_stops [where E = E and W = W and rq = rq and lv = "stage_body E rq (locals_init E W rq)" and g = ?g]
    by (simp split: flow.splits)
  moreover have "gw_sent (snd (security_pipeline E W rq ?g)) = gw_sent ?g \<or> ?n < 5"
    using forwarded_cleared [where E = E and W = W and rq = rq and g = ?g] v
    by (auto simp: cleared_def split: prod.splits)
  ultimately show ?thesis by (simp add: Let_def)
qed

end
