(* ===== verification/Gateway_Verdict.thy ===== *)
theory Gateway_Verdict
  imports Gateway_Clearance Gateway_Demo
begin

text \<open>
  The middleware against a reference definition of what should be forwarded: a request goes upstream exactly
  if it is cleared (\<open>Gateway_Clearance\<close>) and the risk engine, given the findings of the rules, the anomaly detector
  and the rate limiter in the present state, allows or limits it.  The reference has no state: it reads
  the gateway and does not thread it through the stages.
\<close>

section \<open>The reference\<close>

text \<open>The local variables of a cleared request before and after identification.\<close>

definition entry_locals :: "('s, 'r, 'm, 'c) env \<Rightarrow> world \<Rightarrow> http_request \<Rightarrow> locals" where
  "entry_locals E W rq = (stage_body E rq (locals_init E W rq))\<lparr>lv_waf := 0, lv_rule := matching_rule (route_of E rq)\<rparr>"

definition auth_locals :: "('s, 'r, 'm, 'c) env \<Rightarrow> world \<Rightarrow> http_request \<Rightarrow> locals" where
  "auth_locals E W rq = (let lv = entry_locals E W rq; v = verdict_on E rq in
     if auth_exempt (hr_path rq) (lv_rule lv) then lv\<lparr>lv_exempt := True, lv_auth_anomaly := 0, lv_trust := 85/100\<rparr>
     else lv\<lparr>lv_claims := claims v, lv_auth_anomaly := anomaly v, lv_trust := trust v, lv_principal := principal_of E rq\<rparr>)"

definition identified_locals :: "('s, 'r, 'm, 'c) env \<Rightarrow> world \<Rightarrow> http_request \<Rightarrow> locals" where
  "identified_locals E W rq = (auth_locals E W rq)\<lparr>lv_body := object_body E (body_text E rq)\<rparr>"

text \<open>The findings: rules, anomalies, the model's advice and the rate.  \<open>None\<close> where one of them raises.\<close>

definition score_stages ::
  "('s, 'r, 'm, 'c) env \<Rightarrow> world \<Rightarrow> http_request \<Rightarrow> locals \<Rightarrow> ('s, 'r, 'm, 'c) gateway
     \<Rightarrow> (locals, ('s, 'r, 'm, 'c) gateway) flow" where
  "score_stages E W rq lv g =
     and_next (stage_rules E W rq lv g) (\<lambda>lv g. and_next (stage_anomaly E W rq lv g) (\<lambda>lv g.
     and_next (stage_ml E W rq lv g) (\<lambda>lv g. Gateway_Pipeline.stage_rate E W rq lv g)))"

definition findings ::
  "('s, 'r, 'm, 'c) env \<Rightarrow> world \<Rightarrow> http_request \<Rightarrow> ('s, 'r, 'm, 'c) gateway \<Rightarrow> locals option" where
  "findings E W rq g = (case score_stages E W rq (identified_locals E W rq) g of
     Next lv g' \<Rightarrow> Some lv | Stop r g' \<Rightarrow> None)"

definition admitted ::
  "('s, 'r, 'm, 'c) env \<Rightarrow> world \<Rightarrow> http_request \<Rightarrow> ('s, 'r, 'm, 'c) gateway \<Rightarrow> bool" where
  "admitted E W rq g \<longleftrightarrow> (case findings E W rq g of
     None \<Rightarrow> False
   | Some lv \<Rightarrow> rs_decision (calculate_risk (risk_input rq lv) (lv_reasons lv)) \<in> {ALLOW, decision.LIMIT} \<and> lv_count lv \<le> 1000)"

section \<open>A cleared request, stage by stage\<close>

lemma entry_text [simp]:
  "lv_text (entry_locals E W rq) = body_text E rq" "lv_ip (entry_locals E W rq) = client_of E rq"
  "lv_rule (entry_locals E W rq) = matching_rule (route_of E rq)" "lv_claims (entry_locals E W rq) = None"
  "lv_exempt (entry_locals E W rq) = False" "lv_id (entry_locals E W rq) = request_id_of W rq"
  by (simp_all add: entry_locals_def stage_body_def body_text_def locals_init_def client_of_def Let_def)

lemma inspect_passes:
  assumes c: "unmitigated E W rq None (gw_engine g)" "size_ok E rq" "waf_clean E rq" "path_known (route_of E rq)"
    "method_allowed (route_of E rq)" "well_formed_body E rq"
    "\<not> fst (fst (check_status (w_now W) (client_of E rq) [] (gw_credentials g)))"
  shows "inspect_request E W rq g = Next (entry_locals E W rq)
    (g\<lparr>gw_engine := after_mitigation E W rq (gw_engine g),
       gw_credentials := snd (check_status (w_now W) (client_of E rq) [] (gw_credentials g))\<rparr>)"
proof -
  let ?lv = "locals_init E W rq"
  let ?g1 = "g\<lparr>gw_engine := after_mitigation E W rq (gw_engine g)\<rparr>"
  have ip: "lv_ip ?lv = client_of E rq" by (simp add: locals_init_def client_of_def)
  have s1: "stage_mitigation E W rq ?lv g = Next ?lv ?g1"
    using c(1) by (simp add: stage_mitigation_def check_mitigation_Next unmitigated_def after_mitigation_def ip)
  have s2: "stage_size E W rq ?lv ?g1 = Next ?lv ?g1" using c(2) by (simp add: stage_size_Next)
  let ?lv2 = "(stage_body E rq ?lv)\<lparr>lv_waf := 0\<rparr>"
  let ?g2 = "?g1\<lparr>gw_credentials := snd (check_status (w_now W) (client_of E rq) [] (gw_credentials g))\<rparr>"
  have s3: "stage_lockout E W rq (stage_body E rq ?lv) ?g1 = Next ?lv2 ?g2"
    using c(7) ip by (auto simp: stage_lockout_Next stage_body_def check_status_ip_only Let_def)
  have b: "lv_text ?lv2 = body_text E rq"
    "lv_payload ?lv2 = (if lv_text ?lv2 = [] then None else en_loads E (lv_text ?lv2))"
    by (simp_all add: stage_body_def body_text_def Let_def)
  have s4: "stage_waf E W rq ?lv2 ?g2 = Next ?lv2 ?g2" using c(3) by (simp add: stage_waf_Next [OF b])
  have s5: "stage_route E rq ?lv2 ?g2 = Next (entry_locals E W rq) ?g2"
    using c(4,5) by (simp add: stage_route_Next entry_locals_def)
  have s6: "stage_schema E rq (entry_locals E W rq) ?g2 = Next (entry_locals E W rq) ?g2"
    using c(6) by (simp add: stage_schema_Next)
  show ?thesis by (simp add: inspect_request_def s1 s2 s3 s4 s5 s6)
qed

lemma stage_auth_entry:
  "stage_auth E W rq (entry_locals E W rq) g = Next lv g' \<longleftrightarrow> lv = auth_locals E W rq \<and>
     (auth_exempt (hr_path rq) (matching_rule (route_of E rq)) \<and> g' = g
      \<or> \<not> auth_exempt (hr_path rq) (matching_rule (route_of E rq)) \<and> is_valid (verdict_on E rq)
        \<and> unmitigated E W rq (Some (principal_of E rq)) (gw_engine g)
        \<and> g' = g\<lparr>gw_engine := snd (evaluate_request (en_store E) (w_now W) (client_of E rq) (Some (principal_of E rq))
             (Some (auth_header rq)) (gw_engine g))\<rparr>)"
  by (auto simp: stage_auth_def auth_locals_def verdict_on_def principal_of_def unmitigated_def check_mitigation_Next Let_def)

lemma auth_locals_claims:
  "checked_claims ((auth_locals E W rq)\<lparr>lv_body := b\<rparr>) =
     (if auth_exempt (hr_path rq) (matching_rule (route_of E rq)) then None
      else case claims (verdict_on E rq) of Some c \<Rightarrow> if truthy c then Some c else None | None \<Rightarrow> None)"
  by (auto simp: auth_locals_def checked_claims_def Let_def split: option.split)

lemma auth_locals_fields [simp]:
  "lv_text (auth_locals E W rq) = body_text E rq" "lv_id (auth_locals E W rq) = request_id_of W rq"
  by (simp_all add: auth_locals_def Let_def)

lemma cleared_identify:
  assumes "identified E W rq m"
  shows "\<exists>m'. and_next (stage_auth E W rq (entry_locals E W rq) (g\<lparr>gw_engine := m, gw_credentials := cd\<rparr>))
      (\<lambda>lv g. stage_authorise E rq lv g)
    = Next (identified_locals E W rq) (g\<lparr>gw_engine := m', gw_credentials := cd\<rparr>)"
proof -
  have "\<exists>m'. stage_auth E W rq (entry_locals E W rq) (g\<lparr>gw_engine := m, gw_credentials := cd\<rparr>)
      = Next (auth_locals E W rq) (g\<lparr>gw_engine := m', gw_credentials := cd\<rparr>)"
  proof (cases "auth_exempt (hr_path rq) (matching_rule (route_of E rq))")
    case True
    then show ?thesis by (intro exI [of _ m]) (simp add: stage_auth_entry)
  next
    case False
    then show ?thesis
      using assms by (intro exI [of _ "snd (evaluate_request (en_store E) (w_now W) (client_of E rq)
          (Some (principal_of E rq)) (Some (auth_header rq)) m)"]) (simp add: stage_auth_entry identified_def)
  qed
  moreover have "stage_authorise E rq (auth_locals E W rq) g' = Next (identified_locals E W rq) g'"
    for g' :: "('a, 'b, 'c, 'd) gateway"
    using assms by (auto simp: stage_authorise_def identified_locals_def identified_def auth_locals_claims Let_def
        split: option.splits bool.splits)
  ultimately show ?thesis by auto
qed

text \<open>The findings do not depend on what the earlier stages changed, and change nothing the later ones read.\<close>

abbreviation reframed where
  "reframed m cd x \<equiv> (case x of
     Stop r g' \<Rightarrow> Stop r (g'\<lparr>gw_engine := m, gw_credentials := cd\<rparr>)
   | Next lv' g' \<Rightarrow> Next lv' (g'\<lparr>gw_engine := m, gw_credentials := cd\<rparr>))"

lemma stage_frames:
  "stage_rules E W rq lv (g\<lparr>gw_engine := m, gw_credentials := cd\<rparr>) = reframed m cd (stage_rules E W rq lv g)"
  "stage_anomaly E W rq lv (g\<lparr>gw_engine := m, gw_credentials := cd\<rparr>) = reframed m cd (stage_anomaly E W rq lv g)"
  "stage_ml E W rq lv (g\<lparr>gw_engine := m, gw_credentials := cd\<rparr>) = reframed m cd (stage_ml E W rq lv g)"
  "Gateway_Pipeline.stage_rate E W rq lv (g\<lparr>gw_engine := m, gw_credentials := cd\<rparr>)
     = reframed m cd (Gateway_Pipeline.stage_rate E W rq lv g)"
  by (simp_all add: stage_rules_def stage_anomaly_def stage_ml_def Gateway_Pipeline.stage_rate_def Let_def
      split: option.split prod.split)

lemma and_next_reframed:
  assumes "\<And>lv g. f lv (g\<lparr>gw_engine := m, gw_credentials := cd\<rparr>) = reframed m cd (f lv g)"
  shows "and_next (reframed m cd x) f = reframed m cd (and_next x f)"
  using assms by (cases x) simp_all

lemma score_frame:
  "score_stages E W rq lv (g\<lparr>gw_engine := m, gw_credentials := cd\<rparr>) = reframed m cd (score_stages E W rq lv g)"
  by (simp add: score_stages_def stage_frames and_next_reframed)

lemma score_Next:
  assumes "score_stages E W rq lv g = Next lv' g'"
  shows "gw_sent g' = gw_sent g" "gw_breaker g' = gw_breaker g" "lv_id lv' = lv_id lv"
  using assms
  by (auto simp: score_stages_def stage_rules_def stage_anomaly_def stage_ml_def Gateway_Pipeline.stage_rate_def Let_def
      split: option.splits prod.splits if_splits)

lemma judge_request_parts:
  "judge_request E W rq lv g =
     and_next (stage_replay E W rq lv g) (\<lambda>lv g.
     and_next (and_next (stage_auth E W rq lv g) (\<lambda>lv g. stage_authorise E rq lv g)) (\<lambda>lv g.
     and_next (score_stages E W rq lv g) (\<lambda>lv g. and_next (stage_decide E W rq lv g) (\<lambda>x g. stage_breaker W x g))))"
  by (simp add: judge_request_def score_stages_def and_next_assoc)

section \<open>Exactness\<close>

abbreviation passable where
  "passable rq lv \<equiv> rs_decision (calculate_risk (risk_input rq lv) (lv_reasons lv)) \<in> {ALLOW, decision.LIMIT}
     \<and> lv_count lv \<le> 1000"

lemma decide_exact:
  assumes "fst (allow_request (w_now W) (gw_breaker g))"
  shows "case and_next (stage_decide E W rq lv g) (\<lambda>x g. stage_breaker W x g) of
      Stop r g' \<Rightarrow> \<not> passable rq lv \<and> gw_sent g' = gw_sent g
    | Next x g' \<Rightarrow> passable rq lv \<and> gw_sent g' = gw_sent g \<and> fst x = lv \<and> rs_decision (snd x) \<in> {ALLOW, decision.LIMIT}"
proof -
  obtain risk where risk: "calculate_risk (risk_input rq lv) (lv_reasons lv) = risk" by blast
  obtain g' where g': "emit_audit_event E W rq (lv_id lv) risk (decision_facts W lv (rs_decision risk)) g = Some g'"
    using emission_total by blast
  show ?thesis
    using assms emit_frame(1,3) [OF g'] g'
    by (cases "rs_decision risk") (auto simp: stage_decide_def stage_breaker_def risk Let_def split: prod.split)
qed

abbreviation from_decision where
  "from_decision E W rq lv g \<equiv> and_next (stage_decide E W rq lv g) (\<lambda>x g. stage_breaker W x g)"

lemma cleared_reaches_score:
  assumes "cleared E W rq g"
  shows "\<exists>m cd. and_next (inspect_request E W rq g) (\<lambda>lv g. judge_request E W rq lv g)
    = and_next (score_stages E W rq (identified_locals E W rq) (g\<lparr>gw_engine := m, gw_credentials := cd\<rparr>))
        (\<lambda>lv g. from_decision E W rq lv g)"
proof -
  let ?lv = "entry_locals E W rq" and ?m0 = "after_mitigation E W rq (gw_engine g)"
  let ?cd = "snd (check_status (w_now W) (client_of E rq) [] (gw_credentials g))"
  obtain m1 where m1: "freshness E W rq ?m0 = (True, m1)" "identified E W rq m1"
    using assms by (auto simp: cleared_def split: prod.splits)
  have i: "inspect_request E W rq g = Next ?lv (g\<lparr>gw_engine := ?m0, gw_credentials := ?cd\<rparr>)"
    using assms by (intro inspect_passes) (simp_all add: cleared_def)
  have r: "stage_replay E W rq ?lv (g\<lparr>gw_engine := ?m0, gw_credentials := ?cd\<rparr>)
      = Next ?lv (g\<lparr>gw_engine := m1, gw_credentials := ?cd\<rparr>)"
    by (simp add: stage_replay_Next m1)
  obtain m2 where "and_next (stage_auth E W rq ?lv (g\<lparr>gw_engine := m1, gw_credentials := ?cd\<rparr>))
      (\<lambda>lv g. stage_authorise E rq lv g)
      = Next (identified_locals E W rq) (g\<lparr>gw_engine := m2, gw_credentials := ?cd\<rparr>)"
    using cleared_identify [OF m1(2)] by blast
  then show ?thesis by (intro exI [of _ m2] exI [of _ ?cd]) (simp add: i judge_request_parts r)
qed

lemma cleared_exact:
  assumes "cleared E W rq g"
  shows "gw_sent (snd (security_pipeline E W rq g)) \<noteq> gw_sent g \<longleftrightarrow> admitted E W rq g"
proof -
  obtain m2 cd where j: "and_next (inspect_request E W rq g) (\<lambda>lv g. judge_request E W rq lv g)
      = and_next (score_stages E W rq (identified_locals E W rq) (g\<lparr>gw_engine := m2, gw_credentials := cd\<rparr>))
          (\<lambda>lv g. from_decision E W rq lv g)"
    using cleared_reaches_score [OF assms] by blast
  show ?thesis
  proof (cases "score_stages E W rq (identified_locals E W rq) g")
    case (Stop rsp g')
    moreover from this have "gw_sent (snd (security_pipeline E W rq g)) = gw_sent g"
      using upstream.inv_guards [where E = E and g = g and ms = "gw_sent g" and ro = "gw_router g" and W = W and rq = rq] j
      by (simp add: security_pipeline_def score_frame)
    ultimately show ?thesis by (simp add: admitted_def findings_def)
  next
    case score: (Next lv g')
    let ?g' = "g'\<lparr>gw_engine := m2, gw_credentials := cd\<rparr>"
    have p: "and_next (inspect_request E W rq g) (\<lambda>lv g. judge_request E W rq lv g) = from_decision E W rq lv ?g'"
      by (simp add: j score_frame score)
    note f = score_Next [OF score]
    have "fst (allow_request (w_now W) (gw_breaker ?g'))" using assms f(2) by (simp add: cleared_def)
    note d = decide_exact [OF this, where E = E and rq = rq and lv = lv]
    have id: "lv_id lv = request_id_of W rq" using f(3) by (simp add: identified_locals_def Let_def)
    show ?thesis
    proof (cases "from_decision E W rq lv ?g'")
      case (Next x g2)
      then show ?thesis
        using d p f(1) score id forward_sent [where x = x and W = W and rq = rq and E = E and g = g2]
        by (auto simp: security_pipeline_def admitted_def findings_def)
    qed (use d p f(1) score in \<open>simp add: security_pipeline_def admitted_def findings_def\<close>)
  qed
qed

lemma forwarded_iff:
  "gw_sent (snd (security_pipeline E W rq g)) \<noteq> gw_sent g \<longleftrightarrow> cleared E W rq g \<and> admitted E W rq g"
  using cleared_exact [of E W rq g] forwarded_cleared [where E = E and W = W and rq = rq and g = g]
  by (auto split: prod.splits)


end
