(* ===== verification/Gateway_Cases.thy ===== *)
theory Gateway_Cases
  imports Gateway_Verdict Gateway_Replay Gateway_Lockout
begin

text \<open>
  A request that gets through the concrete gateway of \<open>Gateway_Demo\<close>, evaluated with the reference of
  \<open>Gateway_Verdict\<close>, and the process theorems applied to it.
\<close>

text \<open>A login attempt with a nonce and a time stamp, which the ERP rejects.\<close>

definition demo_login :: http_request where
  "demo_login = demo_attack\<lparr>hr_headers := [(''x-nonce'', ''n1''), (''x-timestamp'', ''1000'')], hr_body := []\<rparr>"

definition demo_rejecting :: world where
  "demo_rejecting = demo_world\<lparr>w_upstream := Answered 401 [] []\<rparr>"

text \<open>The detectors on the login path, one at a time.\<close>

lemma login_path_sql: "sql_re ''/api/auth/login'' = None"
  by code_simp

lemma login_path_xss: "xss_re ''/api/auth/login'' = None"
  by code_simp

lemma login_path_quiet:
  "sql_lit ''/api/auth/login'' = None" "xss_lit ''/api/auth/login'' = None" "path_re ''/api/auth/login'' = None"
  by code_simp+

lemma login_clean: "waf_clean demo_env demo_login"
proof -
  have "body_texts (en_loads demo_env) ''/api/auth/login'' = [''/api/auth/login'']
      \<and> variants ''/api/auth/login'' = [''/api/auth/login'']"
    by code_simp
  then have "\<not> fst (inspect_content (en_loads demo_env) ''/api/auth/login'')"
    unfolding inspect_content_iff using login_path_sql login_path_xss login_path_quiet
    by (simp add: suspicious_def)
  then show ?thesis by (simp add: waf_clean_def body_text_def demo_login_def demo_attack_def demo_env_def)
qed

lemma login_cleared: "cleared demo_env demo_rejecting demo_login demo_gateway"
proof -
  have "unmitigated demo_env demo_rejecting demo_login None (gw_engine demo_gateway) \<and> size_ok demo_env demo_login
      \<and> \<not> fst (fst (check_status (w_now demo_rejecting) (client_of demo_env demo_login) [] (gw_credentials demo_gateway)))
      \<and> path_known (route_of demo_env demo_login) \<and> method_allowed (route_of demo_env demo_login)
      \<and> well_formed_body demo_env demo_login
      \<and> (case freshness demo_env demo_rejecting demo_login (after_mitigation demo_env demo_rejecting demo_login
            (gw_engine demo_gateway)) of (ok, m) \<Rightarrow> ok \<and> identified demo_env demo_rejecting demo_login m)
      \<and> fst (allow_request (w_now demo_rejecting) (gw_breaker demo_gateway))"
    by code_simp
  then show ?thesis unfolding cleared_def using login_clean by (elim conjE) (intro conjI)
qed

lemma login_admitted: "admitted demo_env demo_rejecting demo_login demo_gateway"
  by code_simp

lemma login_forwarded:
  "gw_sent (snd (security_pipeline demo_env demo_rejecting demo_login demo_gateway)) \<noteq> gw_sent demo_gateway"
  unfolding forwarded_iff using login_cleared login_admitted by simp

theorem no_write_forwarded_twice_witness:
  "let g' = gateway_run demo_env [Serve demo_rejecting demo_login, Serve demo_world demo_attack] demo_gateway
   in gw_sent (snd (security_pipeline demo_env (demo_world\<lparr>w_now := 1200\<rparr>) demo_login g')) = gw_sent g'"
proof (rule no_write_forwarded_twice [where before = "[]" and u = demo_startup and k = "''n1''" and s = "''1000''"
      and ts = 1000 and between = "[Serve demo_world demo_attack]" and rq = demo_login])
  show "parse_float ''1000'' = Some (FNum 1000)" by (rule parse_1000)
qed (use login_forwarded in \<open>simp_all add: demo_login_def demo_attack_def demo_env_def demo_gateway_def demo_rejecting_def
    demo_world_def mutating_methods_def header_def request_key_def time_header_def str_or_def\<close>)

theorem lockout_end_to_end_witness:
  "let g = gateway_run demo_env [Serve demo_rejecting demo_login] demo_gateway
   in case stage_lockout demo_env demo_world demo_attack (stage_body demo_env demo_attack
        (locals_init demo_env demo_world demo_attack)) g of Stop r g' \<Rightarrow> False | Next lv' g' \<Rightarrow> True"
proof -
  have "client_of demo_env demo_login = client_of demo_env demo_attack"
    by (simp add: client_of_def get_verified_client_ip_def demo_login_def demo_attack_def header_def Let_def)
  moreover have "rejected_login demo_env demo_rejecting demo_login demo_gateway"
    using login_forwarded by (simp add: rejected_login_def) (simp add: demo_login_def demo_rejecting_def demo_attack_def)
  ultimately have "login_failures demo_env (client_of demo_env demo_attack) [Serve demo_rejecting demo_login] demo_gateway
      = [1001]"
    by (simp add: demo_rejecting_def demo_world_def)
  then show ?thesis
    using lockout_end_to_end [of "[Serve demo_rejecting demo_login]" demo_world demo_env "dist_init None" demo_startup demo_attack]
    by (simp add: demo_gateway_def [symmetric] demo_rejecting_def demo_world_def Let_def split: flow.splits)
qed

end
