(* ===== verification/Gateway_Chain.thy ===== *)
theory Gateway_Chain
  imports Gateway_Audit
begin

text \<open>
  The audit chain of the gateway process as a whole: it verifies at every moment of every run, and
  it holds one block for each request that the metrics have counted, as long as the disk
  accepts the writes.
\<close>

text \<open>The chain is in step with its file and holds at most as many blocks as requests were counted; in a \<open>strict\<close>
  run, one in which all writes succeed, exactly as many.\<close>

definition chain_sound :: "bool \<Rightarrow> prims \<Rightarrow> audit_chain \<Rightarrow> nat \<Rightarrow> bool" where
  "chain_sound strict P c k \<longleftrightarrow> (\<exists>n \<le> k. in_step P c n \<and> own_blocks c
     \<and> chain_init (chain_secret c) (log_file c) = c \<and> (strict \<longrightarrow> n = k))"

lemma seal_sound:
  assumes "hex_prims (en_prims E)" "chain_sound strict (en_prims E) c n" "strict \<longrightarrow> w_chain_ok W"
  shows "chain_sound strict (en_prims E) (seal_event E W e c) (Suc n)"
proof (cases "w_chain_ok W")
  case True
  obtain m where m: "m \<le> n" "in_step (en_prims E) c m" "own_blocks c" "chain_init (chain_secret c) (log_file c) = c"
    "strict \<longrightarrow> m = n"
    using assms(2) by (auto simp: chain_sound_def)
  obtain b c' where c': "append_event (en_prims E) True (w_stamp W) e c = Some (b, c')" "in_step (en_prims E) c' (Suc m)"
    "own_blocks c'" "chain_init (chain_secret c') (log_file c') = c'"
    using append_event_in_step [OF assms(1) m(2-4)] by blast
  have "seal_event E W e c = c'" using True c'(1) by (simp add: seal_event_def)
  moreover have "chain_sound strict (en_prims E) c' (Suc n)"
    unfolding chain_sound_def using c'(2-4) m(1,5) by (intro exI [of _ "Suc m"]) auto
  ultimately show ?thesis by simp
next
  case False
  then have "seal_event E W e c = c" by (simp add: seal_event_def append_event_def Let_def)
  then show ?thesis using assms False by (auto simp: chain_sound_def intro: le_SucI)
qed

lemma manage_chain:
  "gw_chain (snd (api_step E W call g)) = gw_chain g"
  "mt_total (gw_metrics (snd (api_step E W call g))) = mt_total (gw_metrics g)"
  by (cases call;
    force simp: api_step_def Let_def submit_soc_feedback_def trigger_ml_retraining_def promote_canary_def
      canary_answer_def agents_approve_action_def agents_reject_action_def agents_revoke_action_def
      agents_outcome_def split: option.split sum.split prod.split bool.split json.split agent_error.split)+

interpretation sealing: process_invariant E
    "\<lambda>g. hex_prims (en_prims E) \<longrightarrow> chain_sound strict (en_prims E) (gw_chain g) (mt_total (gw_metrics g))"
    "\<lambda>W. strict \<longrightarrow> w_chain_ok W" for E strict
proof
  show "hex_prims (en_prims E) \<longrightarrow> chain_sound strict (en_prims E) (gw_chain g') (mt_total (gw_metrics g'))"
    if "hex_prims (en_prims E) \<longrightarrow> chain_sound strict (en_prims E) (gw_chain g) (mt_total (gw_metrics g))"
      "strict \<longrightarrow> w_chain_ok W" "emit_audit_event E W rq rid risk f g = Some g'" for g W rq rid risk f g'
    using emit_recorded [OF that(3)] seal_sound [of E strict "gw_chain g" "mt_total (gw_metrics g)" W] that(1,2)
    by (auto simp: recorded_def)
qed (simp_all add: manage_chain)

lemma chain_intact_after:
  assumes "hex_prims (en_prims E)" "su_audit u = None" "strict \<longrightarrow> (\<forall>x \<in> set ops. w_chain_ok (op_world x))"
  shows "let g = gateway_run E ops (gateway_init E s u)
         in \<exists>n \<le> mt_total (gw_metrics g). verify_chain (en_prims E) (gw_chain g) = Inr (True, n, None)
            \<and> (strict \<longrightarrow> n = mt_total (gw_metrics g))"
proof -
  let ?start = "gateway_init E s u"
  have "chain_sound strict (en_prims E) (gw_chain ?start) (mt_total (gw_metrics ?start))"
    using assms(2)
    by (simp add: chain_sound_def gateway_init_def tracker_init_def in_step_def chain_init_def verify_chain_def
        verify_file_def own_blocks_def)
  then show ?thesis
    using sealing.inv_run [of E strict ?start ops] assms(1,3) by (auto simp: chain_sound_def in_step_def Let_def)
qed

text \<open>C7: The audit chain is always intact.  Start the gateway with an empty log and let any requests and management
  calls happen, with the disk failing at any of them: the endpoint that verifies the chain answers that it is
  intact, with no more blocks than there were requests counted by the security metrics; and if every write succeeded,
  with exactly as many.\<close>

theorem chain_always_intact:
  assumes "\<forall>k m. hex_text (hmac_hex (en_prims E) k m)" "su_audit u = None"
  shows "let g = gateway_run E ops (gateway_init E s u)
         in \<exists>n \<le> mt_total (gw_metrics g). api_step E W VerifyChain g = ((200, ChainBody (True, n, None)), g)
            \<and> (n = mt_total (gw_metrics g) \<or> (\<exists>x \<in> set ops. \<not> w_chain_ok (op_world x)))"
  using chain_intact_after [of E u "\<forall>x \<in> set ops. w_chain_ok (op_world x)" ops s] assms
  by (auto simp: hex_prims_def api_step_def Let_def)

theorem chain_always_intact_witness:
  "let g = gateway_run (demo_env\<lparr>en_prims := toy_prims\<rparr>) [Serve demo_world demo_attack]
             (gateway_init (demo_env\<lparr>en_prims := toy_prims\<rparr>) (dist_init None) demo_startup)
   in \<exists>n \<le> mt_total (gw_metrics g).
       api_step (demo_env\<lparr>en_prims := toy_prims\<rparr>) demo_world VerifyChain g = ((200, ChainBody (True, n, None)), g)"
  using chain_always_intact [of "demo_env\<lparr>en_prims := toy_prims\<rparr>" demo_startup "[Serve demo_world demo_attack]"
      "dist_init None" demo_world] toy_hex
  by (auto simp: Let_def demo_startup_def)

end
