(* ===== verification/Gateway_Answers.thy ===== *)
theory Gateway_Answers
  imports Gateway_Verdict
begin

text \<open>
  The status of the middleware's answer, for every request in every state: a reference that lists the
  checks in their order of precedence, and the proof that the stages answer accordingly.
\<close>

section \<open>The reference\<close>

text \<open>Answer with the first status that a check yields.\<close>

definition first_status :: "int option list \<Rightarrow> int option" where
  "first_status cs = (case List.find (\<lambda>c. c \<noteq> None) cs of Some c \<Rightarrow> c | None \<Rightarrow> None)"

lemma first_status_simps [simp]:
  "first_status [] = None" "first_status (None # cs) = first_status cs" "first_status (Some s # cs) = Some s"
  by (simp_all add: first_status_def)

definition unless :: "bool \<Rightarrow> int \<Rightarrow> int option" where
  "unless ok status = (if ok then None else Some status)"

lemma unless_simps [simp]: "unless True s = None" "unless False s = Some s"
  by (simp_all add: unless_def)

text \<open>A mitigation answers with its own status; an entry without expiry makes the engine raise.\<close>

definition mitigation_status_of ::
  "('s, 'r, 'm, 'c) env \<Rightarrow> world \<Rightarrow> http_request \<Rightarrow> string option \<Rightarrow> 's mitigation_engine \<Rightarrow> int option" where
  "mitigation_status_of E W rq who m =
     (case fst (evaluate_request (en_store E) (w_now W) (client_of E rq) who (Some (auth_header rq)) m) of
        Inl err \<Rightarrow> Some 500 | Inr None \<Rightarrow> None | Inr (Some d) \<Rightarrow> Some (md_status d))"

definition body_parses :: "('s, 'r, 'm, 'c) env \<Rightarrow> http_request \<Rightarrow> bool" where
  "body_parses E rq \<longleftrightarrow> hr_method rq \<notin> {''POST'', ''PUT''} \<or> body_text E rq = [] \<or> en_loads E (body_text E rq) \<noteq> None"

definition has_freshness :: "http_request \<Rightarrow> bool" where
  "has_freshness rq \<longleftrightarrow> hr_method rq \<notin> set mutating_methods \<or> freshness_exempt (hr_path rq)
     \<or> truthy_str (header rq ''x-nonce'') \<or> truthy_str (header rq ''idempotency-key'') \<or> truthy_str (time_header rq)"

definition entry_checks ::
  "('s, 'r, 'm, 'c) env \<Rightarrow> world \<Rightarrow> http_request \<Rightarrow> ('s, 'r, 'm, 'c) gateway \<Rightarrow> int option list" where
  "entry_checks E W rq g =
     [mitigation_status_of E W rq None (gw_engine g),
      unless (size_ok E rq) 413,
      unless (\<not> fst (fst (check_status (w_now W) (client_of E rq) [] (gw_credentials g)))) 403,
      unless (waf_clean E rq) 403,
      unless (path_known (route_of E rq)) 404,
      unless (method_allowed (route_of E rq)) 405,
      unless (body_parses E rq) 400,
      unless (well_formed_body E rq) 422]"

text \<open>Whose objects the request may touch: nothing to check, permitted, refused, or an exception.\<close>

definition ownership :: "('s, 'r, 'm, 'c) env \<Rightarrow> http_request \<Rightarrow> bool option" where
  "ownership E rq = (if auth_exempt (hr_path rq) (matching_rule (route_of E rq)) then Some True
     else case claims (verdict_on E rq) of
         Some c \<Rightarrow> if truthy c then check_bola_idor (en_prims E) (hr_path rq) (Some c) (hr_method rq)
                     (Some (object_body E (body_text E rq))) else Some True
       | None \<Rightarrow> Some True)"

definition identity_checks ::
  "('s, 'r, 'm, 'c) env \<Rightarrow> world \<Rightarrow> http_request \<Rightarrow> 's mitigation_engine \<Rightarrow> int option list" where
  "identity_checks E W rq m =
     (let exempt = auth_exempt (hr_path rq) (matching_rule (route_of E rq))
      in [unless (exempt \<or> is_valid (verdict_on E rq)) 401,
          if exempt then None else mitigation_status_of E W rq (Some (principal_of E rq)) m,
          unless (ownership E rq \<noteq> None) 500])"

definition verdict_checks ::
  "('s, 'r, 'm, 'c) env \<Rightarrow> world \<Rightarrow> http_request \<Rightarrow> ('s, 'r, 'm, 'c) gateway \<Rightarrow> int option list" where
  "verdict_checks E W rq g = (case findings E W rq g of
     None \<Rightarrow> [Some 500]
   | Some lv \<Rightarrow>
       let d = rs_decision (calculate_risk (risk_input rq lv) (lv_reasons lv))
       in [unless (ownership E rq = Some True \<and> d \<noteq> BLOCK) 403, unless (d \<noteq> CHALLENGE) 401,
           unless (lv_count lv \<le> 1000) 429, unless (fst (allow_request (w_now W) (gw_breaker g))) 503])"

definition upstream_status :: "world \<Rightarrow> int" where
  "upstream_status W = (case w_upstream W of
     Answered s hs x \<Rightarrow> s
   | LoopClosed \<Rightarrow> (case w_retry W of Answered s hs x \<Rightarrow> s | _ \<Rightarrow> 500)
   | _ \<Rightarrow> 502)"

definition expected_status ::
  "('s, 'r, 'm, 'c) env \<Rightarrow> world \<Rightarrow> http_request \<Rightarrow> ('s, 'r, 'm, 'c) gateway \<Rightarrow> int" where
  "expected_status E W rq g =
     (let fresh = freshness E W rq (after_mitigation E W rq (gw_engine g))
      in case first_status (entry_checks E W rq g
            @ [unless (has_freshness rq) 400, unless (fst fresh) 403]
            @ identity_checks E W rq (snd fresh) @ verdict_checks E W rq g) of
           Some s \<Rightarrow> s | None \<Rightarrow> upstream_status W)"

section \<open>The stages answer accordingly\<close>

text \<open>A flow answers a status, or goes on as \<open>k\<close> says.\<close>

definition answers :: "('a, 'g) flow \<Rightarrow> int option \<Rightarrow> bool" where
  "answers x s \<longleftrightarrow> (case x of Stop r g \<Rightarrow> s = Some (rs_status r) | Next a g \<Rightarrow> s = None)"

lemma answers_simps [simp]: "answers (Stop r g) s \<longleftrightarrow> s = Some (rs_status r)" "answers (Next a g) s \<longleftrightarrow> s = None"
  by (simp_all add: answers_def)

lemma answers_and_next:
  assumes "answers x s" "\<And>a g. x = Next a g \<Longrightarrow> answers (f a g) (first_status cs)"
  shows "answers (and_next x f) (first_status (s # cs))"
  using assms by (cases x) auto

lemma answers_audit_and_stop [simp]: "answers (audit_and_stop E W rq lv risk d rsp g) s \<longleftrightarrow> s = Some (rs_status rsp)"
  using audit_and_stop_answer [of E W rq lv risk d rsp g]
  by (cases "audit_and_stop E W rq lv risk d rsp g") auto

lemma refusal_status [simp]: "rs_status (refusal rid s hs err msg extra) = s"
  by (simp add: refusal_def)

lemma answers_check_mitigation:
  "lv_ip lv = client_of E rq \<Longrightarrow> answers (check_mitigation E W rq who lv g) (mitigation_status_of E W rq who (gw_engine g))"
  by (auto simp: check_mitigation_def mitigation_status_of_def mitigated_response_def server_error_def
      split: prod.split sum.split option.split)

lemma first_status_append: "first_status (xs @ ys) = (case first_status xs of None \<Rightarrow> first_status ys | Some s \<Rightarrow> Some s)"
proof (induction xs)
  case (Cons c xs)
  then show ?case by (cases c) simp_all
qed simp

lemma first_status_single [simp]: "first_status [c] = c"
  by (cases c) simp_all

lemma answers_append:
  assumes "answers x (first_status xs)" "\<And>a g. x = Next a g \<Longrightarrow> answers (f a g) (first_status ys)"
  shows "answers (and_next x f) (first_status (xs @ ys))"
  using assms by (cases x) (auto simp: first_status_append)

lemma answers_stage_size: "answers (stage_size E W rq lv g) (unless (size_ok E rq) 413)"
  by (auto simp: stage_size_def size_ok_def unless_def split: option.split)

lemma answers_stage_lockout:
  "answers (stage_lockout E W rq lv g) (unless (\<not> fst (fst (check_status (w_now W) (lv_ip lv) [] (gw_credentials g)))) 403)"
  by (auto simp: stage_lockout_def unless_def Let_def split: prod.split)

lemma answers_stage_waf:
  assumes "lv_text lv = body_text E rq" "lv_payload lv = (if lv_text lv = [] then None else en_loads E (lv_text lv))"
  shows "answers (stage_waf E W rq lv g) (unless (waf_clean E rq) 403)"
proof (cases "stage_waf E W rq lv g")
  case (Stop r g')
  then have "\<not> waf_clean E rq" using stage_waf_Next [OF assms, of W g lv g] by auto
  moreover from Stop have "answers (stage_waf E W rq lv g) (Some 403)"
    by (auto simp: stage_waf_def policy_refusal_def Let_def dest!: audit_and_stop_answer split: if_splits)
  ultimately show ?thesis by simp
next
  case (Next lv' g')
  then show ?thesis using stage_waf_Next [OF assms, of W g lv' g'] by simp
qed

lemma answers_stage_route:
  "answers (stage_route E rq lv g) (first_status [unless (path_known (route_of E rq)) 404, unless (method_allowed (route_of E rq)) 405])"
  by (simp add: stage_route_def route_of_def unless_def Let_def)

lemma answers_stage_schema:
  "lv_text lv = body_text E rq \<Longrightarrow>
   answers (stage_schema E rq lv g) (first_status [unless (body_parses E rq) 400, unless (well_formed_body E rq) 422])"
  by (auto simp: stage_schema_def body_parses_def well_formed_body_def unless_def split: option.split)

text \<open>The stages from the firewall on, and the checks they make.\<close>

abbreviation route_checks where
  "route_checks E rq \<equiv> [unless (path_known (route_of E rq)) 404, unless (method_allowed (route_of E rq)) 405]"

abbreviation schema_checks where
  "schema_checks E rq \<equiv> [unless (body_parses E rq) 400, unless (well_formed_body E rq) 422]"

abbreviation lockout_check where
  "lockout_check E W rq g \<equiv> unless (\<not> fst (fst (check_status (w_now W) (client_of E rq) [] (gw_credentials g)))) 403"

abbreviation from_route where
  "from_route E rq lv g \<equiv> and_next (stage_route E rq lv g) (\<lambda>lv g. stage_schema E rq lv g)"

abbreviation from_waf where
  "from_waf E W rq lv g \<equiv> and_next (stage_waf E W rq lv g) (\<lambda>lv g. from_route E rq lv g)"

lemma answers_from_route:
  assumes "lv_text lv = body_text E rq"
  shows "answers (from_route E rq lv g) (first_status (route_checks E rq @ schema_checks E rq))"
proof (rule answers_append [OF answers_stage_route])
  fix lv' g' assume "stage_route E rq lv g = Next lv' g'"
  then have "lv_text lv' = body_text E rq" using assms by (simp add: stage_route_Next)
  then show "answers (stage_schema E rq lv' g') (first_status (schema_checks E rq))" by (rule answers_stage_schema)
qed

lemma answers_from_waf:
  assumes b: "lv_text lv = body_text E rq" "lv_payload lv = (if lv_text lv = [] then None else en_loads E (lv_text lv))"
  shows "answers (from_waf E W rq lv g) (first_status (unless (waf_clean E rq) 403 # route_checks E rq @ schema_checks E rq))"
proof (rule answers_and_next [OF answers_stage_waf [OF b]])
  fix lv' g' assume "stage_waf E W rq lv g = Next lv' g'"
  then have "lv' = lv" by (simp add: stage_waf_Next [OF b])
  then show "answers (from_route E rq lv' g') (first_status (route_checks E rq @ schema_checks E rq))"
    using answers_from_route b(1) by simp
qed

lemma start_locals:
  "lv_ip (locals_init E W rq) = client_of E rq"
  "lv_ip (stage_body E rq (locals_init E W rq)) = client_of E rq"
  "lv_text (stage_body E rq (locals_init E W rq)) = body_text E rq"
  "lv_payload (stage_body E rq (locals_init E W rq)) = (if body_text E rq = [] then None else en_loads E (body_text E rq))"
  by (simp_all add: stage_body_def locals_init_def client_of_def body_text_def Let_def)

lemma answers_from_lockout:
  assumes "gw_credentials g1 = gw_credentials g"
  shows "answers (and_next (stage_lockout E W rq (stage_body E rq (locals_init E W rq)) g1) (\<lambda>lv g. from_waf E W rq lv g))
    (first_status (lockout_check E W rq g # unless (waf_clean E rq) 403 # route_checks E rq @ schema_checks E rq))"
proof (rule answers_and_next)
  let ?lv = "stage_body E rq (locals_init E W rq)"
  show "answers (stage_lockout E W rq ?lv g1) (lockout_check E W rq g)"
    using answers_stage_lockout [of E W rq ?lv g1] assms start_locals(2) [of E rq W] by simp
  fix lv' g' assume "stage_lockout E W rq ?lv g1 = Next lv' g'"
  then show "answers (from_waf E W rq lv' g') (first_status (unless (waf_clean E rq) 403 # route_checks E rq @ schema_checks E rq))"
    using start_locals(2-4) [of E rq W] by (intro answers_from_waf) (auto simp: stage_lockout_Next)
qed

lemma answers_inspect:
  fixes g :: "('a, 'b, 'c, 'd) gateway"
  shows "answers (inspect_request E W rq g) (first_status (entry_checks E W rq g))"
proof -
  have "answers (inspect_request E W rq g) (first_status (mitigation_status_of E W rq None (gw_engine g)
      # unless (size_ok E rq) 413 # lockout_check E W rq g # unless (waf_clean E rq) 403 # route_checks E rq @ schema_checks E rq))"
    unfolding inspect_request_def stage_mitigation_def
  proof (rule answers_and_next [OF answers_check_mitigation [OF start_locals(1)]])
    fix lv' g' assume "check_mitigation E W rq None (locals_init E W rq) g = Next lv' g'"
    then have "lv' = locals_init E W rq" "gw_credentials g' = gw_credentials g" by (auto simp: check_mitigation_Next)
    then show "answers (and_next (stage_size E W rq lv' g') (\<lambda>lv g. and_next (stage_lockout E W rq (stage_body E rq lv) g)
        (\<lambda>lv g. from_waf E W rq lv g)))
      (first_status (unless (size_ok E rq) 413 # lockout_check E W rq g # unless (waf_clean E rq) 403
        # route_checks E rq @ schema_checks E rq))"
      using answers_from_lockout by (intro answers_and_next [OF answers_stage_size]) (simp add: stage_size_Next)
  qed
  then show ?thesis by (simp add: entry_checks_def)
qed

section \<open>Identity and verdict\<close>

lemma answers_stage_replay:
  "answers (stage_replay E W rq lv g)
     (first_status [unless (has_freshness rq) 400, unless (fst (freshness E W rq (gw_engine g))) 403])"
  by (auto simp: stage_replay_def has_freshness_def freshness_def unless_def Let_def split: prod.split)

lemma answers_stage_auth:
  "answers (stage_auth E W rq (entry_locals E W rq) g)
     (first_status [unless (auth_exempt (hr_path rq) (matching_rule (route_of E rq)) \<or> is_valid (verdict_on E rq)) 401,
        if auth_exempt (hr_path rq) (matching_rule (route_of E rq)) then None
        else mitigation_status_of E W rq (Some (principal_of E rq)) (gw_engine g)])"
  using answers_check_mitigation [of "auth_locals E W rq" E rq W "Some (principal_of E rq)" g]
  by (auto simp: stage_auth_def auth_locals_def verdict_on_def [symmetric] principal_of_def [symmetric] unless_def Let_def)

text \<open>The request of somebody who asks for another's objects goes on with a severity that blocks it.\<close>

definition marked :: "locals \<Rightarrow> locals" where
  "marked lv = lv\<lparr>lv_reasons := lv_reasons lv @ [BolaReason], lv_waf := max (lv_waf lv) 95\<rparr>"

lemma stage_authorise_ownership:
  "stage_authorise E rq (auth_locals E W rq) g = (case ownership E rq of
     None \<Rightarrow> Stop server_error g
   | Some True \<Rightarrow> Next (identified_locals E W rq) g
   | Some False \<Rightarrow> Next (marked (identified_locals E W rq)) g)"
  by (auto simp: stage_authorise_def ownership_def identified_locals_def marked_def auth_locals_claims Let_def
      split: option.split bool.split)

text \<open>The scoring stages neither read nor change the severity, and only append to the reasons.\<close>

definition blank :: "locals \<Rightarrow> locals" where
  "blank lv = lv\<lparr>lv_reasons := [], lv_waf := 0\<rparr>"

definition parallel_to ::
  "(locals, ('s, 'r, 'm, 'c) gateway) flow \<Rightarrow> (locals, ('s, 'r, 'm, 'c) gateway) flow \<Rightarrow> rat \<Rightarrow> bool" where
  "parallel_to x y w \<longleftrightarrow> (case x of
     Stop a h \<Rightarrow> y = Stop a h
   | Next lv h \<Rightarrow> (case y of Stop a k \<Rightarrow> False | Next lv' k \<Rightarrow> k = h \<and> blank lv' = blank lv \<and> lv_waf lv' = w))"

lemma parallel_and_next:
  assumes "parallel_to x y w"
    and "\<And>lv lv' h. blank lv' = blank lv \<Longrightarrow> lv_waf lv' = w \<Longrightarrow> parallel_to (f lv h) (f lv' h) w"
  shows "parallel_to (and_next x f) (and_next y f) w"
  using assms by (cases x; cases y) (simp_all add: parallel_to_def)

lemma blank_fields:
  assumes "blank lv' = blank lv"
  shows "lv_ip lv' = lv_ip lv" "lv_id lv' = lv_id lv" "lv_principal lv' = lv_principal lv" "lv_body lv' = lv_body lv"
    "lv_claims lv' = lv_claims lv" "lv_exempt lv' = lv_exempt lv"
  using assms by (cases lv; cases lv'; simp add: blank_def)+

lemma blank_updates:
  assumes "blank lv' = blank lv"
  shows "blank (lv'\<lparr>lv_rule_severity := a, lv_fired := b, lv_reasons := r'\<rparr>) = blank (lv\<lparr>lv_rule_severity := a, lv_fired := b, lv_reasons := r\<rparr>)"
    "blank (lv'\<lparr>lv_anomaly := c, lv_reasons := r'\<rparr>) = blank (lv\<lparr>lv_anomaly := c, lv_reasons := r\<rparr>)"
    "blank (lv'\<lparr>lv_ml_score := d, lv_ml_confidence := e, lv_ml_anomalous := f\<rparr>)
       = blank (lv\<lparr>lv_ml_score := d, lv_ml_confidence := e, lv_ml_anomalous := f\<rparr>)"
    "blank (lv'\<lparr>lv_count := n, lv_rate := m, lv_reasons := r'\<rparr>) = blank (lv\<lparr>lv_count := n, lv_rate := m, lv_reasons := r\<rparr>)"
  using assms by (cases lv; cases lv'; simp add: blank_def)+

lemma parallel_stages:
  assumes "blank lv' = blank lv" "lv_waf lv' = w"
  shows "parallel_to (stage_rules E W rq lv g) (stage_rules E W rq lv' g) w"
    "parallel_to (stage_anomaly E W rq lv g) (stage_anomaly E W rq lv' g) w"
    "parallel_to (stage_ml E W rq lv g) (stage_ml E W rq lv' g) w"
    "parallel_to (Gateway_Pipeline.stage_rate E W rq lv g) (Gateway_Pipeline.stage_rate E W rq lv' g) w"
proof -
  note fields = blank_fields [OF assms(1)] blank_updates [OF assms(1)] assms
  have key: "user_key lv' = user_key lv" by (simp add: user_key_def fields)
  have data: "rule_data E rq lv' = rule_data E rq lv" "event_record W rq lv' = event_record W rq lv"
    by (simp_all add: rule_data_def event_record_def checked_claims_def key fields cong: option.case_cong)
  show "parallel_to (stage_rules E W rq lv g) (stage_rules E W rq lv' g) w"
    by (simp add: parallel_to_def stage_rules_def data fields split: prod.split)
  show "parallel_to (stage_anomaly E W rq lv g) (stage_anomaly E W rq lv' g) w"
    by (simp add: parallel_to_def stage_anomaly_def key fields split: option.split)
  show "parallel_to (stage_ml E W rq lv g) (stage_ml E W rq lv' g) w"
    by (simp add: parallel_to_def stage_ml_def key data fields Let_def split: option.split prod.split)
  show "parallel_to (Gateway_Pipeline.stage_rate E W rq lv g) (Gateway_Pipeline.stage_rate E W rq lv' g) w"
    by (simp add: parallel_to_def Gateway_Pipeline.stage_rate_def fields split: prod.split)
qed

lemma score_parallel:
  "blank lv' = blank lv \<Longrightarrow> lv_waf lv' = w \<Longrightarrow> parallel_to (score_stages E W rq lv g) (score_stages E W rq lv' g) w"
  unfolding score_stages_def by (intro parallel_and_next parallel_stages)

lemma score_Stop: "score_stages E W rq lv g = Stop r g' \<Longrightarrow> r = server_error"
  by (auto simp: score_stages_def stage_rules_def stage_anomaly_def stage_ml_def Gateway_Pipeline.stage_rate_def Let_def
      split: option.splits prod.splits if_splits)

lemma answers_decide:
  "answers (and_next (stage_decide E W rq lv g) (\<lambda>x g. stage_breaker W x g))
     (first_status [unless (rs_decision (calculate_risk (risk_input rq lv) (lv_reasons lv)) \<noteq> BLOCK) 403,
        unless (rs_decision (calculate_risk (risk_input rq lv) (lv_reasons lv)) \<noteq> CHALLENGE) 401,
        unless (lv_count lv \<le> 1000) 429, unless (fst (allow_request (w_now W) (gw_breaker g))) 503])"
proof -
  obtain risk where risk: "calculate_risk (risk_input rq lv) (lv_reasons lv) = risk" by blast
  obtain g' where g': "emit_audit_event E W rq (lv_id lv) risk (decision_facts W lv (rs_decision risk)) g = Some g'"
    using emission_total by blast
  show ?thesis
    using emit_frame(3) [OF g'] g'
    by (cases "rs_decision risk")
      (auto simp: stage_decide_def stage_breaker_def policy_refusal_def challenge_refusal_def risk unless_def Let_def
        split: prod.split)
qed

lemma forward_status: "rs_status (fst (forward E W rq x g)) = upstream_status W"
  by (cases x) (simp add: forward_def upstream_status_def relayed_def bad_gateway_def server_error_def Let_def
      split: outcome.split)

section \<open>The answer\<close>

lemma marked_blocks:
  assumes "score_stages E W rq (marked lv) g = Next lv' g'"
  shows "95 \<le> lv_waf lv'" "rs_decision (calculate_risk (risk_input rq lv') (lv_reasons lv')) = BLOCK"
    "\<exists>lv'' h. score_stages E W rq lv g = Next lv'' h"
proof -
  have "parallel_to (score_stages E W rq lv g) (score_stages E W rq (marked lv) g) (max (lv_waf lv) 95)"
    by (rule score_parallel) (simp_all add: blank_def marked_def)
  then have w: "lv_waf lv' = max (lv_waf lv) 95" and n: "\<exists>lv'' h. score_stages E W rq lv g = Next lv'' h"
    using assms by (cases "score_stages E W rq lv g"; simp add: parallel_to_def)+
  show "\<exists>lv'' h. score_stages E W rq lv g = Next lv'' h" by (rule n)
  show "95 \<le> lv_waf lv'" using w by simp
  then have "80 \<le> Risk_Engine.waf_severity (risk_input rq lv')" by (simp add: risk_input_def)
  then show "rs_decision (calculate_risk (risk_input rq lv') (lv_reasons lv')) = BLOCK"
    by (simp add: severe_blocks)
qed

lemma marked_fails:
  assumes "score_stages E W rq (marked lv) g = Stop r g'"
  shows "\<exists>h. score_stages E W rq lv g = Stop r h"
proof -
  have "parallel_to (score_stages E W rq lv g) (score_stages E W rq (marked lv) g) (max (lv_waf lv) 95)"
    by (rule score_parallel) (simp_all add: blank_def marked_def)
  then show ?thesis using assms by (cases "score_stages E W rq lv g") (auto simp: parallel_to_def)
qed

text \<open>From the identified request to the verdict; the gateway differs from \<open>g\<close> in the engine and the credentials
  only.\<close>

lemma answers_verdict:
  assumes "ownership E rq \<noteq> None"
  shows "answers (and_next (stage_authorise E rq (auth_locals E W rq) (g\<lparr>gw_engine := m, gw_credentials := cd\<rparr>))
      (\<lambda>lv g. and_next (score_stages E W rq lv g) (\<lambda>lv g. and_next (stage_decide E W rq lv g) (\<lambda>x g. stage_breaker W x g))))
    (first_status (verdict_checks E W rq g))"
proof (cases "the (ownership E rq)")
  case True
  then have own: "ownership E rq = Some True" using assms by auto
  show ?thesis
  proof (cases "score_stages E W rq (identified_locals E W rq) g")
    case (Stop r h)
    then show ?thesis
      using score_Stop [OF Stop] own
      by (simp add: stage_authorise_ownership score_frame verdict_checks_def findings_def server_error_def)
  next
    case (Next lv h)
    then show ?thesis
      using answers_decide [of E W rq lv "h\<lparr>gw_engine := m, gw_credentials := cd\<rparr>"] score_Next(2) [OF Next] own
      by (simp add: stage_authorise_ownership score_frame verdict_checks_def findings_def Let_def)
  qed
next
  case False
  then have own: "ownership E rq = Some False" using assms by auto
  show ?thesis
  proof (cases "score_stages E W rq (marked (identified_locals E W rq)) g")
    case (Stop r h)
    then show ?thesis
      using score_Stop [OF Stop] marked_fails [OF Stop] own
      by (auto simp: stage_authorise_ownership score_frame verdict_checks_def findings_def server_error_def)
  next
    case (Next lv h)
    then show ?thesis
      using answers_decide [of E W rq lv "h\<lparr>gw_engine := m, gw_credentials := cd\<rparr>"] marked_blocks [OF Next] own
      by (auto simp: stage_authorise_ownership score_frame verdict_checks_def findings_def Let_def)
  qed
qed

lemma answers_ownership:
  "answers (and_next (stage_authorise E rq (auth_locals E W rq) (g\<lparr>gw_engine := m, gw_credentials := cd\<rparr>))
      (\<lambda>lv g. and_next (score_stages E W rq lv g) (\<lambda>lv g. and_next (stage_decide E W rq lv g) (\<lambda>x g. stage_breaker W x g))))
    (first_status (unless (ownership E rq \<noteq> None) 500 # verdict_checks E W rq g))"
proof (cases "ownership E rq")
  case None
  then show ?thesis by (simp add: stage_authorise_ownership server_error_def)
next
  case (Some b)
  then show ?thesis using answers_verdict [where E = E and rq = rq and W = W and g = g and m = m and cd = cd] by simp
qed

lemma answers_judge:
  fixes g :: "('a, 'b, 'c, 'd) gateway"
  assumes "fst (freshness E W rq m) \<longrightarrow> snd (freshness E W rq m) = m1"
  shows "answers (judge_request E W rq (entry_locals E W rq) (g\<lparr>gw_engine := m, gw_credentials := cd\<rparr>))
    (first_status ([unless (has_freshness rq) 400, unless (fst (freshness E W rq m)) 403]
       @ identity_checks E W rq m1 @ verdict_checks E W rq g))"
proof -
  let ?lv = "entry_locals E W rq" and ?exempt = "auth_exempt (hr_path rq) (matching_rule (route_of E rq))"
  let ?cs = "[unless (?exempt \<or> is_valid (verdict_on E rq)) 401,
    if ?exempt then None else mitigation_status_of E W rq (Some (principal_of E rq)) m1]"
  let ?g1 = "g\<lparr>gw_engine := m1, gw_credentials := cd\<rparr>"
  let ?rest = "\<lambda>lv g. and_next (stage_authorise E rq lv g) (\<lambda>lv g. and_next (score_stages E W rq lv g)
      (\<lambda>lv g. and_next (stage_decide E W rq lv g) (\<lambda>x g. stage_breaker W x g)))"
  have rest: "answers (and_next (stage_auth E W rq ?lv ?g1) ?rest)
      (first_status (?cs @ unless (ownership E rq \<noteq> None) 500 # verdict_checks E W rq g))"
  proof (rule answers_append)
    have m1: "gw_engine ?g1 = m1" by simp
    show "answers (stage_auth E W rq ?lv ?g1) (first_status ?cs)"
      by (rule answers_stage_auth [of E W rq ?g1, unfolded m1])
    fix lv h assume "stage_auth E W rq ?lv ?g1 = Next lv h"
    then have "lv = auth_locals E W rq" "h = g\<lparr>gw_engine := gw_engine h, gw_credentials := cd\<rparr>"
      unfolding stage_auth_entry by auto
    then show "answers (?rest lv h) (first_status (unless (ownership E rq \<noteq> None) 500 # verdict_checks E W rq g))"
      using answers_ownership [where E = E and rq = rq and W = W and g = g and m = "gw_engine h" and cd = cd] by simp
  qed
  have "answers (and_next (stage_replay E W rq ?lv (g\<lparr>gw_engine := m, gw_credentials := cd\<rparr>))
      (\<lambda>lv g. and_next (stage_auth E W rq lv g) ?rest))
    (first_status ([unless (has_freshness rq) 400, unless (fst (freshness E W rq m)) 403]
       @ ?cs @ unless (ownership E rq \<noteq> None) 500 # verdict_checks E W rq g))"
  proof (rule answers_append)
    show "answers (stage_replay E W rq ?lv (g\<lparr>gw_engine := m, gw_credentials := cd\<rparr>))
        (first_status [unless (has_freshness rq) 400, unless (fst (freshness E W rq m)) 403])"
      using answers_stage_replay [of E W rq ?lv "g\<lparr>gw_engine := m, gw_credentials := cd\<rparr>"] by simp
    fix lv h assume "stage_replay E W rq ?lv (g\<lparr>gw_engine := m, gw_credentials := cd\<rparr>) = Next lv h"
    then have "lv = ?lv" "h = ?g1" using assms by (simp_all add: stage_replay_Next)
    then show "answers (and_next (stage_auth E W rq lv h) ?rest)
        (first_status (?cs @ unless (ownership E rq \<noteq> None) 500 # verdict_checks E W rq g))"
      using rest by simp
  qed
  then show ?thesis
    by (simp add: judge_request_parts identity_checks_def and_next_assoc Let_def)
qed

text \<open>C2: Every answer has the status it should have.  For each request in each state of the gateway, the status of the
  answer is the one of the first check that fails: an active mitigation with its own status, an oversized body (413),
  a lockout (403), an attack pattern (403), an unknown path (404) or method (405), malformed JSON (400), a body against
  the schema (422), a write without (400) or with stale or reused freshness (403), a bad token (401), an active mitigation
  against the principal, another's object or a risk that blocks (403) or challenges (401), the rate (429), the open
  breaker (503); an exception of the code answers 500; and otherwise the status of the ERP, or 502 when it cannot be reached.\<close>

theorem status_exact:
  "rs_status (fst (security_pipeline E W rq g)) = expected_status E W rq g"
proof -
  let ?m0 = "after_mitigation E W rq (gw_engine g)"
  let ?cs = "[unless (has_freshness rq) 400, unless (fst (freshness E W rq ?m0)) 403]
    @ identity_checks E W rq (snd (freshness E W rq ?m0)) @ verdict_checks E W rq g"
  have "answers (and_next (inspect_request E W rq g) (\<lambda>lv g. judge_request E W rq lv g))
      (first_status (entry_checks E W rq g @ ?cs))"
  proof (rule answers_append [OF answers_inspect])
    fix lv h assume i: "inspect_request E W rq g = Next lv h"
    have "inspect_request E W rq g = Next (entry_locals E W rq) (g\<lparr>gw_engine := ?m0,
        gw_credentials := snd (check_status (w_now W) (client_of E rq) [] (gw_credentials g))\<rparr>)"
      by (intro inspect_passes inspect_request_Next [OF i])
    then show "answers (judge_request E W rq lv h) (first_status ?cs)"
      using answers_judge [of E W rq ?m0] i by simp
  qed
  then show ?thesis
    by (cases "and_next (inspect_request E W rq g) (\<lambda>lv g. judge_request E W rq lv g)")
      (auto simp: security_pipeline_def expected_status_def forward_status Let_def)
qed

end
