(* ===== verification/Base64_Text.thy ===== *)
theory Base64_Text
  imports Json_Text
begin

text \<open>
  The text encodings that \<open>src/scripts/probe_real_erp.py\<close> uses: \<open>str.encode\<close> (UTF-8, for the code
  points below 256 that a \<open>char\<close> holds) and \<open>base64.b64encode\<close>, with the decoders that a server applies and
  the round trip.  Bytes are natural numbers below 256, sextets natural numbers below 64.
\<close>

section \<open>UTF-8\<close>

definition utf8_char :: "char \<Rightarrow> nat list" where
  "utf8_char c = (let n = of_char c in if n < 128 then [n] else [192 + n div 64, 128 + n mod 64])"

definition utf8_encode :: "string \<Rightarrow> nat list" where
  "utf8_encode s = concat (map utf8_char s)"

fun utf8_decode :: "nat list \<Rightarrow> string" where
  "utf8_decode [] = []"
| "utf8_decode [a] = [char_of a]"
| "utf8_decode (a # b # bs) =
     (if a < 128 then char_of a # utf8_decode (b # bs) else char_of (a mod 32 * 64 + b mod 64) # utf8_decode bs)"

lemma of_char_less: "(of_char c :: nat) < 256"
  using nat_of_char_less_256 [of c] by simp

lemma utf8_head_ascii: "(of_char c :: nat) < 128 \<Longrightarrow> utf8_decode (of_char c # bs) = c # utf8_decode bs"
  by (cases bs) simp_all

text \<open>Packing a low part below \<open>k\<close> under a high part, and taking them apart.\<close>

lemma pack_parts:
  fixes x y k :: nat
  assumes "y < k"
  shows "(x * k + y) div k = x" "(x * k + y) mod k = y"
  using assms by simp_all

lemma utf8_decode_encode: "utf8_decode (utf8_encode s) = s"
proof (induction s)
  case (Cons c s)
  let ?n = "of_char c :: nat"
  show ?case
  proof (cases "?n < 128")
    case True
    then show ?thesis using Cons utf8_head_ascii [OF True] by (simp add: utf8_encode_def utf8_char_def)
  next
    case False
    have n: "?n < 256" by (rule of_char_less)
    have "(192 + ?n div 64) mod 32 * 64 + (128 + ?n mod 64) mod 64 = ?n"
    proof -
      have "?n div 64 < 4" using n by (simp add: div_less_iff_less_mult)
      then have "(192 + ?n div 64) mod 32 = ?n div 64"
        using pack_parts(2) [of "?n div 64" 32 6] by simp
      moreover have "(128 + ?n mod 64) mod 64 = ?n mod 64"
        using pack_parts(2) [of "?n mod 64" 64 2] by simp
      ultimately show ?thesis by simp
    qed
    then show ?thesis using Cons False by (simp add: utf8_encode_def utf8_char_def Let_def)
  qed
qed (simp add: utf8_encode_def)

lemma utf8_bytes: "b \<in> set (utf8_encode s) \<Longrightarrow> b < 256"
proof -
  assume "b \<in> set (utf8_encode s)"
  then obtain c where b: "b \<in> set (utf8_char c)" by (auto simp: utf8_encode_def)
  have n: "(of_char c :: nat) < 256" by (rule of_char_less)
  then have "(of_char c :: nat) div 64 < 4" by (simp add: div_less_iff_less_mult)
  moreover have "(of_char c :: nat) mod 64 < 64" by simp
  ultimately have "192 + of_char c div 64 < (256 :: nat)" "128 + of_char c mod 64 < (256 :: nat)" by linarith+
  then show "b < 256" using b n by (auto simp: utf8_char_def Let_def split: if_splits)
qed

section \<open>Base64\<close>

definition b64_alphabet :: string where
  "b64_alphabet = ''ABCDEFGHIJKLMNOPQRSTUVWXYZabcdefghijklmnopqrstuvwxyz0123456789+/''"

definition b64_char :: "nat \<Rightarrow> char" where
  "b64_char i = b64_alphabet ! i"

fun b64encode :: "nat list \<Rightarrow> string" where
  "b64encode [] = []"
| "b64encode [a] = [b64_char (a div 4), b64_char (a mod 4 * 16), CHR ''='', CHR ''='']"
| "b64encode [a, b] = [b64_char (a div 4), b64_char (a mod 4 * 16 + b div 16), b64_char (b mod 16 * 4), CHR ''='']"
| "b64encode (a # b # c # bs) =
     b64_char (a div 4) # b64_char (a mod 4 * 16 + b div 16) # b64_char (b mod 16 * 4 + c div 64)
       # b64_char (c mod 64) # b64encode bs"

definition b64_value :: "char \<Rightarrow> nat" where
  "b64_value c = length (takeWhile (\<lambda>x. x \<noteq> c) b64_alphabet)"

fun b64decode :: "string \<Rightarrow> nat list" where
  "b64decode (w # x # y # z # s) =
     (let p = b64_value w; q = b64_value x in
      if y = CHR ''='' then [p * 4 + q div 16]
      else let r = b64_value y in
        if z = CHR ''='' then [p * 4 + q div 16, q mod 16 * 16 + r div 4]
        else (p * 4 + q div 16) # (q mod 16 * 16 + r div 4) # (r mod 4 * 64 + b64_value z) # b64decode s)"
| "b64decode s = []"

lemma b64_table: "list_all (\<lambda>i. b64_value (b64_char i) = i \<and> b64_char i \<noteq> CHR ''='') [0..<64]"
  by code_simp

lemma b64_value_char: "i < 64 \<Longrightarrow> b64_value (b64_char i) = i" "i < 64 \<Longrightarrow> b64_char i \<noteq> CHR ''=''"
  using b64_table by (auto simp: list_all_iff)

lemma sextets:
  fixes a b c :: nat
  assumes "a < 256" "b < 256" "c < 256"
  shows "a div 4 < 64" "a mod 4 * 16 + b div 16 < 64" "b mod 16 * 4 + c div 64 < 64" "c mod 64 < 64"
    "a mod 4 * 16 < 64" "b mod 16 * 4 < 64"
    "a div 4 * 4 + (a mod 4 * 16 + b div 16) div 16 = a" "a div 4 * 4 + (a mod 4 * 16) div 16 = a"
    "(a mod 4 * 16 + b div 16) mod 16 * 16 + (b mod 16 * 4 + c div 64) div 4 = b"
    "(a mod 4 * 16 + b div 16) mod 16 * 16 + (b mod 16 * 4) div 4 = b"
    "(b mod 16 * 4 + c div 64) mod 4 * 64 + c mod 64 = c"
proof -
  have hi: "a div 4 < 64" "b div 16 < 16" "c div 64 < 4" using assms by (simp_all add: div_less_iff_less_mult)
  have lo: "a mod 4 < 4" "b mod 16 < 16" "c mod 64 < 64" by simp_all
  show "a div 4 < 64" "c mod 64 < 64" "a mod 4 * 16 < 64" "b mod 16 * 4 < 64"
    "a mod 4 * 16 + b div 16 < 64" "b mod 16 * 4 + c div 64 < 64"
    using hi lo by linarith+
  note ab = pack_parts(1,2) [OF hi(2), of "a mod 4"] and bc = pack_parts(1,2) [OF hi(3), of "b mod 16"]
  show "a div 4 * 4 + (a mod 4 * 16 + b div 16) div 16 = a" "a div 4 * 4 + (a mod 4 * 16) div 16 = a"
    "(a mod 4 * 16 + b div 16) mod 16 * 16 + (b mod 16 * 4 + c div 64) div 4 = b"
    "(a mod 4 * 16 + b div 16) mod 16 * 16 + (b mod 16 * 4) div 4 = b"
    "(b mod 16 * 4 + c div 64) mod 4 * 64 + c mod 64 = c"
    unfolding ab bc by simp_all
qed

lemma b64decode_encode: "\<forall>b \<in> set bs. b < 256 \<Longrightarrow> b64decode (b64encode bs) = bs"
proof (induction bs rule: b64encode.induct)
  case (2 a)
  then show ?case using sextets [of a 0 0] by (simp add: b64_value_char Let_def)
next
  case (3 a b)
  then show ?case using sextets [of a b 0] by (simp add: b64_value_char Let_def)
next
  case (4 a b c bs)
  then show ?case using sextets [of a b c] by (simp add: b64_value_char Let_def)
qed simp

lemma b64_roundtrip: "utf8_decode (b64decode (b64encode (utf8_encode s))) = s"
  by (simp add: b64decode_encode utf8_bytes utf8_decode_encode)

end
