(* ===== verification/Url_Text.thy ===== *)
theory Url_Text
  imports IP_Address
begin

text \<open>
  \<open>urllib.parse.urlparse\<close> (Python 3.11), as far as \<open>src/scripts/probe_real_erp.py\<close> uses it: scheme, host name and
  port of a URL of ASCII text.  \<open>None\<close> is \<open>ValueError\<close>.
\<close>

section \<open>Parts of strings\<close>

text \<open>\<open>s.partition(c)\<close> and \<open>s.rpartition(c)[2]\<close>; \<open>s.lstrip(c)\<close> and \<open>s.rstrip(c)\<close>.\<close>

definition before_char :: "char \<Rightarrow> string \<Rightarrow> string" where
  "before_char c s = takeWhile (\<lambda>x. x \<noteq> c) s"

definition after_char :: "char \<Rightarrow> string \<Rightarrow> string" where
  "after_char c s = tl (dropWhile (\<lambda>x. x \<noteq> c) s)"

definition after_last :: "char \<Rightarrow> string \<Rightarrow> string" where
  "after_last c s = rev (takeWhile (\<lambda>x. x \<noteq> c) (rev s))"

definition lstrip_char :: "char \<Rightarrow> string \<Rightarrow> string" where
  "lstrip_char c s = dropWhile (\<lambda>x. x = c) s"

definition rstrip_char :: "char \<Rightarrow> string \<Rightarrow> string" where
  "rstrip_char c s = rev (dropWhile (\<lambda>x. x = c) (rev s))"

lemma partition_append: "c \<notin> set a \<Longrightarrow> before_char c (a @ c # b) = a \<and> after_char c (a @ c # b) = b"
  by (auto simp: before_char_def after_char_def takeWhile_append dropWhile_append)

lemma before_char_absent: "c \<notin> set a \<Longrightarrow> before_char c a = a \<and> after_char c a = []"
  by (induction a) (auto simp: before_char_def after_char_def)

lemma after_last_absent: "c \<notin> set a \<Longrightarrow> after_last c a = a"
  by (induction a rule: rev_induct) (auto simp: after_last_def)

section \<open>Splitting a URL\<close>

definition is_letter :: "char \<Rightarrow> bool" where
  "is_letter c \<longleftrightarrow> (let n = (of_char c :: nat) in (65 \<le> n \<and> n \<le> 90) \<or> (97 \<le> n \<and> n \<le> 122))"

definition scheme_char :: "char \<Rightarrow> bool" where
  "scheme_char c \<longleftrightarrow> is_letter c \<or> is_digit c \<or> c \<in> {CHR ''+'', CHR ''-'', CHR ''.''}"

text \<open>Leading blanks and control characters are dropped, and tabs and line ends anywhere.\<close>

definition url_clean :: "string \<Rightarrow> string" where
  "url_clean s = filter (\<lambda>c. (of_char c :: nat) \<notin> {9, 10, 13}) (dropWhile (\<lambda>c. (of_char c :: nat) \<le> 32) s)"

definition split_scheme :: "string \<Rightarrow> string \<times> string" where
  "split_scheme s =
     (if CHR '':'' \<in> set s \<and> before_char CHR '':'' s \<noteq> [] \<and> is_letter (hd s)
         \<and> list_all scheme_char (before_char CHR '':'' s)
      then (lower (before_char CHR '':'' s), after_char CHR '':'' s) else ([], s))"

definition split_netloc :: "string \<Rightarrow> string" where
  "split_netloc s = (if startswith s ''//'' then takeWhile (\<lambda>c. c \<notin> set ''/?#'') (drop 2 s) else [])"

definition hex_char :: "char \<Rightarrow> bool" where
  "hex_char c \<longleftrightarrow> hex_val c \<noteq> None"

text \<open>A bracketed host is an IPv6 address or of a future version.\<close>

definition bracketed_host_ok :: "string \<Rightarrow> bool" where
  "bracketed_host_ok h =
     (if startswith h ''v''
      then (let v = before_char CHR ''.'' (tl h) in
         CHR ''.'' \<in> set h \<and> v \<noteq> [] \<and> list_all hex_char v \<and> after_char CHR ''.'' (tl h) \<noteq> []
         \<and> CHR 0x0A \<notin> set (after_char CHR ''.'' (tl h)))
      else case ip_address h of Some (V6 w sc) \<Rightarrow> True | _ \<Rightarrow> False)"

definition brackets_ok :: "string \<Rightarrow> bool" where
  "brackets_ok netloc \<longleftrightarrow> (CHR ''['' \<in> set netloc \<longleftrightarrow> CHR '']'' \<in> set netloc)
     \<and> (CHR ''['' \<in> set netloc \<longrightarrow> bracketed_host_ok (before_char CHR '']'' (after_char CHR ''['' netloc)))"

section \<open>Host and port\<close>

text \<open>\<open>_hostinfo\<close>: the user information up to the last \<open>@\<close> is dropped, brackets protect the colons of an IPv6 address.\<close>

definition host_info :: "string \<Rightarrow> string \<times> string" where
  "host_info netloc =
     (let h = after_last CHR ''@'' netloc
      in if CHR ''['' \<in> set h
         then (let b = after_char CHR ''['' h in (before_char CHR '']'' b, after_char CHR '':'' (after_char CHR '']'' b)))
         else (before_char CHR '':'' h, after_char CHR '':'' h))"

definition url_hostname :: "string \<Rightarrow> string option" where
  "url_hostname netloc =
     (let h = fst (host_info netloc)
      in if h = [] then None else Some (lower (before_char CHR ''%'' h) @ drop (length (before_char CHR ''%'' h)) h))"

text \<open>\<open>None\<close> where reading the attribute raises; \<open>Some None\<close> for no port.\<close>

definition url_port :: "string \<Rightarrow> int option option" where
  "url_port netloc =
     (let p = snd (host_info netloc)
      in if p = [] then Some None
         else if list_all is_digit p
         then (let n = fst (scan_digits 0 0 p) in if n \<le> 65535 then Some (Some n) else None)
         else None)"

record parsed_url =
  url_scheme :: string
  url_netloc :: string

definition urlparse :: "string \<Rightarrow> parsed_url option" where
  "urlparse s = (case split_scheme (url_clean s) of
     (scheme, rest) \<Rightarrow>
       if brackets_ok (split_netloc rest) then Some \<lparr>url_scheme = scheme, url_netloc = split_netloc rest\<rparr> else None)"

lemma urlparse_examples:
  "urlparse ''HTTPS://erp.corp:8443/x?y#z'' = Some \<lparr>url_scheme = ''https'', url_netloc = ''erp.corp:8443''\<rparr>"
  "url_hostname ''u:p@Erp.Corp:8443'' = Some ''erp.corp''" "url_port ''u:p@Erp.Corp:8443'' = Some (Some 8443)"
  "url_hostname ''[::1]:80'' = Some ''::1''" "url_port ''[::1]:80'' = Some (Some 80)"
  "urlparse ''http://[1.2.3.4]/'' = None" "url_port ''h:99999'' = None" "url_port ''h:'' = Some None"
  "urlparse ''erp.corp:8443'' = Some \<lparr>url_scheme = ''erp.corp'', url_netloc = []\<rparr>"
  by code_simp+

end
