(* ===== verification/Erp_Probe.thy ===== *)
theory Erp_Probe
  imports Url_Text Base64_Text Json_Text Redaction
begin

text \<open>
  The connectivity probe of \<open>src/scripts/probe_real_erp.py\<close>: where it looks, the four checks, the verdict, what it
  prints and its exit code.  The resolver, the sockets, TLS and the HTTP client are the record \<open>network\<close>: each
  call answers with the elapsed milliseconds or with the text of the exception.
\<close>

section \<open>The network\<close>

record certificate =
  cert_subject :: "(string \<times> string) list list"
  cert_not_after :: "string option"

text \<open>\<open>getpeercert()\<close> is empty (\<open>None\<close>) where the certificate was not validated.\<close>

record tls_session =
  tls_version :: "string option"
  tls_cipher :: "string option"
  tls_cert :: "certificate option"
  tls_ms :: rat

record http_answer =
  ha_status :: int
  ha_headers :: "(string, string) dict"
  ha_text :: string
  ha_ms :: rat

record network =
  resolve :: "string \<Rightarrow> int \<Rightarrow> string + string set \<times> rat"
  set_order :: "string set \<Rightarrow> string list"
  connect :: "string \<Rightarrow> int \<Rightarrow> rat \<Rightarrow> string + rat"
  handshake :: "bool \<Rightarrow> string \<Rightarrow> int \<Rightarrow> rat \<Rightarrow> string + tls_session"
  http_get :: "bool \<Rightarrow> rat \<Rightarrow> string \<Rightarrow> (string, string) dict \<Rightarrow> string \<times> rat + http_answer"

section \<open>The report\<close>

datatype dns_check = DnsPass "string list" rat | DnsFail string
datatype tcp_check = TcpPass string int rat | TcpFail string int string
datatype tls_check = TlsSkipped | TlsPass "string option" string rat json string | TlsFail string
datatype http_check = HttpAnswered bool int rat string string string | HttpFail string rat
datatype verdict = Pending | Passed | Failed

record compatibility =
  upstream_responsive :: bool
  latency_acceptable :: bool
  observed_latency :: rat
  sla_tier :: string

record report =
  rp_timestamp :: string
  rp_dns :: "dns_check option"
  rp_tcp :: "tcp_check option"
  rp_tls :: "tls_check option"
  rp_http :: "http_check option"
  rp_compat :: "compatibility option"
  rp_verdict :: verdict
  rp_env :: "(string \<times> json) list"

record probe =
  target_url :: string
  probe_path :: string
  auth_type :: string
  pr_token :: "string option"
  pr_api_key :: "string option"
  pr_username :: "string option"
  pr_password :: "string option"
  verify_ssl :: bool
  timeout_seconds :: rat
  pr_scheme :: string
  pr_hostname :: string
  pr_port :: int
  full_probe_url :: string
  pr_report :: report

record probe_args =
  a_url :: string
  a_path :: string
  a_auth :: string
  a_token :: "string option"
  a_api_key :: "string option"
  a_user :: "string option"
  a_password :: "string option"
  a_insecure :: bool
  a_timeout :: rat

definition default_args :: probe_args where
  "default_args = \<lparr>a_url = ''http://127.0.0.1:8001'', a_path = ''/health'', a_auth = ''none'', a_token = None,
     a_api_key = None, a_user = None, a_password = None, a_insecure = False, a_timeout = 5\<rparr>"

definition empty_report :: "string \<Rightarrow> report" where
  "empty_report ts = \<lparr>rp_timestamp = ts, rp_dns = None, rp_tcp = None, rp_tls = None, rp_http = None, rp_compat = None,
     rp_verdict = Pending, rp_env = []\<rparr>"

text \<open>A falsy scheme, host or port (a port of 0 included) takes its default; a URL that does not parse raises.\<close>

definition probe_init :: "string \<Rightarrow> probe_args \<Rightarrow> probe option" where
  "probe_init ts a =
     (let url = rstrip_char CHR ''/'' (a_url a);
          path = (if a_path a \<noteq> [] then CHR ''/'' # lstrip_char CHR ''/'' (a_path a) else ''/health'')
      in case urlparse url of None \<Rightarrow> None
         | Some u \<Rightarrow>
             (let scheme = (if url_scheme u = [] then ''http'' else url_scheme u);
                  host = (case url_hostname (url_netloc u) of None \<Rightarrow> ''127.0.0.1'' | Some h \<Rightarrow> h)
              in case url_port (url_netloc u) of None \<Rightarrow> None
                 | Some p \<Rightarrow>
                     Some \<lparr>target_url = url, probe_path = path, auth_type = lower (a_auth a), pr_token = a_token a,
                       pr_api_key = a_api_key a, pr_username = a_user a, pr_password = a_password a,
                       verify_ssl = (\<not> a_insecure a), timeout_seconds = a_timeout a, pr_scheme = scheme, pr_hostname = host,
                       pr_port = (case p of Some q \<Rightarrow> if q = 0 then (if scheme = ''https'' then 443 else 80) else q
                                  | None \<Rightarrow> if scheme = ''https'' then 443 else 80),
                       full_probe_url = url @ path, pr_report = empty_report ts\<rparr>))"

section \<open>The checks\<close>

abbreviation ok_check :: "probe \<Rightarrow> (report \<Rightarrow> report) \<Rightarrow> bool \<Rightarrow> bool \<times> probe" where
  "ok_check p f b \<equiv> (b, p\<lparr>pr_report := f (pr_report p)\<rparr>)"

definition check_dns :: "network \<Rightarrow> probe \<Rightarrow> bool \<times> probe" where
  "check_dns N p = (case resolve N (pr_hostname p) (pr_port p) of
       Inr (ips, ms) \<Rightarrow> ok_check p (rp_dns_update (\<lambda>_. Some (DnsPass (set_order N ips) (py_round 2 ms)))) True
     | Inl e \<Rightarrow> ok_check p (rp_dns_update (\<lambda>_. Some (DnsFail e))) False)"

definition check_tcp :: "network \<Rightarrow> probe \<Rightarrow> bool \<times> probe" where
  "check_tcp N p = (case connect N (pr_hostname p) (pr_port p) (timeout_seconds p) of
       Inr ms \<Rightarrow> ok_check p (rp_tcp_update (\<lambda>_. Some (TcpPass (pr_hostname p) (pr_port p) (py_round 2 ms)))) True
     | Inl e \<Rightarrow> ok_check p (rp_tcp_update (\<lambda>_. Some (TcpFail (pr_hostname p) (pr_port p) e))) False)"

text \<open>\<open>dict(x[0] for x in subject)\<close>: \<open>None\<close> where a name is empty and the index raises.\<close>

fun subject_dict :: "(string \<times> string) list list \<Rightarrow> (string, string) dict \<Rightarrow> (string, string) dict option" where
  "subject_dict [] d = Some d"
| "subject_dict ([] # xs) d = None"
| "subject_dict (((k, v) # ys) # xs) d = subject_dict xs (dput k v d)"

definition check_tls :: "network \<Rightarrow> probe \<Rightarrow> bool \<times> probe" where
  "check_tls N p =
     (if pr_scheme p \<noteq> ''https'' then ok_check p (rp_tls_update (\<lambda>_. Some TlsSkipped)) True
      else case handshake N (verify_ssl p) (pr_hostname p) (pr_port p) (timeout_seconds p) of
          Inl e \<Rightarrow> ok_check p (rp_tls_update (\<lambda>_. Some (TlsFail e))) False
        | Inr s \<Rightarrow>
            (let cipher = (case tls_cipher s of None \<Rightarrow> ''unknown'' | Some c \<Rightarrow> c) in
             case tls_cert s of
               None \<Rightarrow> ok_check p (rp_tls_update (\<lambda>_. Some (TlsPass (tls_version s) cipher (py_round 2 (tls_ms s))
                         (JStr ''none'') ''unverified (insecure mode)''))) True
             | Some c \<Rightarrow>
                 (case subject_dict (cert_subject c) [] of
                    None \<Rightarrow> ok_check p (rp_tls_update (\<lambda>_. Some (TlsFail ''tuple index out of range''))) False
                  | Some d \<Rightarrow> ok_check p (rp_tls_update (\<lambda>_. Some (TlsPass (tls_version s) cipher (py_round 2 (tls_ms s))
                      (JObj (map (map_prod id JStr) d))
                      (case cert_not_after c of None \<Rightarrow> ''unknown'' | Some t \<Rightarrow> t)))) True)))"

definition probe_headers :: "probe \<Rightarrow> (string, string) dict" where
  "probe_headers p =
     (let headers = [(''User-Agent'', ''ERP-Security-Gateway-Probe/2.0''), (''Accept'', ''application/json, text/plain, */*'')]
      in if auth_type p = ''bearer'' \<and> truthy_str (pr_token p)
         then dput ''Authorization'' (''Bearer '' @ the (pr_token p)) headers
         else if auth_type p = ''api-key'' \<and> truthy_str (pr_api_key p)
         then dput ''X-API-Key'' (the (pr_api_key p)) headers
         else if auth_type p = ''basic'' \<and> truthy_str (pr_username p) \<and> truthy_str (pr_password p)
         then dput ''Authorization''
                (''Basic '' @ b64encode (utf8_encode (the (pr_username p) @ '':'' @ the (pr_password p)))) headers
         else headers)"

text \<open>The header names of an answer are looked up without regard to case.\<close>

definition answer_header :: "string \<Rightarrow> string \<Rightarrow> http_answer \<Rightarrow> string" where
  "answer_header z k r = dget_or z (map (map_prod lower id) (ha_headers r)) (lower k)"

definition check_http_probe :: "network \<Rightarrow> probe \<Rightarrow> bool \<times> probe" where
  "check_http_probe N p =
     (case http_get N (verify_ssl p) (timeout_seconds p) (full_probe_url p) (probe_headers p) of
        Inl (e, ms) \<Rightarrow> ok_check p (rp_http_update (\<lambda>_. Some (HttpFail e (py_round 2 ms)))) False
      | Inr r \<Rightarrow> ok_check p (rp_http_update (\<lambda>_. Some (HttpAnswered (ha_status r < 500) (ha_status r) (py_round 2 (ha_ms r))
                   (answer_header ''undisclosed'' ''Server'' r) (answer_header ''unknown'' ''Content-Type'' r)
                   (take 300 (ha_text r))))) (ha_status r < 500))"

section \<open>The verdict\<close>

definition probe_latency :: "report \<Rightarrow> rat" where
  "probe_latency r = (case rp_http r of Some (HttpAnswered b st ms srv ct body) \<Rightarrow> ms | _ \<Rightarrow> 9999)"

definition probe_status :: "report \<Rightarrow> int" where
  "probe_status r = (case rp_http r of Some (HttpAnswered b st ms srv ct body) \<Rightarrow> st | _ \<Rightarrow> 0)"

definition dns_pass :: "report \<Rightarrow> bool" where
  "dns_pass r = (case rp_dns r of Some (DnsPass ips ms) \<Rightarrow> True | _ \<Rightarrow> False)"

definition tcp_pass :: "report \<Rightarrow> bool" where
  "tcp_pass r = (case rp_tcp r of Some (TcpPass h q ms) \<Rightarrow> True | _ \<Rightarrow> False)"

definition tls_pass :: "report \<Rightarrow> bool" where
  "tls_pass r = (case rp_tls r of Some (TlsFail e) \<Rightarrow> False | None \<Rightarrow> False | _ \<Rightarrow> True)"

definition upstream_timeout :: "rat \<Rightarrow> rat" where
  "upstream_timeout latency = max 5 (py_round 1 (latency * 3 / 1000))"

definition evaluate_compatibility :: "prims \<Rightarrow> probe \<Rightarrow> probe" where
  "evaluate_compatibility P p =
     (let r = pr_report p; latency = probe_latency r; responsive = (200 \<le> probe_status r \<and> probe_status r < 500);
          compat = \<lparr>upstream_responsive = responsive, latency_acceptable = (latency < 250), observed_latency = latency,
            sla_tier = (if latency < 50 then ''FAST (<50ms)'' else if latency < 250 then ''NORMAL (<250ms)''
                        else ''SLOW (>250ms)'')\<rparr>;
          all_passed = (dns_pass r \<and> tcp_pass r \<and> tls_pass r \<and> responsive)
      in p\<lparr>pr_report := r\<lparr>rp_compat := Some compat, rp_verdict := (if all_passed then Passed else Failed),
             rp_env := [(''BACKEND_URL'', JStr (target_url p)), (''ENVIRONMENT'', JStr ''staging''), (''GATEWAY_PORT'', JInt 8000),
                        (''UPSTREAM_TIMEOUT'', JStr (float_repr P (upstream_timeout latency)))]\<rparr>\<rparr>)"

section \<open>The run\<close>

text \<open>Each printed text, without the line end \<open>print\<close> adds.\<close>

definition nl :: string where
  "nl = [CHR 0x0A]"

definition ruler :: "char \<Rightarrow> string" where
  "ruler c = replicate 75 c"

definition show_tls_version :: "string option \<Rightarrow> string" where
  "show_tls_version v = (case v of None \<Rightarrow> ''None'' | Some s \<Rightarrow> s)"

definition dns_line :: "prims \<Rightarrow> probe \<Rightarrow> string" where
  "dns_line P p = (case rp_dns (pr_report p) of
       Some (DnsPass ips ms) \<Rightarrow> ''  --> [PASS] Resolved to ['' @ sep_by '', '' ips @ ''] in '' @ float_repr P ms @ ''ms''
     | Some (DnsFail e) \<Rightarrow> ''  --> [FAIL] DNS resolution failed: '' @ e
     | None \<Rightarrow> [])"

definition tcp_line :: "prims \<Rightarrow> probe \<Rightarrow> string" where
  "tcp_line P p = (case rp_tcp (pr_report p) of
       Some (TcpPass h q ms) \<Rightarrow> ''  --> [PASS] TCP handshaked successfully in '' @ float_repr P ms @ ''ms''
     | Some (TcpFail h q e) \<Rightarrow> ''  --> [FAIL] TCP connection failed: '' @ e
     | None \<Rightarrow> [])"

definition tls_line :: "prims \<Rightarrow> probe \<Rightarrow> string list" where
  "tls_line P p = (case rp_tls (pr_report p) of
       Some (TlsPass v c ms subj ex) \<Rightarrow>
         [''  --> [PASS] TLS established: '' @ show_tls_version v @ '' ('' @ c @ '') in '' @ float_repr P ms @ ''ms'']
     | Some (TlsFail e) \<Rightarrow> [''  --> [FAIL] TLS negotiation failed: '' @ e]
     | _ \<Rightarrow> [])"

definition http_line :: "prims \<Rightarrow> probe \<Rightarrow> string" where
  "http_line P p = (case rp_http (pr_report p) of
       Some (HttpAnswered True st ms srv ct body) \<Rightarrow>
         ''  --> [PASS] HTTP Response: '' @ str_int st @ '' OK | Latency: '' @ float_repr P ms @ ''ms | Upstream Server: '' @ srv
     | Some (HttpAnswered False st ms srv ct body) \<Rightarrow> ''  --> [FAIL] HTTP Probe failed: Status '' @ str_int st
     | Some (HttpFail e ms) \<Rightarrow> ''  --> [FAIL] HTTP Probe failed: '' @ e
     | None \<Rightarrow> [])"

definition intro_lines :: "probe \<Rightarrow> string list" where
  "intro_lines p =
     [nl @ ruler CHR ''='', ''   ERP SECURITY GATEWAY - REAL ERP PRE-FLIGHT CONNECTIVITY PROBE'',
      ''   Target URL:  '' @ target_url p, ''   Probe Path:  '' @ probe_path p, ''   Auth Scheme: '' @ upper (auth_type p),
      ''   Timestamp:   '' @ rp_timestamp (pr_report p), ruler CHR ''='']"

definition verdict_text :: "verdict \<Rightarrow> string" where
  "verdict_text v = (case v of Pending \<Rightarrow> ''PENDING'' | Passed \<Rightarrow> ''PASSED'' | Failed \<Rightarrow> ''FAILED'')"

definition show_bool :: "bool \<Rightarrow> string" where
  "show_bool b = (if b then ''True'' else ''False'')"

definition summary_lines :: "prims \<Rightarrow> probe \<Rightarrow> string list" where
  "summary_lines P p =
     [nl @ ruler CHR ''-'', ''   PRE-FLIGHT DIAGNOSTIC VERDICT'', ruler CHR ''-'',
      ''   Connectivity Status:  ['' @ verdict_text (rp_verdict (pr_report p)) @ '']'']
     @ (case rp_compat (pr_report p) of None \<Rightarrow> [] | Some c \<Rightarrow>
         [''   Upstream Responsive:  '' @ show_bool (upstream_responsive c),
          ''   Round-Trip Latency:   '' @ float_repr P (observed_latency c) @ '' ms'',
          ''   Gateway Budget Fit:   '' @ show_bool (latency_acceptable c), ''   Latency Tier:         '' @ sla_tier c])
     @ [ruler CHR ''-'']
     @ (if rp_verdict (pr_report p) = Passed
        then [nl @ ''   [RECOMMENDED .env CONFIGURATION]'', ''   BACKEND_URL='' @ [CHR 34] @ target_url p @ [CHR 34],
              ''   ENVIRONMENT='' @ [CHR 34] @ ''staging'' @ [CHR 34], ''   GATEWAY_PORT=8000'', ruler CHR ''='' @ nl]
        else [nl @ ''   [ACTION REQUIRED]'',
              ''   Please ensure target ERP host is reachable from this machine and not blocked by firewall/VPN.'',
              ruler CHR ''='' @ nl])"

definition run_checks :: "network \<Rightarrow> probe \<Rightarrow> probe" where
  "run_checks N p = snd (check_http_probe N (snd (check_tls N (snd (check_tcp N (snd (check_dns N p)))))))"

definition run_probe :: "prims \<Rightarrow> network \<Rightarrow> probe \<Rightarrow> probe \<times> string list" where
  "run_probe P N p =
     (let p1 = snd (check_dns N p); p2 = snd (check_tcp N p1); p3 = snd (check_tls N p2); p4 = snd (check_http_probe N p3);
          p5 = evaluate_compatibility P p4
      in (p5, intro_lines p
           @ [nl @ ''[Step 1/4] Resolving DNS for host: '' @ pr_hostname p, dns_line P p1,
              nl @ ''[Step 2/4] Testing TCP Socket Connection to '' @ pr_hostname p @ '':'' @ str_int (pr_port p), tcp_line P p2]
           @ (if pr_scheme p = ''https''
              then (nl @ ''[Step 3/4] Validating TLS Handshake & Security Certificates'') # tls_line P p3
              else [nl @ ''[Step 3/4] TLS Check: Skipped (plain HTTP target)''])
           @ [nl @ ''[Step 4/4] Sending Non-Destructive HTTP GET to '' @ full_probe_url p, http_line P p4]
           @ summary_lines P p5))"

text \<open>The saved report, and the script: report, printed texts and exit code; \<open>None\<close> for a URL that raises.\<close>

definition report_json :: "probe \<Rightarrow> json" where
  "report_json p = (let r = pr_report p in JObj
     [(''timestamp'', JStr (rp_timestamp r)),
      (''target'', JObj [(''base_url'', JStr (target_url p)), (''scheme'', JStr (pr_scheme p)), (''hostname'', JStr (pr_hostname p)),
         (''port'', JInt (pr_port p)), (''probe_path'', JStr (probe_path p)), (''full_url'', JStr (full_probe_url p))]),
      (''checks'', JObj (
         (case rp_dns r of None \<Rightarrow> [] | Some (DnsPass ips ms) \<Rightarrow> [(''dns'', JObj [(''status'', JStr ''PASS''),
            (''resolved_ips'', JList (map JStr ips)), (''duration_ms'', JFloat ms)])]
          | Some (DnsFail e) \<Rightarrow> [(''dns'', JObj [(''status'', JStr ''FAIL''), (''error'', JStr e)])])
         @ (case rp_tcp r of None \<Rightarrow> [] | Some (TcpPass h q ms) \<Rightarrow> [(''tcp'', JObj [(''status'', JStr ''PASS''), (''host'', JStr h),
            (''port'', JInt q), (''connect_latency_ms'', JFloat ms)])]
          | Some (TcpFail h q e) \<Rightarrow> [(''tcp'', JObj [(''status'', JStr ''FAIL''), (''host'', JStr h), (''port'', JInt q),
            (''error'', JStr e)])])
         @ (case rp_tls r of None \<Rightarrow> [] | Some TlsSkipped \<Rightarrow> [(''tls'', JObj [(''status'', JStr ''SKIPPED''),
            (''reason'', JStr ''HTTP target scheme does not utilize TLS'')])]
          | Some (TlsPass v c ms subj ex) \<Rightarrow> [(''tls'', JObj [(''status'', JStr ''PASS''),
            (''tls_version'', case v of None \<Rightarrow> JNull | Some s \<Rightarrow> JStr s), (''cipher'', JStr c),
            (''handshake_latency_ms'', JFloat ms), (''cert_subject'', subj), (''cert_expires'', JStr ex)])]
          | Some (TlsFail e) \<Rightarrow> [(''tls'', JObj [(''status'', JStr ''FAIL''), (''error'', JStr e)])])
         @ (case rp_http r of None \<Rightarrow> [] | Some (HttpAnswered b st ms srv ct body) \<Rightarrow> [(''http'', JObj
            [(''status'', JStr (if b then ''PASS'' else ''FAIL'')), (''http_status'', JInt st), (''latency_ms'', JFloat ms),
             (''server_header'', JStr srv), (''content_type'', JStr ct), (''body_snippet'', JStr body)])]
          | Some (HttpFail e ms) \<Rightarrow> [(''http'', JObj [(''status'', JStr ''FAIL''), (''error'', JStr e), (''duration_ms'', JFloat ms)])]))),
      (''latency_ms'', JObj []),
      (''compatibility'', JObj (case rp_compat r of None \<Rightarrow> [] | Some c \<Rightarrow>
         [(''upstream_responsive'', JBool (upstream_responsive c)), (''latency_acceptable_for_gateway'', JBool (latency_acceptable c)),
          (''observed_latency_ms'', JFloat (observed_latency c)), (''recommended_sla_tier'', JStr (sla_tier c))])),
      (''verdict'', JStr (verdict_text (rp_verdict r))), (''recommended_env'', JObj (rp_env r))])"

definition probe_main :: "prims \<Rightarrow> network \<Rightarrow> string \<Rightarrow> probe_args \<Rightarrow> (json \<times> string list \<times> int) option" where
  "probe_main P N ts a = (case probe_init ts a of None \<Rightarrow> None | Some p \<Rightarrow>
     (case run_probe P N p of (q, out) \<Rightarrow>
        Some (report_json q, out, if rp_verdict (pr_report q) = Passed then 0 else 1)))"

section \<open>What the verdict means\<close>

text \<open>The reference: the four questions asked of the network directly.\<close>

definition handshake_ok :: "string + tls_session \<Rightarrow> bool" where
  "handshake_ok h = (case h of Inl e \<Rightarrow> False | Inr s \<Rightarrow>
     (case tls_cert s of None \<Rightarrow> True | Some c \<Rightarrow> [] \<notin> set (cert_subject c)))"

definition answered_ok :: "string \<times> rat + http_answer \<Rightarrow> bool" where
  "answered_ok h = (case h of Inl e \<Rightarrow> False | Inr r \<Rightarrow> 200 \<le> ha_status r \<and> ha_status r < 500)"

definition healthy_target :: "network \<Rightarrow> probe \<Rightarrow> bool" where
  "healthy_target N p \<longleftrightarrow>
     \<not> isl (resolve N (pr_hostname p) (pr_port p)) \<and> \<not> isl (connect N (pr_hostname p) (pr_port p) (timeout_seconds p))
     \<and> (pr_scheme p = ''https'' \<longrightarrow> handshake_ok (handshake N (verify_ssl p) (pr_hostname p) (pr_port p) (timeout_seconds p)))
     \<and> answered_ok (http_get N (verify_ssl p) (timeout_seconds p) (full_probe_url p) (probe_headers p))"

lemmas check_defs = check_dns_def check_tcp_def check_tls_def check_http_probe_def

lemma subject_dict_None: "[] \<in> set xs \<longleftrightarrow> subject_dict xs d = None"
  by (induction xs d rule: subject_dict.induct) auto

text \<open>Every check writes its own entry and leaves the rest of the probe alone.\<close>

lemma check_entries:
  "snd (check_dns N p) = p\<lparr>pr_report := (pr_report p)\<lparr>rp_dns := rp_dns (pr_report (snd (check_dns N p)))\<rparr>\<rparr>"
  "snd (check_tcp N p) = p\<lparr>pr_report := (pr_report p)\<lparr>rp_tcp := rp_tcp (pr_report (snd (check_tcp N p)))\<rparr>\<rparr>"
  "snd (check_tls N p) = p\<lparr>pr_report := (pr_report p)\<lparr>rp_tls := rp_tls (pr_report (snd (check_tls N p)))\<rparr>\<rparr>"
  "snd (check_http_probe N p) = p\<lparr>pr_report := (pr_report p)\<lparr>rp_http := rp_http (pr_report (snd (check_http_probe N p)))\<rparr>\<rparr>"
  by (auto simp: check_defs Let_def split: sum.split option.split)

lemma check_outcomes:
  "fst (check_dns N p) = dns_pass (pr_report (snd (check_dns N p)))"
  "dns_pass (pr_report (snd (check_dns N p))) \<longleftrightarrow> \<not> isl (resolve N (pr_hostname p) (pr_port p))"
  "fst (check_tcp N p) = tcp_pass (pr_report (snd (check_tcp N p)))"
  "tcp_pass (pr_report (snd (check_tcp N p))) \<longleftrightarrow> \<not> isl (connect N (pr_hostname p) (pr_port p) (timeout_seconds p))"
  "fst (check_tls N p) = tls_pass (pr_report (snd (check_tls N p)))"
  "tls_pass (pr_report (snd (check_tls N p))) \<longleftrightarrow> (pr_scheme p = ''https'' \<longrightarrow>
     handshake_ok (handshake N (verify_ssl p) (pr_hostname p) (pr_port p) (timeout_seconds p)))"
  by (auto simp: check_defs dns_pass_def tcp_pass_def tls_pass_def handshake_ok_def Let_def
        subject_dict_None [of _ "[]"] split: sum.split option.split)

lemma http_outcome:
  "(200 \<le> probe_status (pr_report (snd (check_http_probe N p))) \<and> probe_status (pr_report (snd (check_http_probe N p))) < 500)
   \<longleftrightarrow> answered_ok (http_get N (verify_ssl p) (timeout_seconds p) (full_probe_url p) (probe_headers p))"
  by (auto simp: check_http_probe_def probe_status_def answered_ok_def split: sum.split)

lemma probe_headers_report: "probe_headers (p\<lparr>pr_report := r\<rparr>) = probe_headers p"
  unfolding probe_headers_def by (simp cong: if_cong)

lemma other_entries:
  "rp_dns (pr_report (snd (check_tcp N p))) = rp_dns (pr_report p)"
  "rp_dns (pr_report (snd (check_tls N p))) = rp_dns (pr_report p)" "rp_tcp (pr_report (snd (check_tls N p))) = rp_tcp (pr_report p)"
  "rp_dns (pr_report (snd (check_http_probe N p))) = rp_dns (pr_report p)"
  "rp_tcp (pr_report (snd (check_http_probe N p))) = rp_tcp (pr_report p)"
  "rp_tls (pr_report (snd (check_http_probe N p))) = rp_tls (pr_report p)"
  by (subst check_entries, simp)+

lemma kept_entries:
  "dns_pass (pr_report (snd (check_tcp N p))) = dns_pass (pr_report p)"
  "dns_pass (pr_report (snd (check_tls N p))) = dns_pass (pr_report p)"
  "dns_pass (pr_report (snd (check_http_probe N p))) = dns_pass (pr_report p)"
  "tcp_pass (pr_report (snd (check_tls N p))) = tcp_pass (pr_report p)"
  "tcp_pass (pr_report (snd (check_http_probe N p))) = tcp_pass (pr_report p)"
  "tls_pass (pr_report (snd (check_http_probe N p))) = tls_pass (pr_report p)"
  by (simp_all add: dns_pass_def tcp_pass_def tls_pass_def other_entries)

text \<open>The fields of the target are those of the start throughout.\<close>

lemma target_kept:
  assumes "q = snd (check_dns N p) \<or> q = snd (check_tcp N p) \<or> q = snd (check_tls N p) \<or> q = snd (check_http_probe N p)"
  shows "pr_hostname q = pr_hostname p" "pr_port q = pr_port p" "pr_scheme q = pr_scheme p" "verify_ssl q = verify_ssl p"
    "timeout_seconds q = timeout_seconds p" "full_probe_url q = full_probe_url p" "probe_headers q = probe_headers p"
  using assms check_entries [of N p] by (metis probe.select_convs probe.surjective probe.update_convs(14) probe_headers_report)+

lemmas dns_kept = target_kept [OF disjI1 [OF refl]]
lemmas tcp_kept = target_kept [OF disjI2 [OF disjI1 [OF refl]]]
lemmas tls_kept = target_kept [OF disjI2 [OF disjI2 [OF disjI1 [OF refl]]]]
lemmas http_kept = target_kept [OF disjI2 [OF disjI2 [OF disjI2 [OF refl]]]]

lemma run_probe_report: "fst (run_probe P N p) = evaluate_compatibility P (run_checks N p)"
  by (simp add: run_probe_def run_checks_def Let_def)

lemma passed_iff:
  "rp_verdict (pr_report (evaluate_compatibility P p)) = Passed \<longleftrightarrow> dns_pass (pr_report p) \<and> tcp_pass (pr_report p)
     \<and> tls_pass (pr_report p) \<and> 200 \<le> probe_status (pr_report p) \<and> probe_status (pr_report p) < 500"
  by (simp add: evaluate_compatibility_def Let_def)


section \<open>The recommended time limit\<close>

lemma upstream_timeout_bounds:
  "5 \<le> upstream_timeout l" "3 * l / 1000 - 1/20 \<le> upstream_timeout l"
  "upstream_timeout l \<le> max 5 (3 * l / 1000 + 1/20)"
proof -
  have c: "py_round 1 (l * 3 / 1000) - 3 * l / 1000 \<le> 1/20" "3 * l / 1000 - py_round 1 (l * 3 / 1000) \<le> 1/20"
    using py_round_close [of 1 "l * 3 / 1000"] unfolding abs_le_iff by (simp_all add: mult.commute)
  then show "5 \<le> upstream_timeout l" "3 * l / 1000 - 1/20 \<le> upstream_timeout l"
    "upstream_timeout l \<le> max 5 (3 * l / 1000 + 1/20)"
    unfolding upstream_timeout_def by linarith+
qed

section \<open>Credentials\<close>

text \<open>The reference: what a server reads from a basic header, up to the first colon and after it.\<close>

definition basic_credentials :: "string \<Rightarrow> string \<times> string" where
  "basic_credentials h = (let s = utf8_decode (b64decode (drop 6 h)) in (before_char CHR '':'' s, after_char CHR '':'' s))"


definition sample_args :: probe_args where
  "sample_args = default_args\<lparr>a_auth := ''basic'', a_user := Some ''svc'', a_password := Some ''a:b''\<rparr>"


text \<open>
  Only the request carries the credentials: two probes that differ in nothing else and whose requests get the same
  answer print the same texts and save the same report.
\<close>

definition without_credentials :: "probe \<Rightarrow> probe" where
  "without_credentials p = p\<lparr>pr_token := None, pr_api_key := None, pr_username := None, pr_password := None\<rparr>"

lemma credentials_unused:
  "check_dns N (without_credentials p) = map_prod id without_credentials (check_dns N p)"
  "check_tcp N (without_credentials p) = map_prod id without_credentials (check_tcp N p)"
  "check_tls N (without_credentials p) = map_prod id without_credentials (check_tls N p)"
  "evaluate_compatibility P (without_credentials p) = without_credentials (evaluate_compatibility P p)"
  by (auto simp: check_defs evaluate_compatibility_def without_credentials_def Let_def
      split: sum.split option.split)

lemma credentials_unused_answer:
  "http_get N = (\<lambda>_ _ _ _. A)
   \<Longrightarrow> check_http_probe N (without_credentials p) = map_prod id without_credentials (check_http_probe N p)"
  by (auto simp: check_http_probe_def without_credentials_def split: sum.split)

lemma lines_without_credentials:
  "dns_line P (without_credentials p) = dns_line P p" "tcp_line P (without_credentials p) = tcp_line P p"
  "tls_line P (without_credentials p) = tls_line P p" "http_line P (without_credentials p) = http_line P p"
  "summary_lines P (without_credentials p) = summary_lines P p" "intro_lines (without_credentials p) = intro_lines p"
  "report_json (without_credentials p) = report_json p"
  by (simp_all add: without_credentials_def dns_line_def tcp_line_def tls_line_def http_line_def summary_lines_def
      intro_lines_def report_json_def)

lemma target_without_credentials:
  "pr_hostname (without_credentials p) = pr_hostname p" "pr_port (without_credentials p) = pr_port p"
  "pr_scheme (without_credentials p) = pr_scheme p" "full_probe_url (without_credentials p) = full_probe_url p"
  by (simp_all add: without_credentials_def)

lemma run_without_credentials:
  assumes "http_get N = (\<lambda>_ _ _ _. A)"
  shows "run_probe P N (without_credentials p) = map_prod without_credentials id (run_probe P N p)"
  by (simp add: run_probe_def Let_def credentials_unused credentials_unused_answer [OF assms] lines_without_credentials
      target_without_credentials)

lemma one_request:
  "run_probe P N p
   = run_probe P (N\<lparr>http_get := \<lambda>_ _ _ _. http_get N (verify_ssl p) (timeout_seconds p) (full_probe_url p) (probe_headers p)\<rparr>) p"
proof -
  let ?N = "N\<lparr>http_get := \<lambda>_ _ _ _. http_get N (verify_ssl p) (timeout_seconds p) (full_probe_url p) (probe_headers p)\<rparr>"
  have c: "check_dns ?N = check_dns N" "check_tcp ?N = check_tcp N" "check_tls ?N = check_tls N"
    by (auto simp: check_defs fun_eq_iff split: sum.split cong: if_cong)
  let ?q = "snd (check_tls N (snd (check_tcp N (snd (check_dns N p)))))"
  have "check_http_probe ?N ?q = check_http_probe N ?q"
    unfolding check_http_probe_def by (simp add: dns_kept tcp_kept tls_kept)
  then show ?thesis by (simp add: run_probe_def Let_def c)
qed

text \<open>
  The report and the texts the probe prints depend on the token, the API key, the user and the password only
  through the answer of the probed system: two probes that differ in their credentials alone, and whose one request
  is answered alike, print the same lines and save the same report.
\<close>

theorem report_hides_credentials:
  assumes "without_credentials p = without_credentials q"
    and "http_get N (verify_ssl p) (timeout_seconds p) (full_probe_url p) (probe_headers p)
         = http_get N (verify_ssl q) (timeout_seconds q) (full_probe_url q) (probe_headers q)"
  shows "report_json (fst (run_probe P N p)) = report_json (fst (run_probe P N q))
    \<and> snd (run_probe P N p) = snd (run_probe P N q)"
proof -
  let ?N = "N\<lparr>http_get := \<lambda>_ _ _ _. http_get N (verify_ssl p) (timeout_seconds p) (full_probe_url p) (probe_headers p)\<rparr>"
  have "run_probe P N p = run_probe P ?N p" "run_probe P N q = run_probe P ?N q"
    using one_request [of P N p] one_request [of P N q] assms(2) by simp_all
  moreover have "map_prod without_credentials id (run_probe P ?N p) = map_prod without_credentials id (run_probe P ?N q)"
    using run_without_credentials [of ?N _ P p] run_without_credentials [of ?N _ P q] assms(1) by simp
  ultimately show ?thesis using lines_without_credentials(7) by (metis fst_map_prod id_apply snd_map_prod)
qed

definition quiet_network :: network where
  "quiet_network = \<lparr>resolve = (\<lambda>h q. Inr ({}, 1)), set_order = (\<lambda>_. []), connect = (\<lambda>h q t. Inr 2),
     handshake = (\<lambda>v h q t. Inl ''no TLS''), http_get = (\<lambda>v t u h. Inr \<lparr>ha_status = 200, ha_headers = [], ha_text = [], ha_ms = 3\<rparr>)\<rparr>"

theorem report_hides_credentials_witness:
  "snd (run_probe echo_prims quiet_network (the (probe_init ''t'' sample_args)))
   = snd (run_probe echo_prims quiet_network (the (probe_init ''t'' (sample_args\<lparr>a_password := Some ''other''\<rparr>))))"
proof -
  have "without_credentials (the (probe_init ''t'' sample_args))
      = without_credentials (the (probe_init ''t'' (sample_args\<lparr>a_password := Some ''other''\<rparr>)))"
    by code_simp
  then show ?thesis
    using report_hides_credentials
      [of "the (probe_init ''t'' sample_args)" "the (probe_init ''t'' (sample_args\<lparr>a_password := Some ''other''\<rparr>))"
          quiet_network echo_prims]
    by (simp add: quiet_network_def)
qed

section \<open>Where the probe looks\<close>

text \<open>The characters of a host name, and the host part of a URL that states scheme, host and port.\<close>

definition host_char :: "char \<Rightarrow> bool" where
  "host_char c \<longleftrightarrow> is_digit c \<or> (let n = (of_char c :: nat) in 97 \<le> n \<and> n \<le> 122) \<or> c \<in> {CHR ''.'', CHR ''-''}"

lemma host_char_plain:
  "host_char c \<Longrightarrow> c \<notin> set ''@[]:%/?#'' \<and> ascii_lower c = c \<and> 32 < (of_char c :: nat)"
  by (auto simp: host_char_def is_digit_def ascii_lower_def Let_def)

lemma str_nat_digits: "list_all is_digit (str_nat n) \<and> str_nat n \<noteq> []"
proof (induction n rule: str_nat.induct)
  case (1 n)
  have d: "m < 10 \<Longrightarrow> is_digit (char_of (48 + m))" for m :: nat
    by (simp add: is_digit_def of_char_of)
  show ?case using 1 d [of n] d [of "n mod 10"] by (cases "n < 10") (auto simp: str_nat.simps [of n])
qed

lemma scan_append:
  "list_all is_digit s \<Longrightarrow> scan_digits v k (s @ t) = (case scan_digits v k s of (w, m, r) \<Rightarrow> scan_digits w m t)"
  by (induction s arbitrary: v k) auto

lemma scan_str_nat: "\<exists>k. scan_digits 0 0 (str_nat n) = (int n, k, [])"
proof (induction n rule: str_nat.induct)
  case (1 n)
  have d: "is_digit (char_of (48 + m)) \<and> digit_val (char_of (48 + m)) = int m" if "m < 10" for m :: nat
  proof -
    have "(of_char (char_of (48 + m)) :: nat) = 48 + m" using that by simp
    moreover have "(of_char (char_of (48 + m)) :: int) = int (of_char (char_of (48 + m)))"
      by (simp only: of_nat_of_char)
    ultimately show ?thesis using that by (simp add: is_digit_def digit_val_def Let_def)
  qed
  show ?case
  proof (cases "n < 10")
    case True
    then show ?thesis using d [of n] by (simp add: str_nat.simps [of n])
  next
    case False
    with 1 obtain k where k: "scan_digits 0 0 (str_nat (n div 10)) = (int (n div 10), k, [])" by blast
    have "str_nat n = str_nat (n div 10) @ [char_of (48 + n mod 10)]"
      using False by (simp add: str_nat.simps [of n])
    moreover have "10 * int (n div 10) + int (n mod 10) = int n" by presburger
    ultimately show ?thesis
      using k d [of "n mod 10"] str_nat_digits [of "n div 10"] by (simp add: scan_append)
  qed
qed

lemma strip_slashes:
  "s \<noteq> [] \<Longrightarrow> last s \<noteq> c \<Longrightarrow> rstrip_char c (s @ replicate n c) = s"
  by (cases s rule: rev_cases) (simp_all add: rstrip_char_def dropWhile_append)

abbreviation host_port :: "string \<Rightarrow> nat \<Rightarrow> string" where
  "host_port h q \<equiv> h @ '':'' @ str_nat q"

lemma host_port_chars:
  assumes "list_all host_char h" and "c \<in> set (host_port h q)"
  shows "c \<notin> set ''@[]%/?#'' \<and> 32 < (of_char c :: nat)"
proof -
  have "is_digit c \<Longrightarrow> host_char c" by (simp add: host_char_def)
  then have "host_char c \<or> c = CHR '':''"
    using assms str_nat_digits [of q] by (auto simp: list_all_iff)
  then show ?thesis using host_char_plain [of c] by auto
qed

lemma host_port_parts:
  assumes "h \<noteq> []" "list_all host_char h" and "q \<le> 65535"
  shows "url_hostname (host_port h q) = Some h" "url_port (host_port h q) = Some (Some (int q))"
    "brackets_ok (host_port h q)"
proof -
  note c = host_port_chars [OF assms(2), of _ q]
  have colon: "CHR '':'' \<notin> set h" and pct: "CHR ''%'' \<notin> set h" and low: "lower h = h"
    using assms(2) host_char_plain unfolding lower_def list_all_iff by (fastforce intro: map_idI)+
  have "after_last CHR ''@'' (host_port h q) = host_port h q"
    using c [of "CHR ''@''"] by (intro after_last_absent) auto
  moreover have "CHR ''['' \<notin> set (host_port h q)" "CHR '']'' \<notin> set (host_port h q)"
    using c [of "CHR ''[''"] c [of "CHR '']''"] by auto
  ultimately have info: "host_info (host_port h q) = (h, str_nat q)" and b: "brackets_ok (host_port h q)"
    using partition_append [OF colon, of "str_nat q"] by (simp_all add: host_info_def brackets_ok_def Let_def)
  show "brackets_ok (host_port h q)" by (rule b)
  show "url_hostname (host_port h q) = Some h"
    using assms(1) before_char_absent [OF pct] low unfolding url_hostname_def info by simp
  show "url_port (host_port h q) = Some (Some (int q))"
    using str_nat_digits [of q] scan_str_nat [of q] assms(3) unfolding url_port_def info by auto
qed

lemma url_clean_id:
  assumes "\<And>x. x \<in> set s \<Longrightarrow> 32 < (of_char x :: nat)"
  shows "url_clean s = s"
proof -
  have "dropWhile (\<lambda>c. (of_char c :: nat) \<le> 32) s = s" using assms by (cases s) force+
  moreover have "filter (\<lambda>c. (of_char c :: nat) \<notin> {9, 10, 13}) s = s" using assms by (intro filter_True) force
  ultimately show ?thesis by (simp only: url_clean_def)
qed

lemma urlparse_host_port:
  assumes "sch \<in> {''http'', ''https''}" and "list_all host_char h" and "q \<le> 65535" "h \<noteq> []"
  shows "urlparse (sch @ ''://'' @ host_port h q) = Some \<lparr>url_scheme = sch, url_netloc = host_port h q\<rparr>"
proof -
  let ?u = "sch @ ''://'' @ host_port h q"
  note c = host_port_chars [OF assms(2), of _ q]
  have "32 < (of_char x :: nat)" if "x \<in> set ?u" for x
  proof (cases "x \<in> set (host_port h q)")
    case False
    with that assms(1) have "x \<in> set ''https://''" by auto
    then show ?thesis by auto
  qed (use c in blast)
  then have clean: "url_clean ?u = ?u" by (rule url_clean_id)
  have "split_scheme ?u = (sch, ''//'' @ host_port h q)"
    using assms(1) partition_append [of "CHR '':''" sch "''//'' @ host_port h q"]
    by (auto simp: split_scheme_def is_letter_def scheme_char_def lower_def ascii_lower_def)
  moreover have "split_netloc (''//'' @ host_port h q) = host_port h q"
    using c by (auto simp: split_netloc_def startswith_def takeWhile_eq_all_conv)
  ultimately show ?thesis
    using host_port_parts(3) [OF assms(4,2,3)] unfolding urlparse_def clean by simp
qed

lemma probe_init_stated:
  assumes "rstrip_char CHR ''/'' (a_url b) = u" and "a_path b \<noteq> []" "CHR ''/'' # lstrip_char CHR ''/'' (a_path b) = path"
    and "urlparse u = Some \<lparr>url_scheme = sch, url_netloc = netloc\<rparr>" and "sch \<noteq> []"
    and "url_hostname netloc = Some h" and "url_port netloc = Some (Some q)" "q \<noteq> 0"
  shows "\<exists>p. probe_init ts b = Some p \<and> pr_scheme p = sch \<and> pr_hostname p = h \<and> pr_port p = q \<and> full_probe_url p = u @ path"
  using assms by (simp add: probe_init_def Let_def)

text \<open>
  A target written as scheme, host and port - with any number of trailing slashes and any probe path - is the
  target that is probed: name lookup, connection and handshake go to exactly that host and that port (a port of 0
  aside), and the request to the URL as written, without doubled slashes between it and the path.
\<close>

theorem probe_targets_stated:
  assumes "sch \<in> {''http'', ''https''}" and "h \<noteq> []" "list_all host_char h" and "0 < q" "q \<le> 65535"
  shows "\<exists>p. probe_init ts (a\<lparr>a_url := (sch @ ''://'' @ host_port h q) @ replicate n CHR ''/'',
               a_path := replicate k CHR ''/'' @ ''health''\<rparr>) = Some p
     \<and> pr_scheme p = sch \<and> pr_hostname p = h \<and> pr_port p = int q
     \<and> full_probe_url p = sch @ ''://'' @ host_port h q @ ''/health''"
proof -
  have "str_nat q \<noteq> []" and "CHR ''/'' \<notin> set (host_port h q)"
    using str_nat_digits host_port_chars [OF assms(3), of "CHR ''/''" q] by auto
  then have "last (str_nat q) \<noteq> CHR ''/''" using last_in_set [of "str_nat q"] by fastforce
  then have u: "rstrip_char CHR ''/'' ((sch @ ''://'' @ host_port h q) @ replicate n CHR ''/'') = sch @ ''://'' @ host_port h q"
    using \<open>str_nat q \<noteq> []\<close> by (intro strip_slashes) auto
  have path: "CHR ''/'' # lstrip_char CHR ''/'' (replicate k CHR ''/'' @ ''health'') = ''/health''"
    by (induction k) (simp_all add: lstrip_char_def)
  have "sch \<noteq> []" and "int q \<noteq> 0" using assms(1,4) by auto
  from probe_init_stated [of "a\<lparr>a_url := (sch @ ''://'' @ host_port h q) @ replicate n CHR ''/'',
      a_path := replicate k CHR ''/'' @ ''health''\<rparr>", OF _ _ _ urlparse_host_port [OF assms(1,3,5,2)] this(1)
      host_port_parts(1,2) [OF assms(2,3,5)] this(2)] show ?thesis
    using u path by simp
qed

theorem probe_targets_stated_witness:
  "\<exists>p. probe_init ''t'' (default_args\<lparr>a_url := (''https'' @ ''://'' @ host_port ''erp.corp'' 8443) @ replicate 2 CHR ''/'',
               a_path := replicate 0 CHR ''/'' @ ''health''\<rparr>) = Some p
     \<and> pr_scheme p = ''https'' \<and> pr_hostname p = ''erp.corp'' \<and> pr_port p = int 8443
     \<and> full_probe_url p = ''https'' @ ''://'' @ host_port ''erp.corp'' 8443 @ ''/health''"
proof (rule probe_targets_stated)
  show "list_all host_char ''erp.corp''" by code_simp
qed simp_all

text \<open>Without a scheme the host is taken for the scheme, and the probe looks at its own machine.\<close>

lemma schemeless_probes_itself:
  "map_option (\<lambda>p. (pr_hostname p, pr_port p, full_probe_url p)) (probe_init ''t'' (default_args\<lparr>a_url := ''erp.corp:8443''\<rparr>))
   = Some (''127.0.0.1'', 80, ''erp.corp:8443/health'')"
  by code_simp

end
