(* ===== verification/Readiness_Audit.thy ===== *)
theory Readiness_Audit
  imports Waf Risk_Engine Route_Allowlist Redaction Rules_Engine Audit_Chain
begin

text \<open>
  The production readiness audit of \<open>src/scripts/verify_production_readiness.py\<close>: the twelve phase audits over the
  gateway's singletons, the loop that runs them and the scorecard.  What a fresh process finds - files, failing
  imports, the route catalogue, the loaded rules, the audit chain - is the record \<open>site\<close>.
\<close>

section \<open>The text of a container\<close>

text \<open>\<open>repr\<close> of a string: single quotes unless only those occur in it, with escapes for what is not printable.\<close>

definition repr_char :: "char \<Rightarrow> char \<Rightarrow> string" where
  "repr_char quote c = (let n = (of_char c :: nat) in
     if c = quote \<or> n = 92 then [CHR 92, c]
     else if n = 10 then [CHR 92, CHR ''n''] else if n = 13 then [CHR 92, CHR ''r'']
     else if n = 9 then [CHR 92, CHR ''t'']
     else if n < 32 \<or> (127 \<le> n \<and> n \<le> 160) \<or> n = 173
     then [CHR 92, CHR ''x'', hex_digit (n div 16), hex_digit (n mod 16)] else [c])"

definition repr_string :: "string \<Rightarrow> string" where
  "repr_string s = (let quote = (if CHR 0x27 \<in> set s \<and> CHR 0x22 \<notin> set s then CHR 0x22 else CHR 0x27)
     in quote # concat (map (repr_char quote) s) @ [quote])"

fun py_repr :: "prims \<Rightarrow> json \<Rightarrow> string" where
  "py_repr P (JStr s) = repr_string s"
| "py_repr P (JList xs) = ''['' @ sep_by '', '' (map (py_repr P) xs) @ '']''"
| "py_repr P (JObj kvs) = ''{'' @ sep_by '', '' (map (\<lambda>(k, v). repr_string k @ '': '' @ v)
     (map (\<lambda>(k, v). (k, py_repr P v)) kvs)) @ ''}''"
| "py_repr P j = py_str P j"

section \<open>The site\<close>

record site =
  has_requirements :: bool
  has_risk_assessment :: bool
  import_error :: "nat \<Rightarrow> string option"
  site_routes :: catalogue
  site_rules :: rules_engine
  site_chain :: audit_chain
  site_salt :: string
  site_loads :: "string \<Rightarrow> json option"
  chain_error_text :: "verify_error \<Rightarrow> string"

text \<open>An audit returns a verdict and a message, or raises with a text.\<close>

type_synonym audit_result = "string + bool \<times> string"

section \<open>The phases\<close>

definition audit_phase_0 :: "site \<Rightarrow> audit_result" where
  "audit_phase_0 S =
     (if \<not> has_requirements S \<or> \<not> has_risk_assessment S
      then Inr (False, ''Missing requirements.yaml or risk_assessment.yaml'')
      else Inr (True, ''Requirements and Threat Model YAML specifications verified.''))"

definition injection_probe :: string where
  "injection_probe = ''user'' @ [CHR 0x27] @ '' OR '' @ [CHR 0x27] @ ''1'' @ [CHR 0x27] @ ''='' @ [CHR 0x27] @ ''1''"

definition audit_phase_1 :: "site \<Rightarrow> audit_result" where
  "audit_phase_1 S =
     (if \<not> fst (inspect_content (site_loads S) injection_probe) then Inr (False, ''WAF failed to detect SQL injection'')
      else let risk = calculate_risk (risk_defaults\<lparr>waf_severity := 100, auth_anomaly := 100, rate_severity := 100,
                 risk_path := ''/''\<rparr>) ([] :: unit list)
           in if \<not> (0 \<le> overall risk \<and> overall risk \<le> 100) then Inr (False, ''Risk score exceeded [0.0, 100.0] bounds'')
              else Inr (True, ''WAF pattern inspection and bounded risk engine operational.''))"

definition audit_phase_2 :: "site \<Rightarrow> audit_result" where
  "audit_phase_2 S =
     (let v = validate_route (site_routes S) ''/api/inventory'' ''GET'';
          w = validate_route (site_routes S) ''/api/nonexistent/service'' ''GET''
      in if \<not> (path_known v \<and> method_allowed v) \<or> path_known w then Inr (False, ''Route allowlist misconfigured'')
         else Inr (True, ''Allowlist, strict schemas, credential velocity defense, and replay protection active.''))"

definition pii_sample :: json where
  "pii_sample = JObj [(''email'', JStr ''ceo@corp.com''), (''credit_card'', JStr ''4532-1234-5678-9012''), (''amount'', JInt 100)]"

definition audit_phase_3 :: "prims \<Rightarrow> site \<Rightarrow> audit_result" where
  "audit_phase_3 P S =
     (let clean = py_repr P (sanitize_telemetry P (site_salt S) pii_sample)
      in if contains_sub clean ''ceo@corp.com'' \<or> contains_sub clean ''4532''
         then Inr (False, ''PII leak detected in telemetry sanitizer'')
         else Inr (True, ''Zero-PII sanitization and cryptographic pseudonymization active.''))"

definition audit_phase_4 :: "site \<Rightarrow> audit_result" where
  "audit_phase_4 S =
     (let rule_count = length (rules (site_rules S))
      in if rule_count < 6 then Inr (False, ''Insufficient rules loaded: '' @ str_nat rule_count @ '' < 6'')
         else Inr (True, str_nat rule_count @ '' business logic rules loaded with YAML hot-reload support.''))"

text \<open>
  Phases 5 to 9 and 11 look whether an attribute or a key is there that the constructor or the literal in the same
  repository always writes: the keys are those of the dict literals.
\<close>

definition baseline_attributes :: "string list" where
  "baseline_attributes = [''baselines_path'', ''baselines'', ''events_processed'', ''unique_users_seen'', ''unique_endpoints_seen'',
     ''oldest_event_time'', ''newest_event_time'']"

definition audit_phase_5 :: "site \<Rightarrow> audit_result" where
  "audit_phase_5 S =
     (if ''baselines'' \<notin> set baseline_attributes then Inr (False, ''Baseline statistics engine not initialized'')
      else Inr (True, ''Baseline statistical profiling and 3-tier anti-poisoning triage verified.''))"

definition health_keys :: "string list" where
  "health_keys = [''status'', ''enabled'', ''is_rolled_back'', ''rollback_reason'', ''canary_percentage'', ''model_loaded'',
     ''total_inferences'', ''total_anomalies'', ''avg_latency_ms'', ''metadata'']"

definition audit_phase_6 :: "site \<Rightarrow> audit_result" where
  "audit_phase_6 S =
     (if ''status'' \<notin> set health_keys then Inr (False, ''ML model service health check failed'')
      else Inr (True, ''Advisory Isolation Forest ML active with sub-10ms inference and canary controls.''))"

definition agent_keys :: "string list" where
  "agent_keys = [''detection'', ''threat_intel'', ''investigation'', ''response'']"

definition audit_phase_7 :: "site \<Rightarrow> audit_result" where
  "audit_phase_7 S =
     (if ''detection'' \<notin> set agent_keys \<or> ''response'' \<notin> set agent_keys
      then Inr (False, ''Autonomous agents not registered in orchestrator'')
      else Inr (True, ''Detection, Intel, Investigation, and Response agents operational with human approval gates.''))"

definition mitigation_keys :: "string list" where
  "mitigation_keys = [''active_quarantined_ips'', ''active_revoked_tokens'', ''active_revoked_principals'',
     ''active_mfa_challenges'', ''active_dynamic_rate_limits'', ''active_suspended_accounts'', ''total_mitigations_enforced'']"

definition audit_phase_8 :: "site \<Rightarrow> audit_result" where
  "audit_phase_8 S =
     (if ''total_mitigations_enforced'' \<notin> set mitigation_keys then Inr (False, ''Mitigation engine failed status check'')
      else Inr (True, ''Sub-millisecond IP quarantine, token revocation, MFA challenges, and TTL expiry active.''))"

definition accuracy_keys :: "string list" where
  "accuracy_keys = [''total_feedbacks'', ''feedback_by_tag'', ''overall_precision'', ''rule_precision'']"

definition kpi_keys :: "string list" where
  "kpi_keys = [''tracker_started_at'', ''total_requests_processed'', ''traffic_breakdown'', ''threat_mitigation_rate_pct'',
     ''incident_kpis'']"

definition audit_phase_9 :: "site \<Rightarrow> audit_result" where
  "audit_phase_9 S =
     (if ''overall_precision'' \<notin> set accuracy_keys \<or> ''incident_kpis'' \<notin> set kpi_keys
      then Inr (False, ''SOC feedback and security metrics not functional'')
      else Inr (True, ''SOC feedback loops, concept drift monitoring, and autonomous retraining active.''))"

definition audit_phase_10 :: "prims \<Rightarrow> site \<Rightarrow> audit_result" where
  "audit_phase_10 P S =
     (case verify_chain P (site_chain S) of
        Inl e \<Rightarrow> Inl (chain_error_text S e)
      | Inr (intact, n, err) \<Rightarrow>
          if \<not> intact then Inr (False, ''Cryptographic audit chain verification failed'')
          else (case generate_full_compliance_report P (site_chain S) of
              Inl e \<Rightarrow> Inl (chain_error_text S e)
            | Inr rep \<Rightarrow>
                if dget (frameworks rep) ''SOC_2_TYPE_II'' = None then Inr (False, ''Compliance report generation failed'')
                else Inr (True, ''Circuit breaker, deep readiness probes, HMAC-SHA256 audit chaining, and SOC 2/ISO 27001 active.'')))"

definition canary_keys :: "string list" where
  "canary_keys = [''stage'', ''weight'', ''auto_rollback_enabled'', ''slo_limits'', ''last_rollback'', ''canary_metrics'',
     ''stable_metrics'']"

definition audit_phase_11 :: "site \<Rightarrow> audit_result" where
  "audit_phase_11 S =
     (if ''stage'' \<notin> set canary_keys \<or> ''slo_limits'' \<notin> set canary_keys then Inr (False, ''Canary router failed status check'')
      else Inr (True, ''Progressive canary routing (1% -> 10% -> 50% -> 100%) with automated SLO rollback active.''))"

section \<open>The auditor\<close>

record phase_result =
  ph_name :: string
  ph_passed :: bool
  ph_details :: string

record auditor =
  results :: "(string, phase_result) dict"
  passed_phases :: nat
  total_phases :: nat

definition auditor_init :: auditor where
  "auditor_init = \<lparr>results = [], passed_phases = 0, total_phases = 12\<rparr>"

text \<open>Every audit but the first imports the modules it looks at, and raises where an import does.\<close>

definition importing :: "nat \<Rightarrow> (site \<Rightarrow> audit_result) \<Rightarrow> site \<Rightarrow> audit_result" where
  "importing n audit S = (case import_error S n of Some e \<Rightarrow> Inl e | None \<Rightarrow> audit S)"

definition audits :: "prims \<Rightarrow> (string \<times> string \<times> (site \<Rightarrow> audit_result)) list" where
  "audits P =
    [(''Phase 0'', ''Requirements & Threat Model'', audit_phase_0),
     (''Phase 1'', ''Deterministic WAF & Bounded Risk MVP'', importing 1 audit_phase_1),
     (''Phase 2'', ''Route Allowlist, Schemas & Replay Guard'', importing 2 audit_phase_2),
     (''Phase 3'', ''Zero-PII Telemetry & Cryptographic Anonymization'', importing 3 (audit_phase_3 P)),
     (''Phase 4'', ''ERP Business Logic Rules Engine (R001-R006)'', importing 4 audit_phase_4),
     (''Phase 5'', ''Baseline Statistics & 3-Tier Anti-Poisoning'', importing 5 audit_phase_5),
     (''Phase 6'', ''Advisory Isolation Forest ML Service'', importing 6 audit_phase_6),
     (''Phase 7'', ''Autonomous Security Agents & Human Gates'', importing 7 audit_phase_7),
     (''Phase 8'', ''Automated Mitigation Engine & TTL Auto-Expiry'', importing 8 audit_phase_8),
     (''Phase 9'', ''SOC Continuous Improvement & Concept Drift'', importing 9 audit_phase_9),
     (''Phase 10'', ''HA/DR Circuit Breaker & Tamper-Evident Compliance'', importing 10 (audit_phase_10 P)),
     (''Phase 11'', ''Canary Deployment Router & Auto-Rollback'', importing 11 audit_phase_11)]"

definition phase_outcome :: "audit_result \<Rightarrow> bool \<times> string" where
  "phase_outcome r = (case r of Inl e \<Rightarrow> (False, ''Exception during audit: '' @ e) | Inr v \<Rightarrow> v)"

definition pad_right :: "nat \<Rightarrow> string \<Rightarrow> string" where
  "pad_right n s = s @ replicate (n - length s) CHR '' ''"

definition phase_line :: "string \<Rightarrow> string \<Rightarrow> bool \<times> string \<Rightarrow> string" where
  "phase_line pid name r = ''  '' @ (if fst r then ''[ PASS ]'' else ''[ FAIL ]'') @ ''  '' @ pad_right 10 pid @ '' | ''
     @ pad_right 46 name @ '' | '' @ snd r"

type_synonym phase = "string \<times> string \<times> (site \<Rightarrow> audit_result)"

definition outcome :: "site \<Rightarrow> phase \<Rightarrow> bool \<times> string" where
  "outcome S ph = phase_outcome (snd (snd ph) S)"

definition phase_passes :: "site \<Rightarrow> phase \<Rightarrow> bool" where
  "phase_passes S ph = fst (outcome S ph)"

definition phase_record :: "site \<Rightarrow> phase \<Rightarrow> phase_result" where
  "phase_record S ph = \<lparr>ph_name = fst (snd ph), ph_passed = phase_passes S ph, ph_details = snd (outcome S ph)\<rparr>"

definition after_phase :: "site \<Rightarrow> phase \<Rightarrow> auditor \<Rightarrow> auditor" where
  "after_phase S ph a =
     (let a1 = (if phase_passes S ph then a\<lparr>passed_phases := passed_phases a + 1\<rparr> else a)
      in a1\<lparr>results := dput (fst ph) (phase_record S ph) (results a1)\<rparr>)"

fun run_phases :: "site \<Rightarrow> phase list \<Rightarrow> bool \<Rightarrow> auditor \<Rightarrow> bool \<times> auditor \<times> string list" where
  "run_phases S [] ok a = (ok, a, [])"
| "run_phases S (ph # rest) ok a =
     (case run_phases S rest (ok \<and> phase_passes S ph) (after_phase S ph a) of
        (ok', a', out) \<Rightarrow> (ok', a', phase_line (fst ph) (fst (snd ph)) (outcome S ph) # out))"

definition score_percentage :: "auditor \<Rightarrow> rat" where
  "score_percentage a = of_nat (passed_phases a) / of_nat (total_phases a) * 100"

text \<open>\<open>{x:.1f}\<close> of a number that is not negative.\<close>

definition one_decimal :: "rat \<Rightarrow> string" where
  "one_decimal x = (let n = nat (round_half_even (x * 10)) in str_nat (n div 10) @ ''.'' @ str_nat (n mod 10))"

definition newline_text :: string where
  "newline_text = [CHR 0x0A]"

definition scorecard_json :: "string \<Rightarrow> bool \<Rightarrow> auditor \<Rightarrow> json" where
  "scorecard_json ts ok a = JObj
     [(''timestamp'', JStr ts), (''overall_status'', JStr (if ok then ''READY_FOR_PRODUCTION'' else ''REMEDIATION_REQUIRED'')),
      (''passed_phases'', JInt (int (passed_phases a))), (''total_phases'', JInt (int (total_phases a))),
      (''score_percentage'', JFloat (score_percentage a)),
      (''phases'', JObj (map (\<lambda>(k, r). (k, JObj [(''name'', JStr (ph_name r)), (''passed'', JBool (ph_passed r)),
          (''details'', JStr (ph_details r))])) (results a)))]"

text \<open>The return value, the auditor left behind, the printed texts and the saved scorecard.\<close>

definition run_all_audits :: "prims \<Rightarrow> site \<Rightarrow> string \<Rightarrow> string \<Rightarrow> auditor \<Rightarrow> bool \<times> auditor \<times> string list \<times> json" where
  "run_all_audits P S now later a =
     (case run_phases S (audits P) True a of (ok, a', out) \<Rightarrow>
        (ok, a',
         [newline_text @ replicate 80 CHR ''='', ''  ERP SECURITY GATEWAY - ENTERPRISE PRODUCTION READINESS AUDIT'',
          ''  Timestamp: '' @ now, replicate 80 CHR ''='' @ newline_text] @ out
         @ [newline_text @ replicate 80 CHR ''-'',
            ''  Readiness Scorecard: '' @ str_nat (passed_phases a') @ ''/'' @ str_nat (total_phases a') @ '' Phases Passed (''
              @ one_decimal (score_percentage a') @ ''%)'',
            (if ok then ''  CERTIFICATION: PASSED - Certified for Enterprise Production Deployment!''
             else ''  CERTIFICATION: FAILED - Remediation required before production cutover.''),
            replicate 80 CHR ''='' @ newline_text],
         scorecard_json later ok a'))"

definition audit_exit_code :: "prims \<Rightarrow> site \<Rightarrow> string \<Rightarrow> string \<Rightarrow> int" where
  "audit_exit_code P S now later = (if fst (run_all_audits P S now later auditor_init) then 0 else 1)"

section \<open>The loop\<close>

lemma after_phase_sel:
  "passed_phases (after_phase S ph a) = passed_phases a + (if phase_passes S ph then 1 else 0)"
  "total_phases (after_phase S ph a) = total_phases a"
  "results (after_phase S ph a) = dput (fst ph) (phase_record S ph) (results a)"
  by (simp_all add: after_phase_def Let_def)

lemma run_phases_ok: "fst (run_phases S phs ok a) \<longleftrightarrow> ok \<and> list_all (phase_passes S) phs"
  by (induction phs arbitrary: ok a) (simp_all add: split_beta conj_ac)

lemma run_phases_counts:
  "passed_phases (fst (snd (run_phases S phs ok a))) = passed_phases a + length (filter (phase_passes S) phs)"
  "total_phases (fst (snd (run_phases S phs ok a))) = total_phases a"
  by (induction phs arbitrary: ok a) (simp_all add: split_beta after_phase_sel)

lemma run_phases_results:
  "distinct (map fst phs) \<Longrightarrow> dget (results (fst (snd (run_phases S phs ok a)))) k =
     (case dget phs k of Some p \<Rightarrow> Some (phase_record S (k, p)) | None \<Rightarrow> dget (results a) k)"
proof (induction phs arbitrary: ok a)
  case (Cons ph phs)
  then show ?case
    by (cases ph; cases "dget phs k") (auto simp: split_beta after_phase_sel dest: map_of_SomeD intro: rev_image_eqI)
qed simp

lemma audits_ids: "distinct (map fst (audits P))" "length (audits P) = 12"
  by (simp_all add: audits_def)

section \<open>What the phases decide\<close>

lemma injection_detected: "fst (inspect_content loads injection_probe)"
  by (rule apostrophe_reported [THEN conjunct1, of "CHR 0x27"]) (simp_all add: injection_probe_def)

lemma sample_scrubbed:
  "sanitize_telemetry P salt pii_sample
   = JObj [(''email'', JStr ''[REDACTED_EMAIL]''), (''credit_card'', JStr ''[REDACTED_CARD]''), (''amount'', JInt 100)]"
proof -
  have "\<not> hidden_key ''email''" "\<not> hidden_key ''credit_card''" "\<not> hidden_key ''amount''"
    "scrub_text ''ceo@corp.com'' = ''[REDACTED_EMAIL]''" "scrub_text ''4532-1234-5678-9012'' = ''[REDACTED_CARD]''"
    by code_simp+
  then show ?thesis by (simp add: pii_sample_def)
qed

lemma phase_0_passes: "fst (phase_outcome (audit_phase_0 S)) \<longleftrightarrow> has_requirements S \<and> has_risk_assessment S"
  by (simp add: audit_phase_0_def phase_outcome_def)

lemma phase_1_passes: "fst (phase_outcome (audit_phase_1 S))"
  by (simp add: audit_phase_1_def phase_outcome_def injection_detected Let_def) (simp add: overall_score_def)

lemma phase_2_passes:
  "fst (phase_outcome (audit_phase_2 S)) \<longleftrightarrow> path_known (validate_route (site_routes S) ''/api/inventory'' ''GET'')
     \<and> method_allowed (validate_route (site_routes S) ''/api/inventory'' ''GET'')
     \<and> \<not> path_known (validate_route (site_routes S) ''/api/nonexistent/service'' ''GET'')"
  by (simp add: audit_phase_2_def phase_outcome_def Let_def)

lemma phase_3_passes: "fst (phase_outcome (audit_phase_3 P S))"
proof -
  have "py_repr P (sanitize_telemetry P salt pii_sample)
      = py_repr echo_prims (JObj [(''email'', JStr ''[REDACTED_EMAIL]''), (''credit_card'', JStr ''[REDACTED_CARD]''), (''amount'', JInt 100)])"
    for salt by (simp add: sample_scrubbed)
  moreover have "\<not> contains_sub (py_repr echo_prims (JObj [(''email'', JStr ''[REDACTED_EMAIL]''),
      (''credit_card'', JStr ''[REDACTED_CARD]''), (''amount'', JInt 100)])) ''ceo@corp.com''"
    "\<not> contains_sub (py_repr echo_prims (JObj [(''email'', JStr ''[REDACTED_EMAIL]''),
      (''credit_card'', JStr ''[REDACTED_CARD]''), (''amount'', JInt 100)])) ''4532''"
    by code_simp+
  ultimately show ?thesis by (simp add: audit_phase_3_def phase_outcome_def Let_def)
qed

lemma phase_4_passes: "fst (phase_outcome (audit_phase_4 S)) \<longleftrightarrow> 6 \<le> length (rules (site_rules S))"
  by (auto simp: audit_phase_4_def phase_outcome_def Let_def)

lemma key_phases_pass:
  "fst (phase_outcome (audit_phase_5 S))" "fst (phase_outcome (audit_phase_6 S))" "fst (phase_outcome (audit_phase_7 S))"
  "fst (phase_outcome (audit_phase_8 S))" "fst (phase_outcome (audit_phase_9 S))" "fst (phase_outcome (audit_phase_11 S))"
  by (simp_all add: audit_phase_5_def audit_phase_6_def audit_phase_7_def audit_phase_8_def audit_phase_9_def
      audit_phase_11_def baseline_attributes_def health_keys_def agent_keys_def mitigation_keys_def accuracy_keys_def
      kpi_keys_def canary_keys_def phase_outcome_def)

definition chain_intact :: "prims \<Rightarrow> site \<Rightarrow> bool" where
  "chain_intact P S = (case verify_chain P (site_chain S) of Inr (ok, n, err) \<Rightarrow> ok | Inl e \<Rightarrow> False)"

lemma phase_10_passes: "fst (phase_outcome (audit_phase_10 P S)) \<longleftrightarrow> chain_intact P S"
  by (auto simp: audit_phase_10_def generate_full_compliance_report_def attested_controls_def chain_intact_def phase_outcome_def
      split: sum.split)

lemma importing_passes:
  "fst (phase_outcome (importing n audit S)) \<longleftrightarrow> import_error S n = None \<and> fst (phase_outcome (audit S))"
  by (auto simp: importing_def phase_outcome_def split: option.split)

text \<open>The reference: what the certificate attests, phase for phase.\<close>

definition certified :: "prims \<Rightarrow> site \<Rightarrow> bool" where
  "certified P S \<longleftrightarrow> has_requirements S \<and> has_risk_assessment S \<and> list_all (\<lambda>n. import_error S n = None) [1..<12]
     \<and> (let v = validate_route (site_routes S) ''/api/inventory'' ''GET'' in path_known v \<and> method_allowed v)
     \<and> \<not> path_known (validate_route (site_routes S) ''/api/nonexistent/service'' ''GET'')
     \<and> 6 \<le> length (rules (site_rules S)) \<and> chain_intact P S"

lemmas phases_pass = phase_0_passes phase_1_passes phase_2_passes phase_3_passes phase_4_passes key_phases_pass
  phase_10_passes importing_passes

lemma phase_numbers: "[1..<12] = [1, 2, 3, 4, 5, 6, 7, 8, 9, 10, 11 :: nat]"
  by code_simp

lemma audits_pass: "list_all (phase_passes S) (audits P) \<longleftrightarrow> certified P S"
  by (auto simp: audits_def phase_passes_def outcome_def phases_pass certified_def Let_def phase_numbers
      simp del: One_nat_def)

lemma run_all_audits_sel:
  "fst (run_all_audits P S now later a) = fst (run_phases S (audits P) True a)"
  "fst (snd (run_all_audits P S now later a)) = fst (snd (run_phases S (audits P) True a))"
  by (simp_all add: run_all_audits_def split_beta)

text \<open>
  C27: The certificate is exact.  A run of a fresh auditor certifies the deployment - and exits with 0 - if and only
  if both requirement files exist, none of the imports of the audits fails, the catalogue admits GET on the inventory
  and does not know the nonexistent service, at least six rules are loaded and the audit chain verifies; the scorecard
  holds a result for each of the twelve phases, and as many passes are counted as results are marked passed.
\<close>

theorem certificate_exact:
  "(fst (run_all_audits P S now later auditor_init) \<longleftrightarrow> certified P S)
   \<and> (audit_exit_code P S now later = 0 \<longleftrightarrow> certified P S)
   \<and> passed_phases (fst (snd (run_all_audits P S now later auditor_init))) = length (filter (phase_passes S) (audits P))
   \<and> (\<forall>k. dget (results (fst (snd (run_all_audits P S now later auditor_init)))) k
        = map_option (\<lambda>p. phase_record S (k, p)) (dget (audits P) k))"
  using audits_pass [of S P]
  by (auto simp: run_all_audits_sel run_phases_ok run_phases_counts run_phases_results [OF audits_ids(1)] audit_exit_code_def
      auditor_init_def split: option.split)

text \<open>
  C28: The deployment this repository ships is never certified.  With the catalogue of the shipped
  \<open>config/routes.yaml\<close> - whatever the files, the rules, the chain and the environment - phase 2 fails, the
  audit returns false and the exit code is 1: the wildcard route makes the nonexistent service known.
\<close>

theorem shipped_site_never_certified:
  assumes "site_routes S = shipped_catalogue"
  shows "\<not> fst (run_all_audits P S now later a) \<and> audit_exit_code P S now later = 1
    \<and> (\<exists>r. dget (results (fst (snd (run_all_audits P S now later a)))) ''Phase 2'' = Some r \<and> \<not> ph_passed r)"
proof -
  have "rule_matches (mk_rule ''/*'' [''GET''] False []) (CHR ''/'' # ''api/nonexistent/service'')"
    by (rule catch_all_matches [OF refl]) code_simp
  then have "List.find (\<lambda>x. rule_matches x ''/api/nonexistent/service'') (sorted_routes shipped_catalogue) \<noteq> None"
    using catch_all_in_catalogue by (auto simp: find_None_iff)
  then have known: "path_known (validate_route shipped_catalogue ''/api/nonexistent/service'' ''GET'')"
    by (auto simp: validate_route_def)
  then have "\<not> certified P S" using assms by (simp add: certified_def)
  moreover have "\<not> fst (phase_outcome (importing 2 audit_phase_2 S))"
    using known assms by (simp add: importing_passes phase_2_passes)
  ultimately show ?thesis
    using audits_pass [of S P]
    by (simp add: run_all_audits_sel run_phases_ok run_phases_results [OF audits_ids(1)] audit_exit_code_def)
      (simp add: audits_def phase_record_def phase_passes_def outcome_def)
qed

definition shipped_site :: site where
  "shipped_site = \<lparr>has_requirements = True, has_risk_assessment = True, import_error = (\<lambda>_. None),
     site_routes = shipped_catalogue, site_rules = rules_engine_init Missing,
     site_chain = \<lparr>chain_secret = ''s'', log_file = None, last_hash = JStr genesis_hash, block_count = JInt 0\<rparr>,
     site_salt = ''salt'', site_loads = (\<lambda>_. None), chain_error_text = (\<lambda>_. [])\<rparr>"

theorem shipped_site_never_certified_witness:
  "audit_exit_code echo_prims shipped_site ''t'' ''u'' = 1"
  using shipped_site_never_certified [of shipped_site echo_prims "''t''" "''u''"] by (simp add: shipped_site_def)

text \<open>Without the wildcard the same deployment is certified.\<close>

lemma builtin_site_certified: "certified echo_prims (shipped_site\<lparr>site_routes := builtin_routes\<rparr>)"
  by code_simp

text \<open>A second run of the same auditor adds to the count of the first: the scorecard then reads 24/12 and 200.0%.\<close>

lemma second_run_accumulates:
  "passed_phases (fst (snd (run_all_audits P S n2 l2 (fst (snd (run_all_audits P S n1 l1 auditor_init))))))
   = 2 * length (filter (phase_passes S) (audits P))"
  by (simp add: run_all_audits_sel run_phases_counts auditor_init_def)

end
