(* ===== verification/Synthetic_Data.thy ===== *)
theory Synthetic_Data
  imports ML_Training "HOL-Library.State_Monad"
begin

text \<open>
  The synthetic telemetry of \<open>src/ml/train_models.py\<close>: the clean events that bootstrap the first training, the
  anomalies and the large clean set of the validation.  numpy's random generator is the record \<open>generator\<close>; its
  state is threaded through the draws, in the order in which the code makes them.
\<close>

section \<open>Draws\<close>

text \<open>A choice is the index of the drawn element.\<close>

record 'g generator =
  default_rng :: "nat \<Rightarrow> 'g"
  choice :: "nat \<Rightarrow> ('g, nat) state"
  normal :: "rat \<Rightarrow> rat \<Rightarrow> ('g, rat) state"
  integers :: "int \<Rightarrow> int \<Rightarrow> ('g, int) state"
  uniform :: "rat \<Rightarrow> rat \<Rightarrow> ('g, rat) state"
  random_unit :: "('g, rat) state"

text \<open>The documented ranges of the draws: half-open intervals.\<close>

definition draws_in_range :: "'g generator \<Rightarrow> bool" where
  "draws_in_range R \<longleftrightarrow>
     (\<forall>n s. 0 < n \<longrightarrow> fst (run_state (choice R n) s) < n)
     \<and> (\<forall>a b s. a < b \<longrightarrow> a \<le> fst (run_state (integers R a b) s) \<and> fst (run_state (integers R a b) s) < b)
     \<and> (\<forall>a b s. a < b \<longrightarrow> a \<le> fst (run_state (uniform R a b) s) \<and> fst (run_state (uniform R a b) s) \<le> b)"

section \<open>Instants as text\<close>

text \<open>\<open>{n:0wd}\<close> of a number of at most \<open>w\<close> digits.\<close>

definition zero_padded :: "nat \<Rightarrow> int \<Rightarrow> string" where
  "zero_padded w n = map (\<lambda>k. char_of (48 + nat (n div 10 ^ k mod 10))) (rev [0..<w])"

text \<open>The day of the proleptic Gregorian calendar with a given distance from the first of January 1970.\<close>

definition civil_date :: "int \<Rightarrow> int \<times> int \<times> int" where
  "civil_date days =
     (let z = days + 719468; era = z div 146097; doe = z mod 146097;
          yoe = (doe - doe div 1460 + doe div 36524 - doe div 146096) div 365;
          doy = doe - (365 * yoe + yoe div 4 - yoe div 100);
          mp = (5 * doy + 2) div 153;
          d = doy - (153 * mp + 2) div 5 + 1;
          m = (if mp < 10 then mp + 3 else mp - 9)
      in (yoe + era * 400 + (if m \<le> 2 then 1 else 0), m, d))"

text \<open>\<open>datetime.fromtimestamp(t, tz=utc).isoformat()\<close>.\<close>

definition iso_utc :: "time \<Rightarrow> string" where
  "iso_utc t =
     (let us = round_half_even (t * 1000000); sec = us div 1000000; frac = us mod 1000000;
          (y, m, d) = civil_date (sec div 86400); r = sec mod 86400
      in zero_padded 4 y @ ''-'' @ zero_padded 2 m @ ''-'' @ zero_padded 2 d @ ''T''
         @ zero_padded 2 (r div 3600) @ '':'' @ zero_padded 2 (r mod 3600 div 60) @ '':'' @ zero_padded 2 (r mod 60)
         @ (if frac = 0 then [] else ''.'' @ zero_padded 6 frac) @ ''+00:00'')"

lemma iso_utc_examples:
  "iso_utc 1788253200 = ''2026-09-01T09:00:00+00:00''" "iso_utc (1789009200 + 1/2) = ''2026-09-10T03:00:00.500000+00:00''"
  "iso_utc 951827696 = ''2000-02-29T12:34:56+00:00''"
  by code_simp+

section \<open>The generators\<close>

fun draw_all :: "(nat \<Rightarrow> ('g, 'a) state) \<Rightarrow> nat list \<Rightarrow> ('g, 'a list) state" where
  "draw_all f [] = State_Monad.return []"
| "draw_all f (i # ix) = do { x \<leftarrow> f i; xs \<leftarrow> draw_all f ix; State_Monad.return (x # xs) }"

definition clean_endpoints :: "string list" where
  "clean_endpoints = [''/api/orders'', ''/api/inventory/items'', ''/api/finance/invoices'', ''/api/users/profile'']"

definition numbered_users :: "nat \<Rightarrow> nat \<Rightarrow> string list" where
  "numbered_users width n = map (\<lambda>i. ''user_'' @ zero_padded width (int i)) [1..<n]"

definition clean_event :: "'g generator \<Rightarrow> nat \<Rightarrow> ('g, json) state" where
  "clean_event R i = do {
     u \<leftarrow> choice R (length (numbered_users 3 15));
     p \<leftarrow> choice R (length clean_endpoints);
     size \<leftarrow> normal R 512 100;
     lat \<leftarrow> normal R 15 4;
     days \<leftarrow> integers R 30 700;
     host \<leftarrow> integers R 10 50;
     risk \<leftarrow> uniform R 5 15;
     let uid = numbered_users 3 15 ! u;
     let path = clean_endpoints ! p;
     State_Monad.return (JObj
       [(''timestamp'', JStr (iso_utc (1788253200 + of_nat i * 45))), (''user_id'', JStr uid), (''principal_ref'', JStr uid),
        (''path'', JStr path), (''method'', JStr (if contains_sub path ''orders'' then ''POST'' else ''GET'')),
        (''request_size_bytes'', JInt (trunc_rat size)), (''latency_ms'', JFloat (max 1 lat)),
        (''user_account_age_days'', JInt days), (''user_incident_count'', JInt 0),
        (''client_ip'', JStr (''192.168.1.'' @ str_int host)), (''user_agent'', JStr ''ERP-Client/1.0''),
        (''decision'', JStr ''ALLOW''), (''risk_score'', JFloat risk)]) }"

definition generate_synthetic_clean_events :: "'g generator \<Rightarrow> int \<Rightarrow> json list" where
  "generate_synthetic_clean_events R n =
     fst (run_state (draw_all (clean_event R) [0..<nat n]) (default_rng R 42))"

definition anomaly_event :: "'g generator \<Rightarrow> nat \<Rightarrow> ('g, json) state" where
  "anomaly_event R i = do {
     size \<leftarrow> integers R 50000 200000;
     lat \<leftarrow> uniform R 300 1500;
     host \<leftarrow> integers R 1 255;
     let uid = ''attacker_'' @ str_nat (i mod 10);
     State_Monad.return (JObj
       [(''timestamp'', JStr (iso_utc (1789009200 + of_nat i / 2))), (''user_id'', JStr uid), (''principal_ref'', JStr uid),
        (''path'', JStr (''/api/admin/dump_'' @ str_nat (i mod 5))), (''method'', JStr ''POST''),
        (''request_size_bytes'', JInt size), (''latency_ms'', JFloat lat), (''user_account_age_days'', JInt 1),
        (''user_incident_count'', JInt 5), (''client_ip'', JStr (''10.0.99.'' @ str_int host)),
        (''user_agent'', JStr ''Sqlmap/1.5''), (''decision'', JStr ''ALLOW''), (''risk_score'', JFloat 80)]) }"

definition generate_synthetic_anomalies :: "'g generator \<Rightarrow> int \<Rightarrow> json list" where
  "generate_synthetic_anomalies R n =
     fst (run_state (draw_all (anomaly_event R) [0..<nat n]) (default_rng R 999))"

definition baseline_endpoints :: "string list" where
  "baseline_endpoints = [''/api/orders'', ''/api/orders/101'', ''/api/orders/102'', ''/api/inventory/items'', ''/api/inventory'',
     ''/api/finance/invoices'', ''/api/users/1'', ''/api/users/profile'']"

text \<open>The draw that makes an order a POST is made for order paths only.\<close>

definition draw_method :: "'g generator \<Rightarrow> string \<Rightarrow> ('g, string) state" where
  "draw_method R path =
     (if contains_sub path ''orders''
      then do { x \<leftarrow> random_unit R; State_Monad.return (if x < 3/10 then ''POST'' else ''GET'') }
      else State_Monad.return ''GET'')"

definition baseline_event :: "'g generator \<Rightarrow> nat \<Rightarrow> ('g, json) state" where
  "baseline_event R i = do {
     u \<leftarrow> choice R (length (numbered_users 4 50));
     p \<leftarrow> choice R (length baseline_endpoints);
     let uid = numbered_users 4 50 ! u;
     let path = baseline_endpoints ! p;
     meth \<leftarrow> draw_method R path;
     lat \<leftarrow> normal R (if meth = ''POST'' then 35 else 8) 5;
     size \<leftarrow> normal R (if meth = ''POST'' then 512 else 128) 80;
     days \<leftarrow> integers R 15 900;
     host \<leftarrow> integers R 10 200;
     risk \<leftarrow> uniform R 2 12;
     State_Monad.return (JObj
       [(''timestamp'', JStr (iso_utc (1788249600 + of_nat i * 15))), (''user_id'', JStr uid), (''principal_ref'', JStr uid),
        (''path'', JStr path), (''method'', JStr meth), (''request_size_bytes'', JInt (trunc_rat (max 64 size))),
        (''latency_ms'', JFloat (py_round 2 (max 1 lat))), (''user_account_age_days'', JInt days),
        (''user_incident_count'', JInt 0), (''client_ip'', JStr (''192.168.1.'' @ str_int host)),
        (''user_agent'', JStr ''Mozilla/5.0 (Windows NT 10.0; Win64; x64) AppleWebKit/537.36''),
        (''decision'', JStr ''ALLOW''), (''risk_score'', JFloat (py_round 2 risk))]) }"

definition generate_large_clean_baseline_dataset :: "'g generator \<Rightarrow> int \<Rightarrow> json list" where
  "generate_large_clean_baseline_dataset R n =
     fst (run_state (draw_all (baseline_event R) [0..<nat n]) (default_rng R 12345))"

section \<open>What is drawn\<close>

lemma run_bind: "run_state (State_Monad.bind x f) s = run_state (f (fst (run_state x s))) (snd (run_state x s))"
  by (simp add: State_Monad.bind_def split_beta)

lemma run_return: "run_state (State_Monad.return x) s = (x, s)"
  by (simp add: State_Monad.return_def)

lemmas run_simps = run_bind run_return

lemma draw_all_results:
  "(\<And>i s. i \<in> set ix \<Longrightarrow> P i (fst (run_state (f i) s)))
   \<Longrightarrow> list_all2 P ix (fst (run_state (draw_all f ix) s))"
  by (induction ix arbitrary: s) (simp_all add: run_simps split_beta)

lemma draw_all_length: "length (fst (run_state (draw_all f ix) s)) = length ix"
  using draw_all_results [of ix "\<lambda>_ _. True" f s] by (auto dest: list_all2_lengthD)

lemma draw_all_every:
  "(\<And>i s. P (fst (run_state (f i) s))) \<Longrightarrow> list_all P (fst (run_state (draw_all f ix) s))"
  by (induction ix arbitrary: s) (simp_all add: run_simps split_beta)

section \<open>Training on what is drawn\<close>

text \<open>What the feature extractor needs of an event that carries no instant or hour of its own.\<close>

definition trainable :: "json \<Rightarrow> bool" where
  "trainable e \<longleftrightarrow> is_obj e \<and> truthy e \<and> jget e ''ts_epoch'' = None \<and> jget e ''hour_of_day'' = None
     \<and> jget e ''day_of_week'' = None \<and> hashable (first_of e [''user_id'', ''principal_ref''] (JStr ''anonymous''))
     \<and> text_field e ''path'' \<noteq> None
     \<and> json_num (first_of e [''request_size_bytes'', ''payload_size_bytes''] (JInt 0)) \<noteq> None
     \<and> json_num (first_of e [''latency_ms'', ''response_time_ms''] (JFloat 0)) \<noteq> None
     \<and> py_int (json_or (jget_or JNull e ''user_account_age_days'') (jget_or (JInt 365) e ''account_age_days'')) \<noteq> None
     \<and> py_int (json_or (jget_or JNull e ''user_incident_count'') (jget_or (JInt 0) e ''past_incident_count'')) \<noteq> None
     \<and> (case jget_or (JStr ''GET'') e ''method'' of JStr m \<Rightarrow> True | _ \<Rightarrow> False)"

lemma scan_events_total:
  "list_all trainable es \<Longrightarrow> scan_events P iso_of now focus es v \<noteq> None"
proof (induction es arbitrary: v)
  case (Cons e es)
  then have "is_obj e" "event_epoch iso_of now e \<noteq> None" "text_field e ''path'' \<noteq> None"
    by (simp_all add: trainable_def event_epoch_def jget_or_def)
  with Cons show ?case by auto
qed simp

lemma extract_features_total:
  assumes "list_all trainable past" and "trainable e"
  shows "extract_features P iso_of lg now past be (Some e) \<noteq> None"
proof -
  obtain t h d where ts: "parse_iso iso_of now (jget_or JNull e ''timestamp'') = (t, h, d)" by (metis prod_cases3)
  have e: "is_obj e" "truthy e" and "text_field e ''path'' \<noteq> None" using assms(2) by (simp_all add: trainable_def)
  then obtain path where path: "text_field e ''path'' = Some path" by blast
  have f: "focus_of iso_of now e = Some (t, JInt h, JInt d)"
    using assms(2) ts by (simp add: focus_of_def trainable_def jget_or_def)
  have "assemble P lg be e (JInt h) (JInt d) path v \<noteq> None" for v
  proof -
    obtain sz where sz: "json_num (first_of e [''request_size_bytes'', ''payload_size_bytes''] (JInt 0)) = Some sz"
      using assms(2) unfolding trainable_def by blast
    obtain rt where rt: "json_num (first_of e [''latency_ms'', ''response_time_ms''] (JFloat 0)) = Some rt"
      using assms(2) unfolding trainable_def by blast
    obtain acc where acc: "py_int (json_or (jget_or JNull e ''user_account_age_days'') (jget_or (JInt 365) e ''account_age_days''))
        = Some acc"
      using assms(2) unfolding trainable_def by blast
    obtain inc where inc: "py_int (json_or (jget_or JNull e ''user_incident_count'') (jget_or (JInt 0) e ''past_incident_count''))
        = Some inc"
      using assms(2) unfolding trainable_def by blast
    obtain m where m: "jget_or (JStr ''GET'') e ''method'' = JStr m"
      using assms(2) unfolding trainable_def by (cases "jget_or (JStr ''GET'') e ''method''") simp_all
    have "py_int (JInt h) = Some h" "py_int (JInt d) = Some d" by (simp_all add: py_int_def)
    then show ?thesis unfolding assemble_def sz rt acc inc m by (simp add: Let_def split: prod.split)
  qed
  then show ?thesis
    using e path f scan_events_total [OF assms(1), of P iso_of now t no_volume]
    by (auto simp: extract_features_def)
qed

lemma dataset_rows_total:
  assumes "\<And>past e. list_all trainable past \<Longrightarrow> trainable e \<Longrightarrow> ext past e \<noteq> None"
  shows "list_all trainable es \<Longrightarrow> list_all (\<lambda>(u, past). list_all trainable past) h
    \<Longrightarrow> \<exists>X. dataset_rows ext es h = Some X \<and> length X = length es"
proof (induction es arbitrary: h)
  case (Cons e es)
  let ?uid = "first_of e [''user_id'', ''principal_ref''] (JStr ''anonymous'')"
  let ?past = "dget_or [] h ?uid @ [e]"
  have e: "trainable e" "is_obj e" "hashable ?uid" using Cons.prems(1) by (simp_all add: trainable_def)
  have "list_all trainable (dget_or [] h ?uid)"
    using Cons.prems(2) by (cases "dget h ?uid") (auto simp: dget_or_def list_all_iff dest!: map_of_SomeD)
  then have past: "list_all trainable ?past" using e by simp
  then obtain f where f: "ext ?past e = Some f" using assms e(1) by blast
  have "list_all (\<lambda>(u, past). list_all trainable past) (dput ?uid ?past h)"
    using Cons.prems(2) past by (intro list_all_dput) simp_all
  then obtain X where "dataset_rows ext es (dput ?uid ?past h) = Some X" "length X = length es"
    using Cons.IH Cons.prems(1) by fastforce
  then show ?case using e f by (simp add: Let_def)
qed simp

lemma extract_dataset_total:
  "list_all trainable es \<Longrightarrow> \<exists>X. extract_dataset P iso_of lg now be es = Some X \<and> length X = length es"
  unfolding extract_dataset_def using extract_features_total by (intro dataset_rows_total) auto

lemma event_trainable:
  fixes ts ip ua dec r :: json and u p m :: string and n a c :: int and l :: rat
  defines "e \<equiv> JObj [(''timestamp'', ts), (''user_id'', JStr u), (''principal_ref'', JStr u), (''path'', JStr p), (''method'', JStr m),
    (''request_size_bytes'', JInt n), (''latency_ms'', JFloat l), (''user_account_age_days'', JInt a),
    (''user_incident_count'', JInt c), (''client_ip'', ip), (''user_agent'', ua), (''decision'', dec), (''risk_score'', r)]"
  shows "trainable e"
proof -
  have keys: "jget e ''ts_epoch'' = None" "jget e ''hour_of_day'' = None" "jget e ''day_of_week'' = None"
    "jget e ''user_id'' = Some (JStr u)" "jget e ''principal_ref'' = Some (JStr u)" "jget e ''path'' = Some (JStr p)"
    "jget e ''method'' = Some (JStr m)" "jget e ''request_size_bytes'' = Some (JInt n)" "jget e ''payload_size_bytes'' = None"
    "jget e ''latency_ms'' = Some (JFloat l)" "jget e ''response_time_ms'' = None"
    "jget e ''user_account_age_days'' = Some (JInt a)" "jget e ''account_age_days'' = None"
    "jget e ''user_incident_count'' = Some (JInt c)" "jget e ''past_incident_count'' = None"
    unfolding e_def by simp_all
  have "is_obj e" "truthy e" by (simp_all add: e_def is_obj_def)
  then show ?thesis
    by (simp add: trainable_def keys jget_or_def first_of_def json_or_def text_field_def json_num_def py_int_def hashable_def)
qed

lemma clean_event_trainable: "trainable (fst (run_state (clean_event R i) s))"
  unfolding clean_event_def by (simp only: run_simps Let_def fst_conv event_trainable)

lemma anomaly_event_trainable: "trainable (fst (run_state (anomaly_event R i) s))"
  unfolding anomaly_event_def by (simp only: run_simps Let_def fst_conv event_trainable)

lemma baseline_event_trainable: "trainable (fst (run_state (baseline_event R i) s))"
  unfolding baseline_event_def by (simp only: run_simps Let_def fst_conv event_trainable)

lemma synthetic_events_trainable:
  "list_all trainable (generate_synthetic_clean_events R n)" "length (generate_synthetic_clean_events R n) = nat n"
  "list_all trainable (generate_synthetic_anomalies R n)" "list_all trainable (generate_large_clean_baseline_dataset R n)"
  unfolding generate_synthetic_clean_events_def generate_synthetic_anomalies_def generate_large_clean_baseline_dataset_def
  by (auto simp: draw_all_length intro!: draw_all_every clean_event_trainable anomaly_event_trainable baseline_event_trainable)

text \<open>
  C26: Bootstrap training cannot fail for lack of data.  Whatever the random generator draws, and however few of the
  lines of the baseline file parse - none, or no file at all - training on usable events goes through whenever
  scikit-learn fits: a model, a scaler and the metadata are stored, and the metadata counts exactly 100 samples where
  fewer than 50 events were read, and the events read otherwise.
\<close>

theorem bootstrap_trains:
  fixes records :: "json option list option"
  defines "clean \<equiv> (case records of None \<Rightarrow> [] | Some ls \<Rightarrow> List.map_filter id ls)"
  assumes "list_all trainable clean"
    and "\<And>X. X \<noteq> [] \<Longrightarrow> sk_fit K X contamination 50 42 \<noteq> None"
  shows "\<exists>t' m c. train_from_tier1_baseline K (extract_dataset P iso_of lg now be) (generate_synthetic_clean_events R) stamp
            records contamination t = Inr t'
     \<and> dget (tr_dir t') model_name = Some (SModel m) \<and> dget (tr_dir t') scaler_name = Some (SScaler c)
     \<and> dget (tr_dir t') metadata_name = Some (SMeta (tr_metadata t'))
     \<and> jget (tr_metadata t') ''sample_count'' = Some (JInt (if length clean < 50 then 100 else int (length clean)))"
proof -
  let ?es = "if length clean < 50 then clean @ generate_synthetic_clean_events R (100 - int (length clean)) else clean"
  have "list_all trainable ?es" using assms(2) by (simp add: synthetic_events_trainable)
  then obtain X where X: "extract_dataset P iso_of lg now be ?es = Some X" "length X = length ?es"
    using extract_dataset_total by blast
  have n: "int (length ?es) = (if length clean < 50 then 100 else int (length clean))"
    by (simp add: synthetic_events_trainable)
  then have "X \<noteq> []" using X(2) by (auto split: if_splits)
  then obtain m c where fit: "sk_fit K X contamination 50 42 = Some (m, c)" using assms(3) by fastforce
  have "jget (train_metadata stamp X contamination 50) ''sample_count'' = Some (JInt (int (length X)))"
    by (simp add: train_metadata_def)
  moreover have "model_name \<noteq> scaler_name" "model_name \<noteq> metadata_name" "scaler_name \<noteq> metadata_name"
    by (simp_all add: model_name_def scaler_name_def metadata_name_def)
  ultimately show ?thesis
    using fit \<open>X \<noteq> []\<close> n X(2) unfolding train_from_tier1_baseline_def Let_def clean_def [symmetric] X(1)
    by (auto simp: train_isolation_forest_def save_models_def)
qed

text \<open>A generator and a library to apply it to: every draw is the lower end of its range, every fit succeeds.\<close>

definition low_generator :: "unit generator" where
  "low_generator = \<lparr>default_rng = (\<lambda>_. ()), choice = (\<lambda>_. State_Monad.return 0), normal = (\<lambda>m d. State_Monad.return m),
     integers = (\<lambda>a b. State_Monad.return a), uniform = (\<lambda>a b. State_Monad.return a), random_unit = State_Monad.return 0\<rparr>"

lemma low_generator_ranges: "draws_in_range low_generator"
  by (simp add: draws_in_range_def low_generator_def run_return)

definition fitting_library :: "(unit, unit) sklearn" where
  "fitting_library = \<lparr>sk_fit = (\<lambda>X c n s. Some ((), ())), sk_predict = (\<lambda>_ _ X. Some (map (\<lambda>_. 1) X))\<rparr>"

theorem bootstrap_trains_witness:
  "\<exists>t'. train_from_tier1_baseline fitting_library (extract_dataset demo_digest (\<lambda>_. None) id 0 None)
      (generate_synthetic_clean_events low_generator) ''t'' None (1/20) (trainer_init []) = Inr t'
     \<and> jget (tr_metadata t') ''sample_count'' = Some (JInt 100)"
  using bootstrap_trains [of None fitting_library "1/20" demo_digest "\<lambda>_. None" id 0 None low_generator "''t''" "trainer_init []"]
  by (auto simp: fitting_library_def)

section \<open>The two validation sets\<close>

definition int_field :: "json \<Rightarrow> string \<Rightarrow> int" where
  "int_field e k = (case jget e k of Some (JInt i) \<Rightarrow> i | _ \<Rightarrow> 0)"

definition float_field :: "json \<Rightarrow> string \<Rightarrow> rat" where
  "float_field e k = (case jget e k of Some (JFloat r) \<Rightarrow> r | _ \<Rightarrow> 0)"

definition attack_like :: "json \<Rightarrow> bool" where
  "attack_like e \<longleftrightarrow> 50000 \<le> int_field e ''request_size_bytes'' \<and> int_field e ''request_size_bytes'' < 200000
     \<and> 300 \<le> float_field e ''latency_ms'' \<and> float_field e ''latency_ms'' \<le> 1500
     \<and> int_field e ''user_account_age_days'' = 1 \<and> int_field e ''user_incident_count'' = 5"

definition ordinary :: "json \<Rightarrow> bool" where
  "ordinary e \<longleftrightarrow> 64 \<le> int_field e ''request_size_bytes'' \<and> 1 \<le> float_field e ''latency_ms''
     \<and> 15 \<le> int_field e ''user_account_age_days'' \<and> int_field e ''user_account_age_days'' < 900
     \<and> int_field e ''user_incident_count'' = 0 \<and> 2 \<le> float_field e ''risk_score'' \<and> float_field e ''risk_score'' \<le> 12
     \<and> (jget e ''method'' = Some (JStr ''POST'') \<longrightarrow> (case jget e ''path'' of Some (JStr p) \<Rightarrow> contains_sub p ''orders'' | _ \<Rightarrow> False))"

lemma drawn_ranges:
  assumes "draws_in_range R"
  shows "a < b \<Longrightarrow> a \<le> fst (run_state (integers R a b) s)" "a < b \<Longrightarrow> fst (run_state (integers R a b) s) < b"
    "q < r \<Longrightarrow> q \<le> fst (run_state (uniform R q r) s)" "q < r \<Longrightarrow> fst (run_state (uniform R q r) s) \<le> r"
  using assms unfolding draws_in_range_def by simp_all

lemma event_kinds:
  "attack_like (JObj [(''timestamp'', ts), (''user_id'', u), (''principal_ref'', u), (''path'', JStr p), (''method'', JStr m),
    (''request_size_bytes'', JInt n), (''latency_ms'', JFloat l), (''user_account_age_days'', JInt a),
    (''user_incident_count'', JInt c), (''client_ip'', ip), (''user_agent'', ua), (''decision'', dec), (''risk_score'', JFloat r)])
   \<longleftrightarrow> 50000 \<le> n \<and> n < 200000 \<and> 300 \<le> l \<and> l \<le> 1500 \<and> a = 1 \<and> c = 5"
  "ordinary (JObj [(''timestamp'', ts), (''user_id'', u), (''principal_ref'', u), (''path'', JStr p), (''method'', JStr m),
    (''request_size_bytes'', JInt n), (''latency_ms'', JFloat l), (''user_account_age_days'', JInt a),
    (''user_incident_count'', JInt c), (''client_ip'', ip), (''user_agent'', ua), (''decision'', dec), (''risk_score'', JFloat r)])
   \<longleftrightarrow> 64 \<le> n \<and> 1 \<le> l \<and> 15 \<le> a \<and> a < 900 \<and> c = 0 \<and> 2 \<le> r \<and> r \<le> 12 \<and> (m = ''POST'' \<longrightarrow> contains_sub p ''orders'')"
  by (simp_all add: attack_like_def ordinary_def int_field_def float_field_def)

lemma anomaly_event_attack_like:
  assumes "draws_in_range R" shows "attack_like (fst (run_state (anomaly_event R i) s))"
  unfolding anomaly_event_def by (simp only: run_simps Let_def fst_conv event_kinds) (simp add: drawn_ranges [OF assms])

lemma drawn_method: "fst (run_state (draw_method R p) s) = ''POST'' \<longrightarrow> contains_sub p ''orders''"
  by (simp add: draw_method_def run_simps)

lemma baseline_event_ordinary:
  assumes "draws_in_range R" shows "ordinary (fst (run_state (baseline_event R i) s))"
proof -
  have size: "64 \<le> trunc_rat (max 64 x)" for x :: rat by (simp add: trunc_rat_def le_floor_iff)
  have lat: "1 \<le> py_round 2 (max 1 x)" for x :: rat using py_round_mono [of 1 "max 1 x" 2] py_round_of_int [of 2 1] by simp
  have risk: "2 \<le> py_round 2 x \<and> py_round 2 x \<le> 12" if "2 \<le> x \<and> x \<le> 12" for x
    using py_round_between_ints [of 2 x 12 2] that by simp
  show ?thesis
    unfolding baseline_event_def using drawn_method
    by (simp only: run_simps Let_def fst_conv event_kinds) (simp add: drawn_ranges [OF assms] size lat risk)
qed



end
