(* ===== verification/Http_Pool.thy ===== *)
theory Http_Pool
  imports Gateway_Config
begin

text \<open>
  The pooled HTTP client of \<open>src/gateway/app.py\<close>: \<open>get_http_client\<close>, which makes a new client where the old one
  cannot be used, and the start and stop of the application.  A client is a number; event loops are numbers too,
  and the library's state - which clients and loops are closed - is part of the process.
\<close>

record client =
  cl_id :: nat
  cl_loop :: "nat option"

record pool =
  http_client :: "client option"
  created :: nat
  closed_clients :: "nat list"
  closed_loops :: "nat list"

definition pool_init :: pool where
  "pool_init = \<lparr>http_client = None, created = 0, closed_clients = [], closed_loops = []\<rparr>"

definition is_closed :: "pool \<Rightarrow> client \<Rightarrow> bool" where
  "is_closed p c \<longleftrightarrow> cl_id c \<in> set (closed_clients p)"

text \<open>\<open>loop\<close> is the running event loop; \<open>None\<close> where \<open>get_running_loop\<close> raises.\<close>

definition must_recreate :: "nat option \<Rightarrow> pool \<Rightarrow> bool" where
  "must_recreate loop p = (case http_client p of
       None \<Rightarrow> True
     | Some c \<Rightarrow> is_closed p c \<or> (case cl_loop c of None \<Rightarrow> False
         | Some l \<Rightarrow> l \<in> set (closed_loops p) \<or> (loop \<noteq> None \<and> Some l \<noteq> loop)))"

definition get_http_client :: "nat option \<Rightarrow> pool \<Rightarrow> client \<times> pool" where
  "get_http_client loop p =
     (if must_recreate loop p
      then (let c = \<lparr>cl_id = created p, cl_loop = loop\<rparr> in (c, p\<lparr>http_client := Some c, created := created p + 1\<rparr>))
      else (the (http_client p), p))"

definition startup_event :: "gateway_config \<Rightarrow> nat option \<Rightarrow> pool \<Rightarrow> config_error + pool" where
  "startup_event cfg loop p = (case validate_production_secrets cfg of
     Inl e \<Rightarrow> Inl e | Inr u \<Rightarrow> Inr (snd (get_http_client loop p)))"

definition shutdown_event :: "pool \<Rightarrow> pool" where
  "shutdown_event p = (case http_client p of None \<Rightarrow> p | Some c \<Rightarrow> p\<lparr>closed_clients := cl_id c # closed_clients p\<rparr>)"

section \<open>Runs\<close>

text \<open>What may happen to the process, the closing of a loop by its owner among it.\<close>

inductive pool_step :: "pool \<Rightarrow> pool \<Rightarrow> bool" where
  get: "pool_step p (snd (get_http_client loop p))"
| start: "startup_event cfg loop p = Inr p' \<Longrightarrow> pool_step p p'"
| stop: "pool_step p (shutdown_event p)"
| loop_closes: "pool_step p (p\<lparr>closed_loops := l # closed_loops p\<rparr>)"

text \<open>The client at hand was created, and only created clients were closed.\<close>

definition pool_inv :: "pool \<Rightarrow> bool" where
  "pool_inv p \<longleftrightarrow> (case http_client p of None \<Rightarrow> True | Some c \<Rightarrow> cl_id c < created p)
     \<and> (\<forall>i \<in> set (closed_clients p). i < created p)"

lemma get_inv: "pool_inv p \<Longrightarrow> pool_inv (snd (get_http_client loop p))"
  by (auto simp: pool_inv_def get_http_client_def Let_def split: option.splits)

lemma step_inv: "pool_step p p' \<Longrightarrow> pool_inv p \<Longrightarrow> pool_inv p'"
proof (induction rule: pool_step.induct)
  case (start cfg loop p p')
  then show ?case by (auto simp: startup_event_def get_inv split: sum.splits)
qed (auto simp: get_inv, auto simp: shutdown_event_def pool_inv_def split: option.splits)

lemma reachable_inv: "pool_step\<^sup>*\<^sup>* pool_init p \<Longrightarrow> pool_inv p"
proof (induction rule: rtranclp_induct)
  case base
  then show ?case by (simp add: pool_init_def pool_inv_def)
qed (rule step_inv)

text \<open>
  The client a request is sent with can be used.  In every reachable state of the process - after any sequence
  of requests on any event loops, restarts, shutdowns and closed loops - \<open>get_http_client\<close> returns a client that is
  not closed, that it also leaves as the current one, and that is bound to no loop or to one that is open and, where
  an open loop is running, to that very loop; asking again on the same loop gives the same client.
\<close>

theorem client_usable:
  assumes "pool_step\<^sup>*\<^sup>* pool_init p" and "\<And>l. loop = Some l \<Longrightarrow> l \<notin> set (closed_loops p)"
  shows "case get_http_client loop p of (c, p') \<Rightarrow>
      http_client p' = Some c \<and> \<not> is_closed p' c
    \<and> (\<forall>l. cl_loop c = Some l \<longrightarrow> l \<notin> set (closed_loops p') \<and> (loop \<noteq> None \<longrightarrow> loop = Some l))
    \<and> get_http_client loop p' = (c, p')"
proof -
  have "created p \<notin> set (closed_clients p)" using reachable_inv [OF assms(1)] by (auto simp: pool_inv_def)
  then show ?thesis
    using assms(2) by (auto simp: get_http_client_def must_recreate_def is_closed_def Let_def split: option.splits)
qed

definition two_loops :: pool where
  "two_loops = snd (get_http_client (Some 1) pool_init)"

theorem client_usable_witness:
  "case get_http_client (Some 2) two_loops of (c, p') \<Rightarrow> \<not> is_closed p' c \<and> cl_loop c = Some 2"
proof -
  have "pool_step\<^sup>*\<^sup>* pool_init two_loops" unfolding two_loops_def by (intro r_into_rtranclp pool_step.get)
  moreover have "2 \<notin> set (closed_loops two_loops)" by code_simp
  moreover have "cl_loop (fst (get_http_client (Some 2) two_loops)) \<noteq> None" by code_simp
  ultimately show ?thesis using client_usable [of two_loops "Some 2"] by (auto split: prod.splits)
qed

text \<open>
  The client that is replaced because its loop differs is dropped without being closed: its connections stay open.
\<close>

lemma replaced_client_leaks:
  "let p1 = snd (get_http_client (Some 1) pool_init); (c, p2) = get_http_client (Some 2) p1
   in http_client p1 = Some \<lparr>cl_id = 0, cl_loop = Some 1\<rparr> \<and> cl_id c = 1 \<and> closed_clients p2 = []"
  by code_simp

end
