(* ===== verification/Demo_Script.thy ===== *)
theory Demo_Script
  imports Gateway_Answers
begin

text \<open>
  The demonstration of \<open>src/scripts/demo_end_to_end.py\<close>: eight requests in seven scenarios sent through the middleware,
  the verification of the audit chain, what each scenario counts as success, and what is printed.  The test client
  (default headers, encoding of JSON bodies), the JWT encoder, the random names and the clock are the record \<open>demo\<close>; the
  upstream is the script's mock transport, which always answers 200.
\<close>

text \<open>A text in single quotes.\<close>

definition repr_quoted :: "string \<Rightarrow> string" where
  "repr_quoted s = [CHR 0x27] @ s @ [CHR 0x27]"

section \<open>The setting\<close>

record demo =
  dm_encode_body :: "json \<Rightarrow> string"
  dm_client_headers :: "string \<Rightarrow> (string, string) dict"
  dm_render :: "json \<Rightarrow> string"
  dm_jwt_encode :: "json \<Rightarrow> string \<Rightarrow> string \<Rightarrow> string"
  dm_hex :: "nat \<Rightarrow> string"
  dm_clock :: "nat \<Rightarrow> time"
  dm_world :: "nat \<Rightarrow> world"

definition mock_content :: string where
  "mock_content = ''{'' @ json_string ''order_id'' @ '':101,'' @ json_string ''status'' @ '':'' @ json_string ''ORDER_CREATED'' @ '',''
     @ json_string ''delivery_date'' @ '':'' @ json_string ''2026-09-25'' @ ''}''"

definition mocked :: "world \<Rightarrow> world" where
  "mocked W = W\<lparr>w_upstream := Answered 200 [(''content-length'', str_nat (length mock_content)), (''content-type'', ''application/json'')]
     mock_content\<rparr>"

text \<open>The \<open>k\<close>-th request of the script; header names arrive in lower case.\<close>

definition client_request ::
  "demo \<Rightarrow> string \<Rightarrow> string \<Rightarrow> (string, string) dict \<Rightarrow> string \<Rightarrow> http_request" where
  "client_request D meth path hs body = \<lparr>hr_method = meth, hr_path = path, hr_query = [], hr_url = ''http://testserver'' @ path,
     hr_headers = fold (\<lambda>(k, v). dput k v) hs (dm_client_headers D body), hr_peer = Some ''testclient'', hr_body = body\<rparr>"

definition send ::
  "('s, 'r, 'm, 'c) env \<Rightarrow> demo \<Rightarrow> nat \<Rightarrow> http_request \<Rightarrow> ('s, 'r, 'm, 'c) gateway \<Rightarrow> response \<times> ('s, 'r, 'm, 'c) gateway" where
  "send E D k rq g = security_pipeline E (mocked (dm_world D k)) rq g"

definition response_header :: "response \<Rightarrow> string \<Rightarrow> string option" where
  "response_header r k = dget (map (map_prod lower id) (rs_headers r)) (lower k)"

definition response_text :: "demo \<Rightarrow> response \<Rightarrow> string" where
  "response_text D r = (case rs_content r of JStr s \<Rightarrow> s | j \<Rightarrow> dm_render D j)"

definition show_option :: "string option \<Rightarrow> string" where
  "show_option x = (case x of None \<Rightarrow> ''None'' | Some s \<Rightarrow> s)"

definition time_text :: "('s, 'r, 'm, 'c) env \<Rightarrow> demo \<Rightarrow> nat \<Rightarrow> string" where
  "time_text E D k = float_repr (en_prims E) (dm_clock D k)"

section \<open>Output\<close>

definition escape :: "string \<Rightarrow> string" where
  "escape s = CHR 0x1B # s"

definition GREEN :: string where "GREEN = escape ''[92m''"
definition RED :: string where "RED = escape ''[91m''"
definition YELLOW :: string where "YELLOW = escape ''[93m''"
definition CYAN :: string where "CYAN = escape ''[96m''"
definition BOLD :: string where "BOLD = escape ''[1m''"
definition RESET :: string where "RESET = escape ''[0m''"

text \<open>The dash of the banner is outside ASCII; it is the parameter of the line.\<close>

definition print_banner :: "string \<Rightarrow> string list" where
  "print_banner dash =
     [[CHR 0x0A] @ CYAN @ BOLD @ replicate 78 CHR ''='',
      ''   ERP SECURITY GATEWAY '' @ dash @ '' END-TO-END INTERACTIVE SECURITY DEMONSTRATION'',
      ''   Demonstrating Defense-in-Depth Across 8 Real-World Operational Scenarios'',
      replicate 78 CHR ''='' @ RESET @ [CHR 0x0A]]"

definition print_step :: "nat \<Rightarrow> string \<Rightarrow> string \<Rightarrow> string list" where
  "print_step num title description =
     [BOLD @ ''[Scenario '' @ str_nat num @ ''] '' @ title @ RESET, ''  '' @ YELLOW @ ''What happens:'' @ RESET @ '' '' @ description]"

definition result_mark :: "string \<Rightarrow> bool \<Rightarrow> string" where
  "result_mark expected passed =
     (if \<not> passed then RED @ ''[FAILED]'' @ RESET
      else if contains_sub expected ''ALLOW'' \<or> contains_sub expected ''VALID'' then GREEN @ ''[SUCCESS - VERIFIED]'' @ RESET
      else GREEN @ ''[SUCCESS - BLOCKED]'' @ RESET)"

definition print_result :: "string \<Rightarrow> string \<Rightarrow> bool \<Rightarrow> string \<Rightarrow> string list" where
  "print_result expected got passed detail =
     [''  '' @ CYAN @ ''Expected:'' @ RESET @ '' '' @ expected @ '' | '' @ CYAN @ ''Actual:'' @ RESET @ '' '' @ got @ '' -> ''
        @ result_mark expected passed]
     @ (if detail = [] then [] else [''  '' @ YELLOW @ ''Insight:'' @ RESET @ '' '' @ detail])
     @ [replicate 78 CHR ''-'']"

definition final_summary :: "string list" where
  "final_summary =
     [[CHR 0x0A] @ GREEN @ BOLD @ replicate 78 CHR ''='', ''   ALL 8 DEMONSTRATION SCENARIOS COMPLETED SUCCESSFULLY!'',
      ''   The ERP Security Gateway is fully functional, hardened, and verified.'', replicate 78 CHR ''='' @ RESET @ [CHR 0x0A]]"

section \<open>The requests\<close>

definition order_body :: "string \<Rightarrow> string \<Rightarrow> rat \<Rightarrow> (string \<times> json) list \<Rightarrow> json" where
  "order_body customer item amount extra =
     JObj ([(''customer_id'', JStr customer), (''items'', JList [JStr item]), (''total_amount'', JFloat amount)] @ extra)"

definition post_order :: "demo \<Rightarrow> (string, string) dict \<Rightarrow> json \<Rightarrow> http_request" where
  "post_order D hs body = client_request D ''POST'' ''/api/orders'' hs (dm_encode_body D body)"

definition fresh_headers :: "('s, 'r, 'm, 'c) env \<Rightarrow> demo \<Rightarrow> string \<Rightarrow> nat \<Rightarrow> string \<Rightarrow> (string, string) dict" where
  "fresh_headers E D tok clock nonce = [(''authorization'', ''Bearer '' @ tok), (''x-nonce'', nonce), (''x-timestamp'', time_text E D clock)]"

definition legitimate_order :: "('s, 'r, 'm, 'c) env \<Rightarrow> demo \<Rightarrow> string \<Rightarrow> http_request" where
  "legitimate_order E D tok = post_order D
     (fresh_headers E D tok 0 (''nonce-'' @ dm_hex D 0) @ [(''idempotency-key'', ''idemp-'' @ dm_hex D 1)])
     (order_body (''cust-legit-'' @ take 6 (dm_hex D 2)) ''Industrial Valve Model 40'' 150 [])"

definition forged_claims :: "demo \<Rightarrow> json" where
  "forged_claims D = JObj [(''sub'', JStr ''hacker_bob''), (''roles'', JList [JStr ''admin'']), (''exp'', JFloat (dm_clock D 1 + 3600))]"

definition forged_token :: "demo \<Rightarrow> string" where
  "forged_token D = dm_jwt_encode D (forged_claims D)
     ''wrong_fake_secret_key_that_does_not_match_gateway_secret_at_all!!'' ''HS256''"

definition forged_order :: "('s, 'r, 'm, 'c) env \<Rightarrow> demo \<Rightarrow> http_request" where
  "forged_order E D = post_order D (fresh_headers E D (forged_token D) 2 (''nonce-'' @ dm_hex D 3))
     (order_body ''cust-999'' ''Laptop'' 100 [])"

definition stale_order :: "demo \<Rightarrow> string \<Rightarrow> http_request" where
  "stale_order D tok = post_order D [(''authorization'', ''Bearer '' @ tok)] (order_body ''cust-888'' ''Item A'' 50 [])"

text \<open>The two requests of the replay: same nonce and time stamp, different customers.\<close>

definition replayed_order :: "('s, 'r, 'm, 'c) env \<Rightarrow> demo \<Rightarrow> string \<Rightarrow> nat \<Rightarrow> http_request" where
  "replayed_order E D tok k = post_order D (fresh_headers E D tok 3 (''replayed-nonce-'' @ dm_hex D 4))
     (order_body (''cust-replay-'' @ take 4 (dm_hex D k)) ''Widget A'' 80 [])"

definition escaped_sqli :: string where
  "escaped_sqli = [CHR 92] @ ''u0027 OR '' @ [CHR 92] @ ''u0031'' @ [CHR 92] @ ''u003d'' @ [CHR 92] @ ''u0031''"

definition injected_order :: "('s, 'r, 'm, 'c) env \<Rightarrow> demo \<Rightarrow> string \<Rightarrow> http_request" where
  "injected_order E D tok = post_order D (fresh_headers E D tok 4 (''nonce-'' @ dm_hex D 7))
     (order_body ''cust-sqli'' ''Item X'' 120 [(''delivery_notes'', JStr escaped_sqli)])"

definition negative_order :: "('s, 'r, 'm, 'c) env \<Rightarrow> demo \<Rightarrow> string \<Rightarrow> http_request" where
  "negative_order E D tok = post_order D (fresh_headers E D tok 5 (''nonce-'' @ dm_hex D 8))
     (order_body ''cust-fraud'' ''Machinery Part'' (- 250) [])"

definition foreign_read :: "demo \<Rightarrow> string \<Rightarrow> http_request" where
  "foreign_read D tok = client_request D ''GET'' ''/api/orders/101'' [(''authorization'', ''Bearer '' @ tok)] []"

section \<open>What counts as success\<close>

definition mentions_replay :: "demo \<Rightarrow> response \<Rightarrow> bool" where
  "mentions_replay D r \<longleftrightarrow> contains_sub (response_text D r) ''Replay''
     \<or> contains_sub (lower (case response_header r ''X-Reasons'' of Some s \<Rightarrow> s | None \<Rightarrow> [])) ''replay''"

text \<open>\<open>None\<close> where the body has no \<open>get\<close>; the reasons are texts.\<close>

definition mentions_bola :: "('s, 'r, 'm, 'c) env \<Rightarrow> response \<Rightarrow> bool option" where
  "mentions_bola E r = (case rs_content r of
       JObj kvs \<Rightarrow> (case jget_or (JList []) (JObj kvs) ''reasons'' of
           JList rs \<Rightarrow> Some (list_ex (\<lambda>x. contains_sub (py_str (en_prims E) x) ''BOLA'') rs) | _ \<Rightarrow> None)
     | _ \<Rightarrow> None)"

record scenario =
  sc_title :: string
  sc_description :: string
  sc_expected :: string
  sc_got :: string
  sc_passed :: bool
  sc_insight :: string

definition scenario_lines :: "nat \<Rightarrow> scenario \<Rightarrow> string list" where
  "scenario_lines n s = print_step n (sc_title s) (sc_description s)
     @ print_result (sc_expected s) (sc_got s) (sc_passed s) (sc_insight s)"

text \<open>\<open>HTTP s (d)\<close>, as the results quote an answer.\<close>

definition got_status :: "response \<Rightarrow> string" where
  "got_status r = ''HTTP '' @ str_int (rs_status r)"

definition got_decision :: "response \<Rightarrow> string" where
  "got_decision r = got_status r @ '' ('' @ show_option (response_header r ''X-Decision'') @ '')''"

definition scenario_1 :: "response \<Rightarrow> scenario" where
  "scenario_1 r = \<lparr>sc_title = ''Legitimate Sales Rep Creating Clean Order'',
     sc_description = ''A sales rep submits an order with a signed JWT, fresh Nonce, and valid items.'',
     sc_expected = ''HTTP 200 (ALLOW)'', sc_got = got_decision r,
     sc_passed = (rs_status r = 200 \<and> response_header r ''X-Decision'' = Some ''ALLOW''),
     sc_insight = ''All 9 checkpoints validated: JWT signature authentic, nonce fresh, WAF clean, rules passed.''\<rparr>"

definition scenario_2 :: "response \<Rightarrow> scenario" where
  "scenario_2 r = \<lparr>sc_title = ''Attacker Forging an Admin JWT Token (SEC-01)'',
     sc_description = ''An attacker crafts a fake JWT token claiming '' @ repr_quoted ''role: admin'' @ '' signed with an arbitrary key.'',
     sc_expected = ''HTTP 401 (Unauthorized)'', sc_got = got_status r, sc_passed = (rs_status r = 401),
     sc_insight = ''Cryptographic signature check failed. Forged credentials rejected in <0.2ms.''\<rparr>"

definition scenario_3 :: "response \<Rightarrow> scenario" where
  "scenario_3 r = \<lparr>sc_title = ''State Mutation Without Anti-Replay Headers (SEC-03)'',
     sc_description = ''An attacker attempts a POST mutation without providing mandatory X-Nonce & X-Timestamp headers.'',
     sc_expected = ''HTTP 400 (Bad Request: Freshness Required)'', sc_got = got_status r, sc_passed = (rs_status r = 400),
     sc_insight = ''Gateway enforces mandatory freshness tokens on all ERP financial mutations.''\<rparr>"

definition scenario_4 :: "demo \<Rightarrow> response \<Rightarrow> scenario" where
  "scenario_4 D r = \<lparr>sc_title = ''Replaying an Exact Duplicate Nonce within Skew Window'',
     sc_description = ''An attacker captures a valid transaction and sends the same nonce a second time.'',
     sc_expected = ''HTTP 400/403 (Replay Attack Detected)'', sc_got = got_status r,
     sc_passed = (rs_status r \<in> {400, 403} \<and> mentions_replay D r),
     sc_insight = ''Distributed state store detected duplicate nonce. Replay attack blocked instantly.''\<rparr>"

definition scenario_5 :: "response \<Rightarrow> scenario" where
  "scenario_5 r = \<lparr>sc_title = ''Unicode-Escaped SQL Injection Inside Nested JSON (SEC-07)'',
     sc_description = ''An attacker disguises '' @ [CHR 0x27] @ '' OR 1=1 as '' @ escaped_sqli @ '' inside order notes.'',
     sc_expected = ''HTTP 403 (Forbidden: WAF Attack Detected)'', sc_got = got_status r, sc_passed = (rs_status r = 403),
     sc_insight = ''WAF unescaped Unicode characters and scanned nested JSON, catching disguised SQLi.''\<rparr>"

definition scenario_6 :: "string \<Rightarrow> response \<Rightarrow> scenario" where
  "scenario_6 dash r = \<lparr>sc_title = ''ERP Business Logic Fraud '' @ dash @ '' Negative Total Order Amount (R001)'',
     sc_description = ''A malicious user tries to submit an order with a negative total (-$250.00) to steal money.'',
     sc_expected = ''HTTP 403/422 (Decision: BLOCK)'', sc_got = got_decision r,
     sc_passed = (rs_status r \<in> {403, 422} \<and> response_header r ''X-Decision'' = Some ''BLOCK''),
     sc_insight = ''Rule R001 evaluated order semantics and dropped negative price transaction in <0.1ms.''\<rparr>"

definition scenario_7 :: "response \<Rightarrow> bool \<Rightarrow> scenario" where
  "scenario_7 r bola = \<lparr>sc_title = ''Cross-Tenant Order Theft via IDOR / BOLA (SEC-06)'',
     sc_description = ''Customer '' @ repr_quoted ''cust-941'' @ '' attempts to view Customer '' @ repr_quoted ''cust-882''
       @ ''s private financial order #101.'',
     sc_expected = ''HTTP 403 (Forbidden: BOLA/IDOR Violation)'', sc_got = got_status r, sc_passed = (rs_status r = 403 \<and> bola),
     sc_insight = ''Object-level authorization verified token ownership. Cross-tenant order theft blocked.''\<rparr>"

definition scenario_8 :: "bool \<times> nat \<Rightarrow> scenario" where
  "scenario_8 v = \<lparr>sc_title = ''Cryptographic Audit Log Integrity Verification (Phase 10 / COMP-01)'',
     sc_description = ''Verifies that all audit logs are sequentially hashed with HMAC-SHA256 and un-tampered.'',
     sc_expected = ''Audit Chain VALID (100% Cryptographic Integrity)'',
     sc_got = ''Chain Valid: '' @ (if fst v then ''True'' else ''False'') @ '' ('' @ str_nat (snd v) @ '' blocks verified)'',
     sc_passed = fst v,
     sc_insight = ''HMAC-SHA256 linked-list guarantees zero log tampering for SOC 2 and ISO 27001 auditors.''\<rparr>"

section \<open>The run\<close>

text \<open>What ends the script early: no signing key, an answer without reasons to read, a chain that cannot be read.\<close>

datatype demo_error = NoKey config_error | NoReasons | ChainUnreadable verify_error

definition demo_token ::
  "('s, 'r, 'm, 'c) env \<Rightarrow> demo \<Rightarrow> string \<Rightarrow> string \<Rightarrow> time \<Rightarrow> demo_error + string" where
  "demo_token E D pid role now = (case generate_token (dm_jwt_encode D) (en_cfg E) (en_auth E) pid (Some [role]) 3600 None now of
     Inl e \<Rightarrow> Inl (NoKey e) | Inr tok \<Rightarrow> Inr tok)"

text \<open>The six scenarios with the sales token, and the read with the customer's.\<close>

definition order_scenarios ::
  "string \<Rightarrow> ('s, 'r, 'm, 'c) env \<Rightarrow> demo \<Rightarrow> string \<Rightarrow> ('s, 'r, 'm, 'c) gateway \<Rightarrow> scenario list \<times> ('s, 'r, 'm, 'c) gateway" where
  "order_scenarios dash E D tok g0 =
     (case send E D 0 (legitimate_order E D tok) g0 of (r1, g1) \<Rightarrow>
      case send E D 1 (forged_order E D) g1 of (r2, g2) \<Rightarrow>
      case send E D 2 (stale_order D tok) g2 of (r3, g3) \<Rightarrow>
      case send E D 3 (replayed_order E D tok 5) g3 of (r4a, g4a) \<Rightarrow>
      case send E D 4 (replayed_order E D tok 6) g4a of (r4, g4) \<Rightarrow>
      case send E D 5 (injected_order E D tok) g4 of (r5, g5) \<Rightarrow>
      case send E D 6 (negative_order E D tok) g5 of (r6, g6) \<Rightarrow>
        ([scenario_1 r1, scenario_2 r2, scenario_3 r3, scenario_4 D r4, scenario_5 r5, scenario_6 dash r6], g6))"

definition read_scenario ::
  "('s, 'r, 'm, 'c) env \<Rightarrow> demo \<Rightarrow> string \<Rightarrow> ('s, 'r, 'm, 'c) gateway \<Rightarrow> demo_error + scenario \<times> ('s, 'r, 'm, 'c) gateway" where
  "read_scenario E D tok g =
     (case send E D 7 (foreign_read D tok) g of (r, g') \<Rightarrow>
        if rs_status r = 403
        then (case mentions_bola E r of None \<Rightarrow> Inl NoReasons | Some b \<Rightarrow> Inr (scenario_7 r b, g'))
        else Inr (scenario_7 r False, g'))"

definition chain_scenario :: "('s, 'r, 'm, 'c) env \<Rightarrow> ('s, 'r, 'm, 'c) gateway \<Rightarrow> demo_error + scenario" where
  "chain_scenario E g = (case verify_chain (en_prims E) (gw_chain g) of
     Inl e \<Rightarrow> Inl (ChainUnreadable e) | Inr (ok, n, err) \<Rightarrow> Inr (scenario_8 (ok, n)))"

text \<open>The results in order, the printed texts, and the gateway that is left.\<close>

definition run_demonstration ::
  "string \<Rightarrow> ('s, 'r, 'm, 'c) env \<Rightarrow> demo \<Rightarrow> time \<Rightarrow> time \<Rightarrow> ('s, 'r, 'm, 'c) gateway
     \<Rightarrow> demo_error + scenario list \<times> string list \<times> ('s, 'r, 'm, 'c) gateway" where
  "run_demonstration dash E D now later g0 =
     (case demo_token E D ''sales_alice'' ''sales'' now of
        Inl e \<Rightarrow> Inl e
      | Inr tok \<Rightarrow>
     (case order_scenarios dash E D tok g0 of (first, g6) \<Rightarrow>
     (case demo_token E D ''cust-941'' ''customer'' later of
        Inl e \<Rightarrow> Inl e
      | Inr cust \<Rightarrow>
     (case read_scenario E D cust g6 of
        Inl e \<Rightarrow> Inl e
      | Inr (seventh, g7) \<Rightarrow>
     (case chain_scenario E g7 of
        Inl e \<Rightarrow> Inl e
      | Inr eighth \<Rightarrow>
          (let all = first @ [seventh, eighth]
           in Inr (all, print_banner dash @ concat (map2 scenario_lines [1..<9] all) @ final_summary, g7)))))))"

end
