(* ===== verification/Demo_Claims.thy ===== *)
theory Demo_Claims
  imports Demo_Script Gateway_Chain
begin

text \<open>
  What the demonstration of \<open>Demo_Script\<close> shows of the gateway, in whatever state it runs: its attacks do not reach the
  ERP, and the chain it ends with verifies.
\<close>

section \<open>The client and the libraries\<close>

text \<open>The orders the script posts.\<close>

definition demo_orders :: "demo \<Rightarrow> json list" where
  "demo_orders D =
    [order_body (''cust-legit-'' @ take 6 (dm_hex D 2)) ''Industrial Valve Model 40'' 150 [], order_body ''cust-999'' ''Laptop'' 100 [],
     order_body ''cust-888'' ''Item A'' 50 [], order_body (''cust-replay-'' @ take 4 (dm_hex D 5)) ''Widget A'' 80 [],
     order_body (''cust-replay-'' @ take 4 (dm_hex D 6)) ''Widget A'' 80 [],
     order_body ''cust-sqli'' ''Item X'' 120 [(''delivery_notes'', JStr escaped_sqli)], order_body ''cust-fraud'' ''Machinery Part'' (- 250) []]"

text \<open>A body is sent as text that decodes to it, a number is read as that number, and the client adds none of the
  headers the scenarios are about.\<close>

definition faithful_client :: "('s, 'r, 'm, 'c) env \<Rightarrow> demo \<Rightarrow> bool" where
  "faithful_client E D \<longleftrightarrow>
     list_all (\<lambda>j. dm_encode_body D j \<noteq> [] \<and> en_decode E (dm_encode_body D j) = dm_encode_body D j
         \<and> en_loads E (dm_encode_body D j) = Some j
         \<and> list_all (\<lambda>k. dget (dm_client_headers D (dm_encode_body D j)) k = None) [''x-nonce'', ''idempotency-key'', ''x-timestamp'', ''date''])
       (demo_orders D)
     \<and> to_number (en_coerce E) (JFloat (- 250)) = Some (FNum (- 250))"

definition rejects_forgery :: "('s, 'r, 'm, 'c) env \<Rightarrow> demo \<Rightarrow> bool" where
  "rejects_forgery E D \<longleftrightarrow> \<not> is_valid (decode_and_verify (en_jwt E) (en_cfg E) (en_auth E) (Some (''Bearer '' @ forged_token D)))"

definition shipped_routes :: "('s, 'r, 'm, 'c) env \<Rightarrow> bool" where
  "shipped_routes E \<longleftrightarrow> en_catalogue E = builtin_routes \<or> en_catalogue E = shipped_catalogue"

section \<open>What stops each attack\<close>

lemma posted_text:
  assumes "faithful_client E D" "j \<in> set (demo_orders D)"
  shows "body_text E (post_order D hs j) = dm_encode_body D j" "en_loads E (dm_encode_body D j) = Some j"
    "dm_encode_body D j \<noteq> []"
    "\<forall>k \<in> {''x-nonce'', ''idempotency-key'', ''x-timestamp'', ''date''}. dget (dm_client_headers D (dm_encode_body D j)) k = None"
  using assms by (auto simp: faithful_client_def list_all_iff body_text_def post_order_def client_request_def)

lemma not_sent: "\<not> cleared E W rq g \<Longrightarrow> gw_sent (snd (security_pipeline E W rq g)) = gw_sent g"
  using forwarded_iff [of E W rq g] by blast

lemma stale_stopped:
  assumes "faithful_client E D"
  shows "\<not> cleared E W (stale_order D tok) g"
proof -
  have j: "order_body ''cust-888'' ''Item A'' 50 [] \<in> set (demo_orders D)" by (simp add: demo_orders_def)
  have "header (stale_order D tok) k = None" if "k \<in> {''x-nonce'', ''idempotency-key'', ''x-timestamp'', ''date''}" for k
    using posted_text(4) [OF assms j] that
    by (auto simp: stale_order_def post_order_def client_request_def header_def)
  then have "freshness E W (stale_order D tok) m = (False, m)" for m
    by (simp add: freshness_def time_header_def str_or_def)
      (simp add: stale_order_def post_order_def client_request_def mutating_methods_def freshness_exempt_def startswith_def)
  then show ?thesis by (simp add: cleared_def)
qed

lemma injected_stopped:
  assumes "faithful_client E D"
  shows "\<not> cleared E W (injected_order E D tok) g"
proof -
  let ?j = "order_body ''cust-sqli'' ''Item X'' 120 [(''delivery_notes'', JStr escaped_sqli)]"
  have j: "?j \<in> set (demo_orders D)" by (simp add: demo_orders_def)
  have "list_ex (\<lambda>v. sql_lit v \<noteq> None) (variants escaped_sqli)" "escaped_sqli \<noteq> []" by code_simp+
  then have "fst (inspect_flat escaped_sqli)" by (auto simp: inspect_flat_iff suspicious_def list_ex_iff)
  moreover have "escaped_sqli \<in> set (texts_of ?j)" by (simp add: order_body_def)
  ultimately have "truthy ?j \<and> fst (inspect_payload ?j)" by (auto simp: inspect_payload_iff order_body_def)
  then have "\<not> waf_clean E (injected_order E D tok)"
    using posted_text(1-3) [OF assms j] by (simp add: waf_clean_def injected_order_def)
  then show ?thesis by (simp add: cleared_def)
qed

text \<open>The negative total does not get as far as the rules engine: the schema rejects it.\<close>

lemma negative_malformed:
  assumes "faithful_client E D"
  shows "\<not> well_formed_body E (negative_order E D tok)"
proof -
  let ?j = "order_body ''cust-fraud'' ''Machinery Part'' (- 250) []"
  have j: "?j \<in> set (demo_orders D)" by (simp add: demo_orders_def)
  have "to_number (en_coerce E) (JFloat (- 250)) = Some (FNum (- 250))" using assms by (simp add: faithful_client_def)
  then have "\<nexists>d. order_schema (en_coerce E) ?j = Inr d"
    by (auto simp: order_schema_def and_check_def require_def typed_def guard_def order_body_def in_price_range_def
        split: sum.splits if_splits)
  then have "schema_verdict E ''/api/orders'' ?j \<noteq> None"
    by (cases "order_schema (en_coerce E) ?j") (auto simp: schema_verdict_def)
  then show ?thesis
    using posted_text(1-3) [OF assms j]
    by (simp add: well_formed_body_def negative_order_def) (simp add: post_order_def client_request_def)
qed

lemma orders_need_token:
  assumes "shipped_routes E"
  shows "\<not> auth_exempt ''/api/orders'' (matching_rule (validate_route (en_catalogue E) ''/api/orders'' ''POST''))"
    "\<not> auth_exempt ''/api/orders/101'' (matching_rule (validate_route (en_catalogue E) ''/api/orders/101'' ''GET''))"
proof -
  have "\<not> auth_exempt ''/api/orders'' (matching_rule (validate_route builtin_routes ''/api/orders'' ''POST''))"
    "\<not> auth_exempt ''/api/orders'' (matching_rule (validate_route shipped_catalogue ''/api/orders'' ''POST''))"
    "\<not> auth_exempt ''/api/orders/101'' (matching_rule (validate_route builtin_routes ''/api/orders/101'' ''GET''))"
    "\<not> auth_exempt ''/api/orders/101'' (matching_rule (validate_route shipped_catalogue ''/api/orders/101'' ''GET''))"
    by code_simp+
  then show "\<not> auth_exempt ''/api/orders'' (matching_rule (validate_route (en_catalogue E) ''/api/orders'' ''POST''))"
    "\<not> auth_exempt ''/api/orders/101'' (matching_rule (validate_route (en_catalogue E) ''/api/orders/101'' ''GET''))"
    using assms by (auto simp: shipped_routes_def)
qed

lemma forged_stopped:
  assumes "shipped_routes E" "rejects_forgery E D"
  shows "\<not> cleared E W (forged_order E D) g"
proof -
  have "\<not> is_valid (verdict_on E (forged_order E D))"
    using assms(2) by (simp add: verdict_on_def auth_header_def header_def rejects_forgery_def forged_order_def post_order_def
        client_request_def fresh_headers_def)
  then have "\<not> identified E W (forged_order E D) m" for m
    using orders_need_token(1) [OF assms(1)]
    by (simp add: identified_def route_of_def) (simp add: forged_order_def post_order_def client_request_def)
  then show ?thesis by (auto simp: cleared_def split: prod.splits)
qed

text \<open>The customer's token verifies to the claims it was minted with.\<close>

definition customer_claims :: "time \<Rightarrow> json" where
  "customer_claims now = token_payload ''cust-941'' (Some [''customer'']) 3600 None now"

definition customer_token :: "('s, 'r, 'm, 'c) env \<Rightarrow> time \<Rightarrow> string \<Rightarrow> bool" where
  "customer_token E now cust \<longleftrightarrow>
     claims (decode_and_verify (en_jwt E) (en_cfg E) (en_auth E) (Some (''Bearer '' @ cust))) = Some (customer_claims now)"

lemma customer_is_foreign:
  "check_bola_idor P ''/api/orders/101'' (Some (customer_claims now)) ''GET'' b = Some False"
proof -
  have parts: "path_parts ''/api/orders/101'' = [''api'', ''orders'', ''101'']" by code_simp
  have caller: "caller_of P (customer_claims now)
      = \<lparr>c_role = JStr ''customer'', c_roles = JList [JStr ''customer''], c_sub = ''cust-941'', c_cust = ''cust-941''\<rparr>"
    by (simp add: customer_claims_def caller_of_def token_payload_def str_or_def jget_or_def Let_def)
  have "truthy (customer_claims now)" by (simp add: customer_claims_def token_payload_def Let_def)
  then show ?thesis
    by (simp add: check_bola_idor_def caller check_order_def parts any_staff_def is_staff_role_def staff_roles_def or_raise_def
        startswith_def order_ownership_def owns_def Let_def)
qed

lemma foreign_stopped:
  assumes "shipped_routes E" "customer_token E now cust"
  shows "\<not> cleared E W (foreign_read D cust) g"
proof -
  have v: "claims (verdict_on E (foreign_read D cust)) = Some (customer_claims now)"
    using assms(2)
    by (simp add: verdict_on_def auth_header_def header_def customer_token_def foreign_read_def client_request_def)
  have "truthy (customer_claims now)" by (simp add: customer_claims_def token_payload_def Let_def)
  then have "\<not> identified E W (foreign_read D cust) m" for m
    using orders_need_token(2) [OF assms(1)] customer_is_foreign [of "en_prims E" now] v
    by (simp add: identified_def route_of_def) (simp add: foreign_read_def client_request_def)
  then show ?thesis by (auto simp: cleared_def split: prod.splits)
qed

section \<open>The attacks\<close>

definition demo_attacks :: "('s, 'r, 'm, 'c) env \<Rightarrow> demo \<Rightarrow> string \<Rightarrow> string \<Rightarrow> http_request list" where
  "demo_attacks E D tok cust =
     [forged_order E D, stale_order D tok, injected_order E D tok, negative_order E D tok, foreign_read D cust]"


text \<open>The rules engine has no part in the answer to the negative total, which the script credits to its rule R001: the
  schema has rejected the order before.\<close>

section \<open>The chain\<close>

text \<open>The gateway the demonstration leaves is one that a run of served requests leaves.\<close>

lemma demo_is_a_run:
  "\<exists>ops. snd (order_scenarios dash E D tok g) = gateway_run E ops g"
proof -
  let ?ops = "map (\<lambda>(k, rq). Serve (mocked (dm_world D k)) rq)
    [(0, legitimate_order E D tok), (1, forged_order E D), (2, stale_order D tok), (3, replayed_order E D tok 5),
     (4, replayed_order E D tok 6), (5, injected_order E D tok), (6, negative_order E D tok)]"
  have "snd (order_scenarios dash E D tok g) = gateway_run E ?ops g"
    by (simp add: order_scenarios_def send_def split_beta)
  then show ?thesis by blast
qed

lemma gateway_run_append: "gateway_run E (xs @ ys) g = gateway_run E ys (gateway_run E xs g)"
  by (simp add: gateway_run_def)

lemma read_is_a_step:
  "read_scenario E D cust g = Inr (s, g') \<Longrightarrow> g' = gateway_run E [Serve (mocked (dm_world D 7)) (foreign_read D cust)] g"
  by (auto simp: read_scenario_def send_def split: prod.splits if_splits option.splits)

text \<open>
  The last scenario of the demonstration always succeeds.  On a gateway process started with an empty log - after
  any requests and management calls, with any of the writes of the audit file failing - the demonstration never ends
  because the chain cannot be read, and if it gets to its end it reports a valid chain with no more blocks than the
  metrics count requests: no scenario before it can break the chain.
\<close>

theorem demo_chain_valid:
  assumes "\<forall>k m. hex_text (hmac_hex (en_prims E) k m)" "su_audit u = None"
  shows "case run_demonstration dash E D now later (gateway_run E before (gateway_init E s u)) of
      Inl err \<Rightarrow> (\<forall>e. err \<noteq> ChainUnreadable e)
    | Inr (all, out, g) \<Rightarrow> length all = 8 \<and> sc_passed (all ! 7) \<and> (\<exists>n \<le> mt_total (gw_metrics g). all ! 7 = scenario_8 (True, n))"
proof -
  let ?g0 = "gateway_run E before (gateway_init E s u)"
  have chain: "\<exists>n \<le> mt_total (gw_metrics g). chain_scenario E g = Inr (scenario_8 (True, n))"
    if o: "order_scenarios dash E D tok ?g0 = (first, g6)" and r: "read_scenario E D cust g6 = Inr (seventh, g)"
    for tok first g6 cust seventh g
  proof -
    obtain ops where "g6 = gateway_run E ops ?g0" using demo_is_a_run [of dash E D tok ?g0] o by auto
    then have g: "g = gateway_run E (before @ ops @ [Serve (mocked (dm_world D 7)) (foreign_read D cust)]) (gateway_init E s u)"
      using read_is_a_step [OF r] by (simp add: gateway_run_append)
    have "\<exists>n \<le> mt_total (gw_metrics g). verify_chain (en_prims E) (gw_chain g) = Inr (True, n, None)"
      unfolding g using chain_intact_after [of E u False _ s] assms unfolding hex_prims_def Let_def by blast
    then show ?thesis by (auto simp: chain_scenario_def)
  qed
  have six: "length first = 6" if "order_scenarios dash E D tok ?g0 = (first, g6)" for tok first g6
    using that by (auto simp: order_scenarios_def split: prod.splits)
  have "\<exists>n \<le> mt_total (gw_metrics g). length all = 8 \<and> all ! 7 = scenario_8 (True, n)"
    if "run_demonstration dash E D now later ?g0 = Inr (all, out, g)" for all out g
    using that chain six by (fastforce simp: run_demonstration_def nth_append Let_def split: sum.splits prod.splits)
  moreover have "run_demonstration dash E D now later ?g0 \<noteq> Inl (ChainUnreadable e)" for e
    using chain by (fastforce simp: run_demonstration_def demo_token_def read_scenario_def Let_def
        split: sum.splits prod.splits if_splits option.splits)
  ultimately show ?thesis by (fastforce simp: scenario_8_def split: sum.split)
qed

text \<open>What is printed at the end does not depend on the results.\<close>

lemma banner_unconditional:
  "run_demonstration dash E D now later g0 = Inr (all, out, g) \<Longrightarrow> \<exists>pre. out = pre @ final_summary"
  by (auto simp: run_demonstration_def Let_def split: sum.splits prod.splits)

section \<open>Witnesses\<close>

text \<open>A client that sends an order as the name of its customer, and a decoder that knows these names.\<close>

definition name_of_order :: "json \<Rightarrow> string" where
  "name_of_order j = (case jget j ''customer_id'' of Some (JStr s) \<Rightarrow> s | _ \<Rightarrow> ''?'')"

definition plain_demo :: demo where
  "plain_demo = \<lparr>dm_encode_body = name_of_order, dm_client_headers = (\<lambda>b. []), dm_render = name_of_order,
     dm_jwt_encode = (\<lambda>c k a. ''forged''), dm_hex = str_nat, dm_clock = of_nat, dm_world = (\<lambda>k. demo_world)\<rparr>"

definition plain_env :: "((unit, hentry) dist_store, unit, unit, unit) env" where
  "plain_env = demo_env\<lparr>en_prims := toy_prims, en_loads := (\<lambda>s. List.find (\<lambda>j. name_of_order j = s) (demo_orders plain_demo)),
     en_coerce := (en_coerce demo_env)\<lparr>to_number := (\<lambda>j. map_option FNum (json_num j))\<rparr>,
     en_jwt := (\<lambda>t k a. if t = ''minted'' then Claims (customer_claims 0) else InvalidSignature)\<rparr>"


theorem demo_chain_valid_witness:
  "case run_demonstration ''-'' plain_env plain_demo 0 0 (gateway_run plain_env [] (gateway_init plain_env (dist_init None) demo_startup)) of
      Inl err \<Rightarrow> True | Inr (all, out, g) \<Rightarrow> sc_passed (all ! 7)"
  using demo_chain_valid [of plain_env demo_startup "''-''" plain_demo 0 0 "[]" "dist_init None"] toy_hex
  by (auto simp: plain_env_def demo_startup_def split: sum.splits)

end
